(* ===== verification/Krie_Prelude.thy ===== *)
theory Krie_Prelude
  imports Main "HOL-Library.Word" "HOL-Library.Sublist" "HOL-Library.Multiset"
begin

text \<open>
  Shared vocabulary of the development: the Go types the model uses, errors and panics as
  values, slicing, and the functions of Go's standard library that the sources call
  (\<open>bytes\<close>, \<open>strings\<close>, \<open>strconv\<close>, the integer verbs of \<open>fmt\<close>).  A Go \<open>string\<close> is an
  immutable byte sequence and is modelled by HOL's \<open>string\<close>, whose characters are bytes;
  a \<open>[]byte\<close> is a list of 8-bit words.  Every operation that can panic returns a value
  of the sum type \<open>result\<close>.
\<close>

named_theorems go_simps \<open>evaluation of slices, reads and the result monad\<close>

section \<open>Types\<close>

type_synonym byte = "8 word"
type_synonym bytes = "byte list"
type_synonym u16 = "16 word"
type_synonym u32 = "32 word"
type_synonym u64 = "64 word"

text \<open>Arguments of a formatting directive, kept as values: error texts are compared by
  format, arguments and wrapped error.\<close>

datatype fmt_arg = FInt int | FStr string

datatype error =
    ErrNotEnoughData
  | ErrSyntax
  | ErrRange
  | ErrExternal string
  | Errorf string "fmt_arg list" "error option"

datatype fault = Panic | Error error

type_synonym 'a result = "fault + 'a"

text \<open>\<open>errors.Is\<close>: the error itself or something it wraps.\<close>

fun errors_Is :: "error \<Rightarrow> error \<Rightarrow> bool" where
  "errors_Is (Errorf f as (Some e)) t = (Errorf f as (Some e) = t \<or> errors_Is e t)"
| "errors_Is e t = (e = t)"

definition bindR :: "'e + 'a \<Rightarrow> ('a \<Rightarrow> 'e + 'b) \<Rightarrow> 'e + 'b" where
  "bindR m f = (case m of Inl e \<Rightarrow> Inl e | Inr x \<Rightarrow> f x)"

definition no_panic :: "'a result \<Rightarrow> bool" where
  "no_panic r \<longleftrightarrow> r \<noteq> Inl Panic"

definition is_error :: "'a result \<Rightarrow> bool" where
  "is_error r \<longleftrightarrow> (\<exists>e. r = Inl (Error e))"

section \<open>Slices\<close>

text \<open>\<open>s[lo:hi]\<close> and \<open>s[lo:]\<close>; out of range is a run-time panic.\<close>

definition slice :: "'a list \<Rightarrow> nat \<Rightarrow> nat \<Rightarrow> 'a list result" where
  "slice xs lo hi =
     (if lo \<le> hi \<and> hi \<le> length xs then Inr (take (hi - lo) (drop lo xs)) else Inl Panic)"

definition slice_from :: "'a list \<Rightarrow> nat \<Rightarrow> 'a list result" where
  "slice_from xs lo = slice xs lo (length xs)"

text \<open>\<open>xs[i]\<close>.\<close>

definition index :: "'a list \<Rightarrow> nat \<Rightarrow> 'a result" where
  "index xs i = (if i < length xs then Inr (xs ! i) else Inl Panic)"

section \<open>Bytes and strings\<close>

definition byte_char :: "byte \<Rightarrow> char" where
  "byte_char b = char_of (unat b)"

definition char_byte :: "char \<Rightarrow> byte" where
  "char_byte c = word_of_nat (of_char c)"

text \<open>The conversions \<open>string(b)\<close> and \<open>[]byte(s)\<close>.\<close>

definition string_of_bytes :: "bytes \<Rightarrow> string" where
  "string_of_bytes bs = map byte_char bs"

definition bytes_of_string :: "string \<Rightarrow> bytes" where
  "bytes_of_string s = map char_byte s"

text \<open>\<open>bytes.Trim(b, cutset)\<close> for a cutset of one byte.\<close>

definition bytes_Trim :: "byte \<Rightarrow> bytes \<Rightarrow> bytes" where
  "bytes_Trim c bs = rev (dropWhile ((=) c) (rev (dropWhile ((=) c) bs)))"

text \<open>\<open>bytes.SplitN(b, []byte{c}, 2)[0]\<close>: everything before the first \<open>c\<close>.\<close>

definition bytes_SplitN2_fst :: "byte \<Rightarrow> bytes \<Rightarrow> bytes" where
  "bytes_SplitN2_fst c bs = takeWhile (\<lambda>b. b \<noteq> c) bs"

text \<open>\<open>copy(dst, src)\<close>: overwrites the first \<open>min(len(dst), len(src))\<close> elements.\<close>

definition go_copy :: "'a list \<Rightarrow> 'a list \<Rightarrow> 'a list" where
  "go_copy dst src = take (length dst) src @ drop (length src) dst"

text \<open>\<open>strings.Split(s, sep)\<close> for a one-character separator: always at least one piece.\<close>

fun strings_Split :: "char \<Rightarrow> string \<Rightarrow> string list" where
  "strings_Split c [] = [[]]"
| "strings_Split c (x # xs) =
     (if x = c then [] # strings_Split c xs
      else (case strings_Split c xs of [] \<Rightarrow> [[x]] | p # ps \<Rightarrow> (x # p) # ps))"

definition strings_HasPrefix :: "string \<Rightarrow> string \<Rightarrow> bool" where
  "strings_HasPrefix s p = prefix p s"

definition strings_HasSuffix :: "string \<Rightarrow> string \<Rightarrow> bool" where
  "strings_HasSuffix s p = suffix p s"

definition strings_TrimPrefix :: "string \<Rightarrow> string \<Rightarrow> string" where
  "strings_TrimPrefix s p = (if prefix p s then drop (length p) s else s)"

definition strings_TrimSuffix :: "string \<Rightarrow> string \<Rightarrow> string" where
  "strings_TrimSuffix s p = (if suffix p s then take (length s - length p) s else s)"

text \<open>\<open>strings.ReplaceAll(s, old, new)\<close> for a non-empty \<open>old\<close>: leftmost,
  non-overlapping occurrences.\<close>

function strings_ReplaceAll :: "string \<Rightarrow> string \<Rightarrow> string \<Rightarrow> string" where
  "strings_ReplaceAll [] old new = []"
| "strings_ReplaceAll (x # xs) old new =
     (if old \<noteq> [] \<and> prefix old (x # xs)
      then new @ strings_ReplaceAll (drop (length old) (x # xs)) old new
      else x # strings_ReplaceAll xs old new)"
  by pat_completeness auto
termination
  by (relation "measure (\<lambda>(s, old, new). length s)") auto

definition lower_char :: "char \<Rightarrow> char" where
  "lower_char c =
     (let n = (of_char c :: nat) in if 65 \<le> n \<and> n \<le> 90 then char_of (n + 32) else c)"

text \<open>\<open>strings.ToLower\<close> on ASCII input.\<close>

definition strings_ToLower :: "string \<Rightarrow> string" where
  "strings_ToLower s = map lower_char s"

text \<open>\<open>strings.Join(elems, sep)\<close>.\<close>

fun strings_Join :: "string \<Rightarrow> string list \<Rightarrow> string" where
  "strings_Join sep [] = []"
| "strings_Join sep [x] = x"
| "strings_Join sep (x # y # ys) = x @ sep @ strings_Join sep (y # ys)"

section \<open>Numbers and text\<close>

definition digit_char :: "nat \<Rightarrow> char" where
  "digit_char d = char_of (if d < 10 then 48 + d else 87 + d)"

text \<open>The digits of a number in a base, as \<open>%d\<close> (base 10) and \<open>%x\<close> (base 16) print
  them: no padding, \<open>0\<close> for zero.\<close>

fun nat_base :: "nat \<Rightarrow> nat \<Rightarrow> string" where
  "nat_base b n = (if n < b \<or> b < 2 then [digit_char n] else nat_base b (n div b) @ [digit_char (n mod b)])"

declare nat_base.simps [simp del]

abbreviation fmt_d :: "nat \<Rightarrow> string" where "fmt_d \<equiv> nat_base 10"
abbreviation fmt_x :: "nat \<Rightarrow> string" where "fmt_x \<equiv> nat_base 16"

text \<open>The value of an ASCII digit or letter, as \<open>strconv\<close> reads it.\<close>

definition digit_val :: "char \<Rightarrow> nat option" where
  "digit_val c =
     (let n = (of_char c :: nat) in
      if 48 \<le> n \<and> n \<le> 57 then Some (n - 48)
      else if 97 \<le> n \<and> n \<le> 122 then Some (n - 87)
      else if 65 \<le> n \<and> n \<le> 90 then Some (n - 55)
      else None)"

text \<open>\<open>strconv.ParseUint(s, base, bits)\<close> for an explicit base.  It returns a value also
  with an error: 0 on a syntax error and the largest value of the width when the number
  is out of range.  The loop stops at the first offending character.\<close>

fun ParseUint_loop :: "nat \<Rightarrow> nat \<Rightarrow> nat \<Rightarrow> string \<Rightarrow> nat \<times> error option" where
  "ParseUint_loop base maxVal n [] = (n, None)"
| "ParseUint_loop base maxVal n (c # cs) =
     (case digit_val c of
        None \<Rightarrow> (0, Some ErrSyntax)
      | Some d \<Rightarrow>
          if base \<le> d then (0, Some ErrSyntax)
          else if maxVal < n * base + d then (maxVal, Some ErrRange)
          else ParseUint_loop base maxVal (n * base + d) cs)"

definition ParseUint :: "string \<Rightarrow> nat \<Rightarrow> nat \<Rightarrow> nat \<times> error option" where
  "ParseUint s base bits =
     (if s = [] then (0, Some ErrSyntax) else ParseUint_loop base (2 ^ bits - 1) 0 s)"

lemma digit_char_eval [simp]:
  "digit_char 0 = CHR ''0''" "digit_char (Suc 0) = CHR ''1''" "digit_char 1 = CHR ''1''" "digit_char 2 = CHR ''2''"
  "digit_char 3 = CHR ''3''" "digit_char 4 = CHR ''4''" "digit_char 5 = CHR ''5''"
  "digit_char 6 = CHR ''6''" "digit_char 7 = CHR ''7''" "digit_char 8 = CHR ''8''"
  "digit_char 9 = CHR ''9''" "digit_char 10 = CHR ''a''" "digit_char 11 = CHR ''b''"
  "digit_char 12 = CHR ''c''" "digit_char 13 = CHR ''d''" "digit_char 14 = CHR ''e''"
  "digit_char 15 = CHR ''f''"
  by (simp_all add: digit_char_def char_of_def bit_0)

section \<open>The result monad\<close>

lemma nat_base_not_Nil [simp]: "nat_base b n \<noteq> []"
  by (subst nat_base.simps) simp

text \<open>A printed number is read back in its base, up to the largest value of the width.\<close>

lemma nat_base_digits:
  assumes "2 \<le> b"
  shows "set (nat_base b n) \<subseteq> digit_char ` {..<b}"
proof (induction n rule: less_induct)
  case (less n)
  have m: "n mod b < b" using assms by simp
  show ?case
  proof (cases "n < b")
    case True
    then show ?thesis by (subst nat_base.simps) simp
  next
    case False
    then have "n div b < n" using assms by (simp add: div_less_dividend)
    from less [OF this] m assms show ?thesis by (subst nat_base.simps) auto
  qed
qed

lemma digit_val_digit_char: "d < 36 \<Longrightarrow> digit_val (digit_char d) = Some d"
  by (simp add: digit_val_def digit_char_def Let_def)

lemma ParseUint_loop_append:
  "ParseUint_loop base mx acc (xs @ ys) =
     (case ParseUint_loop base mx acc xs of
        (m, None) \<Rightarrow> ParseUint_loop base mx m ys
      | (v, Some e) \<Rightarrow> (v, Some e))"
  by (induction xs arbitrary: acc) (auto split: option.splits)

lemma ParseUint_loop_nat_base:
  assumes b: "2 \<le> b" "b \<le> 36" and mx: "b \<le> mx + 1"
  shows "ParseUint_loop b mx 0 (nat_base b n) = (if n \<le> mx then (n, None) else (mx, Some ErrRange))"
proof (induction n rule: less_induct)
  case (less n)
  show ?case
  proof (cases "n < b")
    case True
    with assms show ?thesis by (simp add: nat_base.simps [of b n] digit_val_digit_char)
  next
    case False
    have n: "n = n div b * b + n mod b" by simp
    have d: "n mod b < b" using b by simp
    from False b have "nat_base b n = nat_base b (n div b) @ [digit_char (n mod b)]"
      by (simp add: nat_base.simps [of b n])
    moreover have "n div b < n" using False b by (simp add: div_less_dividend)
    moreover have "digit_val (digit_char (n mod b)) = Some (n mod b)" "\<not> b \<le> n mod b"
      using digit_val_digit_char [OF less_le_trans [OF d b(2)]] d by (simp_all only: not_le)
    ultimately show ?thesis
      using less.IH [of "n div b"]
      by (auto simp: ParseUint_loop_append)
  qed
qed

lemma ParseUint_nat_base:
  assumes "2 \<le> b" "b \<le> 36" "b \<le> 2 ^ bits"
  shows "ParseUint (nat_base b n) b bits = (if n < 2 ^ bits then (n, None) else (2 ^ bits - 1, Some ErrRange))"
proof -
  have "(n \<le> 2 ^ bits - 1) = (n < 2 ^ bits)" using assms(1,3) by linarith
  then show ?thesis using assms ParseUint_loop_nat_base [of b "2 ^ bits - 1" n] by (simp add: ParseUint_def)
qed

lemma bindR_simps [simp, go_simps]:
  "bindR (Inl e) f = Inl e"
  "bindR (Inr x) f = f x"
  by (simp_all add: bindR_def)

lemma bindR_eq_Inr: "bindR m f = Inr y \<longleftrightarrow> (\<exists>x. m = Inr x \<and> f x = Inr y)"
  by (cases m) auto

lemma bindR_eq_Inl: "bindR m f = Inl e \<longleftrightarrow> m = Inl e \<or> (\<exists>x. m = Inr x \<and> f x = Inl e)"
  by (cases m) auto

lemma no_panic_simps [simp]:
  "no_panic (Inr x)" "no_panic (Inl (Error e))" "\<not> no_panic (Inl Panic)"
  by (simp_all add: no_panic_def)

lemma is_error_simps [simp]:
  "\<not> is_error (Inr x)" "is_error (Inl (Error e))" "\<not> is_error (Inl Panic)"
  by (simp_all add: is_error_def)

lemma no_panic_bindR:
  "no_panic m \<Longrightarrow> (\<And>x. m = Inr x \<Longrightarrow> no_panic (f x)) \<Longrightarrow> no_panic (bindR m f)"
  by (cases m) (auto simp: no_panic_def)

lemma is_error_no_panic: "is_error r \<Longrightarrow> no_panic r"
  by (auto simp: is_error_def no_panic_def)

section \<open>Slices\<close>

lemma slice_ok [go_simps]:
  "lo \<le> hi \<Longrightarrow> hi \<le> length xs \<Longrightarrow> slice xs lo hi = Inr (take (hi - lo) (drop lo xs))"
  by (simp add: slice_def)

lemma slice_from_ok [go_simps]: "lo \<le> length xs \<Longrightarrow> slice_from xs lo = Inr (drop lo xs)"
  by (simp add: slice_from_def slice_def)

lemma slice_from_panic: "length xs < lo \<Longrightarrow> slice_from xs lo = Inl Panic"
  by (simp add: slice_from_def slice_def)

lemma slice_from_0 [simp]: "slice_from xs 0 = Inr xs"
  by (simp add: slice_from_ok)

lemma take_drop_prefix:
  "lo + n \<le> w \<Longrightarrow> take n (drop lo (take w xs)) = take n (drop lo xs)"
  by (simp add: drop_take min_def)

section \<open>Words\<close>

lemma unat_word_of_nat_small:
  "n < 2 ^ LENGTH('a::len) \<Longrightarrow> unat (word_of_nat n :: 'a word) = n"
  by (simp add: unat_of_nat take_bit_nat_eq_self)

section \<open>Bytes and strings\<close>

lemma byte_char_byte [simp]: "byte_char (char_byte c) = c"
  by (simp add: byte_char_def char_byte_def unat_of_nat)

lemma char_byte_char [simp]: "char_byte (byte_char b) = b"
proof -
  have "unat b < 256" using unsigned_less [of b] by simp
  then show ?thesis by (simp add: byte_char_def char_byte_def)
qed

lemma string_of_bytes_of_string [simp]: "string_of_bytes (bytes_of_string s) = s"
  by (simp add: string_of_bytes_def bytes_of_string_def comp_def)

lemma bytes_of_string_of_bytes [simp]: "bytes_of_string (string_of_bytes b) = b"
  by (simp add: string_of_bytes_def bytes_of_string_def comp_def)

lemma length_string_of_bytes [simp]: "length (string_of_bytes b) = length b"
  by (simp add: string_of_bytes_def)

lemma length_bytes_of_string [simp]: "length (bytes_of_string s) = length s"
  by (simp add: bytes_of_string_def)

lemma length_go_copy [simp]: "length (go_copy dst src) = length dst"
  by (simp add: go_copy_def)

end
