(* ===== verification/Json_Writer.thy ===== *)
theory Json_Writer
  imports Krie_Prelude
begin

text \<open>
  The output side of the generated encoders \<^verbatim>\<open>pkg/krie/events/*_easyjson.go\<close>.  The writer of
  \<^verbatim>\<open>github.com/mailru/easyjson/jwriter\<close> is not part of the repository: it is a record
  \<open>JWriter\<close> of operations over an abstract type of writers, with its documented behaviour as
  the hypothesis \<open>jwriter_laws\<close> (an append-only buffer and the first error).  The encoders
  emit the fields of an object in one of four ways, which differ in how they decide whether
  a comma is due; the rules of this theory show when a sequence of such fields writes
  the JSON object whose fields are exactly the ones that are not omitted.
\<close>

section \<open>Writers\<close>

record 'w JWriter =
  jw_new :: 'w
  jw_RawByte :: "char \<Rightarrow> 'w \<Rightarrow> 'w"
  jw_RawString :: "string \<Rightarrow> 'w \<Rightarrow> 'w"
  jw_Raw :: "error + string \<Rightarrow> 'w \<Rightarrow> 'w"
  jw_RawText :: "error + string \<Rightarrow> 'w \<Rightarrow> 'w"
  jw_String :: "string \<Rightarrow> 'w \<Rightarrow> 'w"
  jw_Uint16 :: "u16 \<Rightarrow> 'w \<Rightarrow> 'w"
  jw_Uint32 :: "u32 \<Rightarrow> 'w \<Rightarrow> 'w"
  jw_Uint64 :: "u64 \<Rightarrow> 'w \<Rightarrow> 'w"
  jw_Int64 :: "u64 \<Rightarrow> 'w \<Rightarrow> 'w"
  jw_Bool :: "bool \<Rightarrow> 'w \<Rightarrow> 'w"
  jw_BuildBytes :: "'w \<Rightarrow> error + string"

text \<open>What can be observed of a writer, and the texts it makes of strings and numbers.\<close>

record 'w JView =
  jv_Buffer :: "'w \<Rightarrow> string"
  jv_Error :: "'w \<Rightarrow> error option"
  jv_String :: "string \<Rightarrow> string"
  jv_Text :: "string \<Rightarrow> string"
  jv_Uint :: "nat \<Rightarrow> string"
  jv_Int :: "int \<Rightarrow> string"
  jv_Bool :: "bool \<Rightarrow> string"

text \<open>Going from \<open>w\<close> to \<open>w'\<close> appends \<open>t\<close>, unless an error has been recorded before.\<close>

definition appends :: "'w JView \<Rightarrow> 'w \<Rightarrow> string \<Rightarrow> 'w \<Rightarrow> bool" where
  "appends jv w t w' \<longleftrightarrow>
     jv_Error jv w' = jv_Error jv w \<and>
     (jv_Error jv w = None \<longrightarrow> jv_Buffer jv w' = jv_Buffer jv w @ t)"

definition jwriter_laws :: "'w JWriter \<Rightarrow> 'w JView \<Rightarrow> bool" where
  "jwriter_laws jw jv \<longleftrightarrow>
     jv_Buffer jv (jw_new jw) = [] \<and> jv_Error jv (jw_new jw) = None \<and>
     (\<forall>c w. appends jv w [c] (jw_RawByte jw c w)) \<and>
     (\<forall>s w. appends jv w s (jw_RawString jw s w)) \<and>
     (\<forall>d w. d \<noteq> [] \<longrightarrow> appends jv w d (jw_Raw jw (Inr d) w)) \<and>
     (\<forall>s w. appends jv w (jv_Text jv s) (jw_RawText jw (Inr s) w)) \<and>
     (\<forall>s w. appends jv w (jv_String jv s) (jw_String jw s w)) \<and>
     (\<forall>n w. appends jv w (jv_Uint jv (unat n)) (jw_Uint16 jw n w)) \<and>
     (\<forall>n w. appends jv w (jv_Uint jv (unat n)) (jw_Uint32 jw n w)) \<and>
     (\<forall>n w. appends jv w (jv_Uint jv (unat n)) (jw_Uint64 jw n w)) \<and>
     (\<forall>n w. appends jv w (jv_Int jv (sint n)) (jw_Int64 jw n w)) \<and>
     (\<forall>b w. appends jv w (jv_Bool jv b) (jw_Bool jw b w)) \<and>
     (\<forall>w. jw_BuildBytes jw w = (case jv_Error jv w of None \<Rightarrow> Inr (jv_Buffer jv w) | Some e \<Rightarrow> Inl e))"

section \<open>Fields\<close>

text \<open>\<open>const prefix string = ",\"key\":"\<close>\<close>

definition field_prefix :: "string \<Rightarrow> string" where
  "field_prefix key = CHR '','' # CHR 0x22 # key @ [CHR 0x22, CHR '':'']"

type_synonym 'w encoder = "'w \<Rightarrow> 'w result"
type_synonym 'w field = "bool \<times> 'w \<Rightarrow> (bool \<times> 'w) result"

text \<open>The four shapes of a field.  \<open>field_head\<close>: the first field of the object, always written;
  \<open>field_head_if\<close>: the first field, omitted when empty; \<open>field_dyn\<close>: a later field that consults
  \<open>first\<close>; \<open>field_tail\<close>: a later field behind one that is always written.\<close>

definition field_head :: "'w JWriter \<Rightarrow> string \<Rightarrow> 'w encoder \<Rightarrow> 'w field" where
  "field_head jw key val = (\<lambda>(first, w).
     bindR (val (jw_RawString jw (drop 1 (field_prefix key)) w)) (\<lambda>w. Inr (first, w)))"

definition field_head_if :: "'w JWriter \<Rightarrow> bool \<Rightarrow> string \<Rightarrow> 'w encoder \<Rightarrow> 'w field" where
  "field_head_if jw c key val = (\<lambda>(first, w).
     if c then bindR (val (jw_RawString jw (drop 1 (field_prefix key)) w)) (\<lambda>w. Inr (False, w))
     else Inr (first, w))"

definition field_dyn :: "'w JWriter \<Rightarrow> bool \<Rightarrow> string \<Rightarrow> 'w encoder \<Rightarrow> 'w field" where
  "field_dyn jw c key val = (\<lambda>(first, w).
     if c then
       (if first
        then bindR (val (jw_RawString jw (drop 1 (field_prefix key)) w)) (\<lambda>w. Inr (False, w))
        else bindR (val (jw_RawString jw (field_prefix key) w)) (\<lambda>w. Inr (first, w)))
     else Inr (first, w))"

definition field_tail :: "'w JWriter \<Rightarrow> bool \<Rightarrow> string \<Rightarrow> 'w encoder \<Rightarrow> 'w field" where
  "field_tail jw c key val = (\<lambda>(first, w).
     if c then bindR (val (jw_RawString jw (field_prefix key) w)) (\<lambda>w. Inr (first, w))
     else Inr (first, w))"

fun run_fields :: "'w field list \<Rightarrow> 'w field" where
  "run_fields [] s = Inr s"
| "run_fields (f # fs) s = bindR (f s) (run_fields fs)"

definition write_object :: "'w JWriter \<Rightarrow> 'w field list \<Rightarrow> 'w encoder" where
  "write_object jw fs w =
     bindR (run_fields fs (True, jw_RawByte jw (CHR ''{'') w)) (\<lambda>(_, w). Inr (jw_RawByte jw (CHR ''}'') w))"

section \<open>Documents\<close>

text \<open>The specification: a document is a piece of text without fields of its own or an object.\<close>

datatype json = JText string | JObject "(string \<times> json) list"

fun render :: "json \<Rightarrow> string" and render_fields :: "(string \<times> json) list \<Rightarrow> string list" where
  "render (JText t) = t"
| "render (JObject fs) = ''{'' @ strings_Join '','' (render_fields fs) @ ''}''"
| "render_fields [] = []"
| "render_fields ((k, d) # fs) = (drop 1 (field_prefix k) @ render d) # render_fields fs"

text \<open>A field that is written on a condition.\<close>

definition opt :: "bool \<Rightarrow> string \<Rightarrow> json \<Rightarrow> (string \<times> json) list" where
  "opt c k d = (if c then [(k, d)] else [])"

text \<open>No key occurs twice in an object, at any depth.\<close>

fun distinct_keys :: "json \<Rightarrow> bool" and distinct_keys_fields :: "(string \<times> json) list \<Rightarrow> bool" where
  "distinct_keys (JText t) = True"
| "distinct_keys (JObject fs) = (distinct (map fst fs) \<and> distinct_keys_fields fs)"
| "distinct_keys_fields [] = True"
| "distinct_keys_fields ((k, d) # fs) = (distinct_keys d \<and> distinct_keys_fields fs)"

section \<open>Rules\<close>

definition writes :: "'w JView \<Rightarrow> 'w encoder \<Rightarrow> json \<Rightarrow> bool" where
  "writes jv val d \<longleftrightarrow> (\<forall>w. \<exists>w'. val w = Inr w' \<and> appends jv w (render d) w')"

lemma appends_trans [trans]: "appends jv w s w' \<Longrightarrow> appends jv w' t w'' \<Longrightarrow> appends jv w (s @ t) w''"
  by (simp add: appends_def)

lemma writesI: "(\<And>w. appends jv w (render d) (f w)) \<Longrightarrow> writes jv (\<lambda>w. Inr (f w)) d"
  by (auto simp: writes_def)

lemma jwriter_lawsD:
  assumes "jwriter_laws jw jv"
  shows "appends jv w [c] (jw_RawByte jw c w)" and "appends jv w s (jw_RawString jw s w)"
    and "d \<noteq> [] \<Longrightarrow> appends jv w d (jw_Raw jw (Inr d) w)"
    and "jv_Buffer jv (jw_new jw) = []" and "jv_Error jv (jw_new jw) = None"
    and "jw_BuildBytes jw w = (case jv_Error jv w of None \<Rightarrow> Inr (jv_Buffer jv w) | Some e \<Rightarrow> Inl e)"
  using assms by (simp_all add: jwriter_laws_def)

lemma writes_leaf:
  assumes "jwriter_laws jw jv"
  shows "t \<noteq> [] \<Longrightarrow> writes jv (\<lambda>w. Inr (jw_Raw jw (Inr t) w)) (JText t)"
    and "writes jv (\<lambda>w. Inr (jw_RawText jw (Inr s) w)) (JText (jv_Text jv s))"
    and "writes jv (\<lambda>w. Inr (jw_String jw s w)) (JText (jv_String jv s))"
    and "writes jv (\<lambda>w. Inr (jw_Uint16 jw a w)) (JText (jv_Uint jv (unat a)))"
    and "writes jv (\<lambda>w. Inr (jw_Uint32 jw b w)) (JText (jv_Uint jv (unat b)))"
    and "writes jv (\<lambda>w. Inr (jw_Uint64 jw c w)) (JText (jv_Uint jv (unat c)))"
    and "writes jv (\<lambda>w. Inr (jw_Int64 jw c w)) (JText (jv_Int jv (sint c)))"
    and "writes jv (\<lambda>w. Inr (jw_Bool jw x w)) (JText (jv_Bool jv x))"
  using assms by (auto intro!: writesI simp: jwriter_laws_def)

text \<open>The text of the fields \<open>fs\<close> and of one more.\<close>

definition fields_text :: "(string \<times> json) list \<Rightarrow> string" where
  "fields_text fs = strings_Join '','' (render_fields fs)"

lemma render_fields_append: "render_fields (fs @ gs) = render_fields fs @ render_fields gs"
  by (induction fs) auto

lemma render_fields_Nil_iff [simp]: "render_fields fs = [] \<longleftrightarrow> fs = []"
  by (cases fs) auto

lemma strings_Join_snoc: "xs \<noteq> [] \<Longrightarrow> strings_Join sep (xs @ [x]) = strings_Join sep xs @ sep @ x"
  by (induction sep xs rule: strings_Join.induct) simp_all

lemma field_prefix_comma: "field_prefix k = '','' @ drop 1 (field_prefix k)"
  by (simp add: field_prefix_def)

lemma fields_text_one: "fields_text [(k, d)] = drop 1 (field_prefix k) @ render d"
  by (simp add: fields_text_def)

lemma fields_text_snoc:
  "fs \<noteq> [] \<Longrightarrow> fields_text (fs @ [(k, d)]) = fields_text fs @ field_prefix k @ render d"
  using field_prefix_comma [of k]
  by (simp add: fields_text_def render_fields_append strings_Join_snoc)

text \<open>\<open>emits jw jv sync fs steps res\<close>: after the fields \<open>fs\<close> have been written, the remaining
  \<open>steps\<close> complete them to \<open>res\<close>; with \<open>sync\<close>, provided the flag tells whether \<open>fs\<close> is empty.\<close>

definition emits ::
    "'w JView \<Rightarrow> bool \<Rightarrow> (string \<times> json) list \<Rightarrow> 'w field list \<Rightarrow> (string \<times> json) list \<Rightarrow> bool" where
  "emits jv sync fs steps res \<longleftrightarrow>
     (\<forall>w0 first w. appends jv w0 (fields_text fs) w \<longrightarrow> (sync \<longrightarrow> first = (fs = [])) \<longrightarrow>
        (\<exists>first' w'. run_fields steps (first, w) = Inr (first', w') \<and>
           appends jv w0 (fields_text res) w'))"

lemma emits_Nil: "fs = res \<Longrightarrow> emits jv sync fs [] res"
  by (auto simp: emits_def)

lemma emitsD:
  "emits jv sync fs steps res \<Longrightarrow> appends jv w0 (fields_text fs) w \<Longrightarrow> sync \<longrightarrow> first = (fs = []) \<Longrightarrow>
     \<exists>first' w'. run_fields steps (first, w) = Inr (first', w') \<and> appends jv w0 (fields_text res) w'"
  unfolding emits_def by blast

text \<open>One written field, with and without the comma.\<close>

lemma appends_first:
  assumes "jwriter_laws jw jv" and "writes jv val d" and "appends jv w0 (fields_text []) w"
  obtains w' where "val (jw_RawString jw (drop 1 (field_prefix k)) w) = Inr w'"
    and "appends jv w0 (fields_text [(k, d)]) w'"
proof -
  let ?w = "jw_RawString jw (drop 1 (field_prefix k)) w"
  obtain w' where w': "val ?w = Inr w'" "appends jv ?w (render d) w'"
    using assms(2) unfolding writes_def by blast
  have "appends jv w0 (fields_text [] @ drop 1 (field_prefix k)) ?w"
    using assms(3) jwriter_lawsD(2) [OF assms(1)] by (rule appends_trans)
  from appends_trans [OF this w'(2)] w'(1) that show ?thesis
    by (simp add: fields_text_one) (simp add: fields_text_def)
qed

lemma appends_next:
  assumes "jwriter_laws jw jv" and "writes jv val d" and "appends jv w0 (fields_text fs) w" and "fs \<noteq> []"
  obtains w' where "val (jw_RawString jw (field_prefix k) w) = Inr w'"
    and "appends jv w0 (fields_text (fs @ [(k, d)])) w'"
proof -
  let ?w = "jw_RawString jw (field_prefix k) w"
  obtain w' where w': "val ?w = Inr w'" "appends jv ?w (render d) w'"
    using assms(2) unfolding writes_def by blast
  have "appends jv w0 (fields_text fs @ field_prefix k) ?w"
    using assms(3) jwriter_lawsD(2) [OF assms(1)] by (rule appends_trans)
  from appends_trans [OF this w'(2)] w'(1) that show ?thesis
    by (simp add: fields_text_snoc assms(4))
qed

lemma emits_head:
  assumes "jwriter_laws jw jv" and "writes jv val d" and "emits jv False [(k, d)] steps res"
  shows "emits jv sync [] (field_head jw k val # steps) res"
  unfolding emits_def
proof (intro allI impI)
  fix w0 first w assume "appends jv w0 (fields_text []) w"
  from appends_first [OF assms(1,2) this, of k] obtain w' where
    "val (jw_RawString jw (drop 1 (field_prefix k)) w) = Inr w'"
    and a: "appends jv w0 (fields_text [(k, d)]) w'" .
  then show "\<exists>first' w'. run_fields (field_head jw k val # steps) (first, w) = Inr (first', w') \<and>
      appends jv w0 (fields_text res) w'"
    using emitsD [OF assms(3) a, of first] by (auto simp: field_head_def)
qed

lemma emits_head_if:
  assumes "jwriter_laws jw jv" and "c \<Longrightarrow> writes jv val d" and "emits jv True (opt c k d) steps res"
  shows "emits jv True [] (field_head_if jw c k val # steps) res"
  unfolding emits_def
proof (intro allI impI)
  fix w0 first w assume w: "appends jv w0 (fields_text []) w" and f: "True \<longrightarrow> first = ([] = [])"
  show "\<exists>first' w'. run_fields (field_head_if jw c k val # steps) (first, w) = Inr (first', w') \<and>
      appends jv w0 (fields_text res) w'"
  proof (cases c)
    case True
    from appends_first [OF assms(1) assms(2) [OF True] w, of k] obtain w' where
      "val (jw_RawString jw (drop 1 (field_prefix k)) w) = Inr w'"
      and a: "appends jv w0 (fields_text (opt c k d)) w'" using True by (auto simp: opt_def)
    then show ?thesis
      using emitsD [OF assms(3) a, of False] True by (auto simp: field_head_if_def opt_def)
  next
    case False
    then have "appends jv w0 (fields_text (opt c k d)) w" using w by (simp add: opt_def)
    from emitsD [OF assms(3) this, of first] False f show ?thesis
      by (auto simp: field_head_if_def opt_def)
  qed
qed

lemma emits_tail:
  assumes "jwriter_laws jw jv" and "fs \<noteq> []" and "c \<Longrightarrow> writes jv val d"
    and "emits jv sync (fs @ opt c k d) steps res"
  shows "emits jv sync fs (field_tail jw c k val # steps) res"
  unfolding emits_def
proof (intro allI impI)
  fix w0 first w assume w: "appends jv w0 (fields_text fs) w" and f: "sync \<longrightarrow> first = (fs = [])"
  have f': "sync \<longrightarrow> first = (fs @ opt c k d = [])" using f assms(2) by simp
  show "\<exists>first' w'. run_fields (field_tail jw c k val # steps) (first, w) = Inr (first', w') \<and>
      appends jv w0 (fields_text res) w'"
  proof (cases c)
    case True
    from appends_next [OF assms(1) assms(3) [OF True] w assms(2), of k] obtain w' where
      "val (jw_RawString jw (field_prefix k) w) = Inr w'"
      and a: "appends jv w0 (fields_text (fs @ opt c k d)) w'" using True by (auto simp: opt_def)
    then show ?thesis
      using emitsD [OF assms(4) a f'] True by (auto simp: field_tail_def)
  next
    case False
    then have "appends jv w0 (fields_text (fs @ opt c k d)) w" using w by (simp add: opt_def)
    from emitsD [OF assms(4) this f'] False show ?thesis by (auto simp: field_tail_def)
  qed
qed

lemma emits_dyn:
  assumes "jwriter_laws jw jv" and "c \<Longrightarrow> writes jv val d" and "emits jv True (fs @ opt c k d) steps res"
  shows "emits jv True fs (field_dyn jw c k val # steps) res"
proof (cases "fs = []")
  case True
  have "field_dyn jw c k val (True, w) = field_head_if jw c k val (True, w)" for w
    by (simp add: field_dyn_def field_head_if_def)
  with emits_head_if [OF assms(1,2), where k = k and steps = steps and res = res] assms(3) True show ?thesis
    by (simp add: emits_def)
next
  case False
  have "field_dyn jw c k val (False, w) = field_tail jw c k val (False, w)" for w
    by (simp add: field_dyn_def field_tail_def)
  with emits_tail [OF assms(1) False assms(2) assms(3)] False show ?thesis
    by (simp add: emits_def)
qed

lemma writes_object:
  assumes "jwriter_laws jw jv" and "emits jv True [] steps fs"
  shows "writes jv (write_object jw steps) (JObject fs)"
  unfolding writes_def
proof
  fix w
  let ?w = "jw_RawByte jw (CHR ''{'') w"
  have "appends jv ?w (fields_text []) ?w" by (simp add: appends_def fields_text_def)
  from emitsD [OF assms(2) this, of True] obtain first' w' where
    w': "run_fields steps (True, ?w) = Inr (first', w')" "appends jv ?w (fields_text fs) w'" by auto
  have "appends jv w ([CHR ''{''] @ fields_text fs) w'"
    by (rule appends_trans [OF jwriter_lawsD(1) [OF assms(1)] w'(2)])
  from appends_trans [OF this jwriter_lawsD(1) [OF assms(1)], of "CHR ''}''"] w'(1)
  show "\<exists>w'. write_object jw steps w = Inr w' \<and> appends jv w (render (JObject fs)) w'"
    by (auto simp: write_object_def fields_text_def)
qed

lemma writes_BuildBytes:
  assumes "jwriter_laws jw jv" and "writes jv val d"
  shows "bindR (val (jw_new jw)) (\<lambda>w. Inr (jw_BuildBytes jw w)) = Inr (Inr (render d))"
proof -
  obtain w where w: "val (jw_new jw) = Inr w" "appends jv (jw_new jw) (render d) w"
    using assms(2) unfolding writes_def by blast
  then show ?thesis by (simp add: jwriter_lawsD [OF assms(1)] appends_def)
qed

lemmas emits_rules = emits_head emits_head_if emits_tail emits_dyn emits_Nil

section \<open>A writer\<close>

text \<open>Buffer and error as a pair: the laws can be met.\<close>

definition put_text :: "string \<Rightarrow> string \<times> error option \<Rightarrow> string \<times> error option" where
  "put_text t w = (if snd w = None then (fst w @ t, None) else w)"

definition put_raw :: "error + string \<Rightarrow> string \<times> error option \<Rightarrow> string \<times> error option" where
  "put_raw r w =
     (if snd w = None then (case r of Inl e \<Rightarrow> (fst w, Some e)
        | Inr t \<Rightarrow> (fst w @ (if t = [] then ''null'' else t), None)) else w)"

definition quoted :: "string \<Rightarrow> string" where
  "quoted s = CHR 0x22 # filter (\<lambda>c. 32 \<le> (of_char c :: nat) \<and> c \<notin> {CHR 0x22, CHR 0x5C}) s @ [CHR 0x22]"

definition signed_text :: "int \<Rightarrow> string" where
  "signed_text i = (if i < 0 then CHR ''-'' # fmt_d (nat (- i)) else fmt_d (nat i))"

definition bool_text :: "bool \<Rightarrow> string" where
  "bool_text b = (if b then ''true'' else ''false'')"

definition demo_jwriter :: "(string \<times> error option) JWriter" where
  "demo_jwriter =
     \<lparr>jw_new = ([], None), jw_RawByte = (\<lambda>c. put_text [c]), jw_RawString = put_text, jw_Raw = put_raw,
      jw_RawText = (\<lambda>r. put_raw (case r of Inl e \<Rightarrow> Inl e | Inr t \<Rightarrow> Inr (quoted t))),
      jw_String = (\<lambda>s. put_text (quoted s)), jw_Uint16 = (\<lambda>n. put_text (fmt_d (unat n))),
      jw_Uint32 = (\<lambda>n. put_text (fmt_d (unat n))), jw_Uint64 = (\<lambda>n. put_text (fmt_d (unat n))),
      jw_Int64 = (\<lambda>n. put_text (signed_text (sint n))), jw_Bool = (\<lambda>b. put_text (bool_text b)),
      jw_BuildBytes = (\<lambda>w. case snd w of None \<Rightarrow> Inr (fst w) | Some e \<Rightarrow> Inl e)\<rparr>"

definition demo_jview :: "(string \<times> error option) JView" where
  "demo_jview =
     \<lparr>jv_Buffer = fst, jv_Error = snd, jv_String = quoted, jv_Text = quoted, jv_Uint = fmt_d,
      jv_Int = signed_text, jv_Bool = bool_text\<rparr>"

lemma demo_jwriter_laws: "jwriter_laws demo_jwriter demo_jview"
  by (auto simp: jwriter_laws_def demo_jwriter_def demo_jview_def appends_def put_text_def put_raw_def
      quoted_def split: option.split)

end
