(* ===== verification/Byte_Order.thy ===== *)
theory Byte_Order
  imports Krie_Prelude
begin

text \<open>
  \<^verbatim>\<open>pkg/krie/events/byteorder.go\<close> and the part of \<^verbatim>\<open>encoding/binary\<close> the decoders use.
  The process-wide variable \<open>ByteOrder\<close> is a parameter \<open>bo\<close> of every decoder; it is
  computed once by \<open>GetHostByteOrder\<close> from the memory image of \<open>0x01020304\<close>.  The
  locale \<open>byte_codec\<close> is the contract between a byte order and its clients: fixed width,
  and reading what was written.
\<close>

unbundle bit_operations_syntax

section \<open>Byte orders\<close>

datatype ByteOrder = LittleEndian | BigEndian

text \<open>\<open>mem\<close> is the host's memory image of a 32-bit integer, lowest address first.\<close>

definition GetHostByteOrder :: "(u32 \<Rightarrow> bytes) \<Rightarrow> ByteOrder result" where
  "GetHostByteOrder mem =
     bindR (index (mem 0x01020304) 0)
       (\<lambda>b. Inr (if b = 0x04 then LittleEndian else BigEndian))"

text \<open>\<open>b[0] | b[1]<<8 | b[2]<<16 | ...\<close>\<close>

fun le_word :: "bytes \<Rightarrow> 'a::len word" where
  "le_word [] = 0"
| "le_word (b # bs) = ucast b OR push_bit 8 (le_word bs)"

definition le_bytes :: "nat \<Rightarrow> 'a::len word \<Rightarrow> bytes" where
  "le_bytes n w = map (\<lambda>i. ucast (drop_bit (8 * i) w)) [0..<n]"

definition get_word :: "ByteOrder \<Rightarrow> bytes \<Rightarrow> 'a::len word" where
  "get_word bo bs = (case bo of LittleEndian \<Rightarrow> le_word bs | BigEndian \<Rightarrow> le_word (rev bs))"

definition put_word :: "ByteOrder \<Rightarrow> nat \<Rightarrow> 'a::len word \<Rightarrow> bytes" where
  "put_word bo n w = (case bo of LittleEndian \<Rightarrow> le_bytes n w | BigEndian \<Rightarrow> rev (le_bytes n w))"

text \<open>\<open>ByteOrder.Uint16/32/64(b)\<close>: a slice that is too short panics, further bytes are
  ignored.\<close>

definition Uint16 :: "ByteOrder \<Rightarrow> bytes \<Rightarrow> u16 result" where
  "Uint16 bo b = (if length b < 2 then Inl Panic else Inr (get_word bo (take 2 b)))"

definition Uint32 :: "ByteOrder \<Rightarrow> bytes \<Rightarrow> u32 result" where
  "Uint32 bo b = (if length b < 4 then Inl Panic else Inr (get_word bo (take 4 b)))"

definition Uint64 :: "ByteOrder \<Rightarrow> bytes \<Rightarrow> u64 result" where
  "Uint64 bo b = (if length b < 8 then Inl Panic else Inr (get_word bo (take 8 b)))"

text \<open>\<open>ByteOrder.PutUint16/32(b, v)\<close> store into the front of a slice.\<close>

definition PutUint16 :: "ByteOrder \<Rightarrow> bytes \<Rightarrow> u16 \<Rightarrow> bytes result" where
  "PutUint16 bo b v = (if length b < 2 then Inl Panic else Inr (put_word bo 2 v @ drop 2 b))"

definition PutUint32 :: "ByteOrder \<Rightarrow> bytes \<Rightarrow> u32 \<Rightarrow> bytes result" where
  "PutUint32 bo b v = (if length b < 4 then Inl Panic else Inr (put_word bo 4 v @ drop 4 b))"

text \<open>The idiom \<open>ByteOrder.UintN(data[lo:hi])\<close>.\<close>

definition rd16 :: "ByteOrder \<Rightarrow> bytes \<Rightarrow> nat \<Rightarrow> nat \<Rightarrow> u16 result" where
  "rd16 bo data lo hi = bindR (slice data lo hi) (Uint16 bo)"

definition rd32 :: "ByteOrder \<Rightarrow> bytes \<Rightarrow> nat \<Rightarrow> nat \<Rightarrow> u32 result" where
  "rd32 bo data lo hi = bindR (slice data lo hi) (Uint32 bo)"

definition rd64 :: "ByteOrder \<Rightarrow> bytes \<Rightarrow> nat \<Rightarrow> nat \<Rightarrow> u64 result" where
  "rd64 bo data lo hi = bindR (slice data lo hi) (Uint64 bo)"

text \<open>The idiom \<open>ByteOrder.PutUintN(b[lo:hi], v)\<close>: the sub-slice shares its array with \<open>b\<close>.\<close>

definition st16 :: "ByteOrder \<Rightarrow> bytes \<Rightarrow> nat \<Rightarrow> nat \<Rightarrow> u16 \<Rightarrow> bytes result" where
  "st16 bo b lo hi v =
     bindR (slice b lo hi) (\<lambda>s. bindR (PutUint16 bo s v) (\<lambda>s'. Inr (take lo b @ s' @ drop hi b)))"

definition st32 :: "ByteOrder \<Rightarrow> bytes \<Rightarrow> nat \<Rightarrow> nat \<Rightarrow> u32 \<Rightarrow> bytes result" where
  "st32 bo b lo hi v =
     bindR (slice b lo hi) (\<lambda>s. bindR (PutUint32 bo s v) (\<lambda>s'. Inr (take lo b @ s' @ drop hi b)))"

text \<open>The value a read delivers when it is in range.\<close>

definition word_at :: "ByteOrder \<Rightarrow> nat \<Rightarrow> nat \<Rightarrow> bytes \<Rightarrow> 'a::len word" where
  "word_at bo n off data = get_word bo (take n (drop off data))"

section \<open>Bit view of little-endian words\<close>

lemma bit_le_word:
  "bit (le_word bs :: 'a::len word) i \<longleftrightarrow>
     i < LENGTH('a) \<and> i div 8 < length bs \<and> bit (bs ! (i div 8)) (i mod 8)"
proof (induction bs arbitrary: i)
  case Nil
  then show ?case by simp
next
  case (Cons b bs)
  show ?case
  proof (cases "i < 8")
    case True
    then show ?thesis
      by (simp add: bit_or_iff bit_ucast_iff bit_push_bit_iff)
  next
    case False
    then obtain j where j: "i = j + 8" by (metis add.commute le_Suc_ex linorder_not_less)
    have b: "\<not> bit b i" using False bit_imp_le_length [of b i] by auto
    have d: "(j + 8) div 8 = Suc (j div 8)" by simp
    from b j show ?thesis
      by (simp add: bit_or_iff bit_ucast_iff bit_push_bit_iff Cons.IH d) auto
  qed
qed

lemma length_le_bytes [simp]: "length (le_bytes n w) = n"
  by (simp add: le_bytes_def)

lemma bit_le_bytes:
  "k < n \<Longrightarrow> bit (le_bytes n w ! k) j \<longleftrightarrow> j < 8 \<and> bit w (8 * k + j)"
  by (simp add: le_bytes_def bit_ucast_iff bit_drop_bit_eq)

lemma le_word_le_bytes:
  fixes w :: "'a::len word"
  assumes "LENGTH('a) \<le> 8 * n"
  shows "le_word (le_bytes n w) = w"
proof (rule bit_word_eqI)
  fix i assume "i < LENGTH('a)"
  with assms have "i div 8 < n" by simp
  then show "bit (le_word (le_bytes n w) :: 'a word) i \<longleftrightarrow> bit w i"
    using \<open>i < LENGTH('a)\<close> by (simp add: bit_le_word bit_le_bytes)
qed

lemma le_bytes_le_word:
  assumes "length bs = n" and "8 * n \<le> LENGTH('a::len)"
  shows "le_bytes n (le_word bs :: 'a word) = bs"
proof (rule nth_equalityI)
  show "length (le_bytes n (le_word bs :: 'a word)) = length bs" using assms by simp
next
  fix k assume "k < length (le_bytes n (le_word bs :: 'a word))"
  then have k: "k < n" by simp
  show "le_bytes n (le_word bs :: 'a word) ! k = bs ! k"
  proof (rule bit_word_eqI)
    fix j assume "j < LENGTH(8)"
    then have "j < 8" by simp
    with k assms(2) have "8 * k + j < LENGTH('a)" by linarith
    with \<open>j < 8\<close> k assms(1) show "bit (le_bytes n (le_word bs :: 'a word) ! k) j \<longleftrightarrow> bit (bs ! k) j"
      by (simp add: bit_le_bytes bit_le_word)
  qed
qed

section \<open>The codec contract\<close>

text \<open>What a client relies on: writing a word of \<open>n\<close> bytes and reading it back is the
  identity in both directions.\<close>

locale byte_codec =
  fixes get :: "bytes \<Rightarrow> 'a::len word" and put :: "'a word \<Rightarrow> bytes" and n :: nat
  assumes put_length: "length (put w) = n"
    and get_put: "get (put w) = w"
    and put_get: "length bs = n \<Longrightarrow> put (get bs) = bs"
begin

lemma put_inject: "put v = put w \<longleftrightarrow> v = w"
  by (metis get_put)

lemma get_inject: "length as = n \<Longrightarrow> length bs = n \<Longrightarrow> get as = get bs \<longleftrightarrow> as = bs"
  by (metis put_get)

lemma get_take_append: "get (take n (put w @ rest)) = w"
  by (simp add: put_length get_put)

lemma get_after: "length pre = k \<Longrightarrow> get (take n (drop k (pre @ put w @ rest))) = w"
  by (simp add: put_length get_put)

end

lemma length_put_word [simp]: "length (put_word bo n w) = n"
  by (simp add: put_word_def split: ByteOrder.split)

lemma get_put_word:
  fixes w :: "'a::len word"
  shows "LENGTH('a) \<le> 8 * n \<Longrightarrow> get_word bo (put_word bo n w) = w"
  by (cases bo) (simp_all add: get_word_def put_word_def le_word_le_bytes)

lemma put_get_word:
  "length bs = n \<Longrightarrow> 8 * n \<le> LENGTH('a::len) \<Longrightarrow> put_word bo n (get_word bo bs :: 'a word) = bs"
  by (cases bo) (simp_all add: get_word_def put_word_def le_bytes_le_word)

interpretation w16: byte_codec "get_word bo :: bytes \<Rightarrow> u16" "put_word bo 2" 2 for bo
  by unfold_locales (simp_all add: get_put_word put_get_word)

interpretation w32: byte_codec "get_word bo :: bytes \<Rightarrow> u32" "put_word bo 4" 4 for bo
  by unfold_locales (simp_all add: get_put_word put_get_word)

interpretation w64: byte_codec "get_word bo :: bytes \<Rightarrow> u64" "put_word bo 8" 8 for bo
  by unfold_locales (simp_all add: get_put_word put_get_word)

section \<open>Reads in range\<close>

lemma rd16_ok [go_simps]:
  "lo + 2 \<le> hi \<Longrightarrow> hi \<le> length data \<Longrightarrow> rd16 bo data lo hi = Inr (word_at bo 2 lo data)"
  by (auto simp: rd16_def Uint16_def slice_ok word_at_def min_def)

lemma rd32_ok [go_simps]:
  "lo + 4 \<le> hi \<Longrightarrow> hi \<le> length data \<Longrightarrow> rd32 bo data lo hi = Inr (word_at bo 4 lo data)"
  by (auto simp: rd32_def Uint32_def slice_ok word_at_def min_def)

lemma rd64_ok [go_simps]:
  "lo + 8 \<le> hi \<Longrightarrow> hi \<le> length data \<Longrightarrow> rd64 bo data lo hi = Inr (word_at bo 8 lo data)"
  by (auto simp: rd64_def Uint64_def slice_ok word_at_def min_def)

lemma word_at_take [simp]:
  "off + n \<le> w \<Longrightarrow> word_at bo n off (take w data) = word_at bo n off data"
  by (simp add: word_at_def take_drop_prefix)

lemma word_at_append:
  "off + n \<le> length xs \<Longrightarrow> word_at bo n off (xs @ ys) = word_at bo n off xs"
  by (simp add: word_at_def)

lemma word_at_skip:
  "length xs \<le> off \<Longrightarrow> word_at bo n off (xs @ ys) = word_at bo n (off - length xs) ys"
  by (simp add: word_at_def)

lemma word_at_put:
  fixes w :: "'a::len word"
  shows "LENGTH('a) \<le> 8 * n \<Longrightarrow> word_at bo n 0 (put_word bo n w @ rest) = w"
  by (simp add: word_at_def get_put_word)

lemma word_at_put_end:
  fixes w :: "'a::len word"
  shows "LENGTH('a) \<le> 8 * n \<Longrightarrow> word_at bo n 0 (put_word bo n w) = w"
  by (simp add: word_at_def get_put_word)

lemma st16_ok [go_simps]:
  "hi = lo + 2 \<Longrightarrow> hi \<le> length b \<Longrightarrow> st16 bo b lo hi v = Inr (take lo b @ put_word bo 2 v @ drop hi b)"
  by (simp add: st16_def slice_ok PutUint16_def)

lemma st32_ok [go_simps]:
  "hi = lo + 4 \<Longrightarrow> hi \<le> length b \<Longrightarrow> st32 bo b lo hi v = Inr (take lo b @ put_word bo 4 v @ drop hi b)"
  by (simp add: st32_def slice_ok PutUint32_def)

end
