(* ===== verification/Wire.thy ===== *)
theory Wire
  imports Byte_Order
begin

text \<open>
  The contract of the binary decoders of \<^verbatim>\<open>pkg/krie/events\<close>.  A decoder is a method on a
  receiver: it takes the receiver's old value and the data left in the perf record and
  returns the new value with the number of bytes read, an error, or a panic.  The
  locale \<open>wire_decoder\<close> says what the event handler relies on when it advances its cursor:
  a decoder of width \<open>w\<close> fails with an error on less than \<open>w\<close> bytes, reads exactly \<open>w\<close>
  otherwise, looks at nothing beyond them and never panics.  \<open>wire_codec\<close> adds the C
  structure of the kernel side and says that decoding its memory image gives back its
  fields.
\<close>

type_synonym 'r decoder = "'r \<Rightarrow> bytes \<Rightarrow> ('r \<times> nat) result"

text \<open>\<^verbatim>\<open>pkg/krie/events/utils.go\<close>.\<close>

definition UnmarshalString :: "bytes \<Rightarrow> nat \<Rightarrow> string result" where
  "UnmarshalString data sz =
     (if length data < sz then Inl (Error ErrNotEnoughData)
      else bindR (slice data 0 sz) (\<lambda>d. Inr (string_of_bytes (bytes_SplitN2_fst 0 d))))"

text \<open>The texts of the length checks.\<close>

definition errGotNeeded :: "string \<Rightarrow> nat \<Rightarrow> nat \<Rightarrow> fault" where
  "errGotNeeded fmt got needed =
     Error (Errorf fmt [FInt (int got), FInt (int needed)] (Some ErrNotEnoughData))"

lemma UnmarshalString_ok [go_simps]:
  "sz \<le> length data \<Longrightarrow>
     UnmarshalString data sz = Inr (string_of_bytes (bytes_SplitN2_fst 0 (take sz data)))"
  by (simp add: UnmarshalString_def slice_ok)

lemma UnmarshalString_take [go_simps]:
  "sz \<le> length data \<Longrightarrow>
     UnmarshalString (take sz data) sz = Inr (string_of_bytes (bytes_SplitN2_fst 0 (take sz data)))"
  by (simp add: UnmarshalString_ok)

lemmas decoder_simps = go_simps errGotNeeded_def min_def drop_take
lemmas encoded_simps = word_at_append word_at_skip word_at_put word_at_put_end

locale wire_decoder =
  fixes dec :: "'r \<Rightarrow> bytes \<Rightarrow> ('r \<times> nat) result" and width :: nat and ok :: "'r \<Rightarrow> bool"
  assumes dec_short: "ok r \<Longrightarrow> length d < width \<Longrightarrow> is_error (dec r d)"
    and dec_full: "ok r \<Longrightarrow> width \<le> length d \<Longrightarrow> \<exists>x. ok x \<and> dec r d = Inr (x, width)"
    and dec_local: "ok r \<Longrightarrow> width \<le> length d \<Longrightarrow> dec r d = dec r (take width d)"
begin

lemma dec_no_panic: "ok r \<Longrightarrow> no_panic (dec r d)"
  using dec_short [of r d] dec_full [of r d]
  by (cases "length d < width") (auto simp: is_error_no_panic)

lemma dec_Inr_iff: "ok r \<Longrightarrow> (\<exists>x n. dec r d = Inr (x, n)) \<longleftrightarrow> width \<le> length d"
  using dec_short [of r d] dec_full [of r d]
  by (cases "length d < width") (auto simp: is_error_def)

lemma dec_read: "ok r \<Longrightarrow> dec r d = Inr (x, n) \<Longrightarrow> n = width \<and> width \<le> length d \<and> ok x"
  using dec_Inr_iff [of r d] dec_full [of r d] by auto

lemma dec_cong:
  "ok r \<Longrightarrow> width \<le> length d \<Longrightarrow> width \<le> length d' \<Longrightarrow> take width d = take width d' \<Longrightarrow>
     dec r d = dec r d'"
  by (metis dec_local)

lemma dec_append: "ok r \<Longrightarrow> width \<le> length d \<Longrightarrow> dec r (d @ rest) = dec r d"
  by (rule dec_cong) simp_all

lemma dec_drop_take:
  "ok r \<Longrightarrow> k + width \<le> w \<Longrightarrow> w \<le> length d \<Longrightarrow> dec r (drop k (take w d)) = dec r (drop k d)"
  by (rule dec_cong) (auto simp: drop_take min_def)

lemma dec_cases:
  assumes "ok r"
  obtains (short) e where "length d < width" "dec r d = Inl (Error e)"
  | (full) x where "width \<le> length d" "ok x" "dec r d = Inr (x, width)"
  using dec_short [of r d] dec_full [of r d] assms
  by (cases "length d < width") (auto simp: is_error_def)

end

locale wire_codec = wire_decoder dec width ok
  for dec :: "'r \<Rightarrow> bytes \<Rightarrow> ('r \<times> nat) result" and width and ok +
  fixes wf :: "'s \<Rightarrow> bool" and enc :: "'s \<Rightarrow> bytes" and view :: "'r \<Rightarrow> 's \<Rightarrow> 'r"
  assumes enc_length: "wf s \<Longrightarrow> length (enc s) = width"
    and dec_enc: "ok r \<Longrightarrow> wf s \<Longrightarrow> dec r (enc s) = Inr (view r s, width)"
begin

lemma dec_stream: "ok r \<Longrightarrow> wf s \<Longrightarrow> dec r (enc s @ rest) = Inr (view r s, width)"
  using dec_append [of r "enc s" rest] by (simp add: enc_length dec_enc)

lemma dec_stream_at:
  "ok r \<Longrightarrow> wf s \<Longrightarrow> length pre = k \<Longrightarrow> dec r (drop k (pre @ enc s @ rest)) = Inr (view r s, width)"
  by (simp add: dec_stream)

lemma enc_determines_view: "ok r \<Longrightarrow> wf s \<Longrightarrow> wf t \<Longrightarrow> enc s = enc t \<Longrightarrow> view r s = view r t"
  using dec_enc [of r s] dec_enc [of r t] by simp

end

section \<open>Strings in fixed-size buffers\<close>

text \<open>A C string: no embedded NUL, then padded with NULs to the size of the array.\<close>

definition c_string :: "nat \<Rightarrow> string \<Rightarrow> bytes" where
  "c_string n s = bytes_of_string s @ replicate (n - length s) 0"

definition c_string_ok :: "nat \<Rightarrow> string \<Rightarrow> bool" where
  "c_string_ok n s \<longleftrightarrow> length s \<le> n \<and> (0::byte) \<notin> set (bytes_of_string s)"

lemma c_string_ok_length [simp]: "c_string_ok n s \<Longrightarrow> length s \<le> n"
  by (simp add: c_string_ok_def)

lemma length_c_string [simp]: "length s \<le> n \<Longrightarrow> length (c_string n s) = n"
  by (simp add: c_string_def)

lemma SplitN2_c_string:
  "c_string_ok n s \<Longrightarrow> string_of_bytes (bytes_SplitN2_fst 0 (c_string n s)) = s"
proof -
  assume ok: "c_string_ok n s"
  then have "takeWhile (\<lambda>b. b \<noteq> 0) (bytes_of_string s @ replicate (n - length s) 0) =
      bytes_of_string s @ takeWhile (\<lambda>b. b \<noteq> 0) (replicate (n - length s) (0::byte))"
    by (intro takeWhile_append2) (auto simp: c_string_ok_def)
  also have "takeWhile (\<lambda>b. b \<noteq> 0) (replicate (n - length s) (0::byte)) = []"
    by (cases "n - length s") simp_all
  finally show ?thesis by (simp add: bytes_SplitN2_fst_def c_string_def)
qed

lemma dropWhile_replicate: "dropWhile ((=) c) (replicate k c @ xs) = dropWhile ((=) c) xs"
  by (induction k) simp_all

lemma dropWhile_notin: "c \<notin> set xs \<Longrightarrow> dropWhile ((=) c) xs = xs"
  by (cases xs) auto

lemma Trim_c_string: "c_string_ok n s \<Longrightarrow> string_of_bytes (bytes_Trim 0 (c_string n s)) = s"
proof -
  assume ok: "c_string_ok n s"
  let ?b = "bytes_of_string s" and ?z = "replicate (n - length s) (0::byte)"
  have nz: "(0::byte) \<notin> set ?b" using ok by (simp add: c_string_ok_def)
  show ?thesis
  proof (cases "s = []")
    case True
    then show ?thesis
      using dropWhile_replicate [of 0 n "[]"]
      by (simp add: bytes_Trim_def c_string_def bytes_of_string_def string_of_bytes_def)
  next
    case False
    then obtain b bs where b: "?b = b # bs" by (cases ?b) (auto simp: bytes_of_string_def)
    have "dropWhile ((=) 0) (?b @ ?z) = ?b @ ?z" using nz b by auto
    moreover have "dropWhile ((=) 0) (rev (?b @ ?z)) = rev ?b"
      using nz by (simp add: dropWhile_replicate dropWhile_notin)
    ultimately show ?thesis by (simp add: bytes_Trim_def c_string_def)
  qed
qed

end
