(* ===== verification/Process_Context.thy ===== *)
theory Process_Context
  imports Wire
begin

text \<open>
  \<^verbatim>\<open>pkg/krie/events/process.go\<close>: the process context of an event (namespaces,
  credentials, command, cgroups, ids), with the C structures of \<^verbatim>\<open>ebpf/krie/process.h\<close> it
  is decoded from.  The array \<open>Cgroups\<close> is a list of \<open>CgroupSubsystemMax\<close> contexts.
\<close>

definition CgroupNameLength :: nat where "CgroupNameLength = 128"
definition TaskCommLength :: nat where "TaskCommLength = 16"
definition CgroupSubsystemMax :: nat where "CgroupSubsystemMax = 14"

lemmas process_const_simps = CgroupNameLength_def TaskCommLength_def CgroupSubsystemMax_def

record CgroupContext =
  cg_SubsystemID :: u32
  cg_ID :: u32
  cg_Name :: string

definition CgroupContext_UnmarshalBinary ::
    "ByteOrder \<Rightarrow> CgroupContext \<Rightarrow> bytes \<Rightarrow> (CgroupContext \<times> nat) result" where
  "CgroupContext_UnmarshalBinary bo cc data =
     (if length data < 8 + CgroupNameLength
      then Inl (errGotNeeded ''while parsing CgroupContext, got len %d, needed %d: %w''
                  (length data) (8 + CgroupNameLength))
      else
        bindR (rd32 bo data 0 4) (\<lambda>sub.
        bindR (rd32 bo data 4 8) (\<lambda>id.
        bindR (slice data 8 (8 + CgroupNameLength)) (\<lambda>name.
        Inr (cc\<lparr>cg_SubsystemID := sub, cg_ID := id,
                cg_Name := string_of_bytes (bytes_Trim 0 name)\<rparr>,
             8 + CgroupNameLength)))))"

record CredentialsContext =
  cr_UID :: u32
  cr_GID :: u32
  cr_SUID :: u32
  cr_SGID :: u32
  cr_EUID :: u32
  cr_EGID :: u32
  cr_FSUID :: u32
  cr_FSGID :: u32
  cr_SecureBits :: u32
  cr_CapInheritable :: u64
  cr_CapPermitted :: u64
  cr_CapEffective :: u64
  cr_CapBSET :: u64
  cr_CapAmbiant :: u64

definition CredentialsContext_UnmarshalBinary ::
    "ByteOrder \<Rightarrow> CredentialsContext \<Rightarrow> bytes \<Rightarrow> (CredentialsContext \<times> nat) result" where
  "CredentialsContext_UnmarshalBinary bo cc data =
     (if length data < 80
      then Inl (Error (Errorf ''while parsing CredentialsContext, got len %d, needed 80: %w''
                  [FInt (int (length data))] (Some ErrNotEnoughData)))
      else
        bindR (rd32 bo data 0 4) (\<lambda>uid.
        bindR (rd32 bo data 4 8) (\<lambda>gid.
        bindR (rd32 bo data 8 12) (\<lambda>suid.
        bindR (rd32 bo data 12 16) (\<lambda>sgid.
        bindR (rd32 bo data 16 20) (\<lambda>euid.
        bindR (rd32 bo data 20 24) (\<lambda>egid.
        bindR (rd32 bo data 24 28) (\<lambda>fsuid.
        bindR (rd32 bo data 28 32) (\<lambda>fsgid.
        bindR (rd32 bo data 32 36) (\<lambda>secbits.
        bindR (rd64 bo data 40 48) (\<lambda>inh.
        bindR (rd64 bo data 48 56) (\<lambda>perm.
        bindR (rd64 bo data 56 64) (\<lambda>eff.
        bindR (rd64 bo data 64 72) (\<lambda>bset.
        bindR (rd64 bo data 72 80) (\<lambda>amb.
        Inr (cc\<lparr>cr_UID := uid, cr_GID := gid, cr_SUID := suid, cr_SGID := sgid,
                cr_EUID := euid, cr_EGID := egid, cr_FSUID := fsuid, cr_FSGID := fsgid,
                cr_SecureBits := secbits, cr_CapInheritable := inh, cr_CapPermitted := perm,
                cr_CapEffective := eff, cr_CapBSET := bset, cr_CapAmbiant := amb\<rparr>, 80))))))))))))))))"

record NamespaceContext =
  ns_Cgroup :: u32
  ns_IPC :: u32
  ns_Net :: u32
  ns_Mnt :: u32
  ns_PID :: u32
  ns_Time :: u32
  ns_User :: u32
  ns_UTS :: u32

definition NamespaceContext_UnmarshalBinary ::
    "ByteOrder \<Rightarrow> NamespaceContext \<Rightarrow> bytes \<Rightarrow> (NamespaceContext \<times> nat) result" where
  "NamespaceContext_UnmarshalBinary bo nc data =
     (if length data < 32
      then Inl (Error (Errorf ''while parsing NamespaceContext, got len %d, needed 32: %w''
                  [FInt (int (length data))] (Some ErrNotEnoughData)))
      else
        bindR (rd32 bo data 0 4) (\<lambda>cgroup.
        bindR (rd32 bo data 4 8) (\<lambda>ipc.
        bindR (rd32 bo data 8 12) (\<lambda>net.
        bindR (rd32 bo data 12 16) (\<lambda>mnt.
        bindR (rd32 bo data 16 20) (\<lambda>pid.
        bindR (rd32 bo data 20 24) (\<lambda>time.
        bindR (rd32 bo data 24 28) (\<lambda>user.
        bindR (rd32 bo data 28 32) (\<lambda>uts.
        Inr (nc\<lparr>ns_Cgroup := cgroup, ns_IPC := ipc, ns_Net := net, ns_Mnt := mnt,
                ns_PID := pid, ns_Time := time, ns_User := user, ns_UTS := uts\<rparr>, 32))))))))))"

record ProcessContext =
  pc_Cgroups :: "CgroupContext list"
  pc_NamespaceContext :: NamespaceContext
  pc_Credentials :: CredentialsContext
  pc_Comm :: string
  pc_PID :: u32
  pc_TID :: u32

text \<open>\<open>for i := 0; i < int(CgroupSubsystemMax); i++\<close>: the loop over the cgroup array.\<close>

function Cgroups_loop ::
    "ByteOrder \<Rightarrow> bytes \<Rightarrow> nat \<Rightarrow> nat \<Rightarrow> CgroupContext list \<Rightarrow> (CgroupContext list \<times> nat) result" where
  "Cgroups_loop bo data i cursor cgs =
     (if i < CgroupSubsystemMax
      then bindR (slice_from data cursor) (\<lambda>d.
           bindR (index cgs i) (\<lambda>cg.
           bindR (CgroupContext_UnmarshalBinary bo cg d) (\<lambda>(cg', read).
           Cgroups_loop bo data (i + 1) (cursor + read) (cgs[i := cg']))))
      else Inr (cgs, cursor))"
  by pat_completeness auto
termination
  by (relation "measure (\<lambda>(bo, data, i, cursor, cgs). CgroupSubsystemMax - i)") auto

declare Cgroups_loop.simps [simp del]

definition ProcessContext_UnmarshalBinary ::
    "ByteOrder \<Rightarrow> ProcessContext \<Rightarrow> bytes \<Rightarrow> (ProcessContext \<times> nat) result" where
  "ProcessContext_UnmarshalBinary bo pc data =
     bindR (slice_from data 0) (\<lambda>d0.
     bindR (NamespaceContext_UnmarshalBinary bo (pc_NamespaceContext pc) d0) (\<lambda>(ns, read).
     let cursor = read in
     bindR (slice_from data cursor) (\<lambda>d1.
     bindR (CredentialsContext_UnmarshalBinary bo (pc_Credentials pc) d1) (\<lambda>(cr, read).
     let cursor = cursor + read in
     bindR (slice_from data cursor) (\<lambda>d2.
     if length d2 < TaskCommLength
     then Inl (Error (Errorf ''while parsing ProcessContext.Comm: got len %d, needed %d: %w''
                 [FInt (int (length d2)), FInt (int TaskCommLength)] None))
     else
     bindR (slice data cursor (cursor + TaskCommLength)) (\<lambda>comm.
     let cursor = cursor + TaskCommLength in
     bindR (Cgroups_loop bo data 0 cursor (pc_Cgroups pc)) (\<lambda>(cgs, cursor).
     bindR (slice_from data cursor) (\<lambda>d3.
     if length d3 < 8
     then Inl (Error (Errorf ''while parsing ProcessContext.PID: got len %d, needed %d: %w''
                 [FInt (int (length d3)), FInt 8] None))
     else
     bindR (rd32 bo data cursor (cursor + 4)) (\<lambda>pid.
     bindR (rd32 bo data (cursor + 4) (cursor + 8)) (\<lambda>tid.
     Inr (pc\<lparr>pc_NamespaceContext := ns, pc_Credentials := cr,
             pc_Comm := string_of_bytes (bytes_Trim 0 comm), pc_Cgroups := cgs,
             pc_PID := pid, pc_TID := tid\<rparr>, cursor + 8)))))))))))"

text \<open>The array of a Go value always has \<open>CgroupSubsystemMax\<close> elements.\<close>

definition ProcessContext_ok :: "ProcessContext \<Rightarrow> bool" where
  "ProcessContext_ok pc \<longleftrightarrow> length (pc_Cgroups pc) = CgroupSubsystemMax"

definition process_width :: nat where
  "process_width = 32 + 80 + TaskCommLength + CgroupSubsystemMax * (8 + CgroupNameLength) + 8"

section \<open>The kernel side\<close>

record cgroup_context_t =
  cgt_subsystem_id :: u32
  cgt_id :: u32
  cgt_name :: string

definition cgroup_context_ok :: "cgroup_context_t \<Rightarrow> bool" where
  "cgroup_context_ok c \<longleftrightarrow> c_string_ok 128 (cgt_name c)"

definition cgroup_context_bytes :: "ByteOrder \<Rightarrow> cgroup_context_t \<Rightarrow> bytes" where
  "cgroup_context_bytes bo c =
     put_word bo 4 (cgt_subsystem_id c) @ put_word bo 4 (cgt_id c) @ c_string 128 (cgt_name c)"

definition cgroup_context_view :: "CgroupContext \<Rightarrow> cgroup_context_t \<Rightarrow> CgroupContext" where
  "cgroup_context_view r c =
     r\<lparr>cg_SubsystemID := cgt_subsystem_id c, cg_ID := cgt_id c, cg_Name := cgt_name c\<rparr>"

record credentials_context_t =
  crt_uid :: u32
  crt_gid :: u32
  crt_suid :: u32
  crt_sgid :: u32
  crt_euid :: u32
  crt_egid :: u32
  crt_fsuid :: u32
  crt_fsgid :: u32
  crt_securebits :: u32
  crt_padding :: u32
  crt_cap_inheritable :: u64
  crt_cap_permitted :: u64
  crt_cap_effective :: u64
  crt_cap_bset :: u64
  crt_cap_ambient :: u64

definition credentials_context_bytes :: "ByteOrder \<Rightarrow> credentials_context_t \<Rightarrow> bytes" where
  "credentials_context_bytes bo c =
     put_word bo 4 (crt_uid c) @ put_word bo 4 (crt_gid c) @ put_word bo 4 (crt_suid c) @
     put_word bo 4 (crt_sgid c) @ put_word bo 4 (crt_euid c) @ put_word bo 4 (crt_egid c) @
     put_word bo 4 (crt_fsuid c) @ put_word bo 4 (crt_fsgid c) @ put_word bo 4 (crt_securebits c) @
     put_word bo 4 (crt_padding c) @ put_word bo 8 (crt_cap_inheritable c) @
     put_word bo 8 (crt_cap_permitted c) @ put_word bo 8 (crt_cap_effective c) @
     put_word bo 8 (crt_cap_bset c) @ put_word bo 8 (crt_cap_ambient c)"

definition credentials_context_view ::
    "CredentialsContext \<Rightarrow> credentials_context_t \<Rightarrow> CredentialsContext" where
  "credentials_context_view r c =
     r\<lparr>cr_UID := crt_uid c, cr_GID := crt_gid c, cr_SUID := crt_suid c, cr_SGID := crt_sgid c,
       cr_EUID := crt_euid c, cr_EGID := crt_egid c, cr_FSUID := crt_fsuid c,
       cr_FSGID := crt_fsgid c, cr_SecureBits := crt_securebits c,
       cr_CapInheritable := crt_cap_inheritable c, cr_CapPermitted := crt_cap_permitted c,
       cr_CapEffective := crt_cap_effective c, cr_CapBSET := crt_cap_bset c,
       cr_CapAmbiant := crt_cap_ambient c\<rparr>"

record namespace_context_t =
  nst_cgroup :: u32
  nst_ipc :: u32
  nst_net :: u32
  nst_mnt :: u32
  nst_pid :: u32
  nst_time :: u32
  nst_user :: u32
  nst_uts :: u32

definition namespace_context_bytes :: "ByteOrder \<Rightarrow> namespace_context_t \<Rightarrow> bytes" where
  "namespace_context_bytes bo n =
     put_word bo 4 (nst_cgroup n) @ put_word bo 4 (nst_ipc n) @ put_word bo 4 (nst_net n) @
     put_word bo 4 (nst_mnt n) @ put_word bo 4 (nst_pid n) @ put_word bo 4 (nst_time n) @
     put_word bo 4 (nst_user n) @ put_word bo 4 (nst_uts n)"

definition namespace_context_view ::
    "NamespaceContext \<Rightarrow> namespace_context_t \<Rightarrow> NamespaceContext" where
  "namespace_context_view r n =
     r\<lparr>ns_Cgroup := nst_cgroup n, ns_IPC := nst_ipc n, ns_Net := nst_net n,
       ns_Mnt := nst_mnt n, ns_PID := nst_pid n, ns_Time := nst_time n,
       ns_User := nst_user n, ns_UTS := nst_uts n\<rparr>"

record process_context_t =
  pct_namespaces :: namespace_context_t
  pct_credentials :: credentials_context_t
  pct_comm :: string
  pct_cgroups :: "cgroup_context_t list"
  pct_pid :: u32
  pct_tid :: u32

definition process_context_ok :: "process_context_t \<Rightarrow> bool" where
  "process_context_ok p \<longleftrightarrow>
     c_string_ok 16 (pct_comm p) \<and> length (pct_cgroups p) = 14 \<and>
     list_all cgroup_context_ok (pct_cgroups p)"

definition process_context_bytes :: "ByteOrder \<Rightarrow> process_context_t \<Rightarrow> bytes" where
  "process_context_bytes bo p =
     namespace_context_bytes bo (pct_namespaces p) @
     credentials_context_bytes bo (pct_credentials p) @ c_string 16 (pct_comm p) @
     concat (map (cgroup_context_bytes bo) (pct_cgroups p)) @
     put_word bo 4 (pct_pid p) @ put_word bo 4 (pct_tid p)"

definition process_context_view :: "ProcessContext \<Rightarrow> process_context_t \<Rightarrow> ProcessContext" where
  "process_context_view r p =
     r\<lparr>pc_NamespaceContext := namespace_context_view (pc_NamespaceContext r) (pct_namespaces p),
       pc_Credentials := credentials_context_view (pc_Credentials r) (pct_credentials p),
       pc_Comm := pct_comm p,
       pc_Cgroups := map2 cgroup_context_view (pc_Cgroups r) (pct_cgroups p),
       pc_PID := pct_pid p, pc_TID := pct_tid p\<rparr>"

section \<open>The three flat structures\<close>

interpretation cgc: wire_codec "CgroupContext_UnmarshalBinary bo" 136 "\<lambda>_. True" cgroup_context_ok
    "cgroup_context_bytes bo" cgroup_context_view for bo
  by unfold_locales
    (auto simp: CgroupContext_UnmarshalBinary_def decoder_simps process_const_simps
      cgroup_context_bytes_def cgroup_context_view_def encoded_simps cgroup_context_ok_def
      Trim_c_string)

interpretation crc: wire_codec "CredentialsContext_UnmarshalBinary bo" 80 "\<lambda>_. True" "\<lambda>_. True"
    "credentials_context_bytes bo" credentials_context_view for bo
  by unfold_locales
    (auto simp: CredentialsContext_UnmarshalBinary_def decoder_simps
      credentials_context_bytes_def credentials_context_view_def encoded_simps)

interpretation nsc: wire_codec "NamespaceContext_UnmarshalBinary bo" 32 "\<lambda>_. True" "\<lambda>_. True"
    "namespace_context_bytes bo" namespace_context_view for bo
  by unfold_locales
    (auto simp: NamespaceContext_UnmarshalBinary_def decoder_simps
      namespace_context_bytes_def namespace_context_view_def encoded_simps)

section \<open>The cgroup loop\<close>

lemma Cgroups_loop_step:
  "i < 14 \<Longrightarrow> length cgs = 14 \<Longrightarrow> cursor \<le> length data \<Longrightarrow>
     Cgroups_loop bo data i cursor cgs =
       bindR (CgroupContext_UnmarshalBinary bo (cgs ! i) (drop cursor data)) (\<lambda>(cg', read).
         Cgroups_loop bo data (i + 1) (cursor + read) (cgs[i := cg']))"
  by (subst Cgroups_loop.simps) (simp add: process_const_simps index_def slice_from_ok)

lemma Cgroups_loop_done: "14 \<le> i \<Longrightarrow> Cgroups_loop bo data i cursor cgs = Inr (cgs, cursor)"
  by (subst Cgroups_loop.simps) (simp add: process_const_simps)

lemma Cgroups_loop_total:
  assumes "i + k = 14" and "length cgs = 14" and "cursor \<le> length data"
  shows "if cursor + 136 * k \<le> length data
         then \<exists>cgs'. Cgroups_loop bo data i cursor cgs = Inr (cgs', cursor + 136 * k) \<and> length cgs' = 14
         else is_error (Cgroups_loop bo data i cursor cgs)"
  using assms
proof (induction k arbitrary: i cursor cgs)
  case 0
  then show ?case by (simp add: Cgroups_loop_done)
next
  case (Suc k)
  have i: "i < 14" using Suc.prems(1) by simp
  note step = Cgroups_loop_step [OF i Suc.prems(2,3), of bo]
  show ?case
    using TrueI
  proof (cases rule: cgc.dec_cases [where bo = bo and r = "cgs ! i" and d = "drop cursor data"])
    case (short e)
    then have "\<not> cursor + 136 * Suc k \<le> length data" using Suc.prems(3) by simp
    moreover have "is_error (Cgroups_loop bo data i cursor cgs)" using short by (simp add: step)
    ultimately show ?thesis by (simp only: if_False)
  next
    case (full x)
    then have "cursor + 136 \<le> length data" using Suc.prems(3) by simp
    then have "if cursor + 136 + 136 * k \<le> length data
        then \<exists>cgs'. Cgroups_loop bo data (i + 1) (cursor + 136) (cgs[i := x]) =
            Inr (cgs', cursor + 136 + 136 * k) \<and> length cgs' = 14
        else is_error (Cgroups_loop bo data (i + 1) (cursor + 136) (cgs[i := x]))"
      using Suc.prems by (intro Suc.IH) simp_all
    moreover have "Cgroups_loop bo data i cursor cgs =
        Cgroups_loop bo data (i + 1) (cursor + 136) (cgs[i := x])"
      using full by (simp add: step)
    ultimately show ?thesis by (auto simp: add.assoc split: if_splits)
  qed
qed

lemma Cgroups_loop_local:
  assumes "i + k = 14" and "length cgs = 14" and "cursor + 136 * k \<le> w" and "w \<le> length data"
  shows "Cgroups_loop bo (take w data) i cursor cgs = Cgroups_loop bo data i cursor cgs"
  using assms
proof (induction k arbitrary: i cursor cgs)
  case 0
  then show ?case by (simp add: Cgroups_loop_done)
next
  case (Suc k)
  have "136 \<le> length (drop cursor data)" using Suc.prems by simp
  then obtain x where x: "CgroupContext_UnmarshalBinary bo (cgs ! i) (drop cursor data) = Inr (x, 136)"
    using cgc.dec_full [where bo = bo and r = "cgs ! i" and d = "drop cursor data"] by auto
  have "CgroupContext_UnmarshalBinary bo (cgs ! i) (drop cursor (take w data)) = Inr (x, 136)"
    using cgc.dec_drop_take [where bo = bo and r = "cgs ! i" and k = cursor and w = w and d = data] Suc.prems x by simp
  with x Suc.IH [of "i + 1" "cgs[i := x]" "cursor + 136"] Suc.prems show ?case
    by (simp add: Cgroups_loop_step)
qed

lemma length_cgroups_bytes:
  "list_all cgroup_context_ok cs \<Longrightarrow>
     length (concat (map (cgroup_context_bytes bo) cs)) = 136 * length cs"
  by (induction cs) (simp_all add: cgc.enc_length)

lemma Cgroups_loop_enc:
  assumes "i + length cs = 14" and "length cgs = 14" and "list_all cgroup_context_ok cs"
    and "length pre = cursor"
  shows "Cgroups_loop bo (pre @ concat (map (cgroup_context_bytes bo) cs) @ rest) i cursor cgs =
     Inr (take i cgs @ map2 cgroup_context_view (drop i cgs) cs, cursor + 136 * length cs)"
  using assms
proof (induction cs arbitrary: i cursor cgs pre)
  case Nil
  then show ?case by (simp add: Cgroups_loop_done)
next
  case (Cons c cs)
  let ?v = "cgroup_context_view (cgs ! i) c"
  have len: "length (pre @ cgroup_context_bytes bo c) = cursor + 136"
    using Cons.prems by (simp add: cgc.enc_length)
  have "Cgroups_loop bo (pre @ concat (map (cgroup_context_bytes bo) (c # cs)) @ rest) i cursor cgs =
      Cgroups_loop bo ((pre @ cgroup_context_bytes bo c) @ concat (map (cgroup_context_bytes bo) cs) @ rest)
        (i + 1) (cursor + 136) (cgs[i := ?v])"
    using Cons.prems by (simp add: Cgroups_loop_step cgc.dec_stream)
  also have "\<dots> = Inr (take (i + 1) (cgs[i := ?v]) @
      map2 cgroup_context_view (drop (i + 1) (cgs[i := ?v])) cs, cursor + 136 + 136 * length cs)"
    using Cons.prems len by (intro Cons.IH) simp_all
  also have "drop (i + 1) (cgs[i := ?v]) = drop (i + 1) cgs" by simp
  also have "take (i + 1) (cgs[i := ?v]) = take i cgs @ [?v]"
    using Cons.prems by (simp add: take_Suc_conv_app_nth)
  finally show ?case
    using Cons.prems by (simp add: Cons_nth_drop_Suc [symmetric])
qed

section \<open>The process context meets the wire contract\<close>

lemma process_width_eq [simp]: "process_width = 2040"
  by (simp add: process_width_def process_const_simps)

lemmas process_decoder_simps =
  ProcessContext_UnmarshalBinary_def process_const_simps go_simps Let_def

text \<open>With the three leading parts in range the decoder is the loop followed by the ids.\<close>

lemma ProcessContext_unfold:
  assumes "128 \<le> length data"
    and "NamespaceContext_UnmarshalBinary bo (pc_NamespaceContext pc) data = Inr (ns, 32)"
    and "CredentialsContext_UnmarshalBinary bo (pc_Credentials pc) (drop 32 data) = Inr (cr, 80)"
    and "Cgroups_loop bo data 0 128 (pc_Cgroups pc) = Inr (cgs, 2032)" and "2040 \<le> length data"
  shows "ProcessContext_UnmarshalBinary bo pc data =
     Inr (pc\<lparr>pc_NamespaceContext := ns, pc_Credentials := cr,
             pc_Comm := string_of_bytes (bytes_Trim 0 (take 16 (drop 112 data))),
             pc_Cgroups := cgs, pc_PID := word_at bo 4 2032 data,
             pc_TID := word_at bo 4 2036 data\<rparr>, 2040)"
proof -
  have "\<not> length data - 2032 < 8" "\<not> length data - 112 < 16" using assms(5) by simp_all
  with assms show ?thesis by (simp add: process_decoder_simps)
qed

lemma ProcessContext_parts:
  assumes "ProcessContext_ok pc" and "2040 \<le> length data"
  obtains ns cr cgs where
    "NamespaceContext_UnmarshalBinary bo (pc_NamespaceContext pc) data = Inr (ns, 32)"
    "CredentialsContext_UnmarshalBinary bo (pc_Credentials pc) (drop 32 data) = Inr (cr, 80)"
    "Cgroups_loop bo data 0 128 (pc_Cgroups pc) = Inr (cgs, 2032)" "length cgs = 14"
proof -
  have "32 \<le> length data" "80 \<le> length (drop 32 data)" using assms(2) by simp_all
  moreover have "\<exists>cgs. Cgroups_loop bo data 0 128 (pc_Cgroups pc) = Inr (cgs, 2032) \<and> length cgs = 14"
    using Cgroups_loop_total [of 0 14 "pc_Cgroups pc" 128 data bo] assms
    by (simp add: ProcessContext_ok_def process_const_simps)
  ultimately show ?thesis
    using that nsc.dec_full [where bo = bo and r = "pc_NamespaceContext pc" and d = data]
      crc.dec_full [where bo = bo and r = "pc_Credentials pc" and d = "drop 32 data"]
    by blast
qed

lemma ProcessContext_full:
  assumes "ProcessContext_ok pc" and "2040 \<le> length data"
  shows "\<exists>x. ProcessContext_ok x \<and> ProcessContext_UnmarshalBinary bo pc data = Inr (x, 2040)"
proof -
  from ProcessContext_parts [OF assms] obtain ns cr cgs where
    "NamespaceContext_UnmarshalBinary bo (pc_NamespaceContext pc) data = Inr (ns, 32)"
    "CredentialsContext_UnmarshalBinary bo (pc_Credentials pc) (drop 32 data) = Inr (cr, 80)"
    "Cgroups_loop bo data 0 128 (pc_Cgroups pc) = Inr (cgs, 2032)" and len: "length cgs = 14" .
  then have "ProcessContext_UnmarshalBinary bo pc data = Inr (pc\<lparr>pc_NamespaceContext := ns,
      pc_Credentials := cr, pc_Comm := string_of_bytes (bytes_Trim 0 (take 16 (drop 112 data))),
      pc_Cgroups := cgs, pc_PID := word_at bo 4 2032 data, pc_TID := word_at bo 4 2036 data\<rparr>, 2040)"
    using assms(2) by (intro ProcessContext_unfold) simp_all
  then show ?thesis using len by (auto simp: ProcessContext_ok_def process_const_simps)
qed

lemma ProcessContext_local:
  assumes "ProcessContext_ok pc" and "2040 \<le> length data"
  shows "ProcessContext_UnmarshalBinary bo pc data = ProcessContext_UnmarshalBinary bo pc (take 2040 data)"
proof -
  from ProcessContext_parts [OF assms] obtain ns cr cgs where
    p: "NamespaceContext_UnmarshalBinary bo (pc_NamespaceContext pc) data = Inr (ns, 32)"
    "CredentialsContext_UnmarshalBinary bo (pc_Credentials pc) (drop 32 data) = Inr (cr, 80)"
    "Cgroups_loop bo data 0 128 (pc_Cgroups pc) = Inr (cgs, 2032)" .
  let ?t = "take 2040 data"
  have t: "NamespaceContext_UnmarshalBinary bo (pc_NamespaceContext pc) ?t = Inr (ns, 32)"
    "CredentialsContext_UnmarshalBinary bo (pc_Credentials pc) (drop 32 ?t) = Inr (cr, 80)"
    "Cgroups_loop bo ?t 0 128 (pc_Cgroups pc) = Inr (cgs, 2032)"
    using p assms nsc.dec_drop_take [where bo = bo and r = "pc_NamespaceContext pc" and k = 0 and w = 2040 and d = data]
      crc.dec_drop_take [where bo = bo and r = "pc_Credentials pc" and k = 32 and w = 2040 and d = data]
      Cgroups_loop_local [of 0 14 "pc_Cgroups pc" 128 2040 data bo]
    by (simp_all add: ProcessContext_ok_def process_const_simps)
  show ?thesis
    using assms(2) by (simp add: ProcessContext_unfold [OF _ p] ProcessContext_unfold [OF _ t] drop_take)
qed

lemma ProcessContext_short:
  assumes "ProcessContext_ok pc" and "length data < 2040"
  shows "is_error (ProcessContext_UnmarshalBinary bo pc data)"
  using TrueI
proof (cases rule: nsc.dec_cases [where bo = bo and r = "pc_NamespaceContext pc" and d = data])
  case (short e)
  then show ?thesis by (simp add: process_decoder_simps)
next
  case ns: (full ns)
  show ?thesis
    using TrueI
  proof (cases rule: crc.dec_cases [where bo = bo and r = "pc_Credentials pc" and d = "drop 32 data"])
    case (short e)
    with ns show ?thesis by (simp add: process_decoder_simps)
  next
    case cr: (full cr)
    show ?thesis
    proof (cases "length data < 128")
      case True
      then have "length data - 112 < 16" using cr(1) by simp
      with True ns cr show ?thesis by (simp add: process_decoder_simps)
    next
      case False
      with ns cr Cgroups_loop_total [of 0 14 "pc_Cgroups pc" 128 data bo] assms show ?thesis
        by (auto simp: process_decoder_simps ProcessContext_ok_def is_error_def split: if_splits)
    qed
  qed
qed

lemma process_context_bytes_split:
  "process_context_bytes bo p =
     (namespace_context_bytes bo (pct_namespaces p) @ credentials_context_bytes bo (pct_credentials p) @
      c_string 16 (pct_comm p)) @ concat (map (cgroup_context_bytes bo) (pct_cgroups p)) @
     put_word bo 4 (pct_pid p) @ put_word bo 4 (pct_tid p)"
  by (simp add: process_context_bytes_def)

lemma length_process_context_bytes: "process_context_ok p \<Longrightarrow> length (process_context_bytes bo p) = 2040"
  by (simp add: process_context_bytes_def process_context_ok_def length_cgroups_bytes
      nsc.enc_length crc.enc_length c_string_ok_def)

lemma ProcessContext_enc:
  assumes "ProcessContext_ok r" and "process_context_ok p"
  shows "ProcessContext_UnmarshalBinary bo r (process_context_bytes bo p) =
     Inr (process_context_view r p, 2040)"
proof -
  let ?d = "process_context_bytes bo p"
  have len: "length ?d = 2040" using assms(2) by (rule length_process_context_bytes)
  have ns: "NamespaceContext_UnmarshalBinary bo (pc_NamespaceContext r) ?d =
      Inr (namespace_context_view (pc_NamespaceContext r) (pct_namespaces p), 32)"
    by (simp add: process_context_bytes_def nsc.dec_stream)
  have cr: "CredentialsContext_UnmarshalBinary bo (pc_Credentials r) (drop 32 ?d) =
      Inr (credentials_context_view (pc_Credentials r) (pct_credentials p), 80)"
    by (simp add: process_context_bytes_def nsc.enc_length crc.dec_stream)
  have cg: "Cgroups_loop bo ?d 0 128 (pc_Cgroups r) =
      Inr (map2 cgroup_context_view (pc_Cgroups r) (pct_cgroups p), 2032)"
    using assms Cgroups_loop_enc [of 0 "pct_cgroups p" "pc_Cgroups r"
        "namespace_context_bytes bo (pct_namespaces p) @ credentials_context_bytes bo (pct_credentials p) @
         c_string 16 (pct_comm p)" 128 bo "put_word bo 4 (pct_pid p) @ put_word bo 4 (pct_tid p)"]
    by (simp add: process_context_bytes_split ProcessContext_ok_def process_context_ok_def
        process_const_simps nsc.enc_length crc.enc_length c_string_ok_def)
  have comm: "take 16 (drop 112 ?d) = c_string 16 (pct_comm p)"
    using assms(2) by (simp add: process_context_bytes_def nsc.enc_length crc.enc_length
        process_context_ok_def c_string_ok_def)
  have ids: "word_at bo 4 2032 ?d = pct_pid p" "word_at bo 4 2036 ?d = pct_tid p"
    using assms(2) by (simp_all add: process_context_bytes_def nsc.enc_length crc.enc_length
        process_context_ok_def c_string_ok_def encoded_simps length_cgroups_bytes)
  show ?thesis
    using assms(2) len
    by (simp add: ProcessContext_unfold [OF _ ns cr cg] comm ids process_context_view_def
        process_context_ok_def Trim_c_string)
qed

interpretation prc: wire_codec "ProcessContext_UnmarshalBinary bo" 2040 ProcessContext_ok
    process_context_ok "process_context_bytes bo" process_context_view for bo
  by unfold_locales
    (auto simp: ProcessContext_short ProcessContext_full ProcessContext_enc
      length_process_context_bytes intro: ProcessContext_local)

end
