(* ===== verification/Module_Events.thy ===== *)
theory Module_Events
  imports Wire
begin

text \<open>
  The event structures of \<^verbatim>\<open>pkg/krie/events/kernel_module.go\<close>, with
  \<open>struct init_module_event_t\<close> and \<open>struct delete_module_event_t\<close> of
  \<^verbatim>\<open>ebpf/krie/hooks/kernel_module.h\<close>.  \<open>LoadedFromMemory\<close> is only ever set: the decoder
  leaves the receiver's flag when the wire value is not 1.
\<close>

definition ModuleNameLen :: nat where "ModuleNameLen = 56"

record InitModuleEvent =
  im_LoadedFromMemory :: bool
  im_Name :: string

definition InitModuleEvent_UnmarshallBinary ::
    "ByteOrder \<Rightarrow> InitModuleEvent \<Rightarrow> bytes \<Rightarrow> (InitModuleEvent \<times> nat) result" where
  "InitModuleEvent_UnmarshallBinary bo e data =
     (if length data < 8 + ModuleNameLen
      then Inl (errGotNeeded ''while parsing InitModuleEvent, got len %d, needed %d: %w''
                  (length data) (8 + ModuleNameLen))
      else
        bindR (rd32 bo data 0 4) (\<lambda>lfm.
        let e = (if lfm = 1 then e\<lparr>im_LoadedFromMemory := True\<rparr> else e) in
        bindR (slice data 8 (8 + ModuleNameLen)) (\<lambda>d.
        bindR (UnmarshalString d ModuleNameLen) (\<lambda>name.
        Inr (e\<lparr>im_Name := name\<rparr>, 8 + ModuleNameLen)))))"

record DeleteModuleEvent =
  dm_Name :: string

definition DeleteModuleEvent_UnmarshallBinary ::
    "DeleteModuleEvent \<Rightarrow> bytes \<Rightarrow> (DeleteModuleEvent \<times> nat) result" where
  "DeleteModuleEvent_UnmarshallBinary dm data =
     (if length data < ModuleNameLen
      then Inl (errGotNeeded ''while parsing DeleteModuleEvent, got len %d, needed %d: %w''
                  (length data) ModuleNameLen)
      else
        bindR (slice data 0 ModuleNameLen) (\<lambda>d.
        Inr (dm\<lparr>dm_Name := string_of_bytes (bytes_Trim 0 d)\<rparr>, ModuleNameLen)))"

section \<open>The kernel side\<close>

record init_module_event_t =
  imt_loaded_from_memory :: u32
  imt_padding :: u32
  imt_name :: string

definition init_module_ok :: "init_module_event_t \<Rightarrow> bool" where
  "init_module_ok s \<longleftrightarrow> c_string_ok 56 (imt_name s)"

definition init_module_bytes :: "ByteOrder \<Rightarrow> init_module_event_t \<Rightarrow> bytes" where
  "init_module_bytes bo s =
     put_word bo 4 (imt_loaded_from_memory s) @ put_word bo 4 (imt_padding s) @
     c_string 56 (imt_name s)"

definition init_module_view :: "InitModuleEvent \<Rightarrow> init_module_event_t \<Rightarrow> InitModuleEvent" where
  "init_module_view r s =
     r\<lparr>im_LoadedFromMemory := im_LoadedFromMemory r \<or> imt_loaded_from_memory s = 1,
       im_Name := imt_name s\<rparr>"

definition delete_module_ok :: "string \<Rightarrow> bool" where
  "delete_module_ok s \<longleftrightarrow> c_string_ok 56 s"

definition delete_module_view :: "DeleteModuleEvent \<Rightarrow> string \<Rightarrow> DeleteModuleEvent" where
  "delete_module_view r s = r\<lparr>dm_Name := s\<rparr>"

section \<open>The wire contract\<close>

interpretation imc: wire_codec "InitModuleEvent_UnmarshallBinary bo" 64 "\<lambda>_. True" init_module_ok
    "init_module_bytes bo" init_module_view for bo
  by unfold_locales
    (auto simp: InitModuleEvent_UnmarshallBinary_def ModuleNameLen_def decoder_simps Let_def
      init_module_bytes_def init_module_view_def encoded_simps init_module_ok_def SplitN2_c_string)

interpretation dmc: wire_codec DeleteModuleEvent_UnmarshallBinary 56 "\<lambda>_. True" delete_module_ok
    "c_string 56" delete_module_view
  by unfold_locales
    (auto simp: DeleteModuleEvent_UnmarshallBinary_def ModuleNameLen_def decoder_simps
      delete_module_view_def delete_module_ok_def Trim_c_string)

end
