(* ===== verification/Trace_Events.thy ===== *)
theory Trace_Events
  imports Wire
begin

text \<open>
  The event structures of \<^verbatim>\<open>pkg/krie/events/ptrace.go\<close> and \<^verbatim>\<open>pkg/krie/events/kprobe.go\<close>,
  with the C structures of \<^verbatim>\<open>ebpf/krie/hooks/ptrace.h\<close> and \<^verbatim>\<open>ebpf/krie/hooks/kprobe.h\<close>.
\<close>

type_synonym MemoryPointer = u64

record PTraceEvent =
  pt_Address :: MemoryPointer
  pt_Request :: u32
  pt_PID :: u32

definition PTraceEvent_UnmarshallBinary ::
    "ByteOrder \<Rightarrow> PTraceEvent \<Rightarrow> bytes \<Rightarrow> (PTraceEvent \<times> nat) result" where
  "PTraceEvent_UnmarshallBinary bo e data =
     (if length data < 16
      then Inl (errGotNeeded ''while parsing PtraceEvent, got len %d, needed %d: %w'' (length data) 16)
      else
        bindR (rd64 bo data 0 8) (\<lambda>addr.
        bindR (rd32 bo data 8 12) (\<lambda>req.
        bindR (rd32 bo data 12 16) (\<lambda>pid.
        Inr (e\<lparr>pt_Address := addr, pt_Request := req, pt_PID := pid\<rparr>, 16)))))"

definition SymbolNameLength :: nat where "SymbolNameLength = 64"

record KProbeEvent =
  kp_Address :: MemoryPointer
  kp_Symbol :: string
  kp_Command :: u32
  kp_Type :: u32

definition KProbeEvent_UnmarshallBinary ::
    "ByteOrder \<Rightarrow> KProbeEvent \<Rightarrow> bytes \<Rightarrow> (KProbeEvent \<times> nat) result" where
  "KProbeEvent_UnmarshallBinary bo e data =
     (if length data < SymbolNameLength + 16
      then Inl (errGotNeeded ''while parsing KProbeEvent, got len %d, needed %d: %w''
                  (length data) (SymbolNameLength + 8))
      else
        bindR (rd64 bo data 0 8) (\<lambda>addr.
        bindR (rd32 bo data 8 12) (\<lambda>cmd.
        bindR (rd32 bo data 12 16) (\<lambda>type.
        bindR (slice data 16 (16 + SymbolNameLength)) (\<lambda>d.
        bindR (UnmarshalString d SymbolNameLength) (\<lambda>symbol.
        Inr (e\<lparr>kp_Address := addr, kp_Command := cmd, kp_Type := type, kp_Symbol := symbol\<rparr>,
             SymbolNameLength + 16)))))))"

section \<open>The kernel side\<close>

record ptrace_event_t =
  ptt_addr :: u64
  ptt_request :: u32
  ptt_pid :: u32

definition ptrace_bytes :: "ByteOrder \<Rightarrow> ptrace_event_t \<Rightarrow> bytes" where
  "ptrace_bytes bo s =
     put_word bo 8 (ptt_addr s) @ put_word bo 4 (ptt_request s) @ put_word bo 4 (ptt_pid s)"

definition ptrace_view :: "PTraceEvent \<Rightarrow> ptrace_event_t \<Rightarrow> PTraceEvent" where
  "ptrace_view r s = r\<lparr>pt_Address := ptt_addr s, pt_Request := ptt_request s, pt_PID := ptt_pid s\<rparr>"

record kprobe_event_t =
  kpt_addr :: u64
  kpt_cmd :: u32
  kpt_kprobe_type :: u32
  kpt_symbol :: string

definition kprobe_ok :: "kprobe_event_t \<Rightarrow> bool" where
  "kprobe_ok s \<longleftrightarrow> c_string_ok 64 (kpt_symbol s)"

definition kprobe_bytes :: "ByteOrder \<Rightarrow> kprobe_event_t \<Rightarrow> bytes" where
  "kprobe_bytes bo s =
     put_word bo 8 (kpt_addr s) @ put_word bo 4 (kpt_cmd s) @ put_word bo 4 (kpt_kprobe_type s) @
     c_string 64 (kpt_symbol s)"

definition kprobe_view :: "KProbeEvent \<Rightarrow> kprobe_event_t \<Rightarrow> KProbeEvent" where
  "kprobe_view r s =
     r\<lparr>kp_Address := kpt_addr s, kp_Command := kpt_cmd s, kp_Type := kpt_kprobe_type s,
       kp_Symbol := kpt_symbol s\<rparr>"

section \<open>The wire contract\<close>

interpretation ptc: wire_codec "PTraceEvent_UnmarshallBinary bo" 16 "\<lambda>_. True" "\<lambda>_. True"
    "ptrace_bytes bo" ptrace_view for bo
  by unfold_locales
    (auto simp: PTraceEvent_UnmarshallBinary_def decoder_simps ptrace_bytes_def ptrace_view_def
      encoded_simps)

interpretation kpc: wire_codec "KProbeEvent_UnmarshallBinary bo" 80 "\<lambda>_. True" kprobe_ok
    "kprobe_bytes bo" kprobe_view for bo
  by unfold_locales
    (auto simp: KProbeEvent_UnmarshallBinary_def SymbolNameLength_def decoder_simps
      kprobe_bytes_def kprobe_view_def encoded_simps kprobe_ok_def SplitN2_c_string)

end
