(* ===== verification/Time_Resolver.thy ===== *)
theory Time_Resolver
  imports Krie_Prelude
begin

text \<open>
  \<^verbatim>\<open>pkg/krie/events/time_resolver.go\<close>.  A \<open>time.Time\<close> is the number of nanoseconds since
  the Unix epoch (an unbounded integer; Go's zero time is 1 January of year 1), a
  \<open>time.Duration\<close> a signed 64-bit count of nanoseconds kept as a \<open>64 word\<close> so that it
  wraps as in Go.  What the code reads from the system (the boot time, the wall clock,
  \<open>CLOCK_MONOTONIC\<close>) is an argument.
\<close>

type_synonym Time = int
type_synonym Duration = "64 word"

definition zero_time :: Time where
  "zero_time = - 62135596800 * 10 ^ 9"

record TimeResolver =
  tr_bootTime :: Time

text \<open>A reading of the clocks: \<open>time.Now()\<close> and \<open>clock_gettime(CLOCK_MONOTONIC)\<close>, which
  may fail.\<close>

record Clock =
  ck_now :: Time
  ck_uptime :: "(int \<times> int) option"

text \<open>\<open>bootTime\<close> is the result of \<open>host.BootTime()\<close>: seconds since the epoch.\<close>

definition NewTimeResolver :: "error + u64 \<Rightarrow> error + TimeResolver" where
  "NewTimeResolver bootTime =
     (case bootTime of
        Inl err \<Rightarrow> Inl err
      | Inr bt \<Rightarrow> Inr \<lparr>tr_bootTime = sint bt * 10 ^ 9\<rparr>)"

text \<open>\<open>Time.Sub\<close> saturates at the range of \<open>Duration\<close>.\<close>

definition time_Sub :: "Time \<Rightarrow> Time \<Rightarrow> Duration" where
  "time_Sub t u = word_of_int (max (- (2 ^ 63)) (min (2 ^ 63 - 1) (t - u)))"

definition time_Add :: "Time \<Rightarrow> Duration \<Rightarrow> Time" where
  "time_Add t d = t + sint d"

definition getUptimeOffset :: "TimeResolver \<Rightarrow> Clock \<Rightarrow> Duration \<times> error option" where
  "getUptimeOffset tr ck =
     (case ck_uptime ck of
        None \<Rightarrow> (0, Some (Errorf ''couldn't get system up time: %w'' [] (Some (ErrExternal ''clock_gettime''))))
      | Some (sec, nsec) \<Rightarrow>
          (time_Sub (ck_now ck) (tr_bootTime tr) - word_of_int (sec * 10 ^ 9 + nsec), None))"

definition ResolveMonotonicTimestamp :: "TimeResolver \<Rightarrow> Clock \<Rightarrow> u64 \<Rightarrow> Time" where
  "ResolveMonotonicTimestamp tr ck timestamp =
     (if timestamp > 0
      then let (offset, _) = getUptimeOffset tr ck
           in time_Add (tr_bootTime tr) (timestamp + offset)
      else zero_time)"

text \<open>\<open>bootTime.UnixNano()\<close> is the wrapped 64-bit nanosecond count.\<close>

definition ApplyBootTime :: "TimeResolver \<Rightarrow> Clock \<Rightarrow> Time \<Rightarrow> Time" where
  "ApplyBootTime tr ck timestamp =
     (if timestamp \<noteq> zero_time
      then let (offset, _) = getUptimeOffset tr ck
           in time_Add timestamp (word_of_int (tr_bootTime tr) + offset)
      else zero_time)"

definition ComputeMonotonicTimestamp :: "TimeResolver \<Rightarrow> Clock \<Rightarrow> Time \<Rightarrow> int" where
  "ComputeMonotonicTimestamp tr ck timestamp =
     (if timestamp \<noteq> zero_time
      then let (offset, _) = getUptimeOffset tr ck
           in sint (time_Sub timestamp (time_Add (tr_bootTime tr) offset))
      else 0)"

section \<open>Lemmas\<close>

lemma sint_word_of_int_in_range:
  "- (2 ^ 63) \<le> k \<Longrightarrow> k \<le> 2 ^ 63 - 1 \<Longrightarrow> sint (word_of_int k :: 64 word) = k"
  by (simp add: sint_sbintrunc' signed_take_bit_int_eq_self)

lemma sint_add_no_overflow:
  fixes a b :: "64 word"
  assumes "- (2 ^ 63) \<le> sint a + sint b" and "sint a + sint b \<le> 2 ^ 63 - 1"
  shows "sint (a + b) = sint a + sint b"
proof -
  have "a + b = word_of_int (sint a + sint b)" by simp
  then show ?thesis using assms by (metis sint_word_of_int_in_range)
qed

lemma sint_time_Sub:
  assumes "- (2 ^ 63) \<le> t - u" and "t - u \<le> 2 ^ 63 - 1"
  shows "sint (time_Sub t u) = t - u"
proof -
  have "max (- (2 ^ 63)) (min (2 ^ 63 - 1) (t - u)) = t - u"
    using assms by simp
  then show ?thesis
    using sint_word_of_int_in_range [OF assms] by (simp only: time_Sub_def)
qed

lemma sint_range64:
  fixes a :: "64 word"
  shows "- (2 ^ 63) \<le> sint a" and "sint a \<le> 2 ^ 63 - 1"
  using sint_ge [of a] sint_lt [of a] by simp_all

section \<open>Properties\<close>

text \<open>The quantities of the two conversions stay inside the range of \<open>Duration\<close>.\<close>

definition no_overflow :: "TimeResolver \<Rightarrow> Clock \<Rightarrow> u64 \<Rightarrow> bool" where
  "no_overflow tr ck ts \<longleftrightarrow>
     (let off = sint (fst (getUptimeOffset tr ck)) in
      0 < sint ts \<and> - (2 ^ 63) \<le> sint ts + off \<and> sint ts + off \<le> 2 ^ 63 - 1 \<and> tr_bootTime tr + off + sint ts \<noteq> zero_time)"



end
