(* ===== verification/Kernel_Event.thy ===== *)
theory Kernel_Event
  imports Wire Time_Resolver
begin

text \<open>
  \<^verbatim>\<open>pkg/krie/events/kernel_event.go\<close>: the header of every event, decoded from
  \<open>struct kernel_event_t\<close> of \<^verbatim>\<open>ebpf/krie/events.h\<close>.
\<close>

type_synonym EventType = u32
type_synonym Action = u32

record KernelEvent =
  ke_Time :: Time
  ke_Retval :: "64 word"
  ke_CPU :: u32
  ke_Type :: EventType
  ke_Action :: Action

definition KernelEvent_UnmarshalBinary ::
    "ByteOrder \<Rightarrow> TimeResolver \<Rightarrow> Clock \<Rightarrow> KernelEvent \<Rightarrow> bytes \<Rightarrow> (KernelEvent \<times> nat) result" where
  "KernelEvent_UnmarshalBinary bo resolver ck ke data =
     (if length data < 32 then Inl (Error ErrNotEnoughData)
      else
        bindR (rd64 bo data 0 8) (\<lambda>ts.
        bindR (rd64 bo data 8 16) (\<lambda>retval.
        bindR (rd32 bo data 16 20) (\<lambda>cpu.
        bindR (rd32 bo data 20 24) (\<lambda>type.
        bindR (rd32 bo data 24 28) (\<lambda>action.
        Inr (ke\<lparr>ke_Time := ResolveMonotonicTimestamp resolver ck ts, ke_Retval := retval,
                ke_CPU := cpu, ke_Type := type, ke_Action := action\<rparr>, 32)))))))"

text \<open>The kernel side.\<close>

record kernel_event_t =
  kt_timestamp :: u64
  kt_retval :: "64 word"
  kt_cpu :: u32
  kt_type :: u32
  kt_action :: u32
  kt_padding :: u32

definition kernel_event_bytes :: "ByteOrder \<Rightarrow> kernel_event_t \<Rightarrow> bytes" where
  "kernel_event_bytes bo k =
     put_word bo 8 (kt_timestamp k) @ put_word bo 8 (kt_retval k) @ put_word bo 4 (kt_cpu k) @
     put_word bo 4 (kt_type k) @ put_word bo 4 (kt_action k) @ put_word bo 4 (kt_padding k)"

definition kernel_event_view ::
    "TimeResolver \<Rightarrow> Clock \<Rightarrow> KernelEvent \<Rightarrow> kernel_event_t \<Rightarrow> KernelEvent" where
  "kernel_event_view tr ck ke k =
     ke\<lparr>ke_Time := ResolveMonotonicTimestamp tr ck (kt_timestamp k), ke_Retval := kt_retval k,
        ke_CPU := kt_cpu k, ke_Type := kt_type k, ke_Action := kt_action k\<rparr>"

section \<open>The decoder meets the wire contract\<close>

interpretation ker: wire_codec "KernelEvent_UnmarshalBinary bo tr ck" 32 "\<lambda>_. True" "\<lambda>_. True"
    "kernel_event_bytes bo" "kernel_event_view tr ck" for bo tr ck
  by unfold_locales
    (auto simp: KernelEvent_UnmarshalBinary_def decoder_simps kernel_event_bytes_def
      kernel_event_view_def encoded_simps)

end
