(* ===== verification/Check_Events.thy ===== *)
theory Check_Events
  imports Trace_Events Kernel_Event
begin

text \<open>
  The events KRIe raises from its own checks: \<^verbatim>\<open>hooked_syscall.go\<close>, \<^verbatim>\<open>event_check.go\<close>,
  the event of \<^verbatim>\<open>kernel_parameter.go\<close> and \<^verbatim>\<open>register_check.go\<close> of \<^verbatim>\<open>pkg/krie/events\<close>, with
  the C structures under \<^verbatim>\<open>ebpf/krie/krie\<close>.  \<open>Syscall\<close> and \<open>IA32Syscall\<close> are Go \<open>int\<close>s
  behind pointers; exactly one of the two pointers is set by the decoder.
\<close>

record KernelSymbol =
  ks_Address :: MemoryPointer
  ks_Symbol :: string
  ks_Module :: string

definition SysCallTable :: u32 where "SysCallTable = 0"
definition X32SysCallTable :: u32 where "X32SysCallTable = 1"
definition IA32SysCallTable :: u32 where "IA32SysCallTable = 2"

record HookedSyscallEvent =
  hs_Syscall :: "int option"
  hs_IA32Syscall :: "int option"
  hs_SyscallTable :: u32
  hs_InitialHandler :: KernelSymbol
  hs_NewHandler :: KernelSymbol

definition HookedSyscallEvent_UnmarshallBinary ::
    "ByteOrder \<Rightarrow> HookedSyscallEvent \<Rightarrow> bytes \<Rightarrow> (HookedSyscallEvent \<times> nat) result" where
  "HookedSyscallEvent_UnmarshallBinary bo e data =
     (if length data < 24
      then Inl (errGotNeeded ''while parsing HookedSyscallEvent, got len %d, needed %d: %w''
                  (length data) 24)
      else
        bindR (rd32 bo data 4 8) (\<lambda>table.
        bindR (rd32 bo data 0 4) (\<lambda>nr.
        let e = (if table = IA32SysCallTable
                 then e\<lparr>hs_SyscallTable := table, hs_Syscall := None, hs_IA32Syscall := Some (uint nr)\<rparr>
                 else e\<lparr>hs_SyscallTable := table, hs_Syscall := Some (uint nr), hs_IA32Syscall := None\<rparr>) in
        bindR (rd64 bo data 8 16) (\<lambda>init.
        bindR (rd64 bo data 16 24) (\<lambda>new.
        Inr (e\<lparr>hs_InitialHandler := (hs_InitialHandler e)\<lparr>ks_Address := init\<rparr>,
               hs_NewHandler := (hs_NewHandler e)\<lparr>ks_Address := new\<rparr>\<rparr>, 24))))))"

record EventCheckEvent =
  ec_CheckedEventType :: EventType

definition EventCheckEvent_UnmarshallBinary ::
    "ByteOrder \<Rightarrow> EventCheckEvent \<Rightarrow> bytes \<Rightarrow> (EventCheckEvent \<times> nat) result" where
  "EventCheckEvent_UnmarshallBinary bo e data =
     (if length data < 4
      then Inl (errGotNeeded ''while parsing EventCheckEvent, got len %d, needed %d: %w'' (length data) 4)
      else bindR (rd32 bo data 0 4) (\<lambda>t. Inr (e\<lparr>ec_CheckedEventType := t\<rparr>, 4)))"

record KernelParameterEvent =
  kv_Parameter :: KernelSymbol
  kv_ExpectedValue :: u64
  kv_ActualValue :: u64

definition KernelParameterEvent_UnmarshallBinary ::
    "ByteOrder \<Rightarrow> KernelParameterEvent \<Rightarrow> bytes \<Rightarrow> (KernelParameterEvent \<times> nat) result" where
  "KernelParameterEvent_UnmarshallBinary bo e data =
     (if length data < 24
      then Inl (errGotNeeded ''while parsing KernelParameterEvent, got len %d, needed %d: %w''
                  (length data) 24)
      else
        bindR (rd64 bo data 0 8) (\<lambda>addr.
        bindR (rd64 bo data 8 16) (\<lambda>expd.
        bindR (rd64 bo data 16 24) (\<lambda>act.
        Inr (e\<lparr>kv_Parameter := (kv_Parameter e)\<lparr>ks_Address := addr\<rparr>,
               kv_ExpectedValue := expd, kv_ActualValue := act\<rparr>, 24)))))"

record RegisterCheckEvent =
  rc_StackPointer :: MemoryPointer
  rc_InstructionPointer :: MemoryPointer
  rc_FramePointer :: MemoryPointer
  rc_HookPoint :: u32

definition RegisterCheckEvent_UnmarshallBinary ::
    "ByteOrder \<Rightarrow> RegisterCheckEvent \<Rightarrow> bytes \<Rightarrow> (RegisterCheckEvent \<times> nat) result" where
  "RegisterCheckEvent_UnmarshallBinary bo e data =
     (if length data < 28
      then Inl (errGotNeeded ''while parsing RegisterCheckEvent, got len %d, needed %d: %w''
                  (length data) 28)
      else
        bindR (rd64 bo data 0 8) (\<lambda>sp.
        bindR (rd64 bo data 8 16) (\<lambda>ip.
        bindR (rd64 bo data 16 24) (\<lambda>fp.
        bindR (rd32 bo data 24 28) (\<lambda>hp.
        Inr (e\<lparr>rc_StackPointer := sp, rc_InstructionPointer := ip, rc_FramePointer := fp,
               rc_HookPoint := hp\<rparr>, 28))))))"

section \<open>The kernel side\<close>

record syscall_table_event_t =
  stt_syscall_nr :: u32
  stt_syscall_table :: u32
  stt_init_addr :: u64
  stt_new_addr :: u64

definition syscall_table_bytes :: "ByteOrder \<Rightarrow> syscall_table_event_t \<Rightarrow> bytes" where
  "syscall_table_bytes bo s =
     put_word bo 4 (stt_syscall_nr s) @ put_word bo 4 (stt_syscall_table s) @
     put_word bo 8 (stt_init_addr s) @ put_word bo 8 (stt_new_addr s)"

definition syscall_table_view ::
    "HookedSyscallEvent \<Rightarrow> syscall_table_event_t \<Rightarrow> HookedSyscallEvent" where
  "syscall_table_view r s =
     r\<lparr>hs_SyscallTable := stt_syscall_table s,
       hs_Syscall := (if stt_syscall_table s = 2 then None else Some (uint (stt_syscall_nr s))),
       hs_IA32Syscall := (if stt_syscall_table s = 2 then Some (uint (stt_syscall_nr s)) else None),
       hs_InitialHandler := (hs_InitialHandler r)\<lparr>ks_Address := stt_init_addr s\<rparr>,
       hs_NewHandler := (hs_NewHandler r)\<lparr>ks_Address := stt_new_addr s\<rparr>\<rparr>"

definition event_check_view :: "EventCheckEvent \<Rightarrow> u32 \<Rightarrow> EventCheckEvent" where
  "event_check_view r t = r\<lparr>ec_CheckedEventType := t\<rparr>"

record kernel_parameter_event_t =
  kvt_addr :: u64
  kvt_expected_value :: u64
  kvt_actual_value :: u64

definition kernel_parameter_bytes :: "ByteOrder \<Rightarrow> kernel_parameter_event_t \<Rightarrow> bytes" where
  "kernel_parameter_bytes bo s =
     put_word bo 8 (kvt_addr s) @ put_word bo 8 (kvt_expected_value s) @
     put_word bo 8 (kvt_actual_value s)"

definition kernel_parameter_view ::
    "KernelParameterEvent \<Rightarrow> kernel_parameter_event_t \<Rightarrow> KernelParameterEvent" where
  "kernel_parameter_view r s =
     r\<lparr>kv_Parameter := (kv_Parameter r)\<lparr>ks_Address := kvt_addr s\<rparr>,
       kv_ExpectedValue := kvt_expected_value s, kv_ActualValue := kvt_actual_value s\<rparr>"

record register_event_t =
  rgt_sp :: u64
  rgt_ip :: u64
  rgt_fp :: u64
  rgt_hookpoint :: u32

definition register_bytes :: "ByteOrder \<Rightarrow> register_event_t \<Rightarrow> bytes" where
  "register_bytes bo s =
     put_word bo 8 (rgt_sp s) @ put_word bo 8 (rgt_ip s) @ put_word bo 8 (rgt_fp s) @
     put_word bo 4 (rgt_hookpoint s)"

definition register_view :: "RegisterCheckEvent \<Rightarrow> register_event_t \<Rightarrow> RegisterCheckEvent" where
  "register_view r s =
     r\<lparr>rc_StackPointer := rgt_sp s, rc_InstructionPointer := rgt_ip s, rc_FramePointer := rgt_fp s,
       rc_HookPoint := rgt_hookpoint s\<rparr>"

section \<open>The wire contract\<close>

interpretation hsc: wire_codec "HookedSyscallEvent_UnmarshallBinary bo" 24 "\<lambda>_. True" "\<lambda>_. True"
    "syscall_table_bytes bo" syscall_table_view for bo
  by unfold_locales
    (auto simp: HookedSyscallEvent_UnmarshallBinary_def decoder_simps Let_def IA32SysCallTable_def
      syscall_table_bytes_def syscall_table_view_def encoded_simps)

interpretation ecc: wire_codec "EventCheckEvent_UnmarshallBinary bo" 4 "\<lambda>_. True" "\<lambda>_. True"
    "put_word bo 4" event_check_view for bo
  by unfold_locales
    (auto simp: EventCheckEvent_UnmarshallBinary_def decoder_simps event_check_view_def encoded_simps)

interpretation kvc: wire_codec "KernelParameterEvent_UnmarshallBinary bo" 24 "\<lambda>_. True" "\<lambda>_. True"
    "kernel_parameter_bytes bo" kernel_parameter_view for bo
  by unfold_locales
    (auto simp: KernelParameterEvent_UnmarshallBinary_def decoder_simps kernel_parameter_bytes_def
      kernel_parameter_view_def encoded_simps)

interpretation rcc: wire_codec "RegisterCheckEvent_UnmarshallBinary bo" 28 "\<lambda>_. True" "\<lambda>_. True"
    "register_bytes bo" register_view for bo
  by unfold_locales
    (auto simp: RegisterCheckEvent_UnmarshallBinary_def decoder_simps register_bytes_def
      register_view_def encoded_simps)

end
