(* ===== verification/Sysctl_Event.thy ===== *)
theory Sysctl_Event
  imports Wire Kernel_Event
begin

text \<open>
  The sysctl event and the sysctl parameters of \<^verbatim>\<open>pkg/krie/events/sysctl.go\<close>.  The event
  carries up to three NUL-terminated strings of variable length; after each of them the
  decoder moves its cursor one byte past the string, where it expects the terminator.
\<close>

type_synonym SysCtlAction = u64

record SysCtlEvent =
  se_WriteAccess :: bool
  se_FilePosition :: u32
  se_Action :: SysCtlAction
  se_Name :: string
  se_CurrentValue :: string
  se_NewValue :: string
  se_NewValueOverriddenWith :: string

definition SysCtlEvent_UnmarshallBinary ::
    "ByteOrder \<Rightarrow> SysCtlEvent \<Rightarrow> bytes \<Rightarrow> (SysCtlEvent \<times> nat) result" where
  "SysCtlEvent_UnmarshallBinary bo e data =
     (if length data < 16
      then Inl (errGotNeeded ''while parsing SysCtlEvent, got len %d, needed %d: %w'' (length data) 16)
      else
        bindR (rd32 bo data 0 4) (\<lambda>wa.
        let e = (if wa = 1 then e\<lparr>se_WriteAccess := True\<rparr> else e) in
        bindR (rd32 bo data 4 8) (\<lambda>fp.
        bindR (rd64 bo data 8 16) (\<lambda>act.
        let e = e\<lparr>se_FilePosition := fp, se_Action := act\<rparr>; cursor = 16 in
        bindR (slice_from data cursor) (\<lambda>d.
        if length d > 0 then
          bindR (UnmarshalString d (length d)) (\<lambda>name.
          let e = e\<lparr>se_Name := name\<rparr>; cursor = cursor + length name + 1 in
          bindR (slice_from data cursor) (\<lambda>d.
          if length d > 0 then
            bindR (UnmarshalString d (length d)) (\<lambda>cur.
            let e = e\<lparr>se_CurrentValue := cur\<rparr>; cursor = cursor + length cur + 1 in
            bindR (slice_from data cursor) (\<lambda>d.
            if length d > 0 then
              bindR (UnmarshalString d (length d)) (\<lambda>new.
              let e = e\<lparr>se_NewValue := new\<rparr>; cursor = cursor + length new + 1 in
              Inr (e, 16 + cursor))
            else Inr (e, 16 + cursor)))
          else Inr (e, 16 + cursor)))
        else Inr (e, 16 + cursor))))))"

record SysCtlParameter =
  sp_BlockWriteAccess :: bool
  sp_BlockReadAccess :: bool
  sp_OverrideInputValueWith :: string

definition SysCtlParameter_MarshalBinary :: "ByteOrder \<Rightarrow> SysCtlParameter \<Rightarrow> bytes result" where
  "SysCtlParameter_MarshalBinary bo scp =
     (let b = replicate 264 0 in
      bindR (st32 bo b 0 4 (word_of_nat (length (sp_OverrideInputValueWith scp)))) (\<lambda>b.
      bindR (if sp_BlockWriteAccess scp then st16 bo b 4 6 1 else Inr b) (\<lambda>b.
      bindR (if sp_BlockReadAccess scp then st16 bo b 6 8 1 else Inr b) (\<lambda>b.
      if length (sp_OverrideInputValueWith scp) > 0
      then bindR (slice b 8 264) (\<lambda>dst.
           Inr (take 8 b @ go_copy dst (bytes_of_string (sp_OverrideInputValueWith scp)) @ drop 264 b))
      else Inr b))))"

record SysCtlOptions =
  so_Action :: Action
  so_Default :: SysCtlParameter
  so_List :: "string \<rightharpoonup> SysCtlParameter"

text \<open>The zero value of the parameter and \<open>NewSysCtlOptions\<close>.\<close>

definition zeroSysCtlParameter :: SysCtlParameter where
  "zeroSysCtlParameter =
     \<lparr>sp_BlockWriteAccess = False, sp_BlockReadAccess = False, sp_OverrideInputValueWith = ''''\<rparr>"

definition NewSysCtlOptions :: SysCtlOptions where
  "NewSysCtlOptions = \<lparr>so_Action = 0, so_Default = zeroSysCtlParameter, so_List = Map.empty\<rparr>"

section \<open>The kernel side\<close>

text \<open>\<open>struct sysctl_parameter_value_t\<close> of \<^verbatim>\<open>ebpf/krie/hooks/sysctl.h\<close>.\<close>

record sysctl_parameter_value_t =
  spt_override_value_length :: u32
  spt_block_write_access :: u16
  spt_block_read_access :: u16
  spt_value :: bytes

definition sysctl_parameter_value_bytes :: "ByteOrder \<Rightarrow> sysctl_parameter_value_t \<Rightarrow> bytes" where
  "sysctl_parameter_value_bytes bo v =
     put_word bo 4 (spt_override_value_length v) @ put_word bo 2 (spt_block_write_access v) @
     put_word bo 2 (spt_block_read_access v) @ spt_value v"

text \<open>The memory image of a sysctl event after the process context: the fixed part and the
  strings the kernel program has copied, each with its terminator.\<close>

definition sysctl_event_bytes :: "ByteOrder \<Rightarrow> u32 \<Rightarrow> u32 \<Rightarrow> u64 \<Rightarrow> string list \<Rightarrow> bytes" where
  "sysctl_event_bytes bo wa fp act strs =
     put_word bo 4 wa @ put_word bo 4 fp @ put_word bo 8 act @
     concat (map (\<lambda>s. bytes_of_string s @ [0]) strs)"

definition no_nul :: "string \<Rightarrow> bool" where
  "no_nul s \<longleftrightarrow> (0::byte) \<notin> set (bytes_of_string s)"

section \<open>Lemmas\<close>

lemma UnmarshalString_whole:
  "UnmarshalString d (length d) = Inr (string_of_bytes (takeWhile (\<lambda>b. b \<noteq> 0) d))"
  by (simp add: UnmarshalString_ok bytes_SplitN2_fst_def)

lemma takeWhile_length_less: "length (takeWhile P xs) < length xs \<longleftrightarrow> (\<exists>x\<in>set xs. \<not> P x)"
  by (induction xs) auto

lemma takeWhile_no_nul:
  "no_nul s \<Longrightarrow> takeWhile (\<lambda>b. b \<noteq> 0) (bytes_of_string s @ 0 # rest) = bytes_of_string s"
  by (subst takeWhile_append2) (auto simp: no_nul_def)

text \<open>The part of the data behind the first NUL.\<close>

definition after_nul :: "bytes \<Rightarrow> bytes" where
  "after_nul d = drop (length (takeWhile (\<lambda>b. b \<noteq> 0) d) + 1) d"

lemma slice_from_after_string:
  "k \<le> length data \<Longrightarrow>
   slice_from data (k + length (takeWhile (\<lambda>b. b \<noteq> 0) (drop k data)) + 1) =
     (if 0 \<in> set (drop k data) then Inr (after_nul (drop k data)) else Inl Panic)"
  using takeWhile_length_less [of "\<lambda>b. b \<noteq> (0::byte)" "drop k data"]
    length_takeWhile_le [of "\<lambda>b. b \<noteq> (0::byte)" "drop k data"]
  by (auto simp: slice_from_def slice_def after_nul_def add.commute add.left_commute)

lemma drop_after_nul:
  "drop (k + length (takeWhile (\<lambda>b. b \<noteq> 0) (drop k data)) + 1) data = after_nul (drop k data)"
  by (simp add: after_nul_def add.commute add.left_commute)

text \<open>The strings of an event, by the shape of the data behind the fixed part.\<close>

definition sysctl_head :: "ByteOrder \<Rightarrow> SysCtlEvent \<Rightarrow> bytes \<Rightarrow> SysCtlEvent" where
  "sysctl_head bo e data =
     e\<lparr>se_WriteAccess := se_WriteAccess e \<or> word_at bo 4 0 data = (1::u32),
       se_FilePosition := word_at bo 4 4 data, se_Action := word_at bo 8 8 data\<rparr>"

definition cstr :: "bytes \<Rightarrow> string" where
  "cstr d = string_of_bytes (takeWhile (\<lambda>b. b \<noteq> 0) d)"

text \<open>The strings read and the number of bytes the cursor moves over.\<close>

definition sysctl_strings :: "SysCtlEvent \<Rightarrow> bytes \<Rightarrow> (SysCtlEvent \<times> nat) result" where
  "sysctl_strings e d =
     (if d = [] then Inr (e, 0)
      else if 0 \<notin> set d then Inl Panic
      else let e = e\<lparr>se_Name := cstr d\<rparr>; n = length (cstr d) + 1; d = after_nul d in
        if d = [] then Inr (e, n)
        else if 0 \<notin> set d then Inl Panic
        else let e = e\<lparr>se_CurrentValue := cstr d\<rparr>; n = n + length (cstr d) + 1; d = after_nul d in
          if d = [] then Inr (e, n)
          else Inr (e\<lparr>se_NewValue := cstr d\<rparr>, n + length (cstr d) + 1))"

lemma SysCtlEvent_decode:
  assumes "16 \<le> length data"
  shows "SysCtlEvent_UnmarshallBinary bo e data =
    map_sum id (\<lambda>(e', n). (e', 32 + n)) (sysctl_strings (sysctl_head bo e data) (drop 16 data))"
proof -
  let ?d = "drop 16 data"
  let ?k = "16 + length (takeWhile (\<lambda>b. b \<noteq> 0) ?d) + 1"
  have s1: "slice_from data ?k = (if 0 \<in> set ?d then Inr (after_nul ?d) else Inl Panic)"
    using slice_from_after_string [OF assms] .
  have s0: "slice_from data 16 = Inr ?d" using assms by (rule slice_from_ok)
  have u0: "UnmarshalString ?d (length data - 16) = Inr (string_of_bytes (takeWhile (\<lambda>b. b \<noteq> 0) ?d))"
    using UnmarshalString_whole [of ?d] by simp
  note fixed = s0 u0 rd32_ok rd64_ok Let_def UnmarshalString_whole sysctl_strings_def sysctl_head_def cstr_def
  show ?thesis
  proof (cases "?d \<noteq> [] \<and> 0 \<in> set ?d")
    case True
    then have "length (takeWhile (\<lambda>b. b \<noteq> 0) ?d) < length ?d"
      by (simp only: takeWhile_length_less) auto
    then have "?k \<le> length data" using assms by simp
    note s2 = slice_from_after_string [OF this, unfolded drop_after_nul]
    from True assms s1 s2 show ?thesis
      by (auto simp: SysCtlEvent_UnmarshallBinary_def fixed)
  next
    case False
    with assms s1 show ?thesis
      by (auto simp: SysCtlEvent_UnmarshallBinary_def fixed)
  qed
qed

lemma SysCtlEvent_short:
  "length data < 16 \<Longrightarrow> is_error (SysCtlEvent_UnmarshallBinary bo e data)"
  by (simp add: SysCtlEvent_UnmarshallBinary_def errGotNeeded_def)

lemma cstr_terminated: "no_nul s \<Longrightarrow> cstr (bytes_of_string s @ 0 # rest) = s"
  by (simp add: cstr_def takeWhile_no_nul)

lemma after_nul_terminated: "no_nul s \<Longrightarrow> after_nul (bytes_of_string s @ 0 # rest) = rest"
  by (simp add: after_nul_def takeWhile_no_nul)

lemma SysCtlEvent_no_error:
  "16 \<le> length data \<Longrightarrow> \<not> is_error (SysCtlEvent_UnmarshallBinary bo e data)"
  by (simp add: SysCtlEvent_decode sysctl_strings_def Let_def)

text \<open>What follows in the record is a string without its terminator.\<close>

definition unterminated :: "bytes \<Rightarrow> bool" where
  "unterminated d \<longleftrightarrow> d \<noteq> [] \<and> 0 \<notin> set d"

section \<open>Properties\<close>

text \<open>The sysctl decoder panics exactly when a string that is followed by another
  read has no terminator: the data behind the fixed part is non-empty and holds no NUL,
  or what follows its first NUL is non-empty and holds no NUL.  In every other case it
  returns.\<close>

lemma sysctl_panics_iff:
  "SysCtlEvent_UnmarshallBinary bo e data = Inl Panic \<longleftrightarrow>
     16 \<le> length data \<and>
     (unterminated (drop 16 data) \<or> unterminated (after_nul (drop 16 data)))"
proof (cases "length data < 16")
  case True
  then show ?thesis using SysCtlEvent_short [OF True, of bo e] by (auto simp: is_error_def)
next
  case False
  then have "16 \<le> length data" by simp
  then show ?thesis
    by (auto simp: SysCtlEvent_decode sysctl_strings_def Let_def unterminated_def after_nul_def)
qed

text \<open>C16: A write event whose name, current value and new value are NUL-terminated is
  decoded to exactly these strings; the byte count the decoder reports is 16 more than
  the data holds, because the fixed part is counted twice.\<close>

theorem sysctl_roundtrip:
  assumes "no_nul name" and "no_nul cur" and "no_nul new"
  shows "SysCtlEvent_UnmarshallBinary bo e (sysctl_event_bytes bo wa fp act [name, cur, new]) =
    Inr (e\<lparr>se_WriteAccess := se_WriteAccess e \<or> wa = 1, se_FilePosition := fp, se_Action := act,
           se_Name := name, se_CurrentValue := cur, se_NewValue := new\<rparr>,
         length (sysctl_event_bytes bo wa fp act [name, cur, new]) + 16)"
proof -
  let ?d = "sysctl_event_bytes bo wa fp act [name, cur, new]"
  have len: "length ?d = 19 + length name + length cur + length new"
    by (simp add: sysctl_event_bytes_def)
  have d: "drop 16 ?d = bytes_of_string name @ 0 # bytes_of_string cur @ 0 # bytes_of_string new @ [0]"
    by (simp add: sysctl_event_bytes_def)
  have w: "word_at bo 4 0 ?d = wa" "word_at bo 4 4 ?d = fp" "word_at bo 8 8 ?d = act"
    by (simp_all add: sysctl_event_bytes_def encoded_simps)
  show ?thesis
    using assms
    by (simp add: SysCtlEvent_decode len d w sysctl_head_def sysctl_strings_def Let_def
        cstr_terminated after_nul_terminated)
qed

theorem sysctl_roundtrip_witness:
  "no_nul ''kernel/kptr_restrict'' \<and> no_nul ''1'' \<and> no_nul ''0'' \<and>
   (\<exists>x n. SysCtlEvent_UnmarshallBinary LittleEndian
     \<lparr>se_WriteAccess = False, se_FilePosition = 0, se_Action = 0, se_Name = [], se_CurrentValue = [],
      se_NewValue = [], se_NewValueOverriddenWith = []\<rparr>
     (sysctl_event_bytes LittleEndian 1 0 2 [''kernel/kptr_restrict'', ''1'', ''0'']) = Inr (x, n) \<and>
     se_NewValue x = ''0'' \<and> se_WriteAccess x)"
proof -
  have h: "no_nul ''kernel/kptr_restrict''" "no_nul ''1''" "no_nul ''0''"
    by (simp_all add: no_nul_def bytes_of_string_def char_byte_def)
  show ?thesis using h sysctl_roundtrip [OF h, of LittleEndian _ 1 0 2] by simp
qed

text \<open>C17: The marshalled form of a sysctl parameter is the memory image of the kernel's
  \<open>struct sysctl_parameter_value_t\<close>: 264 bytes, the flags as 0 or 1, the override value
  cut or padded to 256 bytes, next to the length of the uncut value.\<close>

theorem sysctl_parameter_layout:
  "SysCtlParameter_MarshalBinary bo scp =
     Inr (sysctl_parameter_value_bytes bo
       \<lparr>spt_override_value_length = word_of_nat (length (sp_OverrideInputValueWith scp)),
        spt_block_write_access = of_bool (sp_BlockWriteAccess scp),
        spt_block_read_access = of_bool (sp_BlockReadAccess scp),
        spt_value = take 256 (bytes_of_string (sp_OverrideInputValueWith scp) @ replicate 256 0)\<rparr>)"
proof -
  have z: "put_word bo 2 (0::u16) = replicate 2 0"
    by (cases bo) (simp_all add: put_word_def le_bytes_def numeral_2_eq_2)
  have r: "replicate 260 (0::byte) = replicate 2 0 @ replicate 2 0 @ replicate 256 0"
    by (simp flip: replicate_add)
  show ?thesis
    by (cases "sp_BlockWriteAccess scp"; cases "sp_BlockReadAccess scp")
      (auto simp: SysCtlParameter_MarshalBinary_def Let_def go_simps r
        sysctl_parameter_value_bytes_def z go_copy_def bytes_of_string_def)
qed

end
