(* ===== verification/Bpf_Events.thy ===== *)
theory Bpf_Events
  imports Wire
begin

text \<open>
  The event structures of \<^verbatim>\<open>pkg/krie/events/bpf.go\<close>: the \<open>bpf\<close> system call with the map
  and the program it works on, and the socket filters of \<open>setsockopt\<close>, with the C
  structures of \<^verbatim>\<open>ebpf/krie/hooks/bpf.h\<close> and \<^verbatim>\<open>ebpf/krie/hooks/setsockopt.h\<close>.  The helpers a
  program calls come as a bitmap of 192 bits that \<open>parseHelpers\<close> turns into a list; the
  tag of a program is printed byte by byte and appended to the receiver's text.
\<close>

section \<open>Model\<close>

definition BPFObjectNameLen :: nat where "BPFObjectNameLen = 16"
definition BPFTagLen :: nat where "BPFTagLen = 8"

type_synonym BPFHelperFunc = u32

record BPFMap =
  bm_ID :: u32
  bm_Type :: u32
  bm_Name :: string

definition BPFMap_UnmarshalBinary :: "ByteOrder \<Rightarrow> BPFMap \<Rightarrow> bytes \<Rightarrow> (BPFMap \<times> nat) result" where
  "BPFMap_UnmarshalBinary bo m data =
     (if length data < 8 + BPFObjectNameLen
      then Inl (errGotNeeded ''while parsing BPFMap, got len %d, needed %d: %w'' (length data) 24)
      else
        bindR (rd32 bo data 0 4) (\<lambda>id.
        bindR (rd32 bo data 4 8) (\<lambda>type.
        bindR (slice data 8 (8 + BPFObjectNameLen)) (\<lambda>d.
        bindR (UnmarshalString d BPFObjectNameLen) (\<lambda>name.
        Inr (m\<lparr>bm_ID := id, bm_Type := type, bm_Name := name\<rparr>, 8 + BPFObjectNameLen))))))"

text \<open>One round of the loop of \<open>parseHelpers\<close>: \<open>i\<close> is the Go \<open>int\<close> counter, at most 191,
  so its conversion to \<open>BPFHelperFunc\<close> is exact.\<close>

definition parseHelpers_step :: "u64 list \<Rightarrow> BPFHelperFunc list \<Rightarrow> nat \<Rightarrow> BPFHelperFunc list" where
  "parseHelpers_step helpers rep i =
     (let add = (if i < 64 then helpers ! 0 AND push_bit i 1 = push_bit i 1
                 else if i < 128 then helpers ! 1 AND push_bit (i - 64) 1 = push_bit (i - 64) 1
                 else if i < 192 then helpers ! 2 AND push_bit (i - 128) 1 = push_bit (i - 128) 1
                 else False)
      in if add then rep @ [word_of_nat i] else rep)"

definition parseHelpers :: "u64 list \<Rightarrow> BPFHelperFunc list" where
  "parseHelpers helpers =
     (if length helpers < 3 then [] else foldl (parseHelpers_step helpers) [] [0..<192])"

record BPFProgram =
  bp_ID :: u32
  bp_Type :: u32
  bp_AttachType :: u32
  bp_Helpers :: "BPFHelperFunc list"
  bp_Name :: string
  bp_Tag :: string

definition BPFProgram_UnmarshalBinary ::
    "ByteOrder \<Rightarrow> BPFProgram \<Rightarrow> bytes \<Rightarrow> (BPFProgram \<times> nat) result" where
  "BPFProgram_UnmarshalBinary bo p data =
     (if length data < 64 then Inl (Error ErrNotEnoughData)
      else
        bindR (rd32 bo data 0 4) (\<lambda>id.
        bindR (rd32 bo data 4 8) (\<lambda>type.
        bindR (rd32 bo data 8 12) (\<lambda>attach.
        bindR (rd64 bo data 16 24) (\<lambda>h0.
        bindR (rd64 bo data 24 32) (\<lambda>h1.
        bindR (rd64 bo data 32 40) (\<lambda>h2.
        bindR (slice data 40 (40 + BPFObjectNameLen)) (\<lambda>d.
        bindR (UnmarshalString d BPFObjectNameLen) (\<lambda>name.
        bindR (slice data (40 + BPFObjectNameLen) (40 + BPFObjectNameLen + BPFTagLen)) (\<lambda>t.
        Inr (p\<lparr>bp_ID := id, bp_Type := type, bp_AttachType := attach,
               bp_Helpers := parseHelpers [h0, h1, h2], bp_Name := name,
               bp_Tag := foldl (\<lambda>tag b. tag @ fmt_x (unat b)) (bp_Tag p) t\<rparr>,
             40 + BPFObjectNameLen + BPFTagLen)))))))))))"

record BPFEvent =
  be_Map :: BPFMap
  be_Program :: BPFProgram
  be_Cmd :: u64

definition BPFEvent_UnmarshallBinary ::
    "ByteOrder \<Rightarrow> BPFEvent \<Rightarrow> bytes \<Rightarrow> (BPFEvent \<times> nat) result" where
  "BPFEvent_UnmarshallBinary bo e data =
     (let cursor = 0 in
      bindR (slice_from data cursor) (\<lambda>d.
      bindR (BPFMap_UnmarshalBinary bo (be_Map e) d) (\<lambda>(m, n).
      let cursor = cursor + n in
      bindR (slice_from data cursor) (\<lambda>d.
      bindR (BPFProgram_UnmarshalBinary bo (be_Program e) d) (\<lambda>(p, n).
      let cursor = cursor + n in
      if length data < cursor + 4
      then Inl (errGotNeeded ''while parsing BPFEvent, got len %d, needed %d: %w''
                  (length data) (cursor + 4))
      else bindR (rd32 bo data cursor (cursor + 4)) (\<lambda>cmd.
           Inr (e\<lparr>be_Map := m, be_Program := p, be_Cmd := ucast cmd\<rparr>, cursor + 4)))))))"

text \<open>The serializer points to the map and the program only when they have an id.\<close>

record BPFEventSerializer =
  bs_Map :: "BPFMap option"
  bs_Program :: "BPFProgram option"
  bs_Cmd :: u64

definition NewBPFEventSerializer :: "BPFEvent \<Rightarrow> BPFEventSerializer" where
  "NewBPFEventSerializer e =
     (let s = \<lparr>bs_Map = None, bs_Program = None, bs_Cmd = be_Cmd e\<rparr>;
          s = (if bp_ID (be_Program e) > 0 then s\<lparr>bs_Program := Some (be_Program e)\<rparr> else s)
      in if bm_ID (be_Map e) > 0 then s\<lparr>bs_Map := Some (be_Map e)\<rparr> else s)"

record BPFFilterEvent =
  bf_Cmd :: u32
  bf_Family :: u16
  bf_Type :: u32
  bf_Protocol :: u16
  bf_ProgLen :: u16

definition BPFFilterEvent_UnmarshallBinary ::
    "ByteOrder \<Rightarrow> BPFFilterEvent \<Rightarrow> bytes \<Rightarrow> (BPFFilterEvent \<times> nat) result" where
  "BPFFilterEvent_UnmarshallBinary bo e data =
     (if length data < 16
      then Inl (errGotNeeded ''while parsing BPFFilterEvent, got len %d, needed %d: %w''
                  (length data) 16)
      else
        bindR (rd16 bo data 0 2) (\<lambda>family.
        bindR (rd16 bo data 2 4) (\<lambda>type.
        bindR (rd16 bo data 4 6) (\<lambda>protocol.
        bindR (rd16 bo data 6 8) (\<lambda>progLen.
        bindR (rd32 bo data 8 12) (\<lambda>cmd.
        Inr (e\<lparr>bf_Family := family, bf_Type := ucast type, bf_Protocol := protocol,
               bf_ProgLen := progLen, bf_Cmd := cmd\<rparr>, 16)))))))"

section \<open>The kernel side\<close>

record bpf_map_t =
  bmt_id :: u32
  bmt_map_type :: u32
  bmt_name :: string

definition bpf_map_ok :: "bpf_map_t \<Rightarrow> bool" where
  "bpf_map_ok s \<longleftrightarrow> c_string_ok 16 (bmt_name s)"

definition bpf_map_bytes :: "ByteOrder \<Rightarrow> bpf_map_t \<Rightarrow> bytes" where
  "bpf_map_bytes bo s =
     put_word bo 4 (bmt_id s) @ put_word bo 4 (bmt_map_type s) @ c_string 16 (bmt_name s)"

definition bpf_map_view :: "BPFMap \<Rightarrow> bpf_map_t \<Rightarrow> BPFMap" where
  "bpf_map_view r s = r\<lparr>bm_ID := bmt_id s, bm_Type := bmt_map_type s, bm_Name := bmt_name s\<rparr>"

record bpf_prog_t =
  bpt_id :: u32
  bpt_prog_type :: u32
  bpt_attach_type :: u32
  bpt_padding :: u32
  bpt_helpers0 :: u64
  bpt_helpers1 :: u64
  bpt_helpers2 :: u64
  bpt_name :: string
  bpt_tag :: bytes

definition bpf_prog_ok :: "bpf_prog_t \<Rightarrow> bool" where
  "bpf_prog_ok s \<longleftrightarrow> c_string_ok 16 (bpt_name s) \<and> length (bpt_tag s) = 8"

definition bpf_prog_bytes :: "ByteOrder \<Rightarrow> bpf_prog_t \<Rightarrow> bytes" where
  "bpf_prog_bytes bo s =
     put_word bo 4 (bpt_id s) @ put_word bo 4 (bpt_prog_type s) @ put_word bo 4 (bpt_attach_type s) @
     put_word bo 4 (bpt_padding s) @ put_word bo 8 (bpt_helpers0 s) @ put_word bo 8 (bpt_helpers1 s) @
     put_word bo 8 (bpt_helpers2 s) @ c_string 16 (bpt_name s) @ bpt_tag s"

text \<open>The text the decoder prints for a tag.\<close>

definition tag_text :: "bytes \<Rightarrow> string" where
  "tag_text t = concat (map (\<lambda>b. fmt_x (unat b)) t)"

definition bpf_prog_view :: "BPFProgram \<Rightarrow> bpf_prog_t \<Rightarrow> BPFProgram" where
  "bpf_prog_view r s =
     r\<lparr>bp_ID := bpt_id s, bp_Type := bpt_prog_type s, bp_AttachType := bpt_attach_type s,
       bp_Helpers := parseHelpers [bpt_helpers0 s, bpt_helpers1 s, bpt_helpers2 s],
       bp_Name := bpt_name s, bp_Tag := bp_Tag r @ tag_text (bpt_tag s)\<rparr>"

text \<open>The part of \<open>struct bpf_event_t\<close> behind the process context; its trailing padding is
  not read.\<close>

record bpf_event_t =
  bet_map :: bpf_map_t
  bet_prog :: bpf_prog_t
  bet_cmd :: u32

definition bpf_event_ok :: "bpf_event_t \<Rightarrow> bool" where
  "bpf_event_ok s \<longleftrightarrow> bpf_map_ok (bet_map s) \<and> bpf_prog_ok (bet_prog s)"

definition bpf_event_bytes :: "ByteOrder \<Rightarrow> bpf_event_t \<Rightarrow> bytes" where
  "bpf_event_bytes bo s =
     bpf_map_bytes bo (bet_map s) @ bpf_prog_bytes bo (bet_prog s) @ put_word bo 4 (bet_cmd s)"

definition bpf_event_view :: "BPFEvent \<Rightarrow> bpf_event_t \<Rightarrow> BPFEvent" where
  "bpf_event_view r s =
     r\<lparr>be_Map := bpf_map_view (be_Map r) (bet_map s),
       be_Program := bpf_prog_view (be_Program r) (bet_prog s), be_Cmd := ucast (bet_cmd s)\<rparr>"

record bpf_filter_event_t =
  bft_family :: u16
  bft_type :: u16
  bft_protocol :: u16
  bft_prog_len :: u16
  bft_cmd :: u32
  bft_padding :: u32

definition bpf_filter_bytes :: "ByteOrder \<Rightarrow> bpf_filter_event_t \<Rightarrow> bytes" where
  "bpf_filter_bytes bo s =
     put_word bo 2 (bft_family s) @ put_word bo 2 (bft_type s) @ put_word bo 2 (bft_protocol s) @
     put_word bo 2 (bft_prog_len s) @ put_word bo 4 (bft_cmd s) @ put_word bo 4 (bft_padding s)"

definition bpf_filter_view :: "BPFFilterEvent \<Rightarrow> bpf_filter_event_t \<Rightarrow> BPFFilterEvent" where
  "bpf_filter_view r s =
     r\<lparr>bf_Family := bft_family s, bf_Type := ucast (bft_type s), bf_Protocol := bft_protocol s,
       bf_ProgLen := bft_prog_len s, bf_Cmd := bft_cmd s\<rparr>"

section \<open>Helper bitmaps\<close>

text \<open>The three words read as one bitmap of 192 bits.\<close>

definition helper_bit :: "u64 list \<Rightarrow> nat \<Rightarrow> bool" where
  "helper_bit hs i \<longleftrightarrow> i < 192 \<and> bit (hs ! (i div 64)) (i mod 64)"

lemma and_exp_eq_iff:
  fixes w :: "'a::len word"
  assumes "k < LENGTH('a)"
  shows "w AND 2 ^ k = 2 ^ k \<longleftrightarrow> bit w k"
proof
  assume "w AND 2 ^ k = 2 ^ k"
  then have "bit (w AND 2 ^ k) k" using assms by (simp add: bit_exp_iff)
  then show "bit w k" by (simp add: bit_and_iff)
next
  assume "bit w k"
  then show "w AND 2 ^ k = 2 ^ k"
    by (intro bit_word_eqI) (auto simp: bit_and_iff bit_exp_iff)
qed

lemma helper_word_index:
  fixes i :: nat
  shows "i < 64 \<Longrightarrow> i div 64 = 0 \<and> i mod 64 = i"
    "\<not> i < 64 \<Longrightarrow> i < 128 \<Longrightarrow> i div 64 = 1 \<and> i mod 64 = i - 64"
    "\<not> i < 128 \<Longrightarrow> i < 192 \<Longrightarrow> i div 64 = 2 \<and> i mod 64 = i - 128"
  by (auto simp: div_if mod_if)

lemma parseHelpers_step_bit:
  assumes "i < 192"
  shows "parseHelpers_step hs rep i = (if helper_bit hs i then rep @ [word_of_nat i] else rep)"
proof -
  consider "i < 64" | "\<not> i < 64" "i < 128" | "\<not> i < 128" "i < 192" using assms by linarith
  then show ?thesis
    using assms
    by cases (simp_all add: parseHelpers_step_def helper_bit_def helper_word_index and_exp_eq_iff)
qed

lemma foldl_parseHelpers:
  "(\<forall>i\<in>set is. i < 192) \<Longrightarrow>
     foldl (parseHelpers_step hs) rep is = rep @ map word_of_nat (filter (helper_bit hs) is)"
  by (induction "is" arbitrary: rep) (auto simp: parseHelpers_step_bit)

lemma parseHelpers_filter:
  "3 \<le> length hs \<Longrightarrow> parseHelpers hs = map word_of_nat (filter (helper_bit hs) [0..<192])"
  by (simp add: parseHelpers_def foldl_parseHelpers)

lemma foldl_tag: "foldl (\<lambda>tag b. tag @ fmt_x (unat b)) acc t = acc @ tag_text t"
  by (induction t arbitrary: acc) (simp_all add: tag_text_def)

section \<open>The wire contract\<close>

interpretation bmc: wire_codec "BPFMap_UnmarshalBinary bo" 24 "\<lambda>_. True" bpf_map_ok
    "bpf_map_bytes bo" bpf_map_view for bo
  by unfold_locales
    (auto simp: BPFMap_UnmarshalBinary_def BPFObjectNameLen_def decoder_simps bpf_map_bytes_def
      bpf_map_view_def encoded_simps bpf_map_ok_def SplitN2_c_string)

lemma BPFProgram_decode:
  "64 \<le> length data \<Longrightarrow> BPFProgram_UnmarshalBinary bo p data =
     Inr (p\<lparr>bp_ID := word_at bo 4 0 data, bp_Type := word_at bo 4 4 data,
            bp_AttachType := word_at bo 4 8 data,
            bp_Helpers := parseHelpers [word_at bo 8 16 data, word_at bo 8 24 data, word_at bo 8 32 data],
            bp_Name := string_of_bytes (bytes_SplitN2_fst 0 (take 16 (drop 40 data))),
            bp_Tag := bp_Tag p @ tag_text (take 8 (drop 56 data))\<rparr>, 64)"
  by (simp add: BPFProgram_UnmarshalBinary_def BPFObjectNameLen_def BPFTagLen_def decoder_simps
      foldl_tag)

interpretation bpc: wire_codec "BPFProgram_UnmarshalBinary bo" 64 "\<lambda>_. True" bpf_prog_ok
    "bpf_prog_bytes bo" bpf_prog_view for bo
proof unfold_locales
  fix r :: BPFProgram and d :: bytes assume "length d < 64"
  then show "is_error (BPFProgram_UnmarshalBinary bo r d)"
    by (simp add: BPFProgram_UnmarshalBinary_def)
qed (auto simp: BPFProgram_decode drop_take bpf_prog_bytes_def bpf_prog_ok_def
      bpf_prog_view_def encoded_simps SplitN2_c_string)

lemma BPFEvent_decode_short:
  assumes len: "length d < 92"
  shows "is_error (BPFEvent_UnmarshallBinary bo r d)"
  using TrueI
proof (cases rule: bmc.dec_cases [where bo = bo and r = "be_Map r" and d = d])
  case (short e)
  then show ?thesis by (simp add: BPFEvent_UnmarshallBinary_def)
next
  case (full m)
  show ?thesis
    using TrueI
  proof (cases rule: bpc.dec_cases [where bo = bo and r = "be_Program r" and d = "drop 24 d"])
    case (short e)
    with full show ?thesis by (simp add: BPFEvent_UnmarshallBinary_def slice_from_ok)
  next
    case (full p)
    with \<open>BPFMap_UnmarshalBinary bo (be_Map r) d = Inr (m, 24)\<close> \<open>24 \<le> length d\<close> len
    show ?thesis by (simp add: BPFEvent_UnmarshallBinary_def slice_from_ok errGotNeeded_def)
  qed
qed

lemma BPFEvent_decode_full:
  assumes "92 \<le> length d"
  shows "\<exists>m p. BPFMap_UnmarshalBinary bo (be_Map r) d = Inr (m, 24) \<and>
     BPFProgram_UnmarshalBinary bo (be_Program r) (drop 24 d) = Inr (p, 64) \<and>
     BPFEvent_UnmarshallBinary bo r d =
       Inr (r\<lparr>be_Map := m, be_Program := p, be_Cmd := ucast (word_at bo 4 88 d :: u32)\<rparr>, 92)"
proof -
  from bmc.dec_full [where bo = bo and r = "be_Map r" and d = d] assms
  obtain m where m: "BPFMap_UnmarshalBinary bo (be_Map r) d = Inr (m, 24)" by auto
  from bpc.dec_full [where bo = bo and r = "be_Program r" and d = "drop 24 d"] assms
  obtain p where p: "BPFProgram_UnmarshalBinary bo (be_Program r) (drop 24 d) = Inr (p, 64)" by fastforce
  from m p assms show ?thesis
    by (simp add: BPFEvent_UnmarshallBinary_def slice_from_ok rd32_ok)
qed

interpretation bec: wire_codec "BPFEvent_UnmarshallBinary bo" 92 "\<lambda>_. True" bpf_event_ok
    "bpf_event_bytes bo" bpf_event_view for bo
proof unfold_locales
  fix r :: BPFEvent and d :: bytes assume d: "92 \<le> length d"
  show "\<exists>x. True \<and> BPFEvent_UnmarshallBinary bo r d = Inr (x, 92)"
    using BPFEvent_decode_full [OF d, of bo r] by blast
  show "BPFEvent_UnmarshallBinary bo r d = BPFEvent_UnmarshallBinary bo r (take 92 d)"
  proof -
    have t: "92 \<le> length (take 92 d)" using d by simp
    have "BPFMap_UnmarshalBinary bo (be_Map r) (take 92 d) = BPFMap_UnmarshalBinary bo (be_Map r) d"
      using bmc.dec_drop_take [where k = 0 and w = 92 and d = d] d by simp
    moreover have "BPFProgram_UnmarshalBinary bo (be_Program r) (drop 24 (take 92 d)) =
        BPFProgram_UnmarshalBinary bo (be_Program r) (drop 24 d)"
      using bpc.dec_drop_take [where k = 24 and w = 92 and d = d] d by simp
    ultimately show ?thesis
      using BPFEvent_decode_full [OF d, of bo r] BPFEvent_decode_full [OF t, of bo r] by auto
  qed
next
  fix r :: BPFEvent and s assume s: "bpf_event_ok s"
  let ?e = "bpf_event_bytes bo s"
  have ok: "bpf_map_ok (bet_map s)" "bpf_prog_ok (bet_prog s)" using s by (simp_all add: bpf_event_ok_def)
  have lm: "length (bpf_map_bytes bo (bet_map s)) = 24" using ok by (simp add: bmc.enc_length)
  have lp: "length (bpf_prog_bytes bo (bet_prog s)) = 64" using ok by (simp add: bpc.enc_length)
  show len: "length ?e = 92" using lm lp by (simp add: bpf_event_bytes_def)
  have "BPFMap_UnmarshalBinary bo (be_Map r) ?e = Inr (bpf_map_view (be_Map r) (bet_map s), 24)"
    unfolding bpf_event_bytes_def by (rule bmc.dec_stream) (simp_all add: ok)
  moreover have "BPFProgram_UnmarshalBinary bo (be_Program r) (drop 24 ?e) =
      Inr (bpf_prog_view (be_Program r) (bet_prog s), 64)"
    unfolding bpf_event_bytes_def by (rule bpc.dec_stream_at) (simp_all add: ok lm)
  moreover have "word_at bo 4 88 ?e = bet_cmd s"
    by (simp add: bpf_event_bytes_def lm lp encoded_simps)
  ultimately show "BPFEvent_UnmarshallBinary bo r ?e = Inr (bpf_event_view r s, 92)"
    using BPFEvent_decode_full [of ?e bo r] len by (auto simp: bpf_event_view_def)
qed (rule BPFEvent_decode_short)

interpretation bfc: wire_codec "BPFFilterEvent_UnmarshallBinary bo" 16 "\<lambda>_. True" "\<lambda>_. True"
    "bpf_filter_bytes bo" bpf_filter_view for bo
  by unfold_locales
    (auto simp: BPFFilterEvent_UnmarshallBinary_def decoder_simps bpf_filter_bytes_def
      bpf_filter_view_def encoded_simps)

section \<open>Properties\<close>

text \<open>C30: \<open>parseHelpers\<close> lists exactly the set bits of the 192-bit bitmap, each once and in
  increasing order; the kernel side sets bit \<open>f\<close> for a call to helper \<open>f\<close>.\<close>

theorem parseHelpers_bits:
  assumes "3 \<le> length hs"
  shows "set (parseHelpers hs) = word_of_nat ` {i. helper_bit hs i} \<and>
    sorted_wrt (<) (map unat (parseHelpers hs))"
proof
  show "set (parseHelpers hs) = word_of_nat ` {i. helper_bit hs i}"
    using assms by (auto simp: parseHelpers_filter helper_bit_def)
next
  let ?l = "filter (helper_bit hs) [0..<192]"
  have "map unat (map word_of_nat ?l :: u32 list) = ?l"
    by (simp add: comp_def) (rule map_idI, auto simp: unat_of_nat take_bit_nat_def)
  moreover have "sorted_wrt (<) ?l"
    by (intro sorted_wrt_filter) (rule sorted_wrt_upt)
  ultimately show "sorted_wrt (<) (map unat (parseHelpers hs))"
    using assms by (simp only: parseHelpers_filter)
qed

theorem parseHelpers_bits_witness:
  "(3::nat) \<le> length [0x42, 0x1, 0 :: u64] \<and>
   set (parseHelpers [0x42, 0x1, 0]) = word_of_nat ` {i. helper_bit [0x42, 0x1, 0] i} \<and>
   sorted_wrt (<) (map unat (parseHelpers [0x42, 0x1, 0]))"
  using parseHelpers_bits [of "[0x42, 0x1, 0]"] by simp

text \<open>The text of a program tag does not determine the tag: each byte is printed in
  hexadecimal without padding, so two different programs can be reported with the same
  tag.\<close>

lemma bpf_tag_ambiguous:
  "\<exists>d d' p p'. length d = 64 \<and> length d' = 64 \<and> drop 56 d \<noteq> drop 56 d' \<and>
     BPFProgram_UnmarshalBinary LittleEndian r d = Inr (p, 64) \<and>
     BPFProgram_UnmarshalBinary LittleEndian r d' = Inr (p', 64) \<and> bp_Tag p = bp_Tag p'"
proof -
  let ?z = "replicate 56 (0::byte)"
  let ?d = "?z @ [0x01, 0x23, 0, 0, 0, 0, 0, 0]" and ?d' = "?z @ [0x12, 0x03, 0, 0, 0, 0, 0, 0]"
  have "tag_text [0x01, 0x23, 0, 0, 0, 0, 0, 0] = tag_text [0x12, 0x03, 0, 0, 0, 0, 0, 0]"
    by (simp add: tag_text_def nat_base.simps digit_char_def)
  then show ?thesis
    by (intro exI [of _ ?d] exI [of _ ?d']) (simp add: BPFProgram_decode)
qed

end
