(* ===== verification/Constant_Tables.thy ===== *)
theory Constant_Tables
  imports Krie_Prelude
begin

text \<open>
  The constant blocks and the name tables of \<^verbatim>\<open>pkg/krie/events/constants.go\<close>.  A block
  declared with \<open>iota\<close> is the list of its identifiers in declaration order, and the value of
  an identifier is its position (plus the offset of the block); a block with explicit
  values is the list of its identifiers and values.  A name table is the list of its
  entries as the map literal writes them, each key with the value of the identifier it
  names; the values of the tables over \<^verbatim>\<open>golang.org/x/sys/unix\<close> are a parameter \<open>unix\<close>.
\<close>

fun position :: "'a \<Rightarrow> 'a list \<Rightarrow> nat" where
  "position x [] = 0"
| "position x (y # ys) = (if x = y then 0 else Suc (position x ys))"

text \<open>A map literal over an \<open>iota\<close> block, over a block of explicit values, and over
  imported constants.\<close>

definition iota_table :: "nat \<Rightarrow> string list \<Rightarrow> (string \<times> string) list \<Rightarrow> (string \<times> 'a::len word) list" where
  "iota_table off block = map (\<lambda>(k, c). (k, word_of_nat (off + position c block)))"

definition value_table ::
    "(string \<times> 'a::len word) list \<Rightarrow> (string \<times> string) list \<Rightarrow> (string \<times> 'a word) list" where
  "value_table block = map (\<lambda>(k, c). (k, case map_of block c of Some v \<Rightarrow> v | None \<Rightarrow> 0))"

definition unix_table :: "(string \<Rightarrow> 'a) \<Rightarrow> (string \<times> string) list \<Rightarrow> (string \<times> 'a) list" where
  "unix_table unix = map (\<lambda>(k, c). (k, unix c))"

section \<open>Constant blocks\<close>

definition Action_consts :: "string list" where
  "Action_consts =
    [''NopAction'', ''LogAction'', ''BlockAction'', ''KillAction'', ''ParanoidAction'']"

definition L3Protocol_consts_0 :: "(string \<times> u16) list" where
  "L3Protocol_consts_0 =
    [(''EthPLOOP'', 0x0060), (''EthPPUP'', 0x0200), (''EthPPUPAT'', 0x0201),
     (''EthPTSN'', 0x22F0), (''EthPIP'', 0x0800), (''EthPX25'', 0x0805), (''EthPARP'', 0x0806),
     (''EthPBPQ'', 0x08FF), (''EthPIEEEPUP'', 0x0a00), (''EthPIEEEPUPAT'', 0x0a01),
     (''EthPBATMAN'', 0x4305), (''EthPDEC'', 0x6000), (''EthPDNADL'', 0x6001),
     (''EthPDNARC'', 0x6002), (''EthPDNART'', 0x6003), (''EthPLAT'', 0x6004),
     (''EthPDIAG'', 0x6005), (''EthPCUST'', 0x6006), (''EthPSCA'', 0x6007),
     (''EthPTEB'', 0x6558), (''EthPRARP'', 0x8035), (''EthPATALK'', 0x809B),
     (''EthPAARP'', 0x80F3), (''EthP8021Q'', 0x8100), (''EthPERSPAN'', 0x88BE),
     (''EthPIPX'', 0x8137), (''EthPIPV6'', 0x86DD), (''EthPPAUSE'', 0x8808),
     (''EthPSLOW'', 0x8809), (''EthPWCCP'', 0x883E), (''EthPMPLSUC'', 0x8847),
     (''EthPMPLSMC'', 0x8848), (''EthPATMMPOA'', 0x884c), (''EthPPPPDISC'', 0x8863),
     (''EthPPPPSES'', 0x8864), (''EthPLinkCTL'', 0x886c), (''EthPATMFATE'', 0x8884),
     (''EthPPAE'', 0x888E), (''EthPAOE'', 0x88A2), (''EthP8021AD'', 0x88A8),
     (''EthP802EX1'', 0x88B5), (''EthPTIPC'', 0x88CA), (''EthPMACSEC'', 0x88E5),
     (''EthP8021AH'', 0x88E7), (''EthPMVRP'', 0x88F5), (''EthP1588'', 0x88F7),
     (''EthPNCSI'', 0x88F8), (''EthPPRP'', 0x88FB), (''EthPFCOE'', 0x8906),
     (''EthPIBOE'', 0x8915), (''EthPTDLS'', 0x890D), (''EthPFIP'', 0x8914),
     (''EthP80221'', 0x8917), (''EthPHSR'', 0x892F), (''EthPNSH'', 0x894F),
     (''EthPLOOPBACK'', 0x9000), (''EthPQINQ1'', 0x9100), (''EthPQINQ2'', 0x9200),
     (''EthPQINQ3'', 0x9300), (''EthPEDSA'', 0xDADA), (''EthPIFE'', 0xED3E),
     (''EthPAFIUCV'', 0xFBFB), (''EthP8023MIN'', 0x0600), (''EthPIPV6HopByHop'', 0x000),
     (''EthP8023'', 0x0001), (''EthPAX25'', 0x0002), (''EthPALL'', 0x0003),
     (''EthP8022'', 0x0004), (''EthPSNAP'', 0x0005), (''EthPDDCMP'', 0x0006),
     (''EthPWANPPP'', 0x0007), (''EthPPPPMP'', 0x0008)]"

definition L3Protocol_consts_1 :: "(string \<times> u16) list" where
  "L3Protocol_consts_1 =
    [(''EthPLOCALTALK'', 0x0009), (''EthPCAN'', 0x000C), (''EthPCANFD'', 0x000D),
     (''EthPPPPTALK'', 0x0010), (''EthPTR8022'', 0x0011), (''EthPMOBITEX'', 0x0015),
     (''EthPCONTROL'', 0x0016), (''EthPIRDA'', 0x0017), (''EthPECONET'', 0x0018),
     (''EthPHDLC'', 0x0019), (''EthPARCNET'', 0x001A), (''EthPDSA'', 0x001B),
     (''EthPTRAILER'', 0x001C), (''EthPPHONET'', 0x00F5), (''EthPIEEE802154'', 0x00F6),
     (''EthPCAIF'', 0x00F7), (''EthPXDSA'', 0x00F8), (''EthPMAP'', 0x00F9)]"

definition L3Protocol_consts :: "(string \<times> u16) list" where
  "L3Protocol_consts = L3Protocol_consts_0 @ L3Protocol_consts_1"

lemmas L3Protocol_consts_flat = L3Protocol_consts_def [unfolded L3Protocol_consts_0_def L3Protocol_consts_1_def append_Cons append_Nil]

definition BPFCmd_consts :: "string list" where
  "BPFCmd_consts =
    [''BpfMapCreateCmd'', ''BpfMapLookupElemCmd'', ''BpfMapUpdateElemCmd'',
     ''BpfMapDeleteElemCmd'', ''BpfMapGetNextKeyCmd'', ''BpfProgLoadCmd'', ''BpfObjPinCmd'',
     ''BpfObjGetCmd'', ''BpfProgAttachCmd'', ''BpfProgDetachCmd'', ''BpfProgTestRunCmd'',
     ''BpfProgGetNextIDCmd'', ''BpfMapGetNextIDCmd'', ''BpfProgGetFdByIDCmd'',
     ''BpfMapGetFdByIDCmd'', ''BpfObjGetInfoByFdCmd'', ''BpfProgQueryCmd'',
     ''BpfRawTracepointOpenCmd'', ''BpfBtfLoadCmd'', ''BpfBtfGetFdByIDCmd'',
     ''BpfTaskFdQueryCmd'', ''BpfMapLookupAndDeleteElemCmd'', ''BpfMapFreezeCmd'',
     ''BpfBtfGetNextIDCmd'', ''BpfMapLookupBatchCmd'', ''BpfMapLookupAndDeleteBatchCmd'',
     ''BpfMapUpdateBatchCmd'', ''BpfMapDeleteBatchCmd'', ''BpfLinkCreateCmd'',
     ''BpfLinkUpdateCmd'', ''BpfLinkGetFdByIDCmd'', ''BpfLinkGetNextIDCmd'',
     ''BpfEnableStatsCmd'', ''BpfIterCreateCmd'', ''BpfLinkDetachCmd'', ''BpfProgBindMapCmd'']"

definition BPFFilterCmd_consts :: "(string \<times> u32) list" where
  "BPFFilterCmd_consts =
    [(''SoAttachFilter'', 26), (''SoDetachFilter'', 27), (''SoLockFilter'', 44)]"

definition BPFHelperFunc_consts_0 :: "string list" where
  "BPFHelperFunc_consts_0 =
    [''BpfUnspec'', ''BpfMapLookupElem'', ''BpfMapUpdateElem'', ''BpfMapDeleteElem'',
     ''BpfProbeRead'', ''BpfKtimeGetNs'', ''BpfTracePrintk'', ''BpfGetPrandomU32'',
     ''BpfGetSmpProcessorID'', ''BpfSkbStoreBytes'', ''BpfL3CsumReplace'',
     ''BpfL4CsumReplace'', ''BpfTailCall'', ''BpfCloneRedirect'', ''BpfGetCurrentPidTgid'',
     ''BpfGetCurrentUIDGid'', ''BpfGetCurrentComm'', ''BpfGetCgroupClassid'',
     ''BpfSkbVlanPush'', ''BpfSkbVlanPop'', ''BpfSkbGetTunnelKey'', ''BpfSkbSetTunnelKey'',
     ''BpfPerfEventRead'', ''BpfRedirect'', ''BpfGetRouteRealm'', ''BpfPerfEventOutput'',
     ''BpfSkbLoadBytes'', ''BpfGetStackid'', ''BpfCsumDiff'', ''BpfSkbGetTunnelOpt'',
     ''BpfSkbSetTunnelOpt'', ''BpfSkbChangeProto'', ''BpfSkbChangeType'',
     ''BpfSkbUnderCgroup'', ''BpfGetHashRecalc'', ''BpfGetCurrentTask'', ''BpfProbeWriteUser'',
     ''BpfCurrentTaskUnderCgroup'', ''BpfSkbChangeTail'', ''BpfSkbPullData'',
     ''BpfCsumUpdate'', ''BpfSetHashInvalid'', ''BpfGetNumaNodeID'', ''BpfSkbChangeHead'',
     ''BpfXdpAdjustHead'', ''BpfProbeReadStr'', ''BpfGetSocketCookie'', ''BpfGetSocketUID'',
     ''BpfSetHash'', ''BpfSetsockopt'', ''BpfSkbAdjustRoom'', ''BpfRedirectMap'',
     ''BpfSkRedirectMap'', ''BpfSockMapUpdate'', ''BpfXdpAdjustMeta'',
     ''BpfPerfEventReadValue'', ''BpfPerfProgReadValue'', ''BpfGetsockopt'',
     ''BpfOverrideReturn'', ''BpfSockOpsCbFlagsSet'', ''BpfMsgRedirectMap'',
     ''BpfMsgApplyBytes'', ''BpfMsgCorkBytes'', ''BpfMsgPullData'', ''BpfBind'',
     ''BpfXdpAdjustTail'', ''BpfSkbGetXfrmState'', ''BpfGetStack'',
     ''BpfSkbLoadBytesRelative'', ''BpfFibLookup'', ''BpfSockHashUpdate'',
     ''BpfMsgRedirectHash'']"

definition BPFHelperFunc_consts_1 :: "string list" where
  "BPFHelperFunc_consts_1 =
    [''BpfSkRedirectHash'', ''BpfLwtPushEncap'', ''BpfLwtSeg6StoreBytes'',
     ''BpfLwtSeg6AdjustSrh'', ''BpfLwtSeg6Action'', ''BpfRcRepeat'', ''BpfRcKeydown'',
     ''BpfSkbCgroupID'', ''BpfGetCurrentCgroupID'', ''BpfGetLocalStorage'',
     ''BpfSkSelectReuseport'', ''BpfSkbAncestorCgroupID'', ''BpfSkLookupTCP'',
     ''BpfSkLookupUDP'', ''BpfSkRelease'', ''BpfMapPushElem'', ''BpfMapPopElem'',
     ''BpfMapPeekElem'', ''BpfMsgPushData'', ''BpfMsgPopData'', ''BpfRcPointerRel'',
     ''BpfSpinLock'', ''BpfSpinUnlock'', ''BpfSkFullsock'', ''BpfTCPSock'', ''BpfSkbEcnSetCe'',
     ''BpfGetListenerSock'', ''BpfSkcLookupTCP'', ''BpfTCPCheckSyncookie'',
     ''BpfSysctlGetName'', ''BpfSysctlGetCurrentValue'', ''BpfSysctlGetNewValue'',
     ''BpfSysctlSetNewValue'', ''BpfStrtol'', ''BpfStrtoul'', ''BpfSkStorageGet'',
     ''BpfSkStorageDelete'', ''BpfSendSignal'', ''BpfTCPGenSyncookie'', ''BpfSkbOutput'',
     ''BpfProbeReadUser'', ''BpfProbeReadKernel'', ''BpfProbeReadUserStr'',
     ''BpfProbeReadKernelStr'', ''BpfTCPSendAck'', ''BpfSendSignalThread'', ''BpfJiffies64'',
     ''BpfReadBranchRecords'', ''BpfGetNsCurrentPidTgid'', ''BpfXdpOutput'',
     ''BpfGetNetnsCookie'', ''BpfGetCurrentAncestorCgroupID'', ''BpfSkAssign'',
     ''BpfKtimeGetBootNs'', ''BpfSeqPrintf'', ''BpfSeqWrite'', ''BpfSkCgroupID'',
     ''BpfSkAncestorCgroupID'', ''BpfRingbufOutput'', ''BpfRingbufReserve'',
     ''BpfRingbufSubmit'', ''BpfRingbufDiscard'', ''BpfRingbufQuery'', ''BpfCsumLevel'',
     ''BpfSkcToTCP6Sock'', ''BpfSkcToTCPSock'', ''BpfSkcToTCPTimewaitSock'',
     ''BpfSkcToTCPRequestSock'', ''BpfSkcToUDP6Sock'', ''BpfGetTaskStack'', ''BpfLoadHdrOpt'',
     ''BpfStoreHdrOpt'']"

definition BPFHelperFunc_consts_2 :: "string list" where
  "BPFHelperFunc_consts_2 =
    [''BpfReserveHdrOpt'', ''BpfInodeStorageGet'', ''BpfInodeStorageDelete'', ''BpfDPath'',
     ''BpfCopyFromUser'', ''BpfSnprintfBtf'', ''BpfSeqPrintfBtf'', ''BpfSkbCgroupClassid'',
     ''BpfRedirectNeigh'', ''BpfPerCPUPtr'', ''BpfThisCPUPtr'', ''BpfRedirectPeer'',
     ''BpfTaskStorageGet'', ''BpfTaskStorageDelete'', ''BpfGetCurrentTaskBtf'',
     ''BpfBprmOptsSet'', ''BpfKtimeGetCoarseNs'', ''BpfImaInodeHash'', ''BpfSockFromFile'',
     ''BpfCheckMtu'', ''BpfForEachMapElem'', ''BpfSnprintf'']"

definition BPFHelperFunc_consts :: "string list" where
  "BPFHelperFunc_consts = BPFHelperFunc_consts_0 @ BPFHelperFunc_consts_1 @ BPFHelperFunc_consts_2"

lemmas BPFHelperFunc_consts_flat = BPFHelperFunc_consts_def [unfolded BPFHelperFunc_consts_0_def BPFHelperFunc_consts_1_def BPFHelperFunc_consts_2_def append_Cons append_Nil]

definition BPFMapType_consts :: "string list" where
  "BPFMapType_consts =
    [''BpfMapTypeUnspec'', ''BpfMapTypeHash'', ''BpfMapTypeArray'', ''BpfMapTypeProgArray'',
     ''BpfMapTypePerfEventArray'', ''BpfMapTypePercpuHash'', ''BpfMapTypePercpuArray'',
     ''BpfMapTypeStackTrace'', ''BpfMapTypeCgroupArray'', ''BpfMapTypeLruHash'',
     ''BpfMapTypeLruPercpuHash'', ''BpfMapTypeLpmTrie'', ''BpfMapTypeArrayOfMaps'',
     ''BpfMapTypeHashOfMaps'', ''BpfMapTypeDevmap'', ''BpfMapTypeSockmap'',
     ''BpfMapTypeCPUmap'', ''BpfMapTypeXskmap'', ''BpfMapTypeSockhash'',
     ''BpfMapTypeCgroupStorage'', ''BpfMapTypeReuseportSockarray'',
     ''BpfMapTypePercpuCgroupStorage'', ''BpfMapTypeQueue'', ''BpfMapTypeStack'',
     ''BpfMapTypeSkStorage'', ''BpfMapTypeDevmapHash'', ''BpfMapTypeStructOps'',
     ''BpfMapTypeRingbuf'', ''BpfMapTypeInodeStorage'', ''BpfMapTypeTaskStorage'']"

definition BPFProgramType_consts :: "string list" where
  "BPFProgramType_consts =
    [''BpfProgTypeUnspec'', ''BpfProgTypeSocketFilter'', ''BpfProgTypeKprobe'',
     ''BpfProgTypeSchedCls'', ''BpfProgTypeSchedAct'', ''BpfProgTypeTracepoint'',
     ''BpfProgTypeXdp'', ''BpfProgTypePerfEvent'', ''BpfProgTypeCgroupSkb'',
     ''BpfProgTypeCgroupSock'', ''BpfProgTypeLwtIn'', ''BpfProgTypeLwtOut'',
     ''BpfProgTypeLwtXmit'', ''BpfProgTypeSockOps'', ''BpfProgTypeSkSkb'',
     ''BpfProgTypeCgroupDevice'', ''BpfProgTypeSkMsg'', ''BpfProgTypeRawTracepoint'',
     ''BpfProgTypeCgroupSockAddr'', ''BpfProgTypeLwtSeg6local'', ''BpfProgTypeLircMode2'',
     ''BpfProgTypeSkReuseport'', ''BpfProgTypeFlowDissector'', ''BpfProgTypeCgroupSysctl'',
     ''BpfProgTypeRawTracepointWritable'', ''BpfProgTypeCgroupSockopt'',
     ''BpfProgTypeTracing'', ''BpfProgTypeStructOps'', ''BpfProgTypeExt'', ''BpfProgTypeLsm'',
     ''BpfProgTypeSkLookup'']"

definition BPFAttachType_consts :: "string list" where
  "BPFAttachType_consts =
    [''BpfCgroupInetIngress'', ''BpfCgroupInetEgress'', ''BpfCgroupInetSockCreate'',
     ''BpfCgroupSockOps'', ''BpfSkSkbStreamParser'', ''BpfSkSkbStreamVerdict'',
     ''BpfCgroupDevice'', ''BpfSkMsgVerdict'', ''BpfCgroupInet4Bind'', ''BpfCgroupInet6Bind'',
     ''BpfCgroupInet4Connect'', ''BpfCgroupInet6Connect'', ''BpfCgroupInet4PostBind'',
     ''BpfCgroupInet6PostBind'', ''BpfCgroupUDP4Sendmsg'', ''BpfCgroupUDP6Sendmsg'',
     ''BpfLircMode2'', ''BpfFlowDissector'', ''BpfCgroupSysctl'', ''BpfCgroupUDP4Recvmsg'',
     ''BpfCgroupUDP6Recvmsg'', ''BpfCgroupGetsockopt'', ''BpfCgroupSetsockopt'',
     ''BpfTraceRawTp'', ''BpfTraceFentry'', ''BpfTraceFexit'', ''BpfModifyReturn'',
     ''BpfLsmMac'', ''BpfTraceIter'', ''BpfCgroupInet4Getpeername'',
     ''BpfCgroupInet6Getpeername'', ''BpfCgroupInet4Getsockname'',
     ''BpfCgroupInet6Getsockname'', ''BpfXdpDevmap'', ''BpfCgroupInetSockRelease'',
     ''BpfXdpCPUmap'', ''BpfSkLookup'', ''BpfXdp'', ''BpfSkSkbVerdict'']"

section \<open>Name tables\<close>

definition BPFCmdConstants :: "(string \<times> u64) list" where
  "BPFCmdConstants = iota_table 0 BPFCmd_consts
    [(''BPF_MAP_CREATE'', ''BpfMapCreateCmd''),
     (''BPF_MAP_LOOKUP_ELEM'', ''BpfMapLookupElemCmd''),
     (''BPF_MAP_UPDATE_ELEM'', ''BpfMapUpdateElemCmd''),
     (''BPF_MAP_DELETE_ELEM'', ''BpfMapDeleteElemCmd''),
     (''BPF_MAP_GET_NEXT_KEY'', ''BpfMapGetNextKeyCmd''),
     (''BPF_PROG_LOAD'', ''BpfProgLoadCmd''), (''BPF_OBJ_PIN'', ''BpfObjPinCmd''),
     (''BPF_OBJ_GET'', ''BpfObjGetCmd''), (''BPF_PROG_ATTACH'', ''BpfProgAttachCmd''),
     (''BPF_PROG_DETACH'', ''BpfProgDetachCmd''),
     (''BPF_PROG_TEST_RUN'', ''BpfProgTestRunCmd''), (''BPF_PROG_RUN'', ''BpfProgTestRunCmd''),
     (''BPF_PROG_GET_NEXT_ID'', ''BpfProgGetNextIDCmd''),
     (''BPF_MAP_GET_NEXT_ID'', ''BpfMapGetNextIDCmd''),
     (''BPF_PROG_GET_FD_BY_ID'', ''BpfProgGetFdByIDCmd''),
     (''BPF_MAP_GET_FD_BY_ID'', ''BpfMapGetFdByIDCmd''),
     (''BPF_OBJ_GET_INFO_BY_FD'', ''BpfObjGetInfoByFdCmd''),
     (''BPF_PROG_QUERY'', ''BpfProgQueryCmd''),
     (''BPF_RAW_TRACEPOINT_OPEN'', ''BpfRawTracepointOpenCmd''),
     (''BPF_BTF_LOAD'', ''BpfBtfLoadCmd''), (''BPF_BTF_GET_FD_BY_ID'', ''BpfBtfGetFdByIDCmd''),
     (''BPF_TASK_FD_QUERY'', ''BpfTaskFdQueryCmd''),
     (''BPF_MAP_LOOKUP_AND_DELETE_ELEM'', ''BpfMapLookupAndDeleteElemCmd''),
     (''BPF_MAP_FREEZE'', ''BpfMapFreezeCmd''),
     (''BPF_BTF_GET_NEXT_ID'', ''BpfBtfGetNextIDCmd''),
     (''BPF_MAP_LOOKUP_BATCH'', ''BpfMapLookupBatchCmd''),
     (''BPF_MAP_LOOKUP_AND_DELETE_BATCH'', ''BpfMapLookupAndDeleteBatchCmd''),
     (''BPF_MAP_UPDATE_BATCH'', ''BpfMapUpdateBatchCmd''),
     (''BPF_MAP_DELETE_BATCH'', ''BpfMapDeleteBatchCmd''),
     (''BPF_LINK_CREATE'', ''BpfLinkCreateCmd''), (''BPF_LINK_UPDATE'', ''BpfLinkUpdateCmd''),
     (''BPF_LINK_GET_FD_BY_ID'', ''BpfLinkGetFdByIDCmd''),
     (''BPF_LINK_GET_NEXT_ID'', ''BpfLinkGetNextIDCmd''),
     (''BPF_ENABLE_STATS'', ''BpfEnableStatsCmd''),
     (''BPF_ITER_CREATE'', ''BpfIterCreateCmd''), (''BPF_LINK_DETACH'', ''BpfLinkDetachCmd''),
     (''BPF_PROG_BIND_MAP'', ''BpfProgBindMapCmd'')]"

definition BPFFilterCmdConstants :: "(string \<times> u32) list" where
  "BPFFilterCmdConstants = value_table BPFFilterCmd_consts
    [(''SO_ATTACH_FILTER'', ''SoAttachFilter''), (''SO_DETACH_FILTER'', ''SoDetachFilter''),
     (''SO_LOCK_FILTER'', ''SoLockFilter'')]"

definition BPFHelperFuncConstants_entries_0 :: "(string \<times> string) list" where
  "BPFHelperFuncConstants_entries_0 =
    [(''BPF_UNSPEC'', ''BpfUnspec''), (''BPF_MAP_LOOKUP_ELEM'', ''BpfMapLookupElem''),
     (''BPF_MAP_UPDATE_ELEM'', ''BpfMapUpdateElem''),
     (''BPF_MAP_DELETE_ELEM'', ''BpfMapDeleteElem''), (''BPF_PROBE_READ'', ''BpfProbeRead''),
     (''BPF_KTIME_GET_NS'', ''BpfKtimeGetNs''), (''BPF_TRACE_PRINTK'', ''BpfTracePrintk''),
     (''BPF_GET_PRANDOM_U32'', ''BpfGetPrandomU32''),
     (''BPF_GET_SMP_PROCESSOR_ID'', ''BpfGetSmpProcessorID''),
     (''BPF_SKB_STORE_BYTES'', ''BpfSkbStoreBytes''),
     (''BPF_L3_CSUM_REPLACE'', ''BpfL3CsumReplace''),
     (''BPF_L4_CSUM_REPLACE'', ''BpfL4CsumReplace''), (''BPF_TAIL_CALL'', ''BpfTailCall''),
     (''BPF_CLONE_REDIRECT'', ''BpfCloneRedirect''),
     (''BPF_GET_CURRENT_PID_TGID'', ''BpfGetCurrentPidTgid''),
     (''BPF_GET_CURRENT_UID_GID'', ''BpfGetCurrentUIDGid''),
     (''BPF_GET_CURRENT_COMM'', ''BpfGetCurrentComm''),
     (''BPF_GET_CGROUP_CLASSID'', ''BpfGetCgroupClassid''),
     (''BPF_SKB_VLAN_PUSH'', ''BpfSkbVlanPush''), (''BPF_SKB_VLAN_POP'', ''BpfSkbVlanPop''),
     (''BPF_SKB_GET_TUNNEL_KEY'', ''BpfSkbGetTunnelKey''),
     (''BPF_SKB_SET_TUNNEL_KEY'', ''BpfSkbSetTunnelKey''),
     (''BPF_PERF_EVENT_READ'', ''BpfPerfEventRead''), (''BPF_REDIRECT'', ''BpfRedirect''),
     (''BPF_GET_ROUTE_REALM'', ''BpfGetRouteRealm''),
     (''BPF_PERF_EVENT_OUTPUT'', ''BpfPerfEventOutput''),
     (''BPF_SKB_LOAD_BYTES'', ''BpfSkbLoadBytes''), (''BPF_GET_STACKID'', ''BpfGetStackid''),
     (''BPF_CSUM_DIFF'', ''BpfCsumDiff''),
     (''BPF_SKB_GET_TUNNEL_OPT'', ''BpfSkbGetTunnelOpt''),
     (''BPF_SKB_SET_TUNNEL_OPT'', ''BpfSkbSetTunnelOpt''),
     (''BPF_SKB_CHANGE_PROTO'', ''BpfSkbChangeProto''),
     (''BPF_SKB_CHANGE_TYPE'', ''BpfSkbChangeType''),
     (''BPF_SKB_UNDER_CGROUP'', ''BpfSkbUnderCgroup''),
     (''BPF_GET_HASH_RECALC'', ''BpfGetHashRecalc''),
     (''BPF_GET_CURRENT_TASK'', ''BpfGetCurrentTask''),
     (''BPF_PROBE_WRITE_USER'', ''BpfProbeWriteUser''),
     (''BPF_CURRENT_TASK_UNDER_CGROUP'', ''BpfCurrentTaskUnderCgroup''),
     (''BPF_SKB_CHANGE_TAIL'', ''BpfSkbChangeTail''),
     (''BPF_SKB_PULL_DATA'', ''BpfSkbPullData''), (''BPF_CSUM_UPDATE'', ''BpfCsumUpdate''),
     (''BPF_SET_HASH_INVALID'', ''BpfSetHashInvalid''),
     (''BPF_GET_NUMA_NODE_ID'', ''BpfGetNumaNodeID''),
     (''BPF_SKB_CHANGE_HEAD'', ''BpfSkbChangeHead''),
     (''BPF_XDP_ADJUST_HEAD'', ''BpfXdpAdjustHead''),
     (''BPF_PROBE_READ_STR'', ''BpfProbeReadStr''),
     (''BPF_GET_SOCKET_COOKIE'', ''BpfGetSocketCookie''),
     (''BPF_GET_SOCKET_UID'', ''BpfGetSocketUID''), (''BPF_SET_HASH'', ''BpfSetHash''),
     (''BPF_SETSOCKOPT'', ''BpfSetsockopt''), (''BPF_SKB_ADJUST_ROOM'', ''BpfSkbAdjustRoom''),
     (''BPF_REDIRECT_MAP'', ''BpfRedirectMap''),
     (''BPF_SK_REDIRECT_MAP'', ''BpfSkRedirectMap''),
     (''BPF_SOCK_MAP_UPDATE'', ''BpfSockMapUpdate''),
     (''BPF_XDP_ADJUST_META'', ''BpfXdpAdjustMeta''),
     (''BPF_PERF_EVENT_READ_VALUE'', ''BpfPerfEventReadValue''),
     (''BPF_PERF_PROG_READ_VALUE'', ''BpfPerfProgReadValue''),
     (''BPF_GETSOCKOPT'', ''BpfGetsockopt''), (''BPF_OVERRIDE_RETURN'', ''BpfOverrideReturn''),
     (''BPF_SOCK_OPS_CB_FLAGS_SET'', ''BpfSockOpsCbFlagsSet''),
     (''BPF_MSG_REDIRECT_MAP'', ''BpfMsgRedirectMap''),
     (''BPF_MSG_APPLY_BYTES'', ''BpfMsgApplyBytes''),
     (''BPF_MSG_CORK_BYTES'', ''BpfMsgCorkBytes''),
     (''BPF_MSG_PULL_DATA'', ''BpfMsgPullData''), (''BPF_BIND'', ''BpfBind''),
     (''BPF_XDP_ADJUST_TAIL'', ''BpfXdpAdjustTail''),
     (''BPF_SKB_GET_XFRM_STATE'', ''BpfSkbGetXfrmState''),
     (''BPF_GET_STACK'', ''BpfGetStack''),
     (''BPF_SKB_LOAD_BYTES_RELATIVE'', ''BpfSkbLoadBytesRelative''),
     (''BPF_FIB_LOOKUP'', ''BpfFibLookup''), (''BPF_SOCK_HASH_UPDATE'', ''BpfSockHashUpdate''),
     (''BPF_MSG_REDIRECT_HASH'', ''BpfMsgRedirectHash''),
     (''BPF_SK_REDIRECT_HASH'', ''BpfSkRedirectHash''),
     (''BPF_LWT_PUSH_ENCAP'', ''BpfLwtPushEncap''),
     (''BPF_LWT_SEG6_STORE_BYTES'', ''BpfLwtSeg6StoreBytes''),
     (''BPF_LWT_SEG6_ADJUST_SRH'', ''BpfLwtSeg6AdjustSrh''),
     (''BPF_LWT_SEG6_ACTION'', ''BpfLwtSeg6Action''), (''BPF_RC_REPEAT'', ''BpfRcRepeat''),
     (''BPF_RC_KEYDOWN'', ''BpfRcKeydown''), (''BPF_SKB_CGROUP_ID'', ''BpfSkbCgroupID''),
     (''BPF_GET_CURRENT_CGROUP_ID'', ''BpfGetCurrentCgroupID''),
     (''BPF_GET_LOCAL_STORAGE'', ''BpfGetLocalStorage''),
     (''BPF_SK_SELECT_REUSEPORT'', ''BpfSkSelectReuseport''),
     (''BPF_SKB_ANCESTOR_CGROUP_ID'', ''BpfSkbAncestorCgroupID''),
     (''BPF_SK_LOOKUP_TCP'', ''BpfSkLookupTCP''), (''BPF_SK_LOOKUP_UDP'', ''BpfSkLookupUDP''),
     (''BPF_SK_RELEASE'', ''BpfSkRelease''), (''BPF_MAP_PUSH_ELEM'', ''BpfMapPushElem''),
     (''BPF_MAP_POP_ELEM'', ''BpfMapPopElem''), (''BPF_MAP_PEEK_ELEM'', ''BpfMapPeekElem''),
     (''BPF_MSG_PUSH_DATA'', ''BpfMsgPushData''), (''BPF_MSG_POP_DATA'', ''BpfMsgPopData''),
     (''BPF_RC_POINTER_REL'', ''BpfRcPointerRel''), (''BPF_SPIN_LOCK'', ''BpfSpinLock''),
     (''BPF_SPIN_UNLOCK'', ''BpfSpinUnlock''), (''BPF_SK_FULLSOCK'', ''BpfSkFullsock''),
     (''BPF_TCP_SOCK'', ''BpfTCPSock''), (''BPF_SKB_ECN_SET_CE'', ''BpfSkbEcnSetCe''),
     (''BPF_GET_LISTENER_SOCK'', ''BpfGetListenerSock''),
     (''BPF_SKC_LOOKUP_TCP'', ''BpfSkcLookupTCP''),
     (''BPF_TCP_CHECK_SYNCOOKIE'', ''BpfTCPCheckSyncookie''),
     (''BPF_SYSCTL_GET_NAME'', ''BpfSysctlGetName''),
     (''BPF_SYSCTL_GET_CURRENT_VALUE'', ''BpfSysctlGetCurrentValue''),
     (''BPF_SYSCTL_GET_NEW_VALUE'', ''BpfSysctlGetNewValue''),
     (''BPF_SYSCTL_SET_NEW_VALUE'', ''BpfSysctlSetNewValue''), (''BPF_STRTOL'', ''BpfStrtol''),
     (''BPF_STRTOUL'', ''BpfStrtoul''), (''BPF_SK_STORAGE_GET'', ''BpfSkStorageGet''),
     (''BPF_SK_STORAGE_DELETE'', ''BpfSkStorageDelete''),
     (''BPF_SEND_SIGNAL'', ''BpfSendSignal''),
     (''BPF_TCP_GEN_SYNCOOKIE'', ''BpfTCPGenSyncookie''),
     (''BPF_SKB_OUTPUT'', ''BpfSkbOutput''), (''BPF_PROBE_READ_USER'', ''BpfProbeReadUser''),
     (''BPF_PROBE_READ_KERNEL'', ''BpfProbeReadKernel''),
     (''BPF_PROBE_READ_USER_STR'', ''BpfProbeReadUserStr''),
     (''BPF_PROBE_READ_KERNEL_STR'', ''BpfProbeReadKernelStr''),
     (''BPF_TCP_SEND_ACK'', ''BpfTCPSendAck''),
     (''BPF_SEND_SIGNAL_THREAD'', ''BpfSendSignalThread''),
     (''BPF_JIFFIES64'', ''BpfJiffies64''),
     (''BPF_READ_BRANCH_RECORDS'', ''BpfReadBranchRecords''),
     (''BPF_GET_NS_CURRENT_PID_TGID'', ''BpfGetNsCurrentPidTgid''),
     (''BPF_XDP_OUTPUT'', ''BpfXdpOutput''), (''BPF_GET_NETNS_COOKIE'', ''BpfGetNetnsCookie''),
     (''BPF_GET_CURRENT_ANCESTOR_CGROUP_ID'', ''BpfGetCurrentAncestorCgroupID''),
     (''BPF_SK_ASSIGN'', ''BpfSkAssign''), (''BPF_KTIME_GET_BOOT_NS'', ''BpfKtimeGetBootNs''),
     (''BPF_SEQ_PRINTF'', ''BpfSeqPrintf''), (''BPF_SEQ_WRITE'', ''BpfSeqWrite''),
     (''BPF_SK_CGROUP_ID'', ''BpfSkCgroupID''),
     (''BPF_SK_ANCESTOR_CGROUP_ID'', ''BpfSkAncestorCgroupID''),
     (''BPF_RINGBUF_OUTPUT'', ''BpfRingbufOutput''),
     (''BPF_RINGBUF_RESERVE'', ''BpfRingbufReserve''),
     (''BPF_RINGBUF_SUBMIT'', ''BpfRingbufSubmit''),
     (''BPF_RINGBUF_DISCARD'', ''BpfRingbufDiscard''),
     (''BPF_RINGBUF_QUERY'', ''BpfRingbufQuery''), (''BPF_CSUM_LEVEL'', ''BpfCsumLevel''),
     (''BPF_SKC_TO_TCP6_SOCK'', ''BpfSkcToTCP6Sock''),
     (''BPF_SKC_TO_TCP_SOCK'', ''BpfSkcToTCPSock''),
     (''BPF_SKC_TO_TCP_TIMEWAIT_SOCK'', ''BpfSkcToTCPTimewaitSock''),
     (''BPF_SKC_TO_TCP_REQUEST_SOCK'', ''BpfSkcToTCPRequestSock''),
     (''BPF_SKC_TO_UDP6_SOCK'', ''BpfSkcToUDP6Sock''),
     (''BPF_GET_TASK_STACK'', ''BpfGetTaskStack''), (''BPF_LOAD_HDR_OPT'', ''BpfLoadHdrOpt''),
     (''BPF_STORE_HDR_OPT'', ''BpfStoreHdrOpt'')]"

definition BPFHelperFuncConstants_entries_1 :: "(string \<times> string) list" where
  "BPFHelperFuncConstants_entries_1 =
    [(''BPF_RESERVE_HDR_OPT'', ''BpfReserveHdrOpt''),
     (''BPF_INODE_STORAGE_GET'', ''BpfInodeStorageGet''),
     (''BPF_INODE_STORAGE_DELETE'', ''BpfInodeStorageDelete''), (''BPF_D_PATH'', ''BpfDPath''),
     (''BPF_COPY_FROM_USER'', ''BpfCopyFromUser''), (''BPF_SNPRINTF_BTF'', ''BpfSnprintfBtf''),
     (''BPF_SEQ_PRINTF_BTF'', ''BpfSeqPrintfBtf''),
     (''BPF_SKB_CGROUP_CLASSID'', ''BpfSkbCgroupClassid''),
     (''BPF_REDIRECT_NEIGH'', ''BpfRedirectNeigh''), (''BPF_PER_CPU_PTR'', ''BpfPerCPUPtr''),
     (''BPF_THIS_CPU_PTR'', ''BpfThisCPUPtr''), (''BPF_REDIRECT_PEER'', ''BpfRedirectPeer''),
     (''BPF_TASK_STORAGE_GET'', ''BpfTaskStorageGet''),
     (''BPF_TASK_STORAGE_DELETE'', ''BpfTaskStorageDelete''),
     (''BPF_GET_CURRENT_TASK_BTF'', ''BpfGetCurrentTaskBtf''),
     (''BPF_BPRM_OPTS_SET'', ''BpfBprmOptsSet''),
     (''BPF_KTIME_GET_COARSE_NS'', ''BpfKtimeGetCoarseNs''),
     (''BPF_IMA_INODE_HASH'', ''BpfImaInodeHash''),
     (''BPF_SOCK_FROM_FILE'', ''BpfSockFromFile''), (''BPF_CHECK_MTU'', ''BpfCheckMtu''),
     (''BPF_FOR_EACH_MAP_ELEM'', ''BpfForEachMapElem''), (''BPF_SNPRINTF'', ''BpfSnprintf'')]"

definition BPFHelperFuncConstants :: "(string \<times> u32) list" where
  "BPFHelperFuncConstants = iota_table 0 BPFHelperFunc_consts (BPFHelperFuncConstants_entries_0 @ BPFHelperFuncConstants_entries_1)"

lemmas BPFHelperFuncConstants_flat = BPFHelperFuncConstants_def [unfolded BPFHelperFuncConstants_entries_0_def BPFHelperFuncConstants_entries_1_def append_Cons append_Nil]

definition BPFMapTypeConstants :: "(string \<times> u32) list" where
  "BPFMapTypeConstants = iota_table 0 BPFMapType_consts
    [(''BPF_MAP_TYPE_UNSPEC'', ''BpfMapTypeUnspec''),
     (''BPF_MAP_TYPE_HASH'', ''BpfMapTypeHash''),
     (''BPF_MAP_TYPE_ARRAY'', ''BpfMapTypeArray''),
     (''BPF_MAP_TYPE_PROG_ARRAY'', ''BpfMapTypeProgArray''),
     (''BPF_MAP_TYPE_PERF_EVENT_ARRAY'', ''BpfMapTypePerfEventArray''),
     (''BPF_MAP_TYPE_PERCPU_HASH'', ''BpfMapTypePercpuHash''),
     (''BPF_MAP_TYPE_PERCPU_ARRAY'', ''BpfMapTypePercpuArray''),
     (''BPF_MAP_TYPE_STACK_TRACE'', ''BpfMapTypeStackTrace''),
     (''BPF_MAP_TYPE_CGROUP_ARRAY'', ''BpfMapTypeCgroupArray''),
     (''BPF_MAP_TYPE_LRU_HASH'', ''BpfMapTypeLruHash''),
     (''BPF_MAP_TYPE_LRU_PERCPU_HASH'', ''BpfMapTypeLruPercpuHash''),
     (''BPF_MAP_TYPE_LPM_TRIE'', ''BpfMapTypeLpmTrie''),
     (''BPF_MAP_TYPE_ARRAY_OF_MAPS'', ''BpfMapTypeArrayOfMaps''),
     (''BPF_MAP_TYPE_HASH_OF_MAPS'', ''BpfMapTypeHashOfMaps''),
     (''BPF_MAP_TYPE_DEVMAP'', ''BpfMapTypeDevmap''),
     (''BPF_MAP_TYPE_SOCKMAP'', ''BpfMapTypeSockmap''),
     (''BPF_MAP_TYPE_CPUMAP'', ''BpfMapTypeCPUmap''),
     (''BPF_MAP_TYPE_XSKMAP'', ''BpfMapTypeXskmap''),
     (''BPF_MAP_TYPE_SOCKHASH'', ''BpfMapTypeSockhash''),
     (''BPF_MAP_TYPE_CGROUP_STORAGE'', ''BpfMapTypeCgroupStorage''),
     (''BPF_MAP_TYPE_REUSEPORT_SOCKARRAY'', ''BpfMapTypeReuseportSockarray''),
     (''BPF_MAP_TYPE_PERCPU_CGROUP_STORAGE'', ''BpfMapTypePercpuCgroupStorage''),
     (''BPF_MAP_TYPE_QUEUE'', ''BpfMapTypeQueue''),
     (''BPF_MAP_TYPE_STACK'', ''BpfMapTypeStack''),
     (''BPF_MAP_TYPE_SK_STORAGE'', ''BpfMapTypeSkStorage''),
     (''BPF_MAP_TYPE_DEVMAP_HASH'', ''BpfMapTypeDevmapHash''),
     (''BPF_MAP_TYPE_STRUCT_OPS'', ''BpfMapTypeStructOps''),
     (''BPF_MAP_TYPE_RINGBUF'', ''BpfMapTypeRingbuf''),
     (''BPF_MAP_TYPE_INODE_STORAGE'', ''BpfMapTypeInodeStorage''),
     (''BPF_MAP_TYPE_TASK_STORAGE'', ''BpfMapTypeTaskStorage'')]"

definition BPFProgramTypeConstants :: "(string \<times> u32) list" where
  "BPFProgramTypeConstants = iota_table 0 BPFProgramType_consts
    [(''BPF_PROG_TYPE_UNSPEC'', ''BpfProgTypeUnspec''),
     (''BPF_PROG_TYPE_SOCKET_FILTER'', ''BpfProgTypeSocketFilter''),
     (''BPF_PROG_TYPE_KPROBE'', ''BpfProgTypeKprobe''),
     (''BPF_PROG_TYPE_SCHED_CLS'', ''BpfProgTypeSchedCls''),
     (''BPF_PROG_TYPE_SCHED_ACT'', ''BpfProgTypeSchedAct''),
     (''BPF_PROG_TYPE_TRACEPOINT'', ''BpfProgTypeTracepoint''),
     (''BPF_PROG_TYPE_XDP'', ''BpfProgTypeXdp''),
     (''BPF_PROG_TYPE_PERF_EVENT'', ''BpfProgTypePerfEvent''),
     (''BPF_PROG_TYPE_CGROUP_SKB'', ''BpfProgTypeCgroupSkb''),
     (''BPF_PROG_TYPE_CGROUP_SOCK'', ''BpfProgTypeCgroupSock''),
     (''BPF_PROG_TYPE_LWT_IN'', ''BpfProgTypeLwtIn''),
     (''BPF_PROG_TYPE_LWT_OUT'', ''BpfProgTypeLwtOut''),
     (''BPF_PROG_TYPE_LWT_XMIT'', ''BpfProgTypeLwtXmit''),
     (''BPF_PROG_TYPE_SOCK_OPS'', ''BpfProgTypeSockOps''),
     (''BPF_PROG_TYPE_SK_SKB'', ''BpfProgTypeSkSkb''),
     (''BPF_PROG_TYPE_CGROUP_DEVICE'', ''BpfProgTypeCgroupDevice''),
     (''BPF_PROG_TYPE_SK_MSG'', ''BpfProgTypeSkMsg''),
     (''BPF_PROG_TYPE_RAW_TRACEPOINT'', ''BpfProgTypeRawTracepoint''),
     (''BPF_PROG_TYPE_CGROUP_SOCK_ADDR'', ''BpfProgTypeCgroupSockAddr''),
     (''BPF_PROG_TYPE_LWT_SEG6LOCAL'', ''BpfProgTypeLwtSeg6local''),
     (''BPF_PROG_TYPE_LIRC_MODE2'', ''BpfProgTypeLircMode2''),
     (''BPF_PROG_TYPE_SK_REUSEPORT'', ''BpfProgTypeSkReuseport''),
     (''BPF_PROG_TYPE_FLOW_DISSECTOR'', ''BpfProgTypeFlowDissector''),
     (''BPF_PROG_TYPE_CGROUP_SYSCTL'', ''BpfProgTypeCgroupSysctl''),
     (''BPF_PROG_TYPE_RAW_TRACEPOINT_WRITABLE'', ''BpfProgTypeRawTracepointWritable''),
     (''BPF_PROG_TYPE_CGROUP_SOCKOPT'', ''BpfProgTypeCgroupSockopt''),
     (''BPF_PROG_TYPE_TRACING'', ''BpfProgTypeTracing''),
     (''BPF_PROG_TYPE_STRUCT_OPS'', ''BpfProgTypeStructOps''),
     (''BPF_PROG_TYPE_EXT'', ''BpfProgTypeExt''), (''BPF_PROG_TYPE_LSM'', ''BpfProgTypeLsm''),
     (''BPF_PROG_TYPE_SK_LOOKUP'', ''BpfProgTypeSkLookup'')]"

definition BPFAttachTypeConstants :: "(string \<times> u32) list" where
  "BPFAttachTypeConstants = iota_table 1 BPFAttachType_consts
    [(''BPF_CGROUP_INET_INGRESS'', ''BpfCgroupInetIngress''),
     (''BPF_CGROUP_INET_EGRESS'', ''BpfCgroupInetEgress''),
     (''BPF_CGROUP_INET_SOCK_CREATE'', ''BpfCgroupInetSockCreate''),
     (''BPF_CGROUP_SOCK_OPS'', ''BpfCgroupSockOps''),
     (''BPF_SK_SKB_STREAM_PARSER'', ''BpfSkSkbStreamParser''),
     (''BPF_SK_SKB_STREAM_VERDICT'', ''BpfSkSkbStreamVerdict''),
     (''BPF_CGROUP_DEVICE'', ''BpfCgroupDevice''),
     (''BPF_SK_MSG_VERDICT'', ''BpfSkMsgVerdict''),
     (''BPF_CGROUP_INET4_BIND'', ''BpfCgroupInet4Bind''),
     (''BPF_CGROUP_INET6_BIND'', ''BpfCgroupInet6Bind''),
     (''BPF_CGROUP_INET4_CONNECT'', ''BpfCgroupInet4Connect''),
     (''BPF_CGROUP_INET6_CONNECT'', ''BpfCgroupInet6Connect''),
     (''BPF_CGROUP_INET4_POST_BIND'', ''BpfCgroupInet4PostBind''),
     (''BPF_CGROUP_INET6_POST_BIND'', ''BpfCgroupInet6PostBind''),
     (''BPF_CGROUP_UDP4_SENDMSG'', ''BpfCgroupUDP4Sendmsg''),
     (''BPF_CGROUP_UDP6_SENDMSG'', ''BpfCgroupUDP6Sendmsg''),
     (''BPF_LIRC_MODE2'', ''BpfLircMode2''), (''BPF_FLOW_DISSECTOR'', ''BpfFlowDissector''),
     (''BPF_CGROUP_SYSCTL'', ''BpfCgroupSysctl''),
     (''BPF_CGROUP_UDP4_RECVMSG'', ''BpfCgroupUDP4Recvmsg''),
     (''BPF_CGROUP_UDP6_RECVMSG'', ''BpfCgroupUDP6Recvmsg''),
     (''BPF_CGROUP_GETSOCKOPT'', ''BpfCgroupGetsockopt''),
     (''BPF_CGROUP_SETSOCKOPT'', ''BpfCgroupSetsockopt''),
     (''BPF_TRACE_RAW_TP'', ''BpfTraceRawTp''), (''BPF_TRACE_FENTRY'', ''BpfTraceFentry''),
     (''BPF_TRACE_FEXIT'', ''BpfTraceFexit''), (''BPF_MODIFY_RETURN'', ''BpfModifyReturn''),
     (''BPF_LSM_MAC'', ''BpfLsmMac''), (''BPF_TRACE_ITER'', ''BpfTraceIter''),
     (''BPF_CGROUP_INET4_GETPEERNAME'', ''BpfCgroupInet4Getpeername''),
     (''BPF_CGROUP_INET6_GETPEERNAME'', ''BpfCgroupInet6Getpeername''),
     (''BPF_CGROUP_INET4_GETSOCKNAME'', ''BpfCgroupInet4Getsockname''),
     (''BPF_CGROUP_INET6_GETSOCKNAME'', ''BpfCgroupInet6Getsockname''),
     (''BPF_XDP_DEVMAP'', ''BpfXdpDevmap''),
     (''BPF_CGROUP_INET_SOCK_RELEASE'', ''BpfCgroupInetSockRelease''),
     (''BPF_XDP_CPUMAP'', ''BpfXdpCPUmap''), (''BPF_SK_LOOKUP'', ''BpfSkLookup''),
     (''BPF_XDP'', ''BpfXdp''), (''BPF_SK_SKB_VERDICT'', ''BpfSkSkbVerdict'')]"

definition addressFamilyConstants :: "(string \<Rightarrow> u16) \<Rightarrow> (string \<times> u16) list" where
  "addressFamilyConstants unix = unix_table unix
    [(''AF_UNSPEC'', ''AF_UNSPEC''), (''AF_LOCAL'', ''AF_LOCAL''), (''AF_UNIX'', ''AF_UNIX''),
     (''AF_FILE'', ''AF_FILE''), (''AF_INET'', ''AF_INET''), (''AF_AX25'', ''AF_AX25''),
     (''AF_IPX'', ''AF_IPX''), (''AF_APPLETALK'', ''AF_APPLETALK''),
     (''AF_NETROM'', ''AF_NETROM''), (''AF_BRIDGE'', ''AF_BRIDGE''),
     (''AF_ATMPVC'', ''AF_ATMPVC''), (''AF_X25'', ''AF_X25''), (''AF_INET6'', ''AF_INET6''),
     (''AF_ROSE'', ''AF_ROSE''), (''AF_DECnet'', ''AF_DECnet''),
     (''AF_NETBEUI'', ''AF_NETBEUI''), (''AF_SECURITY'', ''AF_SECURITY''),
     (''AF_KEY'', ''AF_KEY''), (''AF_NETLINK'', ''AF_NETLINK''), (''AF_ROUTE'', ''AF_ROUTE''),
     (''AF_PACKET'', ''AF_PACKET''), (''AF_ASH'', ''AF_ASH''), (''AF_ECONET'', ''AF_ECONET''),
     (''AF_ATMSVC'', ''AF_ATMSVC''), (''AF_RDS'', ''AF_RDS''), (''AF_SNA'', ''AF_SNA''),
     (''AF_IRDA'', ''AF_IRDA''), (''AF_PPPOX'', ''AF_PPPOX''),
     (''AF_WANPIPE'', ''AF_WANPIPE''), (''AF_LLC'', ''AF_LLC''), (''AF_IB'', ''AF_IB''),
     (''AF_MPLS'', ''AF_MPLS''), (''AF_CAN'', ''AF_CAN''), (''AF_TIPC'', ''AF_TIPC''),
     (''AF_BLUETOOTH'', ''AF_BLUETOOTH''), (''AF_IUCV'', ''AF_IUCV''),
     (''AF_RXRPC'', ''AF_RXRPC''), (''AF_ISDN'', ''AF_ISDN''), (''AF_PHONET'', ''AF_PHONET''),
     (''AF_IEEE802154'', ''AF_IEEE802154''), (''AF_CAIF'', ''AF_CAIF''),
     (''AF_ALG'', ''AF_ALG''), (''AF_NFC'', ''AF_NFC''), (''AF_VSOCK'', ''AF_VSOCK''),
     (''AF_KCM'', ''AF_KCM''), (''AF_QIPCRTR'', ''AF_QIPCRTR''), (''AF_SMC'', ''AF_SMC''),
     (''AF_XDP'', ''AF_XDP''), (''AF_MAX'', ''AF_MAX'')]"

definition L3ProtocolConstants :: "(string \<times> u16) list" where
  "L3ProtocolConstants = value_table L3Protocol_consts
    [(''ETH_P_LOOP'', ''EthPLOOP''), (''ETH_P_PUP'', ''EthPPUP''),
     (''ETH_P_PUPAT'', ''EthPPUPAT''), (''ETH_P_TSN'', ''EthPTSN''),
     (''ETH_P_IP'', ''EthPIP''), (''ETH_P_X25'', ''EthPX25''), (''ETH_P_ARP'', ''EthPARP''),
     (''ETH_P_BPQ'', ''EthPBPQ''), (''ETH_P_IEEEPUP'', ''EthPIEEEPUP''),
     (''ETH_P_IEEEPUPAT'', ''EthPIEEEPUPAT''), (''ETH_P_BATMAN'', ''EthPBATMAN''),
     (''ETH_P_DEC'', ''EthPDEC''), (''ETH_P_DNADL'', ''EthPDNADL''),
     (''ETH_P_DNARC'', ''EthPDNARC''), (''ETH_P_DNART'', ''EthPDNART''),
     (''ETH_P_LAT'', ''EthPLAT''), (''ETH_P_DIAG'', ''EthPDIAG''),
     (''ETH_P_CUST'', ''EthPCUST''), (''ETH_P_SCA'', ''EthPSCA''),
     (''ETH_P_TEB'', ''EthPTEB''), (''ETH_P_RARP'', ''EthPRARP''),
     (''ETH_P_ATALK'', ''EthPATALK''), (''ETH_P_AARP'', ''EthPAARP''),
     (''ETH_P_8021_Q'', ''EthP8021Q''), (''ETH_P_ERSPAN'', ''EthPERSPAN''),
     (''ETH_P_IPX'', ''EthPIPX''), (''ETH_P_IPV6'', ''EthPIPV6''),
     (''ETH_P_PAUSE'', ''EthPPAUSE''), (''ETH_P_SLOW'', ''EthPSLOW''),
     (''ETH_P_WCCP'', ''EthPWCCP''), (''ETH_P_MPLSUC'', ''EthPMPLSUC''),
     (''ETH_P_MPLSMC'', ''EthPMPLSMC''), (''ETH_P_ATMMPOA'', ''EthPATMMPOA''),
     (''ETH_P_PPPDISC'', ''EthPPPPDISC''), (''ETH_P_PPPSES'', ''EthPPPPSES''),
     (''ETH_P__LINK_CTL'', ''EthPLinkCTL''), (''ETH_P_ATMFATE'', ''EthPATMFATE''),
     (''ETH_P_PAE'', ''EthPPAE''), (''ETH_P_AOE'', ''EthPAOE''),
     (''ETH_P_8021_AD'', ''EthP8021AD''), (''ETH_P_802_EX1'', ''EthP802EX1''),
     (''ETH_P_TIPC'', ''EthPTIPC''), (''ETH_P_MACSEC'', ''EthPMACSEC''),
     (''ETH_P_8021_AH'', ''EthP8021AH''), (''ETH_P_MVRP'', ''EthPMVRP''),
     (''ETH_P_1588'', ''EthP1588''), (''ETH_P_NCSI'', ''EthPNCSI''),
     (''ETH_P_PRP'', ''EthPPRP''), (''ETH_P_FCOE'', ''EthPFCOE''),
     (''ETH_P_IBOE'', ''EthPIBOE''), (''ETH_P_TDLS'', ''EthPTDLS''),
     (''ETH_P_FIP'', ''EthPFIP''), (''ETH_P_80221'', ''EthP80221''),
     (''ETH_P_HSR'', ''EthPHSR''), (''ETH_P_NSH'', ''EthPNSH''),
     (''ETH_P_LOOPBACK'', ''EthPLOOPBACK''), (''ETH_P_QINQ1'', ''EthPQINQ1''),
     (''ETH_P_QINQ2'', ''EthPQINQ2''), (''ETH_P_QINQ3'', ''EthPQINQ3''),
     (''ETH_P_EDSA'', ''EthPEDSA''), (''ETH_P_IFE'', ''EthPIFE''),
     (''ETH_P_AFIUCV'', ''EthPAFIUCV''), (''ETH_P_8023_MIN'', ''EthP8023MIN''),
     (''ETH_P_IPV6_HOP_BY_HOP'', ''EthPIPV6HopByHop''), (''ETH_P_8023'', ''EthP8023''),
     (''ETH_P_AX25'', ''EthPAX25''), (''ETH_P_ALL'', ''EthPALL''),
     (''ETH_P_8022'', ''EthP8022''), (''ETH_P_SNAP'', ''EthPSNAP''),
     (''ETH_P_DDCMP'', ''EthPDDCMP''), (''ETH_P_WANPPP'', ''EthPWANPPP''),
     (''ETH_P_PPPMP'', ''EthPPPPMP''), (''ETH_P_LOCALTALK'', ''EthPLOCALTALK''),
     (''ETH_P_CAN'', ''EthPCAN''), (''ETH_P_CANFD'', ''EthPCANFD''),
     (''ETH_P_PPPTALK'', ''EthPPPPTALK''), (''ETH_P_TR8022'', ''EthPTR8022''),
     (''ETH_P_MOBITEX'', ''EthPMOBITEX''), (''ETH_P_CONTROL'', ''EthPCONTROL''),
     (''ETH_P_IRDA'', ''EthPIRDA''), (''ETH_P_ECONET'', ''EthPECONET''),
     (''ETH_P_HDLC'', ''EthPHDLC''), (''ETH_P_ARCNET'', ''EthPARCNET''),
     (''ETH_P_DSA'', ''EthPDSA''), (''ETH_P_TRAILER'', ''EthPTRAILER''),
     (''ETH_P_PHONET'', ''EthPPHONET''), (''ETH_P_IEEE802154'', ''EthPIEEE802154''),
     (''ETH_P_CAIF'', ''EthPCAIF''), (''ETH_P_XDSA'', ''EthPXDSA''),
     (''ETH_P_MAP'', ''EthPMAP'')]"

definition socketTypeConstants :: "(string \<Rightarrow> u32) \<Rightarrow> (string \<times> u32) list" where
  "socketTypeConstants unix = unix_table unix
    [(''SOCK_STREAM'', ''SOCK_STREAM''), (''SOCK_DGRAM'', ''SOCK_DGRAM''),
     (''SOCK_RAW'', ''SOCK_RAW''), (''SOCK_RDM'', ''SOCK_RDM''),
     (''SOCK_SEQPACKET'', ''SOCK_SEQPACKET''), (''SOCK_DCCP'', ''SOCK_DCCP''),
     (''SOCK_PACKET'', ''SOCK_PACKET'')]"

definition ptraceConstants :: "(string \<Rightarrow> u32) \<Rightarrow> (string \<times> u32) list" where
  "ptraceConstants unix = unix_table unix
    [(''PTRACE_TRACEME'', ''PTRACE_TRACEME''), (''PTRACE_PEEKTEXT'', ''PTRACE_PEEKTEXT''),
     (''PTRACE_PEEKDATA'', ''PTRACE_PEEKDATA''), (''PTRACE_PEEKUSR'', ''PTRACE_PEEKUSR''),
     (''PTRACE_POKETEXT'', ''PTRACE_POKETEXT''), (''PTRACE_POKEDATA'', ''PTRACE_POKEDATA''),
     (''PTRACE_POKEUSR'', ''PTRACE_POKEUSR''), (''PTRACE_CONT'', ''PTRACE_CONT''),
     (''PTRACE_KILL'', ''PTRACE_KILL''), (''PTRACE_SINGLESTEP'', ''PTRACE_SINGLESTEP''),
     (''PTRACE_ATTACH'', ''PTRACE_ATTACH''), (''PTRACE_DETACH'', ''PTRACE_DETACH''),
     (''PTRACE_SYSCALL'', ''PTRACE_SYSCALL''), (''PTRACE_SETOPTIONS'', ''PTRACE_SETOPTIONS''),
     (''PTRACE_GETEVENTMSG'', ''PTRACE_GETEVENTMSG''),
     (''PTRACE_GETSIGINFO'', ''PTRACE_GETSIGINFO''),
     (''PTRACE_SETSIGINFO'', ''PTRACE_SETSIGINFO''),
     (''PTRACE_GETREGSET'', ''PTRACE_GETREGSET''),
     (''PTRACE_SETREGSET'', ''PTRACE_SETREGSET''), (''PTRACE_SEIZE'', ''PTRACE_SEIZE''),
     (''PTRACE_INTERRUPT'', ''PTRACE_INTERRUPT''), (''PTRACE_LISTEN'', ''PTRACE_LISTEN''),
     (''PTRACE_PEEKSIGINFO'', ''PTRACE_PEEKSIGINFO''),
     (''PTRACE_GETSIGMASK'', ''PTRACE_GETSIGMASK''),
     (''PTRACE_SETSIGMASK'', ''PTRACE_SETSIGMASK''),
     (''PTRACE_SECCOMP_GET_FILTER'', ''PTRACE_SECCOMP_GET_FILTER''),
     (''PTRACE_SECCOMP_GET_METADATA'', ''PTRACE_SECCOMP_GET_METADATA''),
     (''PTRACE_GET_SYSCALL_INFO'', ''PTRACE_GET_SYSCALL_INFO'')]"

definition KProbeCommandConstants :: "(string \<times> u32) list" where
  "KProbeCommandConstants =
    [(''REGISTER_KPROBE'', 1), (''UNREGISTER_KPROBE'', 2), (''REGISTER_KRETPROBE'', 3),
     (''UNREGISTER_KRETPROBE'', 4), (''ENABLE_KPROBE'', 5), (''DISABLE_KPROBE'', 6),
     (''DISARM_ALL_KPROBES'', 7), (''ARM_ALL_KPROBES'', 8)]"

definition KProbeTypeConstants :: "(string \<times> u32) list" where
  "KProbeTypeConstants =
    [(''KPROBE_TYPE'', 1), (''KRETPROBE_TYPE'', 2)]"

definition SysCtlActionConstants :: "(string \<times> u64) list" where
  "SysCtlActionConstants =
    [(''SYSCTL_SHOT'', 0), (''SYSCTL_OK'', 1), (''SYSCTL_OVERRIDE'', 2),
     (''SYSCTL_EINVAL'', 3), (''SYSCTL_ERANGE'', 4)]"

definition ActionConstants :: "(string \<times> u32) list" where
  "ActionConstants = iota_table 0 Action_consts
    [(''nop'', ''NopAction''), (''log'', ''LogAction''), (''block'', ''BlockAction''),
     (''kill'', ''KillAction''), (''paranoid'', ''ParanoidAction'')]"

definition HookPointConstants :: "(string \<times> u32) list" where
  "HookPointConstants =
    [(''prepare_kernel_cred'', 0), (''commit_creds'', 1)]"

end
