(* ===== verification/Constants.thy ===== *)
theory Constants
  imports Constant_Tables "HOL-Library.List_Lexorder" "HOL-Library.Char_ord"
begin

text \<open>
  The names of \<^verbatim>\<open>pkg/krie/events/constants.go\<close>.  At start-up every table is inverted by
  ranging over a Go map; the order of such a loop is unspecified, so it is a parameter:
  a \<open>GoRange\<close> gives an order of the entries of a table for each width of its values, and
  \<open>GoRange_ok\<close> says that it is one.  The locale \<open>name_table\<close> is the contract of a table
  whose values are distinct: its names do not depend on the order.
\<close>

unbundle bit_operations_syntax

section \<open>Inverted tables\<close>

record GoRange =
  rg16 :: "(string \<times> u16) list \<Rightarrow> (string \<times> u16) list"
  rg32 :: "(string \<times> u32) list \<Rightarrow> (string \<times> u32) list"
  rg64 :: "(string \<times> u64) list \<Rightarrow> (string \<times> u64) list"

definition GoRange_ok :: "GoRange \<Rightarrow> bool" where
  "GoRange_ok rg \<longleftrightarrow> (\<forall>l. mset (rg16 rg l) = mset l) \<and> (\<forall>l. mset (rg32 rg l) = mset l) \<and>
     (\<forall>l. mset (rg64 rg l) = mset l)"

text \<open>\<open>for k, v := range table { strs[v] = k }\<close>\<close>

definition init_strings :: "(string \<times> 'v) list \<Rightarrow> 'v \<rightharpoonup> string" where
  "init_strings order = foldl (\<lambda>m (k, v). m(v \<mapsto> k)) Map.empty order"

text \<open>A lookup in a map of strings gives the empty string for a missing key.\<close>

definition go_string :: "('v \<rightharpoonup> string) \<Rightarrow> 'v \<Rightarrow> string" where
  "go_string m v = (case m v of None \<Rightarrow> [] | Some s \<Rightarrow> s)"

text \<open>The verb of \<open>MarshalJSON\<close>: the name between double quotes, without escaping.\<close>

definition json_quote :: "string \<Rightarrow> string" where
  "json_quote s = CHR 0x22 # s @ [CHR 0x22]"

section \<open>The maps, \<open>String\<close> and \<open>MarshalJSON\<close>\<close>

definition bpfCmdStrings :: "GoRange \<Rightarrow> u64 \<rightharpoonup> string" where
  "bpfCmdStrings rg = init_strings (rg64 rg BPFCmdConstants)"

definition BPFCmd_String :: "GoRange \<Rightarrow> u64 \<Rightarrow> string" where
  "BPFCmd_String rg v = go_string (bpfCmdStrings rg) v"

definition BPFCmd_MarshalJSON :: "GoRange \<Rightarrow> u64 \<Rightarrow> string" where
  "BPFCmd_MarshalJSON rg v = json_quote (BPFCmd_String rg v)"

definition bpfFilterCmdStrings :: "GoRange \<Rightarrow> u32 \<rightharpoonup> string" where
  "bpfFilterCmdStrings rg = init_strings (rg32 rg BPFFilterCmdConstants)"

definition BPFFilterCmd_String :: "GoRange \<Rightarrow> u32 \<Rightarrow> string" where
  "BPFFilterCmd_String rg v = go_string (bpfFilterCmdStrings rg) v"

definition BPFFilterCmd_MarshalJSON :: "GoRange \<Rightarrow> u32 \<Rightarrow> string" where
  "BPFFilterCmd_MarshalJSON rg v = json_quote (BPFFilterCmd_String rg v)"

definition bpfHelperFuncStrings :: "GoRange \<Rightarrow> u32 \<rightharpoonup> string" where
  "bpfHelperFuncStrings rg = init_strings (rg32 rg BPFHelperFuncConstants)"

definition BPFHelperFunc_String :: "GoRange \<Rightarrow> u32 \<Rightarrow> string" where
  "BPFHelperFunc_String rg v = go_string (bpfHelperFuncStrings rg) v"

definition bpfMapTypeStrings :: "GoRange \<Rightarrow> u32 \<rightharpoonup> string" where
  "bpfMapTypeStrings rg = init_strings (rg32 rg BPFMapTypeConstants)"

definition BPFMapType_String :: "GoRange \<Rightarrow> u32 \<Rightarrow> string" where
  "BPFMapType_String rg v = go_string (bpfMapTypeStrings rg) v"

definition BPFMapType_MarshalJSON :: "GoRange \<Rightarrow> u32 \<Rightarrow> string" where
  "BPFMapType_MarshalJSON rg v = json_quote (BPFMapType_String rg v)"

definition bpfProgramTypeStrings :: "GoRange \<Rightarrow> u32 \<rightharpoonup> string" where
  "bpfProgramTypeStrings rg = init_strings (rg32 rg BPFProgramTypeConstants)"

definition BPFProgramType_String :: "GoRange \<Rightarrow> u32 \<Rightarrow> string" where
  "BPFProgramType_String rg v = go_string (bpfProgramTypeStrings rg) v"

definition BPFProgramType_MarshalJSON :: "GoRange \<Rightarrow> u32 \<Rightarrow> string" where
  "BPFProgramType_MarshalJSON rg v = json_quote (BPFProgramType_String rg v)"

definition bpfAttachTypeStrings :: "GoRange \<Rightarrow> u32 \<rightharpoonup> string" where
  "bpfAttachTypeStrings rg = init_strings (rg32 rg BPFAttachTypeConstants)"

definition BPFAttachType_String :: "GoRange \<Rightarrow> u32 \<Rightarrow> string" where
  "BPFAttachType_String rg v = go_string (bpfAttachTypeStrings rg) v"

definition BPFAttachType_MarshalJSON :: "GoRange \<Rightarrow> u32 \<Rightarrow> string" where
  "BPFAttachType_MarshalJSON rg v = json_quote (BPFAttachType_String rg v)"

definition addressFamilyStrings :: "GoRange \<Rightarrow> (string \<Rightarrow> u16) \<Rightarrow> u16 \<rightharpoonup> string" where
  "addressFamilyStrings rg unix = init_strings (rg16 rg (addressFamilyConstants unix))"

definition AddressFamily_String :: "GoRange \<Rightarrow> (string \<Rightarrow> u16) \<Rightarrow> u16 \<Rightarrow> string" where
  "AddressFamily_String rg unix v = go_string (addressFamilyStrings rg unix) v"

definition AddressFamily_MarshalJSON :: "GoRange \<Rightarrow> (string \<Rightarrow> u16) \<Rightarrow> u16 \<Rightarrow> string" where
  "AddressFamily_MarshalJSON rg unix v = json_quote (AddressFamily_String rg unix v)"

definition l3ProtocolStrings :: "GoRange \<Rightarrow> u16 \<rightharpoonup> string" where
  "l3ProtocolStrings rg = init_strings (rg16 rg L3ProtocolConstants)"

definition L3Protocol_String :: "GoRange \<Rightarrow> u16 \<Rightarrow> string" where
  "L3Protocol_String rg v = go_string (l3ProtocolStrings rg) v"

definition L3Protocol_MarshalJSON :: "GoRange \<Rightarrow> u16 \<Rightarrow> string" where
  "L3Protocol_MarshalJSON rg v = (if v = 0 then [] else json_quote (L3Protocol_String rg v))"

definition socketTypeStrings :: "GoRange \<Rightarrow> (string \<Rightarrow> u32) \<Rightarrow> u32 \<rightharpoonup> string" where
  "socketTypeStrings rg unix = init_strings (rg32 rg (socketTypeConstants unix))"

definition SocketType_String :: "GoRange \<Rightarrow> (string \<Rightarrow> u32) \<Rightarrow> u32 \<Rightarrow> string" where
  "SocketType_String rg unix v = go_string (socketTypeStrings rg unix) v"

definition SocketType_MarshalJSON :: "GoRange \<Rightarrow> (string \<Rightarrow> u32) \<Rightarrow> u32 \<Rightarrow> string" where
  "SocketType_MarshalJSON rg unix v = json_quote (SocketType_String rg unix v)"

definition ptraceFlagsStrings :: "GoRange \<Rightarrow> (string \<Rightarrow> u32) \<Rightarrow> u32 \<rightharpoonup> string" where
  "ptraceFlagsStrings rg unix = init_strings (rg32 rg (ptraceConstants unix))"

definition PTraceRequest_String :: "GoRange \<Rightarrow> (string \<Rightarrow> u32) \<Rightarrow> u32 \<Rightarrow> string" where
  "PTraceRequest_String rg unix v = go_string (ptraceFlagsStrings rg unix) v"

definition PTraceRequest_MarshalJSON :: "GoRange \<Rightarrow> (string \<Rightarrow> u32) \<Rightarrow> u32 \<Rightarrow> string" where
  "PTraceRequest_MarshalJSON rg unix v = json_quote (PTraceRequest_String rg unix v)"

definition kprobeCommandStrings :: "GoRange \<Rightarrow> u32 \<rightharpoonup> string" where
  "kprobeCommandStrings rg = init_strings (rg32 rg KProbeCommandConstants)"

definition KProbeCommand_String :: "GoRange \<Rightarrow> u32 \<Rightarrow> string" where
  "KProbeCommand_String rg v = go_string (kprobeCommandStrings rg) v"

definition KProbeCommand_MarshalJSON :: "GoRange \<Rightarrow> u32 \<Rightarrow> string" where
  "KProbeCommand_MarshalJSON rg v = json_quote (KProbeCommand_String rg v)"

definition kprobeTypeStrings :: "GoRange \<Rightarrow> u32 \<rightharpoonup> string" where
  "kprobeTypeStrings rg = init_strings (rg32 rg KProbeTypeConstants)"

definition KProbeType_String :: "GoRange \<Rightarrow> u32 \<Rightarrow> string" where
  "KProbeType_String rg v = go_string (kprobeTypeStrings rg) v"

definition KProbeType_MarshalJSON :: "GoRange \<Rightarrow> u32 \<Rightarrow> string" where
  "KProbeType_MarshalJSON rg v = json_quote (KProbeType_String rg v)"

definition sysctlActionStrings :: "GoRange \<Rightarrow> u64 \<rightharpoonup> string" where
  "sysctlActionStrings rg = init_strings (rg64 rg SysCtlActionConstants)"

definition SysCtlAction_String :: "GoRange \<Rightarrow> u64 \<Rightarrow> string" where
  "SysCtlAction_String rg v = go_string (sysctlActionStrings rg) v"

definition SysCtlAction_MarshalJSON :: "GoRange \<Rightarrow> u64 \<Rightarrow> string" where
  "SysCtlAction_MarshalJSON rg v = json_quote (SysCtlAction_String rg v)"

definition actionStrings :: "GoRange \<Rightarrow> u32 \<rightharpoonup> string" where
  "actionStrings rg = init_strings (rg32 rg ActionConstants)"

definition Action_String :: "GoRange \<Rightarrow> u32 \<Rightarrow> string" where
  "Action_String rg v = go_string (actionStrings rg) v"

definition Action_MarshalJSON :: "GoRange \<Rightarrow> u32 \<Rightarrow> string" where
  "Action_MarshalJSON rg v = json_quote (Action_String rg v)"

definition hookPointStrings :: "GoRange \<Rightarrow> u32 \<rightharpoonup> string" where
  "hookPointStrings rg = init_strings (rg32 rg HookPointConstants)"

definition HookPoint_String :: "GoRange \<Rightarrow> u32 \<Rightarrow> string" where
  "HookPoint_String rg v = go_string (hookPointStrings rg) v"

definition HookPoint_MarshalJSON :: "GoRange \<Rightarrow> u32 \<Rightarrow> string" where
  "HookPoint_MarshalJSON rg v = json_quote (HookPoint_String rg v)"

definition BPFHelperFuncList_String :: "GoRange \<Rightarrow> u32 list \<Rightarrow> string" where
  "BPFHelperFuncList_String rg l = strings_Join '', '' (map (BPFHelperFunc_String rg) l)"

definition BPFHelperFuncList_MarshalJSON :: "GoRange \<Rightarrow> u32 list \<Rightarrow> string" where
  "BPFHelperFuncList_MarshalJSON rg l = json_quote (BPFHelperFuncList_String rg l)"

definition MemoryPointer_MarshalJSON :: "u64 \<Rightarrow> string" where
  "MemoryPointer_MarshalJSON mp = json_quote (''0x'' @ fmt_x (unat mp))"

text \<open>The two enumerations printed by a \<open>switch\<close>.\<close>

definition CgroupSubsystemID_consts :: "string list" where
  "CgroupSubsystemID_consts =
    [''CgroupSubsystemCPUSet'', ''CgroupSubsystemCPU'', ''CgroupSubsystemCPUAcct'',
     ''CgroupSubsystemIO'', ''CgroupSubsystemMemory'', ''CgroupSubsystemDevices'',
     ''CgroupSubsystemFreezer'', ''CgroupSubsystemNetCLS'', ''CgroupSubsystemPerfEvent'',
     ''CgroupSubsystemNetPrio'', ''CgroupSubsystemHugeTLB'', ''CgroupSubsystemPIDs'',
     ''CgroupSubsystemRDMA'', ''CgroupSubsystemMisc'', ''CgroupSubsystemMax'']"

definition CgroupSubsystemID_String :: "u32 \<Rightarrow> string" where
  "CgroupSubsystemID_String sid =
     (if sid = 0 then ''cpuset'' else if sid = 1 then ''cpu'' else if sid = 2 then ''cpuacct''
      else if sid = 3 then ''io'' else if sid = 4 then ''memory'' else if sid = 5 then ''devices''
      else if sid = 6 then ''freezer'' else if sid = 7 then ''net_cls'' else if sid = 8 then ''perf_event''
      else if sid = 9 then ''net_prio'' else if sid = 10 then ''hugetlb'' else if sid = 11 then ''pids''
      else if sid = 12 then ''rdma'' else if sid = 13 then ''misc''
      else ''CgroupSubsystem('' @ fmt_d (unat sid) @ '')'')"

definition CgroupSubsystemID_MarshalJSON :: "u32 \<Rightarrow> string" where
  "CgroupSubsystemID_MarshalJSON sid = json_quote (CgroupSubsystemID_String sid)"

definition SyscallTable_String :: "u32 \<Rightarrow> string" where
  "SyscallTable_String st =
     (if st = 0 then ''sys_call_table'' else if st = 1 then ''x32_sys_call_table''
      else if st = 2 then ''ia32_sys_call_table''
      else ''SyscallTable('' @ fmt_d (unat st) @ '')'')"

definition SyscallTable_MarshalJSON :: "u32 \<Rightarrow> string" where
  "SyscallTable_MarshalJSON st = json_quote (SyscallTable_String st)"

section \<open>Actions\<close>

definition NopAction :: u32 where "NopAction = 0"
definition LogAction :: u32 where "LogAction = 1"
definition BlockAction :: u32 where "BlockAction = 2"
definition KillAction :: u32 where "KillAction = 3"
definition ParanoidAction :: u32 where "ParanoidAction = 4"

text \<open>\<open>Action.UnmarshalYAML\<close>: \<open>decoded\<close> is what the YAML library makes of the node.  The
  receiver is assigned before the lookup's flag is tested, so a failure leaves \<open>nop\<close>.\<close>

definition Action_UnmarshalYAML :: "error + string \<Rightarrow> u32 \<Rightarrow> u32 \<times> error option" where
  "Action_UnmarshalYAML decoded a =
     (case decoded of
        Inl err \<Rightarrow> (a, Some (Errorf ''failed to unmarshal the list of event types: %w'' [] (Some err)))
      | Inr action \<Rightarrow>
          (case map_of ActionConstants action of
             Some v \<Rightarrow> (v, None)
           | None \<Rightarrow> (0, Some (Errorf ''unknown action: %s'' [FStr action] None))))"

section \<open>Bit masks\<close>

text \<open>One round of the loops of \<open>bitmaskToStringArray\<close> and \<open>bitmaskU64ToStringArray\<close>.\<close>

definition bitmask_step :: "u64 \<Rightarrow> string list \<times> u64 \<Rightarrow> u64 \<times> string \<Rightarrow> string list \<times> u64" where
  "bitmask_step bitmask = (\<lambda>(strs, result) (v, s).
     if v = 0 then (strs, result)
     else if bitmask AND v = v then (strs @ [s], result OR v) else (strs, result))"

text \<open>\<open>%d\<close> of a signed 64-bit integer.\<close>

definition fmt_sd :: "u64 \<Rightarrow> string" where
  "fmt_sd w = (if sint w < 0 then CHR ''-'' # fmt_d (nat (- sint w)) else fmt_d (nat (sint w)))"

definition bitmaskToStringArray :: "u64 \<Rightarrow> (u64 \<times> string) list \<Rightarrow> string list" where
  "bitmaskToStringArray bitmask order =
     (let (strs, result) = foldl (bitmask_step bitmask) ([], 0) order;
          strs = (if result \<noteq> bitmask then strs @ [fmt_sd (bitmask AND NOT result)] else strs)
      in sort strs)"

definition bitmaskToString :: "u64 \<Rightarrow> (u64 \<times> string) list \<Rightarrow> string" where
  "bitmaskToString bitmask order = strings_Join '' | '' (bitmaskToStringArray bitmask order)"

definition bitmaskU64ToStringArray :: "u64 \<Rightarrow> (u64 \<times> string) list \<Rightarrow> string list" where
  "bitmaskU64ToStringArray bitmask order =
     (let (strs, result) = foldl (bitmask_step bitmask) ([], 0) order;
          strs = (if result \<noteq> bitmask then strs @ [fmt_d (unat (bitmask AND NOT result))] else strs)
      in sort strs)"

definition bitmaskU64ToString :: "u64 \<Rightarrow> (u64 \<times> string) list \<Rightarrow> string" where
  "bitmaskU64ToString bitmask order = strings_Join '' | '' (bitmaskU64ToStringArray bitmask order)"

section \<open>The kernel's enumerations\<close>

text \<open>\<^verbatim>\<open>ebpf/include/vmlinux.h\<close> as the kernel-space programs include it; the value of an
  enumerator is its position.\<close>

definition bpf_map_type_enum :: "string list" where
  "bpf_map_type_enum =
    [''BPF_MAP_TYPE_UNSPEC'', ''BPF_MAP_TYPE_HASH'', ''BPF_MAP_TYPE_ARRAY'',
     ''BPF_MAP_TYPE_PROG_ARRAY'', ''BPF_MAP_TYPE_PERF_EVENT_ARRAY'',
     ''BPF_MAP_TYPE_PERCPU_HASH'', ''BPF_MAP_TYPE_PERCPU_ARRAY'', ''BPF_MAP_TYPE_STACK_TRACE'',
     ''BPF_MAP_TYPE_CGROUP_ARRAY'', ''BPF_MAP_TYPE_LRU_HASH'',
     ''BPF_MAP_TYPE_LRU_PERCPU_HASH'', ''BPF_MAP_TYPE_LPM_TRIE'',
     ''BPF_MAP_TYPE_ARRAY_OF_MAPS'', ''BPF_MAP_TYPE_HASH_OF_MAPS'', ''BPF_MAP_TYPE_DEVMAP'',
     ''BPF_MAP_TYPE_SOCKMAP'', ''BPF_MAP_TYPE_CPUMAP'', ''BPF_MAP_TYPE_XSKMAP'',
     ''BPF_MAP_TYPE_SOCKHASH'', ''BPF_MAP_TYPE_CGROUP_STORAGE'',
     ''BPF_MAP_TYPE_REUSEPORT_SOCKARRAY'', ''BPF_MAP_TYPE_PERCPU_CGROUP_STORAGE'',
     ''BPF_MAP_TYPE_QUEUE'', ''BPF_MAP_TYPE_STACK'', ''BPF_MAP_TYPE_SK_STORAGE'',
     ''BPF_MAP_TYPE_DEVMAP_HASH'', ''BPF_MAP_TYPE_STRUCT_OPS'', ''BPF_MAP_TYPE_RINGBUF'',
     ''BPF_MAP_TYPE_INODE_STORAGE'', ''BPF_MAP_TYPE_TASK_STORAGE'']"

definition bpf_prog_type_enum :: "string list" where
  "bpf_prog_type_enum =
    [''BPF_PROG_TYPE_UNSPEC'', ''BPF_PROG_TYPE_SOCKET_FILTER'', ''BPF_PROG_TYPE_KPROBE'',
     ''BPF_PROG_TYPE_SCHED_CLS'', ''BPF_PROG_TYPE_SCHED_ACT'', ''BPF_PROG_TYPE_TRACEPOINT'',
     ''BPF_PROG_TYPE_XDP'', ''BPF_PROG_TYPE_PERF_EVENT'', ''BPF_PROG_TYPE_CGROUP_SKB'',
     ''BPF_PROG_TYPE_CGROUP_SOCK'', ''BPF_PROG_TYPE_LWT_IN'', ''BPF_PROG_TYPE_LWT_OUT'',
     ''BPF_PROG_TYPE_LWT_XMIT'', ''BPF_PROG_TYPE_SOCK_OPS'', ''BPF_PROG_TYPE_SK_SKB'',
     ''BPF_PROG_TYPE_CGROUP_DEVICE'', ''BPF_PROG_TYPE_SK_MSG'',
     ''BPF_PROG_TYPE_RAW_TRACEPOINT'', ''BPF_PROG_TYPE_CGROUP_SOCK_ADDR'',
     ''BPF_PROG_TYPE_LWT_SEG6LOCAL'', ''BPF_PROG_TYPE_LIRC_MODE2'',
     ''BPF_PROG_TYPE_SK_REUSEPORT'', ''BPF_PROG_TYPE_FLOW_DISSECTOR'',
     ''BPF_PROG_TYPE_CGROUP_SYSCTL'', ''BPF_PROG_TYPE_RAW_TRACEPOINT_WRITABLE'',
     ''BPF_PROG_TYPE_CGROUP_SOCKOPT'', ''BPF_PROG_TYPE_TRACING'', ''BPF_PROG_TYPE_STRUCT_OPS'',
     ''BPF_PROG_TYPE_EXT'', ''BPF_PROG_TYPE_LSM'', ''BPF_PROG_TYPE_SK_LOOKUP'']"

definition bpf_attach_type_enum :: "string list" where
  "bpf_attach_type_enum =
    [''BPF_CGROUP_INET_INGRESS'', ''BPF_CGROUP_INET_EGRESS'', ''BPF_CGROUP_INET_SOCK_CREATE'',
     ''BPF_CGROUP_SOCK_OPS'', ''BPF_SK_SKB_STREAM_PARSER'', ''BPF_SK_SKB_STREAM_VERDICT'',
     ''BPF_CGROUP_DEVICE'', ''BPF_SK_MSG_VERDICT'', ''BPF_CGROUP_INET4_BIND'',
     ''BPF_CGROUP_INET6_BIND'', ''BPF_CGROUP_INET4_CONNECT'', ''BPF_CGROUP_INET6_CONNECT'',
     ''BPF_CGROUP_INET4_POST_BIND'', ''BPF_CGROUP_INET6_POST_BIND'',
     ''BPF_CGROUP_UDP4_SENDMSG'', ''BPF_CGROUP_UDP6_SENDMSG'', ''BPF_LIRC_MODE2'',
     ''BPF_FLOW_DISSECTOR'', ''BPF_CGROUP_SYSCTL'', ''BPF_CGROUP_UDP4_RECVMSG'',
     ''BPF_CGROUP_UDP6_RECVMSG'', ''BPF_CGROUP_GETSOCKOPT'', ''BPF_CGROUP_SETSOCKOPT'',
     ''BPF_TRACE_RAW_TP'', ''BPF_TRACE_FENTRY'', ''BPF_TRACE_FEXIT'', ''BPF_MODIFY_RETURN'',
     ''BPF_LSM_MAC'', ''BPF_TRACE_ITER'', ''BPF_CGROUP_INET4_GETPEERNAME'',
     ''BPF_CGROUP_INET6_GETPEERNAME'', ''BPF_CGROUP_INET4_GETSOCKNAME'',
     ''BPF_CGROUP_INET6_GETSOCKNAME'', ''BPF_XDP_DEVMAP'', ''BPF_CGROUP_INET_SOCK_RELEASE'',
     ''BPF_XDP_CPUMAP'', ''BPF_SK_LOOKUP'', ''BPF_XDP'']"

section \<open>Values of the tables\<close>

text \<open>A number that tells the texts of one table apart.\<close>

fun text_key :: "string \<Rightarrow> nat" where
  "text_key [] = 0"
| "text_key (c # cs) = of_char c + 5 * text_key cs"

lemma distinct_text: "distinct (map text_key xs) \<Longrightarrow> distinct xs"
  by (simp add: distinct_map)

lemma position_nth: "distinct xs \<Longrightarrow> i < length xs \<Longrightarrow> position (xs ! i) xs = i"
proof (induction xs arbitrary: i)
  case Nil
  then show ?case by simp
next
  case (Cons x xs)
  then show ?case by (cases i) auto
qed

lemma iota_table_keys: "map fst (iota_table off block es) = map fst es"
  by (simp add: iota_table_def comp_def case_prod_beta)

lemma iota_table_values:
  assumes "map snd es = block" and "distinct block"
  shows "map snd (iota_table off block es) = map (\<lambda>i. word_of_nat (off + i)) [0..<length block]"
proof -
  have "map snd (iota_table off block es) = map (\<lambda>c. word_of_nat (off + position c block)) (map snd es)"
    by (simp add: iota_table_def comp_def case_prod_beta)
  also have "\<dots> = map (\<lambda>i. word_of_nat (off + i)) [0..<length block]"
    using assms by (intro nth_equalityI) (auto simp: position_nth)
  finally show ?thesis .
qed

lemma iota_table_values_self:
  assumes "map snd es = block" and "distinct block"
  shows "map snd (iota_table off block es :: (string \<times> 'a::len word) list) =
    map (\<lambda>i. word_of_nat (off + i)) [0..<length (iota_table off block es :: (string \<times> 'a word) list)]"
proof -
  have "length (iota_table off block es :: (string \<times> 'a word) list) = length block"
    using assms(1) by (auto simp: iota_table_def)
  then show ?thesis by (simp only: iota_table_values [OF assms])
qed

lemma distinct_iota_values:
  assumes "off + n \<le> 2 ^ LENGTH('a::len)"
  shows "distinct (map (\<lambda>i. word_of_nat (off + i) :: 'a word) [0..<n])"
proof -
  have "inj_on (\<lambda>i. word_of_nat (off + i) :: 'a word) (set [0..<n])"
  proof (rule inj_onI)
    fix i j assume ij: "i \<in> set [0..<n]" "j \<in> set [0..<n]"
    assume eq: "(word_of_nat (off + i) :: 'a word) = word_of_nat (off + j)"
    have "off + i < 2 ^ LENGTH('a)" "off + j < 2 ^ LENGTH('a)" using ij assms by auto
    then have "unat (word_of_nat (off + i) :: 'a word) = off + i"
      "unat (word_of_nat (off + j) :: 'a word) = off + j"
      by (simp_all only: unat_word_of_nat_small)
    with eq have "off + i = off + j" by simp
    then show "i = j" by simp
  qed
  then show ?thesis by (simp add: distinct_map)
qed

lemma distinct_iota_table:
  assumes "map snd es = block" and "distinct block" and "off + length block \<le> 2 ^ LENGTH('a::len)"
  shows "distinct (map snd (iota_table off block es :: (string \<times> 'a word) list))"
  unfolding iota_table_values [OF assms(1,2)] by (rule distinct_iota_values [OF assms(3)])

lemma value_table_values:
  assumes "map snd es = map fst block" and "distinct (map fst block)"
  shows "map snd (value_table block es) = map snd block"
proof -
  have "map snd (value_table block es) =
      map (\<lambda>c. case map_of block c of Some v \<Rightarrow> v | None \<Rightarrow> 0) (map snd es)"
    by (simp add: value_table_def comp_def case_prod_beta)
  also have "\<dots> = map snd block"
    using assms by (auto simp: comp_def intro!: map_cong)
  finally show ?thesis .
qed

section \<open>Tables with distinct values\<close>

lemma foldl_init_strings:
  "foldl (\<lambda>m (k, v). m(v \<mapsto> k)) m xs = m ++ map_of (rev (map (\<lambda>(k, v). (v, k)) xs))"
  by (induction xs arbitrary: m) (auto simp: map_add_def fun_eq_iff split: option.splits)

lemma init_strings_map_of: "init_strings xs = map_of (rev (map (\<lambda>(k, v). (v, k)) xs))"
  by (simp add: init_strings_def foldl_init_strings)

lemma init_strings_SomeD: "init_strings xs v = Some k \<Longrightarrow> (k, v) \<in> set xs"
  by (auto simp: init_strings_map_of dest!: map_of_SomeD)

lemma init_strings_None: "init_strings xs v = None \<longleftrightarrow> v \<notin> snd ` set xs"
  by (auto simp: init_strings_map_of map_of_eq_None_iff image_iff)

lemma go_string_mem:
  "mset order = mset xs \<Longrightarrow> v \<in> snd ` set xs \<Longrightarrow> (go_string (init_strings order) v, v) \<in> set xs"
  using init_strings_None [of order v] init_strings_SomeD [of order v]
  by (auto simp: go_string_def dest: mset_eq_setD split: option.splits)

lemma go_string_unnamed:
  "mset order = mset xs \<Longrightarrow> v \<notin> snd ` set xs \<Longrightarrow> go_string (init_strings order) v = []"
  using init_strings_None [of order v]
  by (auto simp: go_string_def dest: mset_eq_setD split: option.splits)

locale name_table =
  fixes table :: "(string \<times> 'v) list"
  assumes distinct_values: "distinct (map snd table)"
begin

lemma name_of:
  assumes "mset order = mset table" and "(k, v) \<in> set table"
  shows "go_string (init_strings order) v = k"
proof -
  have "v \<in> snd ` set table" using assms(2) by force
  then have "(go_string (init_strings order) v, v) \<in> set table"
    by (rule go_string_mem [OF assms(1)])
  moreover have "inj_on snd (set table)" using distinct_values by (simp add: distinct_map)
  ultimately have "(go_string (init_strings order) v, v) = (k, v)"
    using assms(2) by (metis inj_onD snd_conv)
  then show ?thesis by simp
qed

lemma order_irrelevant:
  "mset order = mset table \<Longrightarrow> mset order' = mset table \<Longrightarrow>
     go_string (init_strings order) v = go_string (init_strings order') v"
proof (cases "v \<in> snd ` set table")
  case True
  assume "mset order = mset table" "mset order' = mset table"
  moreover from True obtain k where "(k, v) \<in> set table" by force
  ultimately show ?thesis by (simp add: name_of)
next
  case False
  assume "mset order = mset table" "mset order' = mset table"
  with False show ?thesis by (simp add: go_string_unnamed)
qed

lemma name_nth:
  "mset order = mset table \<Longrightarrow> i < length table \<Longrightarrow>
     go_string (init_strings order) (snd (table ! i)) = fst (table ! i)"
  by (rule name_of) (auto simp: nth_mem)

end

lemma distinct_BPFHelperFunc_consts: "distinct BPFHelperFunc_consts"
  by (rule distinct_text) (simp add: BPFHelperFunc_consts_flat)

lemma distinct_L3Protocol_consts: "distinct (map fst L3Protocol_consts)"
  by (rule distinct_text) (simp add: L3Protocol_consts_flat)

interpretation hfn: name_table BPFHelperFuncConstants
  unfolding BPFHelperFuncConstants_flat
  by (unfold_locales, rule distinct_iota_table [OF _ distinct_BPFHelperFunc_consts])
    (simp_all add: BPFHelperFunc_consts_flat)

interpretation mtn: name_table BPFMapTypeConstants
  unfolding BPFMapTypeConstants_def
  by (unfold_locales, rule distinct_iota_table) (simp_all add: BPFMapType_consts_def)

interpretation ptn: name_table BPFProgramTypeConstants
  unfolding BPFProgramTypeConstants_def
  by (unfold_locales, rule distinct_iota_table) (simp_all add: BPFProgramType_consts_def)

interpretation atn: name_table BPFAttachTypeConstants
  unfolding BPFAttachTypeConstants_def
  by (unfold_locales, rule distinct_iota_table) (simp_all add: BPFAttachType_consts_def)

interpretation acn: name_table ActionConstants
  unfolding ActionConstants_def
  by (unfold_locales, rule distinct_iota_table) (simp_all add: Action_consts_def)

interpretation l3n: name_table L3ProtocolConstants
proof
  have "map snd L3ProtocolConstants = map snd L3Protocol_consts"
    unfolding L3ProtocolConstants_def
    by (rule value_table_values [OF _ distinct_L3Protocol_consts]) (simp add: L3Protocol_consts_flat)
  then show "distinct (map snd L3ProtocolConstants)" by (simp add: L3Protocol_consts_flat)
qed

interpretation fcn: name_table BPFFilterCmdConstants
  by unfold_locales (simp add: BPFFilterCmdConstants_def value_table_def BPFFilterCmd_consts_def)

interpretation kcn: name_table KProbeCommandConstants
  by unfold_locales (simp add: KProbeCommandConstants_def)

interpretation ktn: name_table KProbeTypeConstants
  by unfold_locales (simp add: KProbeTypeConstants_def)

interpretation san: name_table SysCtlActionConstants
  by unfold_locales (simp add: SysCtlActionConstants_def)

interpretation hpn: name_table HookPointConstants
  by unfold_locales (simp add: HookPointConstants_def)

lemma GoRange_okD:
  "GoRange_ok rg \<Longrightarrow> mset (rg16 rg l16) = mset l16"
  "GoRange_ok rg \<Longrightarrow> mset (rg32 rg l32) = mset l32"
  "GoRange_ok rg \<Longrightarrow> mset (rg64 rg l64) = mset l64"
  by (simp_all add: GoRange_ok_def)

lemmas string_defs =
  BPFHelperFunc_String_def bpfHelperFuncStrings_def BPFMapType_String_def bpfMapTypeStrings_def
  BPFProgramType_String_def bpfProgramTypeStrings_def BPFAttachType_String_def
  bpfAttachTypeStrings_def L3Protocol_String_def l3ProtocolStrings_def BPFFilterCmd_String_def
  bpfFilterCmdStrings_def KProbeCommand_String_def kprobeCommandStrings_def KProbeType_String_def
  kprobeTypeStrings_def SysCtlAction_String_def sysctlActionStrings_def Action_String_def
  actionStrings_def HookPoint_String_def hookPointStrings_def BPFCmd_String_def bpfCmdStrings_def

lemma enum_name:
  assumes "mset order = mset table" and "distinct (map snd table)"
    and "map snd table = map (\<lambda>i. word_of_nat (off + i)) [0..<length table]"
    and "i < length table"
  shows "go_string (init_strings order) (word_of_nat (off + i)) = map fst table ! i"
proof -
  have "snd (table ! i) = map snd table ! i" using assms(4) by simp
  also have "\<dots> = word_of_nat (off + i)" unfolding assms(3) using assms(4) by simp
  finally have "table ! i = (map fst table ! i, word_of_nat (off + i))"
    using assms(4) by (simp add: prod_eq_iff)
  then have "(map fst table ! i, word_of_nat (off + i)) \<in> set table"
    using assms(4) by (metis nth_mem)
  then show ?thesis by (rule name_table.name_of [OF name_table.intro [OF assms(2)] assms(1)])
qed

lemma map_type_values:
  "map snd BPFMapTypeConstants = map (\<lambda>i. word_of_nat (0 + i)) [0..<length BPFMapTypeConstants]"
  unfolding BPFMapTypeConstants_def
  by (rule iota_table_values_self) (simp_all add: BPFMapType_consts_def)

lemma program_type_values:
  "map snd BPFProgramTypeConstants =
     map (\<lambda>i. word_of_nat (0 + i)) [0..<length BPFProgramTypeConstants]"
  unfolding BPFProgramTypeConstants_def
  by (rule iota_table_values_self) (simp_all add: BPFProgramType_consts_def)

lemma attach_type_values:
  "map snd BPFAttachTypeConstants =
     map (\<lambda>i. word_of_nat (1 + i)) [0..<length BPFAttachTypeConstants]"
  unfolding BPFAttachTypeConstants_def
  by (rule iota_table_values_self) (simp_all add: BPFAttachType_consts_def)

lemma type_keys:
  "map fst BPFMapTypeConstants = bpf_map_type_enum"
  "map fst BPFProgramTypeConstants = bpf_prog_type_enum"
  "map fst BPFAttachTypeConstants = bpf_attach_type_enum @ [''BPF_SK_SKB_VERDICT'']"
  by (simp_all only: BPFMapTypeConstants_def BPFProgramTypeConstants_def BPFAttachTypeConstants_def
      iota_table_keys bpf_map_type_enum_def bpf_prog_type_enum_def bpf_attach_type_enum_def
      list.map fst_conv append.simps)

lemma type_lengths:
  "length bpf_map_type_enum = length BPFMapTypeConstants"
  "length bpf_prog_type_enum = length BPFProgramTypeConstants"
  "length BPFAttachTypeConstants = Suc (length bpf_attach_type_enum)"
  using type_keys [THEN arg_cong, of length] by (simp_all only: length_map length_append list.size)

section \<open>Properties\<close>

text \<open>C27: For every table without duplicate values, \<open>String\<close> gives back the name the table
  has for a value, whatever the order in which the start-up loop ranges over the map.\<close>

theorem constant_names_roundtrip:
  assumes "GoRange_ok rg"
  shows "(\<forall>(k, v)\<in>set BPFHelperFuncConstants. BPFHelperFunc_String rg v = k) \<and>
    (\<forall>(k, v)\<in>set BPFMapTypeConstants. BPFMapType_String rg v = k) \<and>
    (\<forall>(k, v)\<in>set BPFProgramTypeConstants. BPFProgramType_String rg v = k) \<and>
    (\<forall>(k, v)\<in>set BPFAttachTypeConstants. BPFAttachType_String rg v = k) \<and>
    (\<forall>(k, v)\<in>set L3ProtocolConstants. L3Protocol_String rg v = k) \<and>
    (\<forall>(k, v)\<in>set BPFFilterCmdConstants. BPFFilterCmd_String rg v = k) \<and>
    (\<forall>(k, v)\<in>set KProbeCommandConstants. KProbeCommand_String rg v = k) \<and>
    (\<forall>(k, v)\<in>set KProbeTypeConstants. KProbeType_String rg v = k) \<and>
    (\<forall>(k, v)\<in>set SysCtlActionConstants. SysCtlAction_String rg v = k) \<and>
    (\<forall>(k, v)\<in>set ActionConstants. Action_String rg v = k) \<and>
    (\<forall>(k, v)\<in>set HookPointConstants. HookPoint_String rg v = k)"
  using hfn.name_of mtn.name_of ptn.name_of atn.name_of l3n.name_of fcn.name_of kcn.name_of
    ktn.name_of san.name_of acn.name_of hpn.name_of
  by (intro conjI) (auto simp: string_defs GoRange_okD [OF assms])

theorem constant_names_roundtrip_witness:
  "GoRange_ok \<lparr>rg16 = rev, rg32 = rev, rg64 = rev\<rparr> \<and>
   KProbeCommand_String \<lparr>rg16 = rev, rg32 = rev, rg64 = rev\<rparr> 5 = ''ENABLE_KPROBE''"
proof -
  let ?rg = "\<lparr>rg16 = rev, rg32 = rev, rg64 = rev\<rparr>"
  have ok: "GoRange_ok ?rg" by (simp add: GoRange_ok_def)
  have r: "\<forall>(k, v)\<in>set KProbeCommandConstants. KProbeCommand_String ?rg v = k"
    using constant_names_roundtrip [OF ok] by blast
  have "(''ENABLE_KPROBE'', 5) \<in> set KProbeCommandConstants" by (simp add: KProbeCommandConstants_def)
  with r have "KProbeCommand_String ?rg 5 = ''ENABLE_KPROBE''" by fastforce
  with ok show ?thesis by blast
qed

text \<open>C28: The map types and program types of the kernel are reported under the kernel's own
  names: \<open>String\<close> agrees with the enumerations of \<^verbatim>\<open>vmlinux.h\<close> on all their values.\<close>

theorem bpf_type_names_match_kernel:
  assumes "GoRange_ok rg"
  shows "(\<forall>i < length bpf_map_type_enum. BPFMapType_String rg (word_of_nat i) = bpf_map_type_enum ! i) \<and>
    (\<forall>i < length bpf_prog_type_enum. BPFProgramType_String rg (word_of_nat i) = bpf_prog_type_enum ! i)"
  using enum_name [OF _ mtn.distinct_values map_type_values, of "rg32 rg BPFMapTypeConstants"]
    enum_name [OF _ ptn.distinct_values program_type_values, of "rg32 rg BPFProgramTypeConstants"]
  by (simp_all add: string_defs GoRange_okD [OF assms] type_lengths type_keys)

theorem bpf_type_names_match_kernel_witness:
  "GoRange_ok \<lparr>rg16 = id, rg32 = id, rg64 = id\<rparr> \<and>
   BPFProgramType_String \<lparr>rg16 = id, rg32 = id, rg64 = id\<rparr> (word_of_nat 2) = ''BPF_PROG_TYPE_KPROBE''"
proof -
  let ?rg = "\<lparr>rg16 = id, rg32 = id, rg64 = id\<rparr>"
  have ok: "GoRange_ok ?rg" by (simp add: GoRange_ok_def)
  have "2 < length bpf_prog_type_enum" "bpf_prog_type_enum ! 2 = ''BPF_PROG_TYPE_KPROBE''"
    by (simp_all add: bpf_prog_type_enum_def)
  with ok bpf_type_names_match_kernel [OF ok] show ?thesis by metis
qed

text \<open>C29: Attach types are reported under the name of the preceding enumerator: the constant
  block starts at 1 while the kernel's enumeration starts at 0 and the value is sent
  unchanged.  The kernel's value \<open>i + 1\<close> gets the name of \<open>i\<close>, and value 0 has none.\<close>

theorem bpf_attach_type_names_shifted:
  assumes "GoRange_ok rg"
  shows "BPFAttachType_String rg 0 = [] \<and>
    (\<forall>i < length bpf_attach_type_enum.
       BPFAttachType_String rg (word_of_nat (1 + i)) = bpf_attach_type_enum ! i)"
proof
  have "\<forall>v\<in>set (map snd BPFAttachTypeConstants). v \<noteq> 0"
    unfolding BPFAttachTypeConstants_def
    by (subst iota_table_values) (simp_all add: BPFAttachType_consts_def)
  then have "(0::u32) \<notin> snd ` set BPFAttachTypeConstants" by auto
  then show "BPFAttachType_String rg 0 = []"
    by (simp add: string_defs go_string_unnamed [OF GoRange_okD(2) [OF assms]])
next
  show "\<forall>i < length bpf_attach_type_enum.
       BPFAttachType_String rg (word_of_nat (1 + i)) = bpf_attach_type_enum ! i"
  proof (intro allI impI)
    fix i assume i: "i < length bpf_attach_type_enum"
    then have "i < length BPFAttachTypeConstants" by (simp add: type_lengths)
    from enum_name [OF GoRange_okD(2) [OF assms] atn.distinct_values attach_type_values this] i
    show "BPFAttachType_String rg (word_of_nat (1 + i)) = bpf_attach_type_enum ! i"
      unfolding string_defs type_keys by (simp only: nth_append if_True)
  qed
qed

theorem bpf_attach_type_names_shifted_witness:
  "GoRange_ok \<lparr>rg16 = id, rg32 = id, rg64 = id\<rparr> \<and>
   bpf_attach_type_enum ! 5 = ''BPF_SK_SKB_STREAM_VERDICT'' \<and>
   BPFAttachType_String \<lparr>rg16 = id, rg32 = id, rg64 = id\<rparr> (word_of_nat (1 + 4)) = ''BPF_SK_SKB_STREAM_PARSER''"
proof -
  let ?rg = "\<lparr>rg16 = id, rg32 = id, rg64 = id\<rparr>"
  have ok: "GoRange_ok ?rg" by (simp add: GoRange_ok_def)
  have "4 < length bpf_attach_type_enum" "bpf_attach_type_enum ! 4 = ''BPF_SK_SKB_STREAM_PARSER''"
    "bpf_attach_type_enum ! 5 = ''BPF_SK_SKB_STREAM_VERDICT''"
    by (simp_all add: bpf_attach_type_enum_def)
  with ok bpf_attach_type_names_shifted [OF ok] show ?thesis by metis
qed

end
