(* ===== verification/Event_Types.thy ===== *)
theory Event_Types
  imports Krie_Prelude
begin

text \<open>
  The event types of \<^verbatim>\<open>pkg/krie/events/events.go\<close>: the constants, \<open>String\<close>, the parse table
  filled at start-up, and the list type \<open>EventTypeList\<close> that configuration files use.
\<close>

section \<open>Model\<close>

definition UnknownEventType :: u32 where "UnknownEventType = 0"
definition InitModuleEventType :: u32 where "InitModuleEventType = 1"
definition DeleteModuleEventType :: u32 where "DeleteModuleEventType = 2"
definition BPFEventType :: u32 where "BPFEventType = 3"
definition BPFFilterEventType :: u32 where "BPFFilterEventType = 4"
definition PTraceEventType :: u32 where "PTraceEventType = 5"
definition KProbeEventType :: u32 where "KProbeEventType = 6"
definition SysCtlEventType :: u32 where "SysCtlEventType = 7"
definition HookedSyscallTableEventType :: u32 where "HookedSyscallTableEventType = 8"
definition HookedSyscallEventType :: u32 where "HookedSyscallEventType = 9"
definition EventCheckEventType :: u32 where "EventCheckEventType = 10"
definition KernelParameterEventType :: u32 where "KernelParameterEventType = 11"
definition PeriodicKernelParameterEventType :: u32 where "PeriodicKernelParameterEventType = 12"
definition RegisterCheckEventType :: u32 where "RegisterCheckEventType = 13"
definition MaxEventType :: u32 where "MaxEventType = 14"

lemmas event_type_defs =
  UnknownEventType_def InitModuleEventType_def DeleteModuleEventType_def BPFEventType_def
  BPFFilterEventType_def PTraceEventType_def KProbeEventType_def SysCtlEventType_def
  HookedSyscallTableEventType_def HookedSyscallEventType_def EventCheckEventType_def
  KernelParameterEventType_def PeriodicKernelParameterEventType_def RegisterCheckEventType_def
  MaxEventType_def

definition EventType_String :: "u32 \<Rightarrow> string" where
  "EventType_String t =
     (if t = InitModuleEventType then ''init_module''
      else if t = DeleteModuleEventType then ''delete_module''
      else if t = BPFEventType then ''bpf''
      else if t = BPFFilterEventType then ''bpf_filter''
      else if t = PTraceEventType then ''ptrace''
      else if t = KProbeEventType then ''kprobe''
      else if t = SysCtlEventType then ''sysctl''
      else if t = HookedSyscallTableEventType then ''hooked_syscall_table''
      else if t = HookedSyscallEventType then ''hooked_syscall''
      else if t = EventCheckEventType then ''event_check''
      else if t = KernelParameterEventType then ''kernel_parameter''
      else if t = PeriodicKernelParameterEventType then ''periodic_kernel_parameter''
      else if t = RegisterCheckEventType then ''register_check''
      else ''EventType('' @ fmt_d (unat t) @ '')'')"

definition EventType_MarshalJSON :: "u32 \<Rightarrow> string" where
  "EventType_MarshalJSON t = CHR 0x22 # EventType_String t @ [CHR 0x22]"

text \<open>\<open>for i := EventType(0); i < MaxEventType; i++ { eventTypeStrings[i.String()] = i }\<close>\<close>

definition eventTypeStrings :: "string \<rightharpoonup> u32" where
  "eventTypeStrings =
     foldl (\<lambda>m i. m(EventType_String i \<mapsto> i)) Map.empty (map word_of_nat [0..<unat MaxEventType])"

definition ParseEventType :: "string \<Rightarrow> u32" where
  "ParseEventType input = (case eventTypeStrings input of Some t \<Rightarrow> t | None \<Rightarrow> 0)"

type_synonym EventTypeList = "u32 list"

text \<open>\<open>EventTypeList.String\<close>: a builder loop; the size computed before it is only a
  capacity.\<close>

definition EventTypeList_String :: "EventTypeList \<Rightarrow> string" where
  "EventTypeList_String etl =
     (if length etl = 0 then []
      else if length etl = 1 then EventType_String (etl ! 0)
      else foldl (\<lambda>b s. b @ '', '' @ EventType_String s) (EventType_String (etl ! 0)) (drop 1 etl))"

definition EventTypeList_Insert :: "EventTypeList \<Rightarrow> u32 \<Rightarrow> EventTypeList" where
  "EventTypeList_Insert etl et = (if et \<in> set etl then etl else etl @ [et])"

definition EventTypeList_Contains :: "EventTypeList \<Rightarrow> u32 \<Rightarrow> bool" where
  "EventTypeList_Contains etl et = (if length etl = 0 then True else et \<in> set etl)"

text \<open>The loop of \<open>UnmarshalYAML\<close>: the receiver keeps what was inserted before an error.\<close>

fun UnmarshalYAML_loop :: "EventTypeList \<Rightarrow> string list \<Rightarrow> EventTypeList \<times> error option" where
  "UnmarshalYAML_loop etl [] = (etl, None)"
| "UnmarshalYAML_loop etl (et # ets) =
     (let newEventType = ParseEventType et in
      if newEventType = UnknownEventType
      then (etl, Some (Errorf ''unknown event type: %s'' [FStr et] None))
      else UnmarshalYAML_loop (EventTypeList_Insert etl newEventType) ets)"

definition EventTypeList_UnmarshalYAML ::
    "error + string list \<Rightarrow> EventTypeList \<Rightarrow> EventTypeList \<times> error option" where
  "EventTypeList_UnmarshalYAML decoded etl =
     (case decoded of
        Inl err \<Rightarrow> (etl, Some (Errorf ''failed to unmarshal the list of event types: %w'' [] (Some err)))
      | Inr eventTypes \<Rightarrow> UnmarshalYAML_loop etl eventTypes)"

section \<open>Lemmas\<close>

lemma event_type_mem: "t < MaxEventType \<Longrightarrow> t \<in> set (map word_of_nat [0..<unat MaxEventType])"
  by (auto simp: word_less_nat_alt image_iff intro!: bexI [of _ "unat t"])

lemma event_type_names_distinct:
  "distinct (map EventType_String (map word_of_nat [0..<unat MaxEventType]))"
  by (simp add: event_type_defs upt_rec EventType_String_def nat_base.simps)

lemma foldl_upd_SomeD:
  "foldl (\<lambda>m i. m(f i \<mapsto> i)) m xs s = Some t \<Longrightarrow> m s = Some t \<or> (t \<in> set xs \<and> s = f t)"
proof (induction xs arbitrary: m)
  case Nil
  then show ?case by simp
next
  case (Cons a xs)
  from Cons.IH [of "m(f a \<mapsto> a)"] Cons.prems show ?case by (auto split: if_splits)
qed

lemma foldl_upd_other: "s \<notin> f ` set xs \<Longrightarrow> foldl (\<lambda>m i. m(f i \<mapsto> i)) m xs s = m s"
  by (induction xs arbitrary: m) auto

lemma foldl_upd_Some:
  "distinct (map f xs) \<Longrightarrow> t \<in> set xs \<Longrightarrow> foldl (\<lambda>m i. m(f i \<mapsto> i)) m xs (f t) = Some t"
  by (induction xs arbitrary: m) (auto simp: foldl_upd_other)

lemma Insert_set [simp]: "set (EventTypeList_Insert etl et) = insert et (set etl)"
  by (auto simp: EventTypeList_Insert_def)

lemma Insert_distinct: "distinct etl \<Longrightarrow> distinct (EventTypeList_Insert etl et)"
  by (simp add: EventTypeList_Insert_def)

lemma foldl_join:
  "foldl (\<lambda>b s. b @ sep @ f s) acc xs = acc @ concat (map (\<lambda>s. sep @ f s) xs)"
  by (induction xs arbitrary: acc) simp_all

lemma strings_Join_Cons: "strings_Join sep (x # xs) = x @ concat (map (\<lambda>s. sep @ s) xs)"
  by (induction xs arbitrary: x) simp_all

lemma UnmarshalYAML_loop_known:
  "\<forall>s\<in>set ss. ParseEventType s \<noteq> 0 \<Longrightarrow>
     UnmarshalYAML_loop etl ss = (foldl EventTypeList_Insert etl (map ParseEventType ss), None)"
  by (induction ss arbitrary: etl) (auto simp: Let_def UnknownEventType_def)

lemma UnmarshalYAML_loop_unknown:
  "ParseEventType s = 0 \<Longrightarrow> \<forall>s\<in>set ss. ParseEventType s \<noteq> 0 \<Longrightarrow>
     UnmarshalYAML_loop etl (ss @ s # rest) =
       (foldl EventTypeList_Insert etl (map ParseEventType ss),
        Some (Errorf ''unknown event type: %s'' [FStr s] None))"
  by (induction ss arbitrary: etl) (auto simp: Let_def UnknownEventType_def)

lemma foldl_Insert:
  "set (foldl EventTypeList_Insert etl ts) = set etl \<union> set ts"
  "distinct etl \<Longrightarrow> distinct (foldl EventTypeList_Insert etl ts)"
  by (induction ts arbitrary: etl) (auto simp: Insert_distinct)

section \<open>Properties\<close>

lemma Parse_String: "t < MaxEventType \<Longrightarrow> ParseEventType (EventType_String t) = t"
  using foldl_upd_Some [OF event_type_names_distinct event_type_mem]
  by (simp add: ParseEventType_def eventTypeStrings_def)

lemma Parse_bpf: "ParseEventType ''bpf'' = BPFEventType" and Parse_ptrace: "ParseEventType ''ptrace'' = PTraceEventType"
  using Parse_String [of BPFEventType] Parse_String [of PTraceEventType]
  by (simp_all add: EventType_String_def event_type_defs)

text \<open>C25: Parsing the name of an event type gives the event type back, and only the names
  of event types parse to something other than the unknown type.\<close>

theorem event_type_roundtrip:
  "(t < MaxEventType \<longrightarrow> ParseEventType (EventType_String t) = t) \<and>
   (ParseEventType s \<noteq> UnknownEventType \<longrightarrow> EventType_String (ParseEventType s) = s)"
proof (intro conjI impI)
  assume "t < MaxEventType"
  then show "ParseEventType (EventType_String t) = t" by (rule Parse_String)
next
  assume "ParseEventType s \<noteq> UnknownEventType"
  then obtain t where "eventTypeStrings s = Some t" "ParseEventType s = t"
    by (auto simp: ParseEventType_def UnknownEventType_def split: option.splits)
  then show "EventType_String (ParseEventType s) = s"
    using foldl_upd_SomeD [of EventType_String Map.empty _ s] by (auto simp: eventTypeStrings_def)
qed

theorem event_type_roundtrip_witness:
  "(13::u32) < MaxEventType \<and> ParseEventType (EventType_String 13) = 13 \<and>
   ParseEventType ''bpf'' \<noteq> UnknownEventType \<and> EventType_String (ParseEventType ''bpf'') = ''bpf''"
proof -
  have "(13::u32) < MaxEventType" "(3::u32) < MaxEventType" by (simp_all add: MaxEventType_def)
  moreover have "EventType_String 3 = ''bpf''" by (simp add: EventType_String_def event_type_defs)
  moreover have "(3::u32) \<noteq> UnknownEventType" by (simp add: UnknownEventType_def)
  ultimately show ?thesis
    using event_type_roundtrip [of 13 "[]"] event_type_roundtrip [of 3 "''bpf''"] by metis
qed



text \<open>The text of a list of event types is the comma-separated join of the names.\<close>

lemma event_type_list_string:
  "EventTypeList_String etl = strings_Join '', '' (map EventType_String etl)"
proof (cases etl)
  case Nil
  then show ?thesis by (simp add: EventTypeList_String_def)
next
  case (Cons t ts)
  have "foldl (\<lambda>b s. b @ '', '' @ EventType_String s) (EventType_String t) ts =
      strings_Join '', '' (map EventType_String (t # ts))"
    using foldl_join [of "'', ''" EventType_String] by (simp add: strings_Join_Cons comp_def)
  with Cons show ?thesis by (simp add: EventTypeList_String_def)
qed

end
