(* ===== verification/Syscall_Tables.thy ===== *)
theory Syscall_Tables
  imports Main
begin

text \<open>
  The tables of \<^verbatim>\<open>pkg/krie/events/syscalls.go\<close> and \<^verbatim>\<open>ia32_syscalls.go\<close> (the constant blocks
  and the cases of the two name parsers, by the name of the constant they return), and the
  compile-time guards, packed name strings and index arrays of the two \<^verbatim>\<open>stringer\<close> outputs
  \<^verbatim>\<open>syscalls_string_linux.go\<close> and \<^verbatim>\<open>ia32_syscalls_string_linux.go\<close>, in source order.
\<close>

section \<open>syscalls.go\<close>

definition syscall_consts_0 :: "(string \<times> int) list" where
  "syscall_consts_0 =
    [(''SysRead'', 0), (''SysWrite'', 1), (''SysOpen'', 2), (''SysClose'', 3),
     (''SysStat'', 4), (''SysFstat'', 5), (''SysLstat'', 6), (''SysPoll'', 7),
     (''SysLseek'', 8), (''SysMmap'', 9), (''SysMprotect'', 10), (''SysMunmap'', 11),
     (''SysBrk'', 12), (''SysRtSigaction'', 13), (''SysRtSigprocmask'', 14),
     (''SysRtSigreturn'', 15), (''SysIoctl'', 16), (''SysPread64'', 17), (''SysPwrite64'', 18),
     (''SysReadv'', 19), (''SysWritev'', 20), (''SysAccess'', 21), (''SysPipe'', 22),
     (''SysSelect'', 23), (''SysSchedYield'', 24), (''SysMremap'', 25), (''SysMsync'', 26),
     (''SysMincore'', 27), (''SysMadvise'', 28), (''SysShmget'', 29), (''SysShmat'', 30),
     (''SysShmctl'', 31), (''SysDup'', 32), (''SysDup2'', 33), (''SysPause'', 34),
     (''SysNanosleep'', 35), (''SysGetitimer'', 36), (''SysAlarm'', 37),
     (''SysSetitimer'', 38), (''SysGetpid'', 39), (''SysSendfile'', 40), (''SysSocket'', 41),
     (''SysConnect'', 42), (''SysAccept'', 43), (''SysSendto'', 44), (''SysRecvfrom'', 45),
     (''SysSendmsg'', 46), (''SysRecvmsg'', 47), (''SysShutdown'', 48), (''SysBind'', 49),
     (''SysListen'', 50), (''SysGetsockname'', 51), (''SysGetpeername'', 52),
     (''SysSocketpair'', 53), (''SysSetsockopt'', 54), (''SysGetsockopt'', 55),
     (''SysClone'', 56), (''SysFork'', 57), (''SysVfork'', 58), (''SysExecve'', 59),
     (''SysExit'', 60), (''SysWait4'', 61), (''SysKill'', 62), (''SysUname'', 63),
     (''SysSemget'', 64), (''SysSemop'', 65), (''SysSemctl'', 66), (''SysShmdt'', 67),
     (''SysMsgget'', 68), (''SysMsgsnd'', 69), (''SysMsgrcv'', 70), (''SysMsgctl'', 71),
     (''SysFcntl'', 72), (''SysFlock'', 73), (''SysFsync'', 74), (''SysFdatasync'', 75),
     (''SysTruncate'', 76), (''SysFtruncate'', 77), (''SysGetdents'', 78), (''SysGetcwd'', 79),
     (''SysChdir'', 80), (''SysFchdir'', 81), (''SysRename'', 82), (''SysMkdir'', 83),
     (''SysRmdir'', 84), (''SysCreat'', 85), (''SysLink'', 86), (''SysUnlink'', 87),
     (''SysSymlink'', 88), (''SysReadlink'', 89), (''SysChmod'', 90), (''SysFchmod'', 91),
     (''SysChown'', 92), (''SysFchown'', 93), (''SysLchown'', 94), (''SysUmask'', 95),
     (''SysGettimeofday'', 96), (''SysGetrlimit'', 97), (''SysGetrusage'', 98),
     (''SysSysinfo'', 99), (''SysTimes'', 100), (''SysPtrace'', 101), (''SysGetuid'', 102),
     (''SysSyslog'', 103), (''SysGetgid'', 104), (''SysSetuid'', 105), (''SysSetgid'', 106),
     (''SysGeteuid'', 107), (''SysGetegid'', 108), (''SysSetpgid'', 109),
     (''SysGetppid'', 110), (''SysGetpgrp'', 111), (''SysSetsid'', 112),
     (''SysSetreuid'', 113), (''SysSetregid'', 114), (''SysGetgroups'', 115),
     (''SysSetgroups'', 116), (''SysSetresuid'', 117), (''SysGetresuid'', 118),
     (''SysSetresgid'', 119), (''SysGetresgid'', 120), (''SysGetpgid'', 121),
     (''SysSetfsuid'', 122), (''SysSetfsgid'', 123), (''SysGetsid'', 124),
     (''SysCapget'', 125), (''SysCapset'', 126), (''SysRtSigpending'', 127),
     (''SysRtSigtimedwait'', 128), (''SysRtSigqueueinfo'', 129), (''SysRtSigsuspend'', 130),
     (''SysSigaltstack'', 131), (''SysUtime'', 132), (''SysMknod'', 133), (''SysUselib'', 134),
     (''SysPersonality'', 135), (''SysUstat'', 136), (''SysStatfs'', 137),
     (''SysFstatfs'', 138), (''SysSysfs'', 139)]"

definition syscall_consts_1 :: "(string \<times> int) list" where
  "syscall_consts_1 =
    [(''SysGetpriority'', 140), (''SysSetpriority'', 141), (''SysSchedSetparam'', 142),
     (''SysSchedGetparam'', 143), (''SysSchedSetscheduler'', 144),
     (''SysSchedGetscheduler'', 145), (''SysSchedGetPriorityMax'', 146),
     (''SysSchedGetPriorityMin'', 147), (''SysSchedRrGetInterval'', 148), (''SysMlock'', 149),
     (''SysMunlock'', 150), (''SysMlockall'', 151), (''SysMunlockall'', 152),
     (''SysVhangup'', 153), (''SysModifyLdt'', 154), (''SysPivotRoot'', 155),
     (''SysSysctl'', 156), (''SysPrctl'', 157), (''SysArchPrctl'', 158),
     (''SysAdjtimex'', 159), (''SysSetrlimit'', 160), (''SysChroot'', 161), (''SysSync'', 162),
     (''SysAcct'', 163), (''SysSettimeofday'', 164), (''SysMount'', 165),
     (''SysUmount2'', 166), (''SysSwapon'', 167), (''SysSwapoff'', 168), (''SysReboot'', 169),
     (''SysSethostname'', 170), (''SysSetdomainname'', 171), (''SysIopl'', 172),
     (''SysIoperm'', 173), (''SysCreateModule'', 174), (''SysInitModule'', 175),
     (''SysDeleteModule'', 176), (''SysGetKernelSyms'', 177), (''SysQueryModule'', 178),
     (''SysQuotactl'', 179), (''SysNfsservctl'', 180), (''SysGetpmsg'', 181),
     (''SysPutpmsg'', 182), (''SysAfsSyscall'', 183), (''SysTuxcall'', 184),
     (''SysSecurity'', 185), (''SysGettid'', 186), (''SysReadahead'', 187),
     (''SysSetxattr'', 188), (''SysLsetxattr'', 189), (''SysFsetxattr'', 190),
     (''SysGetxattr'', 191), (''SysLgetxattr'', 192), (''SysFgetxattr'', 193),
     (''SysListxattr'', 194), (''SysLlistxattr'', 195), (''SysFlistxattr'', 196),
     (''SysRemovexattr'', 197), (''SysLremovexattr'', 198), (''SysFremovexattr'', 199),
     (''SysTkill'', 200), (''SysTime'', 201), (''SysFutex'', 202),
     (''SysSchedSetaffinity'', 203), (''SysSchedGetaffinity'', 204),
     (''SysSetThreadArea'', 205), (''SysIoSetup'', 206), (''SysIoDestroy'', 207),
     (''SysIoGetevents'', 208), (''SysIoSubmit'', 209), (''SysIoCancel'', 210),
     (''SysGetThreadArea'', 211), (''SysLookupDcookie'', 212), (''SysEpollCreate'', 213),
     (''SysEpollCtlOld'', 214), (''SysEpollWaitOld'', 215), (''SysRemapFilePages'', 216),
     (''SysGetdents64'', 217), (''SysSetTidAddress'', 218), (''SysRestartSyscall'', 219),
     (''SysSemtimedop'', 220), (''SysFadvise64'', 221), (''SysTimerCreate'', 222),
     (''SysTimerSettime'', 223), (''SysTimerGettime'', 224), (''SysTimerGetoverrun'', 225),
     (''SysTimerDelete'', 226), (''SysClockSettime'', 227), (''SysClockGettime'', 228),
     (''SysClockGetres'', 229), (''SysClockNanosleep'', 230), (''SysExitGroup'', 231),
     (''SysEpollWait'', 232), (''SysEpollCtl'', 233), (''SysTgkill'', 234),
     (''SysUtimes'', 235), (''SysVserver'', 236), (''SysMbind'', 237),
     (''SysSetMempolicy'', 238), (''SysGetMempolicy'', 239), (''SysMqOpen'', 240),
     (''SysMqUnlink'', 241), (''SysMqTimedsend'', 242), (''SysMqTimedreceive'', 243),
     (''SysMqNotify'', 244), (''SysMqGetsetattr'', 245), (''SysKexecLoad'', 246),
     (''SysWaitid'', 247), (''SysAddKey'', 248), (''SysRequestKey'', 249),
     (''SysKeyctl'', 250), (''SysIoprioSet'', 251), (''SysIoprioGet'', 252),
     (''SysInotifyInit'', 253), (''SysInotifyAddWatch'', 254), (''SysInotifyRmWatch'', 255),
     (''SysMigratePages'', 256), (''SysOpenat'', 257), (''SysMkdirat'', 258),
     (''SysMknodat'', 259), (''SysFchownat'', 260), (''SysFutimesat'', 261),
     (''SysNewfstatat'', 262), (''SysUnlinkat'', 263), (''SysRenameat'', 264),
     (''SysLinkat'', 265), (''SysSymlinkat'', 266), (''SysReadlinkat'', 267),
     (''SysFchmodat'', 268), (''SysFaccessat'', 269), (''SysPselect6'', 270),
     (''SysPpoll'', 271), (''SysUnshare'', 272), (''SysSetRobustList'', 273),
     (''SysGetRobustList'', 274), (''SysSplice'', 275), (''SysTee'', 276),
     (''SysSyncFileRange'', 277), (''SysVmsplice'', 278), (''SysMovePages'', 279)]"

definition syscall_consts_2 :: "(string \<times> int) list" where
  "syscall_consts_2 =
    [(''SysUtimensat'', 280), (''SysEpollPwait'', 281), (''SysSignalfd'', 282),
     (''SysTimerfdCreate'', 283), (''SysEventfd'', 284), (''SysFallocate'', 285),
     (''SysTimerfdSettime'', 286), (''SysTimerfdGettime'', 287), (''SysAccept4'', 288),
     (''SysSignalfd4'', 289), (''SysEventfd2'', 290), (''SysEpollCreate1'', 291),
     (''SysDup3'', 292), (''SysPipe2'', 293), (''SysInotifyInit1'', 294), (''SysPreadv'', 295),
     (''SysPwritev'', 296), (''SysRtTgsigqueueinfo'', 297), (''SysPerfEventOpen'', 298),
     (''SysRecvmmsg'', 299), (''SysFanotifyInit'', 300), (''SysFanotifyMark'', 301),
     (''SysPrlimit64'', 302), (''SysNameToHandleAt'', 303), (''SysOpenByHandleAt'', 304),
     (''SysClockAdjtime'', 305), (''SysSyncfs'', 306), (''SysSendmmsg'', 307),
     (''SysSetns'', 308), (''SysGetcpu'', 309), (''SysProcessVmReadv'', 310),
     (''SysProcessVmWritev'', 311), (''SysKcmp'', 312), (''SysFinitModule'', 313),
     (''SysSchedSetattr'', 314), (''SysSchedGetattr'', 315), (''SysRenameat2'', 316),
     (''SysSeccomp'', 317), (''SysGetrandom'', 318), (''SysMemfdCreate'', 319),
     (''SysKexecFileLoad'', 320), (''SysBpf'', 321), (''SysExecveat'', 322),
     (''SysUserfaultfd'', 323), (''SysMembarrier'', 324), (''SysMlock2'', 325),
     (''SysCopyFileRange'', 326), (''SysPreadv2'', 327), (''SysPwritev2'', 328),
     (''SysPkeyMprotect'', 329), (''SysPkeyAlloc'', 330), (''SysPkeyFree'', 331),
     (''SysStatx'', 332), (''SysIoPgetevents'', 333), (''SysRseq'', 334)]"

definition syscall_consts_3 :: "(string \<times> int) list" where
  "syscall_consts_3 =
    [(''SysPidfdSendSignal'', 424), (''SysIoUringSetup'', 425), (''SysIoUringEnter'', 426),
     (''SysIoUringRegister'', 427), (''SysOpenTree'', 428), (''SysMoveMount'', 429),
     (''SysFsopen'', 430), (''SysFsconfig'', 431), (''SysFsmount'', 432), (''SysFspick'', 433),
     (''SysPidfdOpen'', 434), (''SysClone3'', 435), (''SysCloseRange'', 436),
     (''SysOpenat2'', 437), (''SysPidfdGetfd'', 438), (''SysFaccessat2'', 439),
     (''SysProcessMadvise'', 440), (''SysEpollPwait2'', 441), (''SysMountSetattr'', 442),
     (''SysQuotactlFd'', 443), (''SysLandlockCreateRuleset'', 444),
     (''SysLandlockAddRule'', 445), (''SysLandlockRestrictSelf'', 446),
     (''SysMemfdSecret'', 447), (''SysLastSyscall'', 448)]"

definition syscall_consts :: "(string \<times> int) list" where
  "syscall_consts = syscall_consts_0 @ syscall_consts_1 @ syscall_consts_2 @ syscall_consts_3"

definition syscall_cases_0 :: "(string \<times> string) list" where
  "syscall_cases_0 =
    [(''read'', ''SysRead''), (''write'', ''SysWrite''), (''open'', ''SysOpen''),
     (''close'', ''SysClose''), (''stat'', ''SysStat''), (''fstat'', ''SysFstat''),
     (''lstat'', ''SysLstat''), (''poll'', ''SysPoll''), (''lseek'', ''SysLseek''),
     (''mmap'', ''SysMmap''), (''mprotect'', ''SysMprotect''), (''munmap'', ''SysMunmap''),
     (''brk'', ''SysBrk''), (''rt_sigaction'', ''SysRtSigaction''),
     (''rt_sigprocmask'', ''SysRtSigprocmask''), (''rt_sigreturn'', ''SysRtSigreturn''),
     (''ioctl'', ''SysIoctl''), (''pread64'', ''SysPread64''), (''pwrite64'', ''SysPwrite64''),
     (''readv'', ''SysReadv''), (''writev'', ''SysWritev''), (''access'', ''SysAccess''),
     (''pipe'', ''SysPipe''), (''select'', ''SysSelect''),
     (''sched_yield'', ''SysSchedYield''), (''mremap'', ''SysMremap''),
     (''msync'', ''SysMsync''), (''mincore'', ''SysMincore''), (''madvise'', ''SysMadvise''),
     (''shmget'', ''SysShmget''), (''shmat'', ''SysShmat''), (''shmctl'', ''SysShmctl''),
     (''dup'', ''SysDup''), (''dup2'', ''SysDup2''), (''pause'', ''SysPause''),
     (''nanosleep'', ''SysNanosleep''), (''getitimer'', ''SysGetitimer''),
     (''alarm'', ''SysAlarm''), (''setitimer'', ''SysSetitimer''), (''getpid'', ''SysGetpid''),
     (''sendfile'', ''SysSendfile''), (''socket'', ''SysSocket''),
     (''connect'', ''SysConnect''), (''accept'', ''SysAccept''), (''sendto'', ''SysSendto''),
     (''recvfrom'', ''SysRecvfrom''), (''sendmsg'', ''SysSendmsg''),
     (''recvmsg'', ''SysRecvmsg''), (''shutdown'', ''SysShutdown''), (''bind'', ''SysBind''),
     (''listen'', ''SysListen''), (''getsockname'', ''SysGetsockname''),
     (''getpeername'', ''SysGetpeername''), (''socketpair'', ''SysSocketpair''),
     (''setsockopt'', ''SysSetsockopt''), (''getsockopt'', ''SysGetsockopt''),
     (''clone'', ''SysClone''), (''fork'', ''SysFork''), (''vfork'', ''SysVfork''),
     (''execve'', ''SysExecve''), (''exit'', ''SysExit''), (''wait4'', ''SysWait4''),
     (''kill'', ''SysKill''), (''uname'', ''SysUname''), (''semget'', ''SysSemget''),
     (''semop'', ''SysSemop''), (''semctl'', ''SysSemctl''), (''shmdt'', ''SysShmdt''),
     (''msgget'', ''SysMsgget''), (''msgsnd'', ''SysMsgsnd'')]"

definition syscall_cases_1 :: "(string \<times> string) list" where
  "syscall_cases_1 =
    [(''msgrcv'', ''SysMsgrcv''), (''msgctl'', ''SysMsgctl''), (''fcntl'', ''SysFcntl''),
     (''flock'', ''SysFlock''), (''fsync'', ''SysFsync''), (''fdatasync'', ''SysFdatasync''),
     (''truncate'', ''SysTruncate''), (''ftruncate'', ''SysFtruncate''),
     (''getdents'', ''SysGetdents''), (''getcwd'', ''SysGetcwd''), (''chdir'', ''SysChdir''),
     (''fchdir'', ''SysFchdir''), (''rename'', ''SysRename''), (''mkdir'', ''SysMkdir''),
     (''rmdir'', ''SysRmdir''), (''creat'', ''SysCreat''), (''link'', ''SysLink''),
     (''unlink'', ''SysUnlink''), (''symlink'', ''SysSymlink''),
     (''readlink'', ''SysReadlink''), (''chmod'', ''SysChmod''), (''fchmod'', ''SysFchmod''),
     (''chown'', ''SysChown''), (''fchown'', ''SysFchown''), (''lchown'', ''SysLchown''),
     (''umask'', ''SysUmask''), (''gettimeofday'', ''SysGettimeofday''),
     (''getrlimit'', ''SysGetrlimit''), (''getrusage'', ''SysGetrusage''),
     (''sysinfo'', ''SysSysinfo''), (''times'', ''SysTimes''), (''ptrace'', ''SysPtrace''),
     (''getuid'', ''SysGetuid''), (''syslog'', ''SysSyslog''), (''getgid'', ''SysGetgid''),
     (''setuid'', ''SysSetuid''), (''setgid'', ''SysSetgid''), (''geteuid'', ''SysGeteuid''),
     (''getegid'', ''SysGetegid''), (''setpgid'', ''SysSetpgid''),
     (''getppid'', ''SysGetppid''), (''getpgrp'', ''SysGetpgrp''), (''setsid'', ''SysSetsid''),
     (''setreuid'', ''SysSetreuid''), (''setregid'', ''SysSetregid''),
     (''getgroups'', ''SysGetgroups''), (''setgroups'', ''SysSetgroups''),
     (''setresuid'', ''SysSetresuid''), (''getresuid'', ''SysGetresuid''),
     (''setresgid'', ''SysSetresgid''), (''getresgid'', ''SysGetresgid''),
     (''getpgid'', ''SysGetpgid''), (''setfsuid'', ''SysSetfsuid''),
     (''setfsgid'', ''SysSetfsgid''), (''getsid'', ''SysGetsid''), (''capget'', ''SysCapget''),
     (''capset'', ''SysCapset''), (''rt_sigpending'', ''SysRtSigpending''),
     (''rt_sigtimedwait'', ''SysRtSigtimedwait''),
     (''rt_sigqueueinfo'', ''SysRtSigqueueinfo''), (''rt_sigsuspend'', ''SysRtSigsuspend''),
     (''sigaltstack'', ''SysSigaltstack''), (''utime'', ''SysUtime''),
     (''mknod'', ''SysMknod''), (''uselib'', ''SysUselib''),
     (''personality'', ''SysPersonality''), (''ustat'', ''SysUstat''),
     (''statfs'', ''SysStatfs''), (''fstatfs'', ''SysFstatfs''), (''sysfs'', ''SysSysfs'')]"

definition syscall_cases_2 :: "(string \<times> string) list" where
  "syscall_cases_2 =
    [(''getpriority'', ''SysGetpriority''), (''setpriority'', ''SysSetpriority''),
     (''sched_setparam'', ''SysSchedSetparam''), (''sched_getparam'', ''SysSchedGetparam''),
     (''sched_setscheduler'', ''SysSchedSetscheduler''),
     (''sched_getscheduler'', ''SysSchedGetscheduler''),
     (''sched_get_priority_max'', ''SysSchedGetPriorityMax''),
     (''sched_get_priority_min'', ''SysSchedGetPriorityMin''),
     (''sched_rr_get_interval'', ''SysSchedRrGetInterval''), (''mlock'', ''SysMlock''),
     (''munlock'', ''SysMunlock''), (''mlockall'', ''SysMlockall''),
     (''munlockall'', ''SysMunlockall''), (''vhangup'', ''SysVhangup''),
     (''modify_ldt'', ''SysModifyLdt''), (''pivot_root'', ''SysPivotRoot''),
     (''sysctl'', ''SysSysctl''), (''prctl'', ''SysPrctl''),
     (''arch_prctl'', ''SysArchPrctl''), (''adjtimex'', ''SysAdjtimex''),
     (''setrlimit'', ''SysSetrlimit''), (''chroot'', ''SysChroot''), (''sync'', ''SysSync''),
     (''acct'', ''SysAcct''), (''settimeofday'', ''SysSettimeofday''),
     (''mount'', ''SysMount''), (''umount'', ''SysUmount2''), (''swapon'', ''SysSwapon''),
     (''swapoff'', ''SysSwapoff''), (''reboot'', ''SysReboot''),
     (''sethostname'', ''SysSethostname''), (''setdomainname'', ''SysSetdomainname''),
     (''iopl'', ''SysIopl''), (''ioperm'', ''SysIoperm''),
     (''create_module'', ''SysCreateModule''), (''init_module'', ''SysInitModule''),
     (''delete_module'', ''SysDeleteModule''), (''get_kernel_syms'', ''SysGetKernelSyms''),
     (''query_module'', ''SysQueryModule''), (''quotactl'', ''SysQuotactl''),
     (''nfsservctl'', ''SysNfsservctl''), (''getpmsg'', ''SysGetpmsg''),
     (''putpmsg'', ''SysPutpmsg''), (''afs_syscall'', ''SysAfsSyscall''),
     (''tuxcall'', ''SysTuxcall''), (''security'', ''SysSecurity''),
     (''gettid'', ''SysGettid''), (''readahead'', ''SysReadahead''),
     (''setxattr'', ''SysSetxattr''), (''lsetxattr'', ''SysLsetxattr''),
     (''fsetxattr'', ''SysFsetxattr''), (''getxattr'', ''SysGetxattr''),
     (''lgetxattr'', ''SysLgetxattr''), (''fgetxattr'', ''SysFgetxattr''),
     (''listxattr'', ''SysListxattr''), (''llistxattr'', ''SysLlistxattr''),
     (''flistxattr'', ''SysFlistxattr''), (''removexattr'', ''SysRemovexattr''),
     (''lremovexattr'', ''SysLremovexattr''), (''fremovexattr'', ''SysFremovexattr''),
     (''tkill'', ''SysTkill''), (''time'', ''SysTime''), (''futex'', ''SysFutex''),
     (''sched_setaffinity'', ''SysSchedSetaffinity''),
     (''sched_getaffinity'', ''SysSchedGetaffinity''),
     (''set_thread_area'', ''SysSetThreadArea''), (''io_setup'', ''SysIoSetup''),
     (''io_destroy'', ''SysIoDestroy''), (''io_getevents'', ''SysIoGetevents''),
     (''io_submit'', ''SysIoSubmit'')]"

definition syscall_cases_3 :: "(string \<times> string) list" where
  "syscall_cases_3 =
    [(''io_cancel'', ''SysIoCancel''), (''get_thread_area'', ''SysGetThreadArea''),
     (''lookup_dcookie'', ''SysLookupDcookie''), (''epoll_create'', ''SysEpollCreate''),
     (''epoll_ctl_old'', ''SysEpollCtlOld''), (''epoll_wait_old'', ''SysEpollWaitOld''),
     (''remap_file_pages'', ''SysRemapFilePages''), (''getdents64'', ''SysGetdents64''),
     (''set_tid_address'', ''SysSetTidAddress''), (''restart_syscall'', ''SysRestartSyscall''),
     (''semtimedop'', ''SysSemtimedop''), (''fadvise64'', ''SysFadvise64''),
     (''timer_create'', ''SysTimerCreate''), (''timer_settime'', ''SysTimerSettime''),
     (''timer_gettime'', ''SysTimerGettime''), (''timer_getoverrun'', ''SysTimerGetoverrun''),
     (''timer_delete'', ''SysTimerDelete''), (''clock_settime'', ''SysClockSettime''),
     (''clock_gettime'', ''SysClockGettime''), (''clock_getres'', ''SysClockGetres''),
     (''clock_nanosleep'', ''SysClockNanosleep''), (''exit_group'', ''SysExitGroup''),
     (''epoll_wait'', ''SysEpollWait''), (''epoll_ctl'', ''SysEpollCtl''),
     (''tgkill'', ''SysTgkill''), (''utimes'', ''SysUtimes''), (''vserver'', ''SysVserver''),
     (''mbind'', ''SysMbind''), (''set_mempolicy'', ''SysSetMempolicy''),
     (''get_mempolicy'', ''SysGetMempolicy''), (''mq_open'', ''SysMqOpen''),
     (''mq_unlink'', ''SysMqUnlink''), (''mq_timedsend'', ''SysMqTimedsend''),
     (''mq_timedreceive'', ''SysMqTimedreceive''), (''mq_notify'', ''SysMqNotify''),
     (''mq_getsetattr'', ''SysMqGetsetattr''), (''kexec_load'', ''SysKexecLoad''),
     (''waitid'', ''SysWaitid''), (''add_key'', ''SysAddKey''),
     (''request_key'', ''SysRequestKey''), (''keyctl'', ''SysKeyctl''),
     (''ioprio_set'', ''SysIoprioSet''), (''ioprio_get'', ''SysIoprioGet''),
     (''inotify_init'', ''SysInotifyInit''), (''inotify_add_watch'', ''SysInotifyAddWatch''),
     (''inotify_rm_watch'', ''SysInotifyRmWatch''), (''migrate_pages'', ''SysMigratePages''),
     (''openat'', ''SysOpenat''), (''mkdirat'', ''SysMkdirat''), (''mknodat'', ''SysMknodat''),
     (''fchownat'', ''SysFchownat''), (''futimesat'', ''SysFutimesat''),
     (''newfstatat'', ''SysNewfstatat''), (''unlinkat'', ''SysUnlinkat''),
     (''renameat'', ''SysRenameat''), (''linkat'', ''SysLinkat''),
     (''symlinkat'', ''SysSymlinkat''), (''readlinkat'', ''SysReadlinkat''),
     (''fchmodat'', ''SysFchmodat''), (''faccessat'', ''SysFaccessat''),
     (''pselect6'', ''SysPselect6''), (''ppoll'', ''SysPpoll''), (''unshare'', ''SysUnshare''),
     (''set_robust_list'', ''SysSetRobustList''), (''get_robust_list'', ''SysGetRobustList''),
     (''splice'', ''SysSplice''), (''tee'', ''SysTee''),
     (''sync_file_range'', ''SysSyncFileRange''), (''vmsplice'', ''SysVmsplice''),
     (''move_pages'', ''SysMovePages'')]"

definition syscall_cases_4 :: "(string \<times> string) list" where
  "syscall_cases_4 =
    [(''utimensat'', ''SysUtimensat''), (''epoll_pwait'', ''SysEpollPwait''),
     (''signalfd'', ''SysSignalfd''), (''timerfd_create'', ''SysTimerfdCreate''),
     (''eventfd'', ''SysEventfd''), (''fallocate'', ''SysFallocate''),
     (''timerfd_settime'', ''SysTimerfdSettime''),
     (''timerfd_gettime'', ''SysTimerfdGettime''), (''accept4'', ''SysAccept4''),
     (''signalfd4'', ''SysSignalfd4''), (''eventfd2'', ''SysEventfd2''),
     (''epoll_create1'', ''SysEpollCreate1''), (''dup3'', ''SysDup3''),
     (''pipe2'', ''SysPipe2''), (''inotify_init1'', ''SysInotifyInit1''),
     (''preadv'', ''SysPreadv''), (''pwritev'', ''SysPwritev''),
     (''rt_tgsigqueueinfo'', ''SysRtTgsigqueueinfo''),
     (''perf_event_open'', ''SysPerfEventOpen''), (''recvmmsg'', ''SysRecvmmsg''),
     (''fanotify_init'', ''SysFanotifyInit''), (''fanotify_mark'', ''SysFanotifyMark''),
     (''prlimit64'', ''SysPrlimit64''), (''name_to_handle_at'', ''SysNameToHandleAt''),
     (''open_by_handle_at'', ''SysOpenByHandleAt''), (''clock_adjtime'', ''SysClockAdjtime''),
     (''syncfs'', ''SysSyncfs''), (''sendmmsg'', ''SysSendmmsg''), (''setns'', ''SysSetns''),
     (''getcpu'', ''SysGetcpu''), (''process_vm_readv'', ''SysProcessVmReadv''),
     (''process_vm_writev'', ''SysProcessVmWritev''), (''kcmp'', ''SysKcmp''),
     (''finit_module'', ''SysFinitModule''), (''sched_setattr'', ''SysSchedSetattr''),
     (''sched_getattr'', ''SysSchedGetattr''), (''renameat2'', ''SysRenameat2''),
     (''seccomp'', ''SysSeccomp''), (''getrandom'', ''SysGetrandom''),
     (''memfd_create'', ''SysMemfdCreate''), (''kexec_file_load'', ''SysKexecFileLoad''),
     (''bpf'', ''SysBpf''), (''execveat'', ''SysExecveat''),
     (''userfaultfd'', ''SysUserfaultfd''), (''membarrier'', ''SysMembarrier''),
     (''mlock2'', ''SysMlock2''), (''copy_file_range'', ''SysCopyFileRange''),
     (''preadv2'', ''SysPreadv2''), (''pwritev2'', ''SysPwritev2''),
     (''pkey_mprotect'', ''SysPkeyMprotect''), (''pkey_alloc'', ''SysPkeyAlloc''),
     (''pkey_free'', ''SysPkeyFree''), (''statx'', ''SysStatx''),
     (''io_pgetevents'', ''SysIoPgetevents''), (''rseq'', ''SysRseq''),
     (''pidfd_send_signal'', ''SysPidfdSendSignal''),
     (''io_uring_setup'', ''SysIoUringSetup''), (''io_uring_enter'', ''SysIoUringEnter''),
     (''io_uring_register'', ''SysIoUringRegister''), (''open_tree'', ''SysOpenTree''),
     (''move_mount'', ''SysMoveMount''), (''fsopen'', ''SysFsopen''),
     (''fsconfig'', ''SysFsconfig''), (''fsmount'', ''SysFsmount''),
     (''fspick'', ''SysFspick''), (''pidfd_open'', ''SysPidfdOpen''),
     (''clone3'', ''SysClone3''), (''close_range'', ''SysCloseRange''),
     (''openat2'', ''SysOpenat2''), (''pidfd_getfd'', ''SysPidfdGetfd'')]"

definition syscall_cases_5 :: "(string \<times> string) list" where
  "syscall_cases_5 =
    [(''faccessat2'', ''SysFaccessat2''), (''process_madvise'', ''SysProcessMadvise''),
     (''epoll_pwait2'', ''SysEpollPwait2''), (''mount_setattr'', ''SysMountSetattr''),
     (''quotactl_fd'', ''SysQuotactlFd''),
     (''landlock_create_ruleset'', ''SysLandlockCreateRuleset''),
     (''landlock_add_rule'', ''SysLandlockAddRule''),
     (''landlock_restrict_self'', ''SysLandlockRestrictSelf''),
     (''memfd_secret'', ''SysMemfdSecret'')]"

definition syscall_cases :: "(string \<times> string) list" where
  "syscall_cases = syscall_cases_0 @ syscall_cases_1 @ syscall_cases_2 @ syscall_cases_3 @ syscall_cases_4 @ syscall_cases_5"

definition syscall_guards_0 :: "(string \<times> int) list" where
  "syscall_guards_0 =
    [(''SysRead'', 0), (''SysWrite'', 1), (''SysOpen'', 2), (''SysClose'', 3),
     (''SysStat'', 4), (''SysFstat'', 5), (''SysLstat'', 6), (''SysPoll'', 7),
     (''SysLseek'', 8), (''SysMmap'', 9), (''SysMprotect'', 10), (''SysMunmap'', 11),
     (''SysBrk'', 12), (''SysRtSigaction'', 13), (''SysRtSigprocmask'', 14),
     (''SysRtSigreturn'', 15), (''SysIoctl'', 16), (''SysPread64'', 17), (''SysPwrite64'', 18),
     (''SysReadv'', 19), (''SysWritev'', 20), (''SysAccess'', 21), (''SysPipe'', 22),
     (''SysSelect'', 23), (''SysSchedYield'', 24), (''SysMremap'', 25), (''SysMsync'', 26),
     (''SysMincore'', 27), (''SysMadvise'', 28), (''SysShmget'', 29), (''SysShmat'', 30),
     (''SysShmctl'', 31), (''SysDup'', 32), (''SysDup2'', 33), (''SysPause'', 34),
     (''SysNanosleep'', 35), (''SysGetitimer'', 36), (''SysAlarm'', 37),
     (''SysSetitimer'', 38), (''SysGetpid'', 39), (''SysSendfile'', 40), (''SysSocket'', 41),
     (''SysConnect'', 42), (''SysAccept'', 43), (''SysSendto'', 44), (''SysRecvfrom'', 45),
     (''SysSendmsg'', 46), (''SysRecvmsg'', 47), (''SysShutdown'', 48), (''SysBind'', 49),
     (''SysListen'', 50), (''SysGetsockname'', 51), (''SysGetpeername'', 52),
     (''SysSocketpair'', 53), (''SysSetsockopt'', 54), (''SysGetsockopt'', 55),
     (''SysClone'', 56), (''SysFork'', 57), (''SysVfork'', 58), (''SysExecve'', 59),
     (''SysExit'', 60), (''SysWait4'', 61), (''SysKill'', 62), (''SysUname'', 63),
     (''SysSemget'', 64), (''SysSemop'', 65), (''SysSemctl'', 66), (''SysShmdt'', 67),
     (''SysMsgget'', 68), (''SysMsgsnd'', 69), (''SysMsgrcv'', 70), (''SysMsgctl'', 71),
     (''SysFcntl'', 72), (''SysFlock'', 73), (''SysFsync'', 74), (''SysFdatasync'', 75),
     (''SysTruncate'', 76), (''SysFtruncate'', 77), (''SysGetdents'', 78), (''SysGetcwd'', 79),
     (''SysChdir'', 80), (''SysFchdir'', 81), (''SysRename'', 82), (''SysMkdir'', 83),
     (''SysRmdir'', 84), (''SysCreat'', 85), (''SysLink'', 86), (''SysUnlink'', 87),
     (''SysSymlink'', 88), (''SysReadlink'', 89), (''SysChmod'', 90), (''SysFchmod'', 91),
     (''SysChown'', 92), (''SysFchown'', 93), (''SysLchown'', 94), (''SysUmask'', 95),
     (''SysGettimeofday'', 96), (''SysGetrlimit'', 97), (''SysGetrusage'', 98),
     (''SysSysinfo'', 99), (''SysTimes'', 100), (''SysPtrace'', 101), (''SysGetuid'', 102),
     (''SysSyslog'', 103), (''SysGetgid'', 104), (''SysSetuid'', 105), (''SysSetgid'', 106),
     (''SysGeteuid'', 107), (''SysGetegid'', 108), (''SysSetpgid'', 109),
     (''SysGetppid'', 110), (''SysGetpgrp'', 111), (''SysSetsid'', 112),
     (''SysSetreuid'', 113), (''SysSetregid'', 114), (''SysGetgroups'', 115),
     (''SysSetgroups'', 116), (''SysSetresuid'', 117), (''SysGetresuid'', 118),
     (''SysSetresgid'', 119), (''SysGetresgid'', 120), (''SysGetpgid'', 121),
     (''SysSetfsuid'', 122), (''SysSetfsgid'', 123), (''SysGetsid'', 124),
     (''SysCapget'', 125), (''SysCapset'', 126), (''SysRtSigpending'', 127),
     (''SysRtSigtimedwait'', 128), (''SysRtSigqueueinfo'', 129), (''SysRtSigsuspend'', 130),
     (''SysSigaltstack'', 131), (''SysUtime'', 132), (''SysMknod'', 133), (''SysUselib'', 134),
     (''SysPersonality'', 135), (''SysUstat'', 136), (''SysStatfs'', 137),
     (''SysFstatfs'', 138), (''SysSysfs'', 139)]"

definition syscall_guards_1 :: "(string \<times> int) list" where
  "syscall_guards_1 =
    [(''SysGetpriority'', 140), (''SysSetpriority'', 141), (''SysSchedSetparam'', 142),
     (''SysSchedGetparam'', 143), (''SysSchedSetscheduler'', 144),
     (''SysSchedGetscheduler'', 145), (''SysSchedGetPriorityMax'', 146),
     (''SysSchedGetPriorityMin'', 147), (''SysSchedRrGetInterval'', 148), (''SysMlock'', 149),
     (''SysMunlock'', 150), (''SysMlockall'', 151), (''SysMunlockall'', 152),
     (''SysVhangup'', 153), (''SysModifyLdt'', 154), (''SysPivotRoot'', 155),
     (''SysSysctl'', 156), (''SysPrctl'', 157), (''SysArchPrctl'', 158),
     (''SysAdjtimex'', 159), (''SysSetrlimit'', 160), (''SysChroot'', 161), (''SysSync'', 162),
     (''SysAcct'', 163), (''SysSettimeofday'', 164), (''SysMount'', 165),
     (''SysUmount2'', 166), (''SysSwapon'', 167), (''SysSwapoff'', 168), (''SysReboot'', 169),
     (''SysSethostname'', 170), (''SysSetdomainname'', 171), (''SysIopl'', 172),
     (''SysIoperm'', 173), (''SysCreateModule'', 174), (''SysInitModule'', 175),
     (''SysDeleteModule'', 176), (''SysGetKernelSyms'', 177), (''SysQueryModule'', 178),
     (''SysQuotactl'', 179), (''SysNfsservctl'', 180), (''SysGetpmsg'', 181),
     (''SysPutpmsg'', 182), (''SysAfsSyscall'', 183), (''SysTuxcall'', 184),
     (''SysSecurity'', 185), (''SysGettid'', 186), (''SysReadahead'', 187),
     (''SysSetxattr'', 188), (''SysLsetxattr'', 189), (''SysFsetxattr'', 190),
     (''SysGetxattr'', 191), (''SysLgetxattr'', 192), (''SysFgetxattr'', 193),
     (''SysListxattr'', 194), (''SysLlistxattr'', 195), (''SysFlistxattr'', 196),
     (''SysRemovexattr'', 197), (''SysLremovexattr'', 198), (''SysFremovexattr'', 199),
     (''SysTkill'', 200), (''SysTime'', 201), (''SysFutex'', 202),
     (''SysSchedSetaffinity'', 203), (''SysSchedGetaffinity'', 204),
     (''SysSetThreadArea'', 205), (''SysIoSetup'', 206), (''SysIoDestroy'', 207),
     (''SysIoGetevents'', 208), (''SysIoSubmit'', 209), (''SysIoCancel'', 210),
     (''SysGetThreadArea'', 211), (''SysLookupDcookie'', 212), (''SysEpollCreate'', 213),
     (''SysEpollCtlOld'', 214), (''SysEpollWaitOld'', 215), (''SysRemapFilePages'', 216),
     (''SysGetdents64'', 217), (''SysSetTidAddress'', 218), (''SysRestartSyscall'', 219),
     (''SysSemtimedop'', 220), (''SysFadvise64'', 221), (''SysTimerCreate'', 222),
     (''SysTimerSettime'', 223), (''SysTimerGettime'', 224), (''SysTimerGetoverrun'', 225),
     (''SysTimerDelete'', 226), (''SysClockSettime'', 227), (''SysClockGettime'', 228),
     (''SysClockGetres'', 229), (''SysClockNanosleep'', 230), (''SysExitGroup'', 231),
     (''SysEpollWait'', 232), (''SysEpollCtl'', 233), (''SysTgkill'', 234),
     (''SysUtimes'', 235), (''SysVserver'', 236), (''SysMbind'', 237),
     (''SysSetMempolicy'', 238), (''SysGetMempolicy'', 239), (''SysMqOpen'', 240),
     (''SysMqUnlink'', 241), (''SysMqTimedsend'', 242), (''SysMqTimedreceive'', 243),
     (''SysMqNotify'', 244), (''SysMqGetsetattr'', 245), (''SysKexecLoad'', 246),
     (''SysWaitid'', 247), (''SysAddKey'', 248), (''SysRequestKey'', 249),
     (''SysKeyctl'', 250), (''SysIoprioSet'', 251), (''SysIoprioGet'', 252),
     (''SysInotifyInit'', 253), (''SysInotifyAddWatch'', 254), (''SysInotifyRmWatch'', 255),
     (''SysMigratePages'', 256), (''SysOpenat'', 257), (''SysMkdirat'', 258),
     (''SysMknodat'', 259), (''SysFchownat'', 260), (''SysFutimesat'', 261),
     (''SysNewfstatat'', 262), (''SysUnlinkat'', 263), (''SysRenameat'', 264),
     (''SysLinkat'', 265), (''SysSymlinkat'', 266), (''SysReadlinkat'', 267),
     (''SysFchmodat'', 268), (''SysFaccessat'', 269), (''SysPselect6'', 270),
     (''SysPpoll'', 271), (''SysUnshare'', 272), (''SysSetRobustList'', 273),
     (''SysGetRobustList'', 274), (''SysSplice'', 275), (''SysTee'', 276),
     (''SysSyncFileRange'', 277), (''SysVmsplice'', 278), (''SysMovePages'', 279)]"

definition syscall_guards_2 :: "(string \<times> int) list" where
  "syscall_guards_2 =
    [(''SysUtimensat'', 280), (''SysEpollPwait'', 281), (''SysSignalfd'', 282),
     (''SysTimerfdCreate'', 283), (''SysEventfd'', 284), (''SysFallocate'', 285),
     (''SysTimerfdSettime'', 286), (''SysTimerfdGettime'', 287), (''SysAccept4'', 288),
     (''SysSignalfd4'', 289), (''SysEventfd2'', 290), (''SysEpollCreate1'', 291),
     (''SysDup3'', 292), (''SysPipe2'', 293), (''SysInotifyInit1'', 294), (''SysPreadv'', 295),
     (''SysPwritev'', 296), (''SysRtTgsigqueueinfo'', 297), (''SysPerfEventOpen'', 298),
     (''SysRecvmmsg'', 299), (''SysFanotifyInit'', 300), (''SysFanotifyMark'', 301),
     (''SysPrlimit64'', 302), (''SysNameToHandleAt'', 303), (''SysOpenByHandleAt'', 304),
     (''SysClockAdjtime'', 305), (''SysSyncfs'', 306), (''SysSendmmsg'', 307),
     (''SysSetns'', 308), (''SysGetcpu'', 309), (''SysProcessVmReadv'', 310),
     (''SysProcessVmWritev'', 311), (''SysKcmp'', 312), (''SysFinitModule'', 313),
     (''SysSchedSetattr'', 314), (''SysSchedGetattr'', 315), (''SysRenameat2'', 316),
     (''SysSeccomp'', 317), (''SysGetrandom'', 318), (''SysMemfdCreate'', 319),
     (''SysKexecFileLoad'', 320), (''SysBpf'', 321), (''SysExecveat'', 322),
     (''SysUserfaultfd'', 323), (''SysMembarrier'', 324), (''SysMlock2'', 325),
     (''SysCopyFileRange'', 326), (''SysPreadv2'', 327), (''SysPwritev2'', 328),
     (''SysPkeyMprotect'', 329), (''SysPkeyAlloc'', 330), (''SysPkeyFree'', 331),
     (''SysStatx'', 332), (''SysIoPgetevents'', 333), (''SysRseq'', 334),
     (''SysPidfdSendSignal'', 424), (''SysIoUringSetup'', 425), (''SysIoUringEnter'', 426),
     (''SysIoUringRegister'', 427), (''SysOpenTree'', 428), (''SysMoveMount'', 429),
     (''SysFsopen'', 430), (''SysFsconfig'', 431), (''SysFsmount'', 432), (''SysFspick'', 433),
     (''SysPidfdOpen'', 434), (''SysClone3'', 435), (''SysCloseRange'', 436),
     (''SysOpenat2'', 437), (''SysPidfdGetfd'', 438), (''SysFaccessat2'', 439),
     (''SysProcessMadvise'', 440), (''SysEpollPwait2'', 441), (''SysMountSetattr'', 442),
     (''SysQuotactlFd'', 443), (''SysLandlockCreateRuleset'', 444),
     (''SysLandlockAddRule'', 445), (''SysLandlockRestrictSelf'', 446),
     (''SysMemfdSecret'', 447), (''SysLastSyscall'', 448)]"

definition syscall_guards :: "(string \<times> int) list" where
  "syscall_guards = syscall_guards_0 @ syscall_guards_1 @ syscall_guards_2"

definition Syscall_name_0 :: string where
  "Syscall_name_0 =
     ''SysReadSysWriteSysOpenSysCloseSysStatSysFstatSysLstatSysPollSysLseekSysMmapSysMprote'' @
     ''ctSysMunmapSysBrkSysRtSigactionSysRtSigprocmaskSysRtSigreturnSysIoctlSysPread64SysPw'' @
     ''rite64SysReadvSysWritevSysAccessSysPipeSysSelectSysSchedYieldSysMremapSysMsyncSysMin'' @
     ''coreSysMadviseSysShmgetSysShmatSysShmctlSysDupSysDup2SysPauseSysNanosleepSysGetitime'' @
     ''rSysAlarmSysSetitimerSysGetpidSysSendfileSysSocketSysConnectSysAcceptSysSendtoSysRec'' @
     ''vfromSysSendmsgSysRecvmsgSysShutdownSysBindSysListenSysGetsocknameSysGetpeernameSysS'' @
     ''ocketpairSysSetsockoptSysGetsockoptSysCloneSysForkSysVforkSysExecveSysExitSysWait4Sy'' @
     ''sKillSysUnameSysSemgetSysSemopSysSemctlSysShmdtSysMsggetSysMsgsndSysMsgrcvSysMsgctlS'' @
     ''ysFcntlSysFlockSysFsyncSysFdatasyncSysTruncateSysFtruncateSysGetdentsSysGetcwdSysChd'' @
     ''irSysFchdirSysRenameSysMkdirSysRmdirSysCreatSysLinkSysUnlinkSysSymlinkSysReadlinkSys'' @
     ''ChmodSysFchmodSysChownSysFchownSysLchownSysUmaskSysGettimeofdaySysGetrlimitSysGetrus'' @
     ''ageSysSysinfoSysTimesSysPtraceSysGetuidSysSyslogSysGetgidSysSetuidSysSetgidSysGeteui'' @
     ''dSysGetegidSysSetpgidSysGetppidSysGetpgrpSysSetsidSysSetreuidSysSetregidSysGetgroups'' @
     ''SysSetgroupsSysSetresuidSysGetresuidSysSetresgidSysGetresgidSysGetpgidSysSetfsuidSys'' @
     ''SetfsgidSysGetsidSysCapgetSysCapsetSysRtSigpendingSysRtSigtimedwaitSysRtSigqueueinfo'' @
     ''SysRtSigsuspendSysSigaltstackSysUtimeSysMknodSysUselibSysPersonalitySysUstatSysStatf'' @
     ''sSysFstatfsSysSysfsSysGetprioritySysSetprioritySysSchedSetparamSysSchedGetparamSysSc'' @
     ''hedSetschedulerSysSchedGetschedulerSysSchedGetPriorityMaxSysSchedGetPriorityMinSysSc'' @
     ''hedRrGetIntervalSysMlockSysMunlockSysMlockallSysMunlockallSysVhangupSysModifyLdtSysP'' @
     ''ivotRootSysSysctlSysPrctlSysArchPrctlSysAdjtimexSysSetrlimitSysChrootSysSyncSysAcctS'' @
     ''ysSettimeofdaySysMountSysUmount2SysSwaponSysSwapoffSysRebootSysSethostnameSysSetdoma'' @
     ''innameSysIoplSysIopermSysCreateModuleSysInitModuleSysDeleteModuleSysGetKernelSymsSys'' @
     ''QueryModuleSysQuotactlSysNfsservctlSysGetpmsgSysPutpmsgSysAfsSyscallSysTuxcallSysSec'' @
     ''uritySysGettidSysReadaheadSysSetxattrSysLsetxattrSysFsetxattrSysGetxattrSysLgetxattr'' @
     ''SysFgetxattrSysListxattrSysLlistxattrSysFlistxattrSysRemovexattrSysLremovexattrSysFr'' @
     ''emovexattrSysTkillSysTimeSysFutexSysSchedSetaffinitySysSchedGetaffinitySysSetThreadA'' @
     ''reaSysIoSetupSysIoDestroySysIoGeteventsSysIoSubmitSysIoCancelSysGetThreadAreaSysLook'' @
     ''upDcookieSysEpollCreateSysEpollCtlOldSysEpollWaitOldSysRemapFilePagesSysGetdents64Sy'' @
     ''sSetTidAddressSysRestartSyscallSysSemtimedopSysFadvise64SysTimerCreateSysTimerSettim'' @
     ''eSysTimerGettimeSysTimerGetoverrunSysTimerDeleteSysClockSettimeSysClockGettimeSysClo'' @
     ''ckGetresSysClockNanosleepSysExitGroupSysEpollWaitSysEpollCtlSysTgkillSysUtimesSysVse'' @
     ''rverSysMbindSysSetMempolicySysGetMempolicySysMqOpenSysMqUnlinkSysMqTimedsendSysMqTim'' @
     ''edreceiveSysMqNotifySysMqGetsetattrSysKexecLoadSysWaitidSysAddKeySysRequestKeySysKey'' @
     ''ctlSysIoprioSetSysIoprioGetSysInotifyInitSysInotifyAddWatchSysInotifyRmWatchSysMigra'' @
     ''tePagesSysOpenatSysMkdiratSysMknodatSysFchownatSysFutimesatSysNewfstatatSysUnlinkatS'' @
     ''ysRenameatSysLinkatSysSymlinkatSysReadlinkatSysFchmodatSysFaccessatSysPselect6SysPpo'' @
     ''llSysUnshareSysSetRobustListSysGetRobustListSysSpliceSysTeeSysSyncFileRangeSysVmspli'' @
     ''ceSysMovePagesSysUtimensatSysEpollPwaitSysSignalfdSysTimerfdCreateSysEventfdSysFallo'' @
     ''cateSysTimerfdSettimeSysTimerfdGettimeSysAccept4SysSignalfd4SysEventfd2SysEpollCreat'' @
     ''e1SysDup3SysPipe2SysInotifyInit1SysPreadvSysPwritevSysRtTgsigqueueinfoSysPerfEventOp'' @
     ''enSysRecvmmsgSysFanotifyInitSysFanotifyMarkSysPrlimit64SysNameToHandleAtSysOpenByHan'' @
     ''dleAtSysClockAdjtimeSysSyncfsSysSendmmsgSysSetnsSysGetcpuSysProcessVmReadvSysProcess'' @
     ''VmWritevSysKcmpSysFinitModuleSysSchedSetattrSysSchedGetattrSysRenameat2SysSeccompSys'' @
     ''GetrandomSysMemfdCreateSysKexecFileLoadSysBpfSysExecveatSysUserfaultfdSysMembarrierS'' @
     ''ysMlock2SysCopyFileRangeSysPreadv2SysPwritev2SysPkeyMprotectSysPkeyAllocSysPkeyFreeS'' @
     ''ysStatxSysIoPgeteventsSysRseq''"

definition Syscall_name_1 :: string where
  "Syscall_name_1 =
     ''SysPidfdSendSignalSysIoUringSetupSysIoUringEnterSysIoUringRegisterSysOpenTreeSysMove'' @
     ''MountSysFsopenSysFsconfigSysFsmountSysFspickSysPidfdOpenSysClone3SysCloseRangeSysOpe'' @
     ''nat2SysPidfdGetfdSysFaccessat2SysProcessMadviseSysEpollPwait2SysMountSetattrSysQuota'' @
     ''ctlFdSysLandlockCreateRulesetSysLandlockAddRuleSysLandlockRestrictSelfSysMemfdSecret'' @
     ''SysLastSyscall''"

definition Syscall_index_0 :: "nat list" where
  "Syscall_index_0 =
    [0, 7, 15, 22, 30, 37, 45, 53, 60, 68, 75, 86, 95, 101, 115, 131, 145, 153, 163, 174, 182,
     191, 200, 207, 216, 229, 238, 246, 256, 266, 275, 283, 292, 298, 305, 313, 325, 337, 345,
     357, 366, 377, 386, 396, 405, 414, 425, 435, 445, 456, 463, 472, 486, 500, 513, 526, 539,
     547, 554, 562, 571, 578, 586, 593, 601, 610, 618, 627, 635, 644, 653, 662, 671, 679, 687,
     695, 707, 718, 730, 741, 750, 758, 767, 776, 784, 792, 800, 807, 816, 826, 837, 845, 854,
     862, 871, 880, 888, 903, 915, 927, 937, 945, 954, 963, 972, 981, 990, 999, 1009, 1019,
     1029, 1039, 1049, 1058, 1069, 1080, 1092, 1104, 1116, 1128, 1140, 1152, 1162, 1173, 1184,
     1193, 1202, 1211, 1226, 1243, 1260, 1275, 1289, 1297, 1305, 1314, 1328, 1336, 1345, 1355,
     1363, 1377, 1391, 1407, 1423, 1443, 1463, 1485, 1507, 1528, 1536, 1546, 1557, 1570, 1580,
     1592, 1604, 1613, 1621, 1633, 1644, 1656, 1665, 1672, 1679, 1694, 1702, 1712, 1721, 1731,
     1740, 1754, 1770, 1777, 1786, 1801, 1814, 1829, 1845, 1859, 1870, 1883, 1893, 1903, 1916,
     1926, 1937, 1946, 1958, 1969, 1981, 1993, 2004, 2016, 2028, 2040, 2053, 2066, 2080, 2095,
     2110, 2118, 2125, 2133, 2152, 2171, 2187, 2197, 2209, 2223, 2234, 2245, 2261, 2277, 2291,
     2305, 2320, 2337, 2350, 2366, 2383, 2396, 2408, 2422, 2437, 2452, 2470, 2484, 2499, 2514,
     2528, 2545, 2557, 2569, 2580, 2589, 2598, 2608, 2616, 2631, 2646, 2655, 2666, 2680, 2697,
     2708, 2723, 2735, 2744, 2753, 2766, 2775, 2787, 2799, 2813, 2831, 2848, 2863, 2872, 2882,
     2892, 2903, 2915, 2928, 2939, 2950, 2959, 2971, 2984, 2995, 3007, 3018, 3026, 3036, 3052,
     3068, 3077, 3083, 3099, 3110, 3122, 3134, 3147, 3158, 3174, 3184, 3196, 3213, 3230, 3240,
     3252, 3263, 3278, 3285, 3293, 3308, 3317, 3327, 3346, 3362, 3373, 3388, 3403, 3415, 3432,
     3449, 3464, 3473, 3484, 3492, 3501, 3518, 3536, 3543, 3557, 3572, 3587, 3599, 3609, 3621,
     3635, 3651, 3657, 3668, 3682, 3695, 3704, 3720, 3730, 3741, 3756, 3768, 3779, 3787, 3802,
     3809]"

definition Syscall_index_1 :: "nat list" where
  "Syscall_index_1 =
    [0, 18, 33, 48, 66, 77, 89, 98, 109, 119, 128, 140, 149, 162, 172, 185, 198, 215, 229, 244,
     257, 281, 299, 322, 336, 350]"

section \<open>ia32_syscalls.go\<close>

definition ia32_syscall_consts_0 :: "(string \<times> int) list" where
  "ia32_syscall_consts_0 =
    [(''IA32SysRestartSyscall'', 0), (''IA32SysExit'', 1), (''IA32SysFork'', 2),
     (''IA32SysRead'', 3), (''IA32SysWrite'', 4), (''IA32CompatSysOpen'', 5),
     (''IA32SysClose'', 6), (''IA32SysWaitpid'', 7), (''IA32SysCreat'', 8),
     (''IA32SysLink'', 9), (''IA32SysUnlink'', 10), (''IA32CompatSysExecve'', 11),
     (''IA32SysChdir'', 12), (''IA32SysTime32'', 13), (''IA32SysMknod'', 14),
     (''IA32SysChmod'', 15), (''IA32SysLchown16'', 16), (''IA32Break'', 17),
     (''IA32SysStat'', 18), (''IA32CompatSysLseek'', 19), (''IA32SysGetpid'', 20),
     (''IA32SysMount'', 21), (''IA32SysOldumount'', 22), (''IA32SysSetuid16'', 23),
     (''IA32SysGetuid16'', 24), (''IA32SysStime32'', 25), (''IA32CompatSysPtrace'', 26),
     (''IA32SysAlarm'', 27), (''IA32SysFstat'', 28), (''IA32SysPause'', 29),
     (''IA32SysUtime32'', 30), (''IA32Stty'', 31), (''IA32Gtty'', 32), (''IA32SysAccess'', 33),
     (''IA32SysNice'', 34), (''IA32Ftime'', 35), (''IA32SysSync'', 36), (''IA32SysKill'', 37),
     (''IA32SysRename'', 38), (''IA32SysMkdir'', 39), (''IA32SysRmdir'', 40),
     (''IA32SysDup'', 41), (''IA32SysPipe'', 42), (''IA32CompatSysTimes'', 43),
     (''IA32Prof'', 44), (''IA32SysBrk'', 45), (''IA32SysSetgid16'', 46),
     (''IA32SysGetgid16'', 47), (''IA32SysSignal'', 48), (''IA32SysGeteuid16'', 49),
     (''IA32SysGetegid16'', 50), (''IA32SysAcct'', 51), (''IA32SysUmount'', 52),
     (''IA32Lock'', 53), (''IA32CompatSysIoctl'', 54), (''IA32CompatSysFcntl64'', 55),
     (''IA32Mpx'', 56), (''IA32SysSetpgid'', 57), (''IA32Ulimit'', 58),
     (''IA32SysOlduname'', 59), (''IA32SysUmask'', 60), (''IA32SysChroot'', 61),
     (''IA32CompatSysUstat'', 62), (''IA32SysDup2'', 63), (''IA32SysGetppid'', 64),
     (''IA32SysGetpgrp'', 65), (''IA32SysSetsid'', 66), (''IA32CompatSysSigaction'', 67),
     (''IA32SysSgetmask'', 68), (''IA32SysSsetmask'', 69), (''IA32SysSetreuid16'', 70),
     (''IA32SysSetregid16'', 71), (''IA32SysSigsuspend'', 72),
     (''IA32CompatSysSigpending'', 73), (''IA32SysSethostname'', 74),
     (''IA32CompatSysSetrlimit'', 75), (''IA32CompatSysOldGetrlimit'', 76),
     (''IA32CompatSysGetrusage'', 77), (''IA32CompatSysGettimeofday'', 78),
     (''IA32CompatSysSettimeofday'', 79), (''IA32SysGetgroups16'', 80),
     (''IA32SysSetgroups16'', 81), (''IA32CompatSysOldSelect'', 82), (''IA32SysSymlink'', 83),
     (''IA32SysLstat'', 84), (''IA32SysReadlink'', 85), (''IA32SysUselib'', 86),
     (''IA32SysSwapon'', 87), (''IA32SysReboot'', 88), (''IA32CompatSysOldReaddir'', 89),
     (''IA32CompatSysIa32Mmap'', 90), (''IA32SysMunmap'', 91), (''IA32CompatSysTruncate'', 92),
     (''IA32CompatSysFtruncate'', 93), (''IA32SysFchmod'', 94), (''IA32SysFchown16'', 95),
     (''IA32SysGetpriority'', 96), (''IA32SysSetpriority'', 97), (''IA32Profil'', 98),
     (''IA32CompatSysStatfs'', 99), (''IA32CompatSysFstatfs'', 100), (''IA32SysIoperm'', 101),
     (''IA32CompatSysSocketcall'', 102), (''IA32SysSyslog'', 103),
     (''IA32CompatSysSetitimer'', 104), (''IA32CompatSysGetitimer'', 105),
     (''IA32CompatSysStat'', 106), (''IA32CompatSysLstat'', 107),
     (''IA32CompatSysFstat'', 108), (''IA32SysUname'', 109), (''IA32SysIopl'', 110),
     (''IA32SysVhangup'', 111), (''IA32Idle'', 112)]"

definition ia32_syscall_consts_1 :: "(string \<times> int) list" where
  "ia32_syscall_consts_1 =
    [(''IA32CompatSysWait4'', 114), (''IA32SysSwapoff'', 115), (''IA32CompatSysSysinfo'', 116),
     (''IA32CompatSysIpc'', 117), (''IA32SysFsync'', 118), (''IA32CompatSysSigreturn'', 119),
     (''IA32CompatSysIa32Clone'', 120), (''IA32SysSetdomainname'', 121),
     (''IA32SysNewUname'', 122), (''IA32SysModifyLdt'', 123), (''IA32SysAdjtimexTime32'', 124),
     (''IA32SysMprotect'', 125), (''IA32CompatSysSigprocmask'', 126),
     (''IA32CreateModule'', 127), (''IA32SysInitModule'', 128), (''IA32SysDeleteModule'', 129),
     (''IA32GetKernelSyms'', 130), (''IA32SysQuotactl'', 131), (''IA32SysGetpgid'', 132),
     (''IA32SysFchdir'', 133)]"

definition ia32_syscall_consts_2 :: "(string \<times> int) list" where
  "ia32_syscall_consts_2 =
    [(''IA32SysSysfs'', 135), (''IA32SysPersonality'', 136), (''IA32AfsSyscall'', 137),
     (''IA32SysSetfsuid16'', 138), (''IA32SysSetfsgid16'', 139), (''IA32SysLlseek'', 140),
     (''IA32CompatSysGetdents'', 141), (''IA32CompatSysSelect'', 142), (''IA32SysFlock'', 143),
     (''IA32SysMsync'', 144), (''IA32SysReadv'', 145), (''IA32SysWritev'', 146),
     (''IA32SysGetsid'', 147), (''IA32SysFdatasync'', 148)]"

definition ia32_syscall_consts_3 :: "(string \<times> int) list" where
  "ia32_syscall_consts_3 =
    [(''IA32SysMlock'', 150), (''IA32SysMunlock'', 151), (''IA32SysMlockall'', 152),
     (''IA32SysMunlockall'', 153), (''IA32SysSchedSetparam'', 154),
     (''IA32SysSchedGetparam'', 155), (''IA32SysSchedSetscheduler'', 156),
     (''IA32SysSchedGetscheduler'', 157), (''IA32SysSchedYield'', 158),
     (''IA32SysSchedGetPriorityMax'', 159), (''IA32SysSchedGetPriorityMin'', 160),
     (''IA32SysSchedRrGetIntervalTime32'', 161), (''IA32SysNanosleepTime32'', 162),
     (''IA32SysMremap'', 163), (''IA32SysSetresuid16'', 164), (''IA32SysGetresuid16'', 165)]"

definition ia32_syscall_consts_4 :: "(string \<times> int) list" where
  "ia32_syscall_consts_4 =
    [(''IA32QueryModule'', 167), (''IA32SysPoll'', 168), (''IA32Nfsservctl'', 169),
     (''IA32SysSetresgid16'', 170), (''IA32SysGetresgid16'', 171), (''IA32SysPrctl'', 172),
     (''IA32CompatSysRtSigreturn'', 173), (''IA32CompatSysRtSigaction'', 174),
     (''IA32CompatSysRtSigprocmask'', 175), (''IA32CompatSysRtSigpending'', 176),
     (''IA32CompatSysRtSigtimedwaitTime32'', 177), (''IA32CompatSysRtSigqueueinfo'', 178),
     (''IA32CompatSysRtSigsuspend'', 179), (''IA32SysIa32Pread64'', 180),
     (''IA32SysIa32Pwrite64'', 181), (''IA32SysChown16'', 182), (''IA32SysGetcwd'', 183),
     (''IA32SysCapget'', 184), (''IA32SysCapset'', 185), (''IA32CompatSysSigaltstack'', 186),
     (''IA32CompatSysSendfile'', 187), (''IA32Getpmsg'', 188), (''IA32Putpmsg'', 189),
     (''IA32SysVfork'', 190), (''IA32CompatSysGetrlimit'', 191), (''IA32SysMmapPgoff'', 192),
     (''IA32SysIa32Truncate64'', 193), (''IA32SysIa32Ftruncate64'', 194),
     (''IA32CompatSysIa32Stat64'', 195), (''IA32CompatSysIa32Lstat64'', 196),
     (''IA32CompatSysIa32Fstat64'', 197), (''IA32SysLchown'', 198), (''IA32SysGetuid'', 199),
     (''IA32SysGetgid'', 200), (''IA32SysGeteuid'', 201), (''IA32SysGetegid'', 202),
     (''IA32SysSetreuid'', 203), (''IA32SysSetregid'', 204), (''IA32SysGetgroups'', 205),
     (''IA32SysSetgroups'', 206), (''IA32SysFchown'', 207), (''IA32SysSetresuid'', 208),
     (''IA32SysGetresuid'', 209), (''IA32SysSetresgid'', 210), (''IA32SysGetresgid'', 211),
     (''IA32SysChown'', 212), (''IA32SysSetuid'', 213), (''IA32SysSetgid'', 214),
     (''IA32SysSetfsuid'', 215), (''IA32SysSetfsgid'', 216), (''IA32SysPivotRoot'', 217),
     (''IA32SysMincore'', 218), (''IA32SysMadvise'', 219), (''IA32SysGetdents64'', 220),
     (''IA32CompatSysFcntl642'', 221)]"

definition ia32_syscall_consts_5 :: "(string \<times> int) list" where
  "ia32_syscall_consts_5 =
    [(''IA32SysGettid'', 224), (''IA32SysIa32Readahead'', 225), (''IA32SysSetxattr'', 226),
     (''IA32SysLsetxattr'', 227), (''IA32SysFsetxattr'', 228), (''IA32SysGetxattr'', 229),
     (''IA32SysLgetxattr'', 230), (''IA32SysFgetxattr'', 231), (''IA32SysListxattr'', 232),
     (''IA32SysLlistxattr'', 233), (''IA32SysFlistxattr'', 234), (''IA32SysRemovexattr'', 235),
     (''IA32SysLremovexattr'', 236), (''IA32SysFremovexattr'', 237), (''IA32SysTkill'', 238),
     (''IA32SysSendfile64'', 239), (''IA32SysFutexTime32'', 240),
     (''IA32CompatSysSchedSetaffinity'', 241), (''IA32CompatSysSchedGetaffinity'', 242),
     (''IA32SysSetThreadArea'', 243), (''IA32SysGetThreadArea'', 244),
     (''IA32CompatSysIoSetup'', 245), (''IA32SysIoDestroy'', 246),
     (''IA32SysIoGeteventsTime32'', 247), (''IA32CompatSysIoSubmit'', 248),
     (''IA32SysIoCancel'', 249), (''IA32SysIa32Fadvise64'', 250)]"

definition ia32_syscall_consts_6 :: "(string \<times> int) list" where
  "ia32_syscall_consts_6 =
    [(''IA32SysExitGroup'', 252), (''IA32CompatSysLookupDcookie'', 253),
     (''IA32SysEpollCreate'', 254), (''IA32SysEpollCtl'', 255), (''IA32SysEpollWait'', 256),
     (''IA32SysRemapFilePages'', 257), (''IA32SysSetTidAddress'', 258),
     (''IA32CompatSysTimerCreate'', 259), (''IA32SysTimerSettime32'', 260),
     (''IA32SysTimerGettime32'', 261), (''IA32SysTimerGetoverrun'', 262),
     (''IA32SysTimerDelete'', 263), (''IA32SysClockSettime32'', 264),
     (''IA32SysClockGettime32'', 265), (''IA32SysClockGetresTime32'', 266),
     (''IA32SysClockNanosleepTime32'', 267), (''IA32CompatSysStatfs64'', 268),
     (''IA32CompatSysFstatfs64'', 269), (''IA32SysTgkill'', 270),
     (''IA32SysUtimesTime32'', 271), (''IA32SysIa32Fadvise6464'', 272), (''IA32Vserver'', 273),
     (''IA32SysMbind'', 274), (''IA32SysGetMempolicy'', 275), (''IA32SysSetMempolicy'', 276),
     (''IA32CompatSysMqOpen'', 277), (''IA32SysMqUnlink'', 278),
     (''IA32SysMqTimedsendTime32'', 279), (''IA32SysMqTimedreceiveTime32'', 280),
     (''IA32CompatSysMqNotify'', 281), (''IA32CompatSysMqGetsetattr'', 282),
     (''IA32CompatSysKexecLoad'', 283), (''IA32CompatSysWaitid'', 284)]"

definition ia32_syscall_consts_7 :: "(string \<times> int) list" where
  "ia32_syscall_consts_7 =
    [(''IA32SysAddKey'', 286), (''IA32SysRequestKey'', 287), (''IA32CompatSysKeyctl'', 288),
     (''IA32SysIoprioSet'', 289), (''IA32SysIoprioGet'', 290), (''IA32SysInotifyInit'', 291),
     (''IA32SysInotifyAddWatch'', 292), (''IA32SysInotifyRmWatch'', 293),
     (''IA32SysMigratePages'', 294), (''IA32CompatSysOpenat'', 295), (''IA32SysMkdirat'', 296),
     (''IA32SysMknodat'', 297), (''IA32SysFchownat'', 298), (''IA32SysFutimesatTime32'', 299),
     (''IA32CompatSysIa32Fstatat64'', 300), (''IA32SysUnlinkat'', 301),
     (''IA32SysRenameat'', 302), (''IA32SysLinkat'', 303), (''IA32SysSymlinkat'', 304),
     (''IA32SysReadlinkat'', 305), (''IA32SysFchmodat'', 306), (''IA32SysFaccessat'', 307),
     (''IA32CompatSysPselect6Time32'', 308), (''IA32CompatSysPpollTime32'', 309),
     (''IA32SysUnshare'', 310), (''IA32CompatSysSetRobustList'', 311),
     (''IA32CompatSysGetRobustList'', 312), (''IA32SysSplice'', 313),
     (''IA32SysIa32SyncFileRange'', 314), (''IA32SysTee'', 315), (''IA32SysVmsplice'', 316),
     (''IA32SysMovePages'', 317), (''IA32SysGetcpu'', 318), (''IA32SysEpollPwait'', 319),
     (''IA32SysUtimensatTime32'', 320), (''IA32CompatSysSignalfd'', 321),
     (''IA32SysTimerfdCreate'', 322), (''IA32SysEventfd'', 323),
     (''IA32SysIa32Fallocate'', 324), (''IA32SysTimerfdSettime32'', 325),
     (''IA32SysTimerfdGettime32'', 326), (''IA32CompatSysSignalfd4'', 327),
     (''IA32SysEventfd2'', 328), (''IA32SysEpollCreate1'', 329), (''IA32SysDup3'', 330),
     (''IA32SysPipe2'', 331), (''IA32SysInotifyInit1'', 332), (''IA32CompatSysPreadv'', 333),
     (''IA32CompatSysPwritev'', 334), (''IA32CompatSysRtTgsigqueueinfo'', 335),
     (''IA32SysPerfEventOpen'', 336), (''IA32CompatSysRecvmmsgTime32'', 337),
     (''IA32SysFanotifyInit'', 338), (''IA32CompatSysFanotifyMark'', 339),
     (''IA32SysPrlimit64'', 340), (''IA32SysNameToHandleAt'', 341),
     (''IA32CompatSysOpenByHandleAt'', 342), (''IA32SysClockAdjtime32'', 343),
     (''IA32SysSyncfs'', 344), (''IA32CompatSysSendmmsg'', 345), (''IA32SysSetns'', 346),
     (''IA32SysProcessVmReadv'', 347), (''IA32SysProcessVmWritev'', 348),
     (''IA32SysKcmp'', 349), (''IA32SysFinitModule'', 350), (''IA32SysSchedSetattr'', 351),
     (''IA32SysSchedGetattr'', 352), (''IA32SysRenameat2'', 353), (''IA32SysSeccomp'', 354),
     (''IA32SysGetrandom'', 355), (''IA32SysMemfdCreate'', 356), (''IA32SysBpf'', 357),
     (''IA32CompatSysExecveat'', 358), (''IA32SysSocket'', 359), (''IA32SysSocketpair'', 360),
     (''IA32SysBind'', 361), (''IA32SysConnect'', 362), (''IA32SysListen'', 363),
     (''IA32SysAccept4'', 364), (''IA32SysGetsockopt'', 365), (''IA32SysSetsockopt'', 366),
     (''IA32SysGetsockname'', 367), (''IA32SysGetpeername'', 368), (''IA32SysSendto'', 369),
     (''IA32CompatSysSendmsg'', 370), (''IA32CompatSysRecvfrom'', 371),
     (''IA32CompatSysRecvmsg'', 372), (''IA32SysShutdown'', 373),
     (''IA32SysUserfaultfd'', 374), (''IA32SysMembarrier'', 375), (''IA32SysMlock2'', 376),
     (''IA32SysCopyFileRange'', 377), (''IA32CompatSysPreadv2'', 378),
     (''IA32CompatSysPwritev2'', 379), (''IA32SysPkeyMprotect'', 380),
     (''IA32SysPkeyAlloc'', 381), (''IA32SysPkeyFree'', 382), (''IA32SysStatx'', 383),
     (''IA32CompatSysArchPrctl'', 384), (''IA32CompatSysIoPgetevents'', 385),
     (''IA32SysRseq'', 386)]"

definition ia32_syscall_consts_8 :: "(string \<times> int) list" where
  "ia32_syscall_consts_8 =
    [(''IA32SysSemget'', 393), (''IA32CompatSysSemctl'', 394), (''IA32SysShmget'', 395),
     (''IA32CompatSysShmctl'', 396), (''IA32CompatSysShmat'', 397), (''IA32SysShmdt'', 398),
     (''IA32SysMsgget'', 399), (''IA32CompatSysMsgsnd'', 400), (''IA32CompatSysMsgrcv'', 401),
     (''IA32CompatSysMsgctl'', 402), (''IA32SysClockGettime'', 403),
     (''IA32SysClockSettime'', 404), (''IA32SysClockAdjtime'', 405),
     (''IA32SysClockGetres'', 406), (''IA32SysClockNanosleep'', 407),
     (''IA32SysTimerGettime'', 408), (''IA32SysTimerSettime'', 409),
     (''IA32SysTimerfdGettime'', 410), (''IA32SysTimerfdSettime'', 411),
     (''IA32SysUtimensat'', 412), (''IA32CompatSysPselect6Time64'', 413),
     (''IA32CompatSysPpollTime64'', 414)]"

definition ia32_syscall_consts_9 :: "(string \<times> int) list" where
  "ia32_syscall_consts_9 =
    [(''IA32SysIoPgetevents'', 416), (''IA32CompatSysRecvmmsgTime64'', 417),
     (''IA32SysMqTimedsend'', 418), (''IA32SysMqTimedreceive'', 419),
     (''IA32SysSemtimedop'', 420), (''IA32CompatSysRtSigtimedwaitTime64'', 421),
     (''IA32SysFutex'', 422), (''IA32SysSchedRrGetInterval'', 423),
     (''IA32SysPidfdSendSignal'', 424), (''IA32SysIoUringSetup'', 425),
     (''IA32SysIoUringEnter'', 426), (''IA32SysIoUringRegister'', 427),
     (''IA32SysOpenTree'', 428), (''IA32SysMoveMount'', 429), (''IA32SysFsopen'', 430),
     (''IA32SysFsconfig'', 431), (''IA32SysFsmount'', 432), (''IA32SysFspick'', 433),
     (''IA32SysPidfdOpen'', 434), (''IA32SysClone3'', 435), (''IA32SysCloseRange'', 436),
     (''IA32SysOpenat2'', 437), (''IA32SysPidfdGetfd'', 438), (''IA32SysFaccessat2'', 439),
     (''IA32SysProcessMadvise'', 440), (''IA32CompatSysEpollPwait2'', 441),
     (''IA32SysMountSetattr'', 442), (''IA32SysQuotactlFd'', 443),
     (''IA32SysLandlockCreateRuleset'', 444), (''IA32SysLandlockAddRule'', 445),
     (''IA32SysLandlockRestrictSelf'', 446), (''IA32SysMemfdSecret'', 447),
     (''IA32SysProcessMrelease'', 448), (''IA32SysFutexWaitv'', 449),
     (''IA32SysSetMempolicyHomeNode'', 450)]"

definition ia32_syscall_consts :: "(string \<times> int) list" where
  "ia32_syscall_consts = ia32_syscall_consts_0 @ ia32_syscall_consts_1 @ ia32_syscall_consts_2 @ ia32_syscall_consts_3 @ ia32_syscall_consts_4 @ ia32_syscall_consts_5 @ ia32_syscall_consts_6 @ ia32_syscall_consts_7 @ ia32_syscall_consts_8 @ ia32_syscall_consts_9"

definition ia32_syscall_cases_0 :: "(string \<times> string) list" where
  "ia32_syscall_cases_0 =
    [(''ia32_restartcall'', ''IA32SysRestartSyscall''), (''ia32_exit'', ''IA32SysExit''),
     (''ia32_fork'', ''IA32SysFork''), (''ia32_read'', ''IA32SysRead''),
     (''ia32_write'', ''IA32SysWrite''), (''ia32_compat_open'', ''IA32CompatSysOpen''),
     (''ia32_close'', ''IA32SysClose''), (''ia32_waitpid'', ''IA32SysWaitpid''),
     (''ia32_creat'', ''IA32SysCreat''), (''ia32_link'', ''IA32SysLink''),
     (''ia32_unlink'', ''IA32SysUnlink''), (''ia32_compat_execve'', ''IA32CompatSysExecve''),
     (''ia32_chdir'', ''IA32SysChdir''), (''ia32_time32'', ''IA32SysTime32''),
     (''ia32_mknod'', ''IA32SysMknod''), (''ia32_chmod'', ''IA32SysChmod''),
     (''ia32_lchown16'', ''IA32SysLchown16''), (''ia32_break'', ''IA32Break''),
     (''ia32_stat'', ''IA32SysStat''), (''ia32_compat_lseek'', ''IA32CompatSysLseek''),
     (''ia32_getpid'', ''IA32SysGetpid''), (''ia32_mount'', ''IA32SysMount''),
     (''ia32_oldumount'', ''IA32SysOldumount''), (''ia32_setuid16'', ''IA32SysSetuid16''),
     (''ia32_getuid16'', ''IA32SysGetuid16''), (''ia32_stime32'', ''IA32SysStime32''),
     (''ia32_compat_ptrace'', ''IA32CompatSysPtrace''), (''ia32_alarm'', ''IA32SysAlarm''),
     (''ia32_fstat'', ''IA32SysFstat''), (''ia32_pause'', ''IA32SysPause''),
     (''ia32_utime32'', ''IA32SysUtime32''), (''ia32_stty'', ''IA32Stty''),
     (''ia32_gtty'', ''IA32Gtty''), (''ia32_access'', ''IA32SysAccess''),
     (''ia32_nice'', ''IA32SysNice''), (''ia32_ftime'', ''IA32Ftime''),
     (''ia32_sync'', ''IA32SysSync''), (''ia32_kill'', ''IA32SysKill''),
     (''ia32_rename'', ''IA32SysRename''), (''ia32_mkdir'', ''IA32SysMkdir''),
     (''ia32_rmdir'', ''IA32SysRmdir''), (''ia32_dup'', ''IA32SysDup''),
     (''ia32_pipe'', ''IA32SysPipe''), (''ia32_compat_times'', ''IA32CompatSysTimes''),
     (''ia32_prof'', ''IA32Prof''), (''ia32_brk'', ''IA32SysBrk''),
     (''ia32_setgid16'', ''IA32SysSetgid16''), (''ia32_getgid16'', ''IA32SysGetgid16''),
     (''ia32_signal'', ''IA32SysSignal''), (''ia32_geteuid16'', ''IA32SysGeteuid16''),
     (''ia32_getegid16'', ''IA32SysGetegid16''), (''ia32_acct'', ''IA32SysAcct''),
     (''ia32_umount'', ''IA32SysUmount''), (''ia32_lock'', ''IA32Lock''),
     (''ia32_compat_ioctl'', ''IA32CompatSysIoctl''),
     (''ia32_compat_fcntl64'', ''IA32CompatSysFcntl64''), (''ia32_mpx'', ''IA32Mpx''),
     (''ia32_setpgid'', ''IA32SysSetpgid''), (''ia32_ulimit'', ''IA32Ulimit''),
     (''ia32_olduname'', ''IA32SysOlduname''), (''ia32_umask'', ''IA32SysUmask''),
     (''ia32_chroot'', ''IA32SysChroot''), (''ia32_compat_ustat'', ''IA32CompatSysUstat''),
     (''ia32_dup2'', ''IA32SysDup2''), (''ia32_getppid'', ''IA32SysGetppid''),
     (''ia32_getpgrp'', ''IA32SysGetpgrp''), (''ia32_setsid'', ''IA32SysSetsid''),
     (''ia32_compat_sigaction'', ''IA32CompatSysSigaction''),
     (''ia32_sgetmask'', ''IA32SysSgetmask''), (''ia32_ssetmask'', ''IA32SysSsetmask'')]"

definition ia32_syscall_cases_1 :: "(string \<times> string) list" where
  "ia32_syscall_cases_1 =
    [(''ia32_setreuid16'', ''IA32SysSetreuid16''),
     (''ia32_setregid16'', ''IA32SysSetregid16''),
     (''ia32_sigsuspend'', ''IA32SysSigsuspend''),
     (''ia32_compat_sigpending'', ''IA32CompatSysSigpending''),
     (''ia32_sethostname'', ''IA32SysSethostname''),
     (''ia32_compat_setrlimit'', ''IA32CompatSysSetrlimit''),
     (''ia32_compat_old_getrlimit'', ''IA32CompatSysOldGetrlimit''),
     (''ia32_compat_getrusage'', ''IA32CompatSysGetrusage''),
     (''ia32_compat_gettimeofday'', ''IA32CompatSysGettimeofday''),
     (''ia32_compat_settimeofday'', ''IA32CompatSysSettimeofday''),
     (''ia32_getgroups16'', ''IA32SysGetgroups16''),
     (''ia32_setgroups16'', ''IA32SysSetgroups16''),
     (''ia32_compat_old_select'', ''IA32CompatSysOldSelect''),
     (''ia32_symlink'', ''IA32SysSymlink''), (''ia32_lstat'', ''IA32SysLstat''),
     (''ia32_readlink'', ''IA32SysReadlink''), (''ia32_uselib'', ''IA32SysUselib''),
     (''ia32_swapon'', ''IA32SysSwapon''), (''ia32_reboot'', ''IA32SysReboot''),
     (''ia32_compat_old_readdir'', ''IA32CompatSysOldReaddir''),
     (''ia32_compat_ia32_mmap'', ''IA32CompatSysIa32Mmap''),
     (''ia32_munmap'', ''IA32SysMunmap''),
     (''ia32_compat_truncate'', ''IA32CompatSysTruncate''),
     (''ia32_compat_ftruncate'', ''IA32CompatSysFtruncate''),
     (''ia32_fchmod'', ''IA32SysFchmod''), (''ia32_fchown16'', ''IA32SysFchown16''),
     (''ia32_getpriority'', ''IA32SysGetpriority''),
     (''ia32_setpriority'', ''IA32SysSetpriority''), (''ia32_profil'', ''IA32Profil''),
     (''ia32_compat_statfs'', ''IA32CompatSysStatfs''),
     (''ia32_compat_fstatfs'', ''IA32CompatSysFstatfs''), (''ia32_ioperm'', ''IA32SysIoperm''),
     (''ia32_compat_socketcall'', ''IA32CompatSysSocketcall''),
     (''ia32log'', ''IA32SysSyslog''), (''ia32_compat_setitimer'', ''IA32CompatSysSetitimer''),
     (''ia32_compat_getitimer'', ''IA32CompatSysGetitimer''),
     (''ia32_compat_stat'', ''IA32CompatSysStat''),
     (''ia32_compat_lstat'', ''IA32CompatSysLstat''),
     (''ia32_compat_fstat'', ''IA32CompatSysFstat''), (''ia32_uname'', ''IA32SysUname''),
     (''ia32_iopl'', ''IA32SysIopl''), (''ia32_vhangup'', ''IA32SysVhangup''),
     (''ia32_idle'', ''IA32Idle''), (''ia32_compat_wait4'', ''IA32CompatSysWait4''),
     (''ia32_swapoff'', ''IA32SysSwapoff''), (''ia32_compatinfo'', ''IA32CompatSysSysinfo''),
     (''ia32_compat_ipc'', ''IA32CompatSysIpc''), (''ia32_fsync'', ''IA32SysFsync''),
     (''ia32_compat_sigreturn'', ''IA32CompatSysSigreturn''),
     (''ia32_compat_ia32_clone'', ''IA32CompatSysIa32Clone''),
     (''ia32_setdomainname'', ''IA32SysSetdomainname''),
     (''ia32_new_uname'', ''IA32SysNewUname''), (''ia32_modify_ldt'', ''IA32SysModifyLdt''),
     (''ia32_adjtimex_time32'', ''IA32SysAdjtimexTime32''),
     (''ia32_mprotect'', ''IA32SysMprotect''),
     (''ia32_compat_sigprocmask'', ''IA32CompatSysSigprocmask''),
     (''ia32_create_module'', ''IA32CreateModule''),
     (''ia32_init_module'', ''IA32SysInitModule''),
     (''ia32_delete_module'', ''IA32SysDeleteModule''),
     (''ia32_get_kernel_syms'', ''IA32GetKernelSyms''),
     (''ia32_quotactl'', ''IA32SysQuotactl''), (''ia32_getpgid'', ''IA32SysGetpgid''),
     (''ia32_fchdir'', ''IA32SysFchdir''), (''ia32fs'', ''IA32SysSysfs''),
     (''ia32_personality'', ''IA32SysPersonality''), (''ia32_afscall'', ''IA32AfsSyscall''),
     (''ia32_setfsuid16'', ''IA32SysSetfsuid16''),
     (''ia32_setfsgid16'', ''IA32SysSetfsgid16''), (''ia32_llseek'', ''IA32SysLlseek''),
     (''ia32_compat_getdents'', ''IA32CompatSysGetdents'')]"

definition ia32_syscall_cases_2 :: "(string \<times> string) list" where
  "ia32_syscall_cases_2 =
    [(''ia32_compat_select'', ''IA32CompatSysSelect''), (''ia32_flock'', ''IA32SysFlock''),
     (''ia32_msync'', ''IA32SysMsync''), (''ia32_readv'', ''IA32SysReadv''),
     (''ia32_writev'', ''IA32SysWritev''), (''ia32_getsid'', ''IA32SysGetsid''),
     (''ia32_fdatasync'', ''IA32SysFdatasync''), (''ia32_mlock'', ''IA32SysMlock''),
     (''ia32_munlock'', ''IA32SysMunlock''), (''ia32_mlockall'', ''IA32SysMlockall''),
     (''ia32_munlockall'', ''IA32SysMunlockall''),
     (''ia32_sched_setparam'', ''IA32SysSchedSetparam''),
     (''ia32_sched_getparam'', ''IA32SysSchedGetparam''),
     (''ia32_sched_setscheduler'', ''IA32SysSchedSetscheduler''),
     (''ia32_sched_getscheduler'', ''IA32SysSchedGetscheduler''),
     (''ia32_sched_yield'', ''IA32SysSchedYield''),
     (''ia32_sched_get_priority_max'', ''IA32SysSchedGetPriorityMax''),
     (''ia32_sched_get_priority_min'', ''IA32SysSchedGetPriorityMin''),
     (''ia32_sched_rr_get_interval_time32'', ''IA32SysSchedRrGetIntervalTime32''),
     (''ia32_nanosleep_time32'', ''IA32SysNanosleepTime32''),
     (''ia32_mremap'', ''IA32SysMremap''), (''ia32_setresuid16'', ''IA32SysSetresuid16''),
     (''ia32_getresuid16'', ''IA32SysGetresuid16''),
     (''ia32_query_module'', ''IA32QueryModule''), (''ia32_poll'', ''IA32SysPoll''),
     (''ia32_nfsservctl'', ''IA32Nfsservctl''), (''ia32_setresgid16'', ''IA32SysSetresgid16''),
     (''ia32_getresgid16'', ''IA32SysGetresgid16''), (''ia32_prctl'', ''IA32SysPrctl''),
     (''ia32_compat_rt_sigreturn'', ''IA32CompatSysRtSigreturn''),
     (''ia32_compat_rt_sigaction'', ''IA32CompatSysRtSigaction''),
     (''ia32_compat_rt_sigprocmask'', ''IA32CompatSysRtSigprocmask''),
     (''ia32_compat_rt_sigpending'', ''IA32CompatSysRtSigpending''),
     (''ia32_compat_rt_sigtimedwait_time32'', ''IA32CompatSysRtSigtimedwaitTime32''),
     (''ia32_compat_rt_sigqueueinfo'', ''IA32CompatSysRtSigqueueinfo''),
     (''ia32_compat_rt_sigsuspend'', ''IA32CompatSysRtSigsuspend''),
     (''ia32_ia32_pread64'', ''IA32SysIa32Pread64''),
     (''ia32_ia32_pwrite64'', ''IA32SysIa32Pwrite64''), (''ia32_chown16'', ''IA32SysChown16''),
     (''ia32_getcwd'', ''IA32SysGetcwd''), (''ia32_capget'', ''IA32SysCapget''),
     (''ia32_capset'', ''IA32SysCapset''),
     (''ia32_compat_sigaltstack'', ''IA32CompatSysSigaltstack''),
     (''ia32_compat_sendfile'', ''IA32CompatSysSendfile''),
     (''ia32_getpmsg'', ''IA32Getpmsg''), (''ia32_putpmsg'', ''IA32Putpmsg''),
     (''ia32_vfork'', ''IA32SysVfork''),
     (''ia32_compat_getrlimit'', ''IA32CompatSysGetrlimit''),
     (''ia32_mmap_pgoff'', ''IA32SysMmapPgoff''),
     (''ia32_ia32_truncate64'', ''IA32SysIa32Truncate64''),
     (''ia32_ia32_ftruncate64'', ''IA32SysIa32Ftruncate64''),
     (''ia32_compat_ia32_stat64'', ''IA32CompatSysIa32Stat64''),
     (''ia32_compat_ia32_lstat64'', ''IA32CompatSysIa32Lstat64''),
     (''ia32_compat_ia32_fstat64'', ''IA32CompatSysIa32Fstat64''),
     (''ia32_lchown'', ''IA32SysLchown''), (''ia32_getuid'', ''IA32SysGetuid''),
     (''ia32_getgid'', ''IA32SysGetgid''), (''ia32_geteuid'', ''IA32SysGeteuid''),
     (''ia32_getegid'', ''IA32SysGetegid''), (''ia32_setreuid'', ''IA32SysSetreuid''),
     (''ia32_setregid'', ''IA32SysSetregid''), (''ia32_getgroups'', ''IA32SysGetgroups''),
     (''ia32_setgroups'', ''IA32SysSetgroups''), (''ia32_fchown'', ''IA32SysFchown''),
     (''ia32_setresuid'', ''IA32SysSetresuid''), (''ia32_getresuid'', ''IA32SysGetresuid''),
     (''ia32_setresgid'', ''IA32SysSetresgid''), (''ia32_getresgid'', ''IA32SysGetresgid''),
     (''ia32_chown'', ''IA32SysChown''), (''ia32_setuid'', ''IA32SysSetuid'')]"

definition ia32_syscall_cases_3 :: "(string \<times> string) list" where
  "ia32_syscall_cases_3 =
    [(''ia32_setgid'', ''IA32SysSetgid''), (''ia32_setfsuid'', ''IA32SysSetfsuid''),
     (''ia32_setfsgid'', ''IA32SysSetfsgid''), (''ia32_pivot_root'', ''IA32SysPivotRoot''),
     (''ia32_mincore'', ''IA32SysMincore''), (''ia32_madvise'', ''IA32SysMadvise''),
     (''ia32_getdents64'', ''IA32SysGetdents64''),
     (''ia32_compat_fcntl642'', ''IA32CompatSysFcntl642''),
     (''ia32_gettid'', ''IA32SysGettid''), (''ia32_ia32_readahead'', ''IA32SysIa32Readahead''),
     (''ia32_setxattr'', ''IA32SysSetxattr''), (''ia32_lsetxattr'', ''IA32SysLsetxattr''),
     (''ia32_fsetxattr'', ''IA32SysFsetxattr''), (''ia32_getxattr'', ''IA32SysGetxattr''),
     (''ia32_lgetxattr'', ''IA32SysLgetxattr''), (''ia32_fgetxattr'', ''IA32SysFgetxattr''),
     (''ia32_listxattr'', ''IA32SysListxattr''), (''ia32_llistxattr'', ''IA32SysLlistxattr''),
     (''ia32_flistxattr'', ''IA32SysFlistxattr''),
     (''ia32_removexattr'', ''IA32SysRemovexattr''),
     (''ia32_lremovexattr'', ''IA32SysLremovexattr''),
     (''ia32_fremovexattr'', ''IA32SysFremovexattr''), (''ia32_tkill'', ''IA32SysTkill''),
     (''ia32_sendfile64'', ''IA32SysSendfile64''),
     (''ia32_futex_time32'', ''IA32SysFutexTime32''),
     (''ia32_compat_sched_setaffinity'', ''IA32CompatSysSchedSetaffinity''),
     (''ia32_compat_sched_getaffinity'', ''IA32CompatSysSchedGetaffinity''),
     (''ia32_set_thread_area'', ''IA32SysSetThreadArea''),
     (''ia32_get_thread_area'', ''IA32SysGetThreadArea''),
     (''ia32_compat_io_setup'', ''IA32CompatSysIoSetup''),
     (''ia32_io_destroy'', ''IA32SysIoDestroy''),
     (''ia32_io_getevents_time32'', ''IA32SysIoGeteventsTime32''),
     (''ia32_compat_io_submit'', ''IA32CompatSysIoSubmit''),
     (''ia32_io_cancel'', ''IA32SysIoCancel''),
     (''ia32_ia32_fadvise64'', ''IA32SysIa32Fadvise64''),
     (''ia32_exit_group'', ''IA32SysExitGroup''),
     (''ia32_compat_lookup_dcookie'', ''IA32CompatSysLookupDcookie''),
     (''ia32_epoll_create'', ''IA32SysEpollCreate''),
     (''ia32_epoll_ctl'', ''IA32SysEpollCtl''), (''ia32_epoll_wait'', ''IA32SysEpollWait''),
     (''ia32_remap_file_pages'', ''IA32SysRemapFilePages''),
     (''ia32_set_tid_address'', ''IA32SysSetTidAddress''),
     (''ia32_compat_timer_create'', ''IA32CompatSysTimerCreate''),
     (''ia32_timer_settime32'', ''IA32SysTimerSettime32''),
     (''ia32_timer_gettime32'', ''IA32SysTimerGettime32''),
     (''ia32_timer_getoverrun'', ''IA32SysTimerGetoverrun''),
     (''ia32_timer_delete'', ''IA32SysTimerDelete''),
     (''ia32_clock_settime32'', ''IA32SysClockSettime32''),
     (''ia32_clock_gettime32'', ''IA32SysClockGettime32''),
     (''ia32_clock_getres_time32'', ''IA32SysClockGetresTime32''),
     (''ia32_clock_nanosleep_time32'', ''IA32SysClockNanosleepTime32''),
     (''ia32_compat_statfs64'', ''IA32CompatSysStatfs64''),
     (''ia32_compat_fstatfs64'', ''IA32CompatSysFstatfs64''),
     (''ia32_tgkill'', ''IA32SysTgkill''), (''ia32_utimes_time32'', ''IA32SysUtimesTime32''),
     (''ia32_ia32_fadvise64_64'', ''IA32SysIa32Fadvise6464''),
     (''ia32_vserver'', ''IA32Vserver''), (''ia32_mbind'', ''IA32SysMbind''),
     (''ia32_get_mempolicy'', ''IA32SysGetMempolicy''),
     (''ia32_set_mempolicy'', ''IA32SysSetMempolicy''),
     (''ia32_compat_mq_open'', ''IA32CompatSysMqOpen''),
     (''ia32_mq_unlink'', ''IA32SysMqUnlink''),
     (''ia32_mq_timedsend_time32'', ''IA32SysMqTimedsendTime32''),
     (''ia32_mq_timedreceive_time32'', ''IA32SysMqTimedreceiveTime32''),
     (''ia32_compat_mq_notify'', ''IA32CompatSysMqNotify''),
     (''ia32_compat_mq_getsetattr'', ''IA32CompatSysMqGetsetattr''),
     (''ia32_compat_kexec_load'', ''IA32CompatSysKexecLoad''),
     (''ia32_compat_waitid'', ''IA32CompatSysWaitid''), (''ia32_add_key'', ''IA32SysAddKey''),
     (''ia32_request_key'', ''IA32SysRequestKey'')]"

definition ia32_syscall_cases_4 :: "(string \<times> string) list" where
  "ia32_syscall_cases_4 =
    [(''ia32_compat_keyctl'', ''IA32CompatSysKeyctl''),
     (''ia32_ioprio_set'', ''IA32SysIoprioSet''), (''ia32_ioprio_get'', ''IA32SysIoprioGet''),
     (''ia32_inotify_init'', ''IA32SysInotifyInit''),
     (''ia32_inotify_add_watch'', ''IA32SysInotifyAddWatch''),
     (''ia32_inotify_rm_watch'', ''IA32SysInotifyRmWatch''),
     (''ia32_migrate_pages'', ''IA32SysMigratePages''),
     (''ia32_compat_openat'', ''IA32CompatSysOpenat''), (''ia32_mkdirat'', ''IA32SysMkdirat''),
     (''ia32_mknodat'', ''IA32SysMknodat''), (''ia32_fchownat'', ''IA32SysFchownat''),
     (''ia32_futimesat_time32'', ''IA32SysFutimesatTime32''),
     (''ia32_compat_ia32_fstatat64'', ''IA32CompatSysIa32Fstatat64''),
     (''ia32_unlinkat'', ''IA32SysUnlinkat''), (''ia32_renameat'', ''IA32SysRenameat''),
     (''ia32_linkat'', ''IA32SysLinkat''), (''ia32_symlinkat'', ''IA32SysSymlinkat''),
     (''ia32_readlinkat'', ''IA32SysReadlinkat''), (''ia32_fchmodat'', ''IA32SysFchmodat''),
     (''ia32_faccessat'', ''IA32SysFaccessat''),
     (''ia32_compat_pselect6_time32'', ''IA32CompatSysPselect6Time32''),
     (''ia32_compat_ppoll_time32'', ''IA32CompatSysPpollTime32''),
     (''ia32_unshare'', ''IA32SysUnshare''),
     (''ia32_compat_set_robust_list'', ''IA32CompatSysSetRobustList''),
     (''ia32_compat_get_robust_list'', ''IA32CompatSysGetRobustList''),
     (''ia32_splice'', ''IA32SysSplice''),
     (''ia32_ia32_sync_file_range'', ''IA32SysIa32SyncFileRange''),
     (''ia32_tee'', ''IA32SysTee''), (''ia32_vmsplice'', ''IA32SysVmsplice''),
     (''ia32_move_pages'', ''IA32SysMovePages''), (''ia32_getcpu'', ''IA32SysGetcpu''),
     (''ia32_epoll_pwait'', ''IA32SysEpollPwait''),
     (''ia32_utimensat_time32'', ''IA32SysUtimensatTime32''),
     (''ia32_compat_signalfd'', ''IA32CompatSysSignalfd''),
     (''ia32_timerfd_create'', ''IA32SysTimerfdCreate''),
     (''ia32_eventfd'', ''IA32SysEventfd''),
     (''ia32_ia32_fallocate'', ''IA32SysIa32Fallocate''),
     (''ia32_timerfd_settime32'', ''IA32SysTimerfdSettime32''),
     (''ia32_timerfd_gettime32'', ''IA32SysTimerfdGettime32''),
     (''ia32_compat_signalfd4'', ''IA32CompatSysSignalfd4''),
     (''ia32_eventfd2'', ''IA32SysEventfd2''),
     (''ia32_epoll_create1'', ''IA32SysEpollCreate1''), (''ia32_dup3'', ''IA32SysDup3''),
     (''ia32_pipe2'', ''IA32SysPipe2''), (''ia32_inotify_init1'', ''IA32SysInotifyInit1''),
     (''ia32_compat_preadv'', ''IA32CompatSysPreadv''),
     (''ia32_compat_pwritev'', ''IA32CompatSysPwritev''),
     (''ia32_compat_rt_tgsigqueueinfo'', ''IA32CompatSysRtTgsigqueueinfo''),
     (''ia32_perf_event_open'', ''IA32SysPerfEventOpen''),
     (''ia32_compat_recvmmsg_time32'', ''IA32CompatSysRecvmmsgTime32''),
     (''ia32_fanotify_init'', ''IA32SysFanotifyInit''),
     (''ia32_compat_fanotify_mark'', ''IA32CompatSysFanotifyMark''),
     (''ia32_prlimit64'', ''IA32SysPrlimit64''),
     (''ia32_name_to_handle_at'', ''IA32SysNameToHandleAt''),
     (''ia32_compat_open_by_handle_at'', ''IA32CompatSysOpenByHandleAt''),
     (''ia32_clock_adjtime32'', ''IA32SysClockAdjtime32''),
     (''ia32_syncfs'', ''IA32SysSyncfs''),
     (''ia32_compat_sendmmsg'', ''IA32CompatSysSendmmsg''), (''ia32_setns'', ''IA32SysSetns''),
     (''ia32_process_vm_readv'', ''IA32SysProcessVmReadv''),
     (''ia32_process_vm_writev'', ''IA32SysProcessVmWritev''),
     (''ia32_kcmp'', ''IA32SysKcmp''), (''ia32_finit_module'', ''IA32SysFinitModule''),
     (''ia32_sched_setattr'', ''IA32SysSchedSetattr''),
     (''ia32_sched_getattr'', ''IA32SysSchedGetattr''),
     (''ia32_renameat2'', ''IA32SysRenameat2''), (''ia32_seccomp'', ''IA32SysSeccomp''),
     (''ia32_getrandom'', ''IA32SysGetrandom''),
     (''ia32_memfd_create'', ''IA32SysMemfdCreate''), (''ia32_bpf'', ''IA32SysBpf'')]"

definition ia32_syscall_cases_5 :: "(string \<times> string) list" where
  "ia32_syscall_cases_5 =
    [(''ia32_compat_execveat'', ''IA32CompatSysExecveat''),
     (''ia32_socket'', ''IA32SysSocket''), (''ia32_socketpair'', ''IA32SysSocketpair''),
     (''ia32_bind'', ''IA32SysBind''), (''ia32_connect'', ''IA32SysConnect''),
     (''ia32_listen'', ''IA32SysListen''), (''ia32_accept4'', ''IA32SysAccept4''),
     (''ia32_getsockopt'', ''IA32SysGetsockopt''),
     (''ia32_setsockopt'', ''IA32SysSetsockopt''),
     (''ia32_getsockname'', ''IA32SysGetsockname''),
     (''ia32_getpeername'', ''IA32SysGetpeername''), (''ia32_sendto'', ''IA32SysSendto''),
     (''ia32_compat_sendmsg'', ''IA32CompatSysSendmsg''),
     (''ia32_compat_recvfrom'', ''IA32CompatSysRecvfrom''),
     (''ia32_compat_recvmsg'', ''IA32CompatSysRecvmsg''),
     (''ia32_shutdown'', ''IA32SysShutdown''), (''ia32_userfaultfd'', ''IA32SysUserfaultfd''),
     (''ia32_membarrier'', ''IA32SysMembarrier''), (''ia32_mlock2'', ''IA32SysMlock2''),
     (''ia32_copy_file_range'', ''IA32SysCopyFileRange''),
     (''ia32_compat_preadv2'', ''IA32CompatSysPreadv2''),
     (''ia32_compat_pwritev2'', ''IA32CompatSysPwritev2''),
     (''ia32_pkey_mprotect'', ''IA32SysPkeyMprotect''),
     (''ia32_pkey_alloc'', ''IA32SysPkeyAlloc''), (''ia32_pkey_free'', ''IA32SysPkeyFree''),
     (''ia32_statx'', ''IA32SysStatx''),
     (''ia32_compat_arch_prctl'', ''IA32CompatSysArchPrctl''),
     (''ia32_compat_io_pgetevents'', ''IA32CompatSysIoPgetevents''),
     (''ia32_rseq'', ''IA32SysRseq''), (''ia32_semget'', ''IA32SysSemget''),
     (''ia32_compat_semctl'', ''IA32CompatSysSemctl''), (''ia32_shmget'', ''IA32SysShmget''),
     (''ia32_compat_shmctl'', ''IA32CompatSysShmctl''),
     (''ia32_compat_shmat'', ''IA32CompatSysShmat''), (''ia32_shmdt'', ''IA32SysShmdt''),
     (''ia32_msgget'', ''IA32SysMsgget''), (''ia32_compat_msgsnd'', ''IA32CompatSysMsgsnd''),
     (''ia32_compat_msgrcv'', ''IA32CompatSysMsgrcv''),
     (''ia32_compat_msgctl'', ''IA32CompatSysMsgctl''),
     (''ia32_clock_gettime'', ''IA32SysClockGettime''),
     (''ia32_clock_settime'', ''IA32SysClockSettime''),
     (''ia32_clock_adjtime'', ''IA32SysClockAdjtime''),
     (''ia32_clock_getres'', ''IA32SysClockGetres''),
     (''ia32_clock_nanosleep'', ''IA32SysClockNanosleep''),
     (''ia32_timer_gettime'', ''IA32SysTimerGettime''),
     (''ia32_timer_settime'', ''IA32SysTimerSettime''),
     (''ia32_timerfd_gettime'', ''IA32SysTimerfdGettime''),
     (''ia32_timerfd_settime'', ''IA32SysTimerfdSettime''),
     (''ia32_utimensat'', ''IA32SysUtimensat''),
     (''ia32_compat_pselect6_time64'', ''IA32CompatSysPselect6Time64''),
     (''ia32_compat_ppoll_time64'', ''IA32CompatSysPpollTime64''),
     (''ia32_io_pgetevents'', ''IA32SysIoPgetevents''),
     (''ia32_compat_recvmmsg_time64'', ''IA32CompatSysRecvmmsgTime64''),
     (''ia32_mq_timedsend'', ''IA32SysMqTimedsend''),
     (''ia32_mq_timedreceive'', ''IA32SysMqTimedreceive''),
     (''ia32_semtimedop'', ''IA32SysSemtimedop''),
     (''ia32_compat_rt_sigtimedwait_time64'', ''IA32CompatSysRtSigtimedwaitTime64''),
     (''ia32_futex'', ''IA32SysFutex''),
     (''ia32_sched_rr_get_interval'', ''IA32SysSchedRrGetInterval''),
     (''ia32_pidfd_send_signal'', ''IA32SysPidfdSendSignal''),
     (''ia32_io_uring_setup'', ''IA32SysIoUringSetup''),
     (''ia32_io_uring_enter'', ''IA32SysIoUringEnter''),
     (''ia32_io_uring_register'', ''IA32SysIoUringRegister''),
     (''ia32_open_tree'', ''IA32SysOpenTree''), (''ia32_move_mount'', ''IA32SysMoveMount''),
     (''ia32_fsopen'', ''IA32SysFsopen''), (''ia32_fsconfig'', ''IA32SysFsconfig''),
     (''ia32_fsmount'', ''IA32SysFsmount''), (''ia32_fspick'', ''IA32SysFspick''),
     (''ia32_pidfd_open'', ''IA32SysPidfdOpen'')]"

definition ia32_syscall_cases_6 :: "(string \<times> string) list" where
  "ia32_syscall_cases_6 =
    [(''ia32_clone3'', ''IA32SysClone3''), (''ia32_close_range'', ''IA32SysCloseRange''),
     (''ia32_openat2'', ''IA32SysOpenat2''), (''ia32_pidfd_getfd'', ''IA32SysPidfdGetfd''),
     (''ia32_faccessat2'', ''IA32SysFaccessat2''),
     (''ia32_process_madvise'', ''IA32SysProcessMadvise''),
     (''ia32_compat_epoll_pwait2'', ''IA32CompatSysEpollPwait2''),
     (''ia32_mount_setattr'', ''IA32SysMountSetattr''),
     (''ia32_quotactl_fd'', ''IA32SysQuotactlFd''),
     (''ia32_landlock_create_ruleset'', ''IA32SysLandlockCreateRuleset''),
     (''ia32_landlock_add_rule'', ''IA32SysLandlockAddRule''),
     (''ia32_landlock_restrict_self'', ''IA32SysLandlockRestrictSelf''),
     (''ia32_memfd_secret'', ''IA32SysMemfdSecret''),
     (''ia32_process_mrelease'', ''IA32SysProcessMrelease''),
     (''ia32_futex_waitv'', ''IA32SysFutexWaitv''),
     (''ia32_set_mempolicy_home_node'', ''IA32SysSetMempolicyHomeNode'')]"

definition ia32_syscall_cases :: "(string \<times> string) list" where
  "ia32_syscall_cases = ia32_syscall_cases_0 @ ia32_syscall_cases_1 @ ia32_syscall_cases_2 @ ia32_syscall_cases_3 @ ia32_syscall_cases_4 @ ia32_syscall_cases_5 @ ia32_syscall_cases_6"

definition ia32_syscall_guards_0 :: "(string \<times> int) list" where
  "ia32_syscall_guards_0 =
    [(''IA32SysRestartSyscall'', 0), (''IA32SysExit'', 1), (''IA32SysFork'', 2),
     (''IA32SysRead'', 3), (''IA32SysWrite'', 4), (''IA32CompatSysOpen'', 5),
     (''IA32SysClose'', 6), (''IA32SysWaitpid'', 7), (''IA32SysCreat'', 8),
     (''IA32SysLink'', 9), (''IA32SysUnlink'', 10), (''IA32CompatSysExecve'', 11),
     (''IA32SysChdir'', 12), (''IA32SysTime32'', 13), (''IA32SysMknod'', 14),
     (''IA32SysChmod'', 15), (''IA32SysLchown16'', 16), (''IA32Break'', 17),
     (''IA32SysStat'', 18), (''IA32CompatSysLseek'', 19), (''IA32SysGetpid'', 20),
     (''IA32SysMount'', 21), (''IA32SysOldumount'', 22), (''IA32SysSetuid16'', 23),
     (''IA32SysGetuid16'', 24), (''IA32SysStime32'', 25), (''IA32CompatSysPtrace'', 26),
     (''IA32SysAlarm'', 27), (''IA32SysFstat'', 28), (''IA32SysPause'', 29),
     (''IA32SysUtime32'', 30), (''IA32Stty'', 31), (''IA32Gtty'', 32), (''IA32SysAccess'', 33),
     (''IA32SysNice'', 34), (''IA32Ftime'', 35), (''IA32SysSync'', 36), (''IA32SysKill'', 37),
     (''IA32SysRename'', 38), (''IA32SysMkdir'', 39), (''IA32SysRmdir'', 40),
     (''IA32SysDup'', 41), (''IA32SysPipe'', 42), (''IA32CompatSysTimes'', 43),
     (''IA32Prof'', 44), (''IA32SysBrk'', 45), (''IA32SysSetgid16'', 46),
     (''IA32SysGetgid16'', 47), (''IA32SysSignal'', 48), (''IA32SysGeteuid16'', 49),
     (''IA32SysGetegid16'', 50), (''IA32SysAcct'', 51), (''IA32SysUmount'', 52),
     (''IA32Lock'', 53), (''IA32CompatSysIoctl'', 54), (''IA32CompatSysFcntl64'', 55),
     (''IA32Mpx'', 56), (''IA32SysSetpgid'', 57), (''IA32Ulimit'', 58),
     (''IA32SysOlduname'', 59), (''IA32SysUmask'', 60), (''IA32SysChroot'', 61),
     (''IA32CompatSysUstat'', 62), (''IA32SysDup2'', 63), (''IA32SysGetppid'', 64),
     (''IA32SysGetpgrp'', 65), (''IA32SysSetsid'', 66), (''IA32CompatSysSigaction'', 67),
     (''IA32SysSgetmask'', 68), (''IA32SysSsetmask'', 69), (''IA32SysSetreuid16'', 70),
     (''IA32SysSetregid16'', 71), (''IA32SysSigsuspend'', 72),
     (''IA32CompatSysSigpending'', 73), (''IA32SysSethostname'', 74),
     (''IA32CompatSysSetrlimit'', 75), (''IA32CompatSysOldGetrlimit'', 76),
     (''IA32CompatSysGetrusage'', 77), (''IA32CompatSysGettimeofday'', 78),
     (''IA32CompatSysSettimeofday'', 79), (''IA32SysGetgroups16'', 80),
     (''IA32SysSetgroups16'', 81), (''IA32CompatSysOldSelect'', 82), (''IA32SysSymlink'', 83),
     (''IA32SysLstat'', 84), (''IA32SysReadlink'', 85), (''IA32SysUselib'', 86),
     (''IA32SysSwapon'', 87), (''IA32SysReboot'', 88), (''IA32CompatSysOldReaddir'', 89),
     (''IA32CompatSysIa32Mmap'', 90), (''IA32SysMunmap'', 91), (''IA32CompatSysTruncate'', 92),
     (''IA32CompatSysFtruncate'', 93), (''IA32SysFchmod'', 94), (''IA32SysFchown16'', 95),
     (''IA32SysGetpriority'', 96), (''IA32SysSetpriority'', 97), (''IA32Profil'', 98),
     (''IA32CompatSysStatfs'', 99), (''IA32CompatSysFstatfs'', 100), (''IA32SysIoperm'', 101),
     (''IA32CompatSysSocketcall'', 102), (''IA32SysSyslog'', 103),
     (''IA32CompatSysSetitimer'', 104), (''IA32CompatSysGetitimer'', 105),
     (''IA32CompatSysStat'', 106), (''IA32CompatSysLstat'', 107),
     (''IA32CompatSysFstat'', 108), (''IA32SysUname'', 109), (''IA32SysIopl'', 110),
     (''IA32SysVhangup'', 111), (''IA32Idle'', 112), (''IA32CompatSysWait4'', 114),
     (''IA32SysSwapoff'', 115), (''IA32CompatSysSysinfo'', 116), (''IA32CompatSysIpc'', 117),
     (''IA32SysFsync'', 118), (''IA32CompatSysSigreturn'', 119),
     (''IA32CompatSysIa32Clone'', 120), (''IA32SysSetdomainname'', 121),
     (''IA32SysNewUname'', 122), (''IA32SysModifyLdt'', 123), (''IA32SysAdjtimexTime32'', 124),
     (''IA32SysMprotect'', 125), (''IA32CompatSysSigprocmask'', 126),
     (''IA32CreateModule'', 127), (''IA32SysInitModule'', 128), (''IA32SysDeleteModule'', 129),
     (''IA32GetKernelSyms'', 130), (''IA32SysQuotactl'', 131), (''IA32SysGetpgid'', 132),
     (''IA32SysFchdir'', 133), (''IA32SysSysfs'', 135), (''IA32SysPersonality'', 136),
     (''IA32AfsSyscall'', 137), (''IA32SysSetfsuid16'', 138), (''IA32SysSetfsgid16'', 139),
     (''IA32SysLlseek'', 140), (''IA32CompatSysGetdents'', 141)]"

definition ia32_syscall_guards_1 :: "(string \<times> int) list" where
  "ia32_syscall_guards_1 =
    [(''IA32CompatSysSelect'', 142), (''IA32SysFlock'', 143), (''IA32SysMsync'', 144),
     (''IA32SysReadv'', 145), (''IA32SysWritev'', 146), (''IA32SysGetsid'', 147),
     (''IA32SysFdatasync'', 148), (''IA32SysMlock'', 150), (''IA32SysMunlock'', 151),
     (''IA32SysMlockall'', 152), (''IA32SysMunlockall'', 153), (''IA32SysSchedSetparam'', 154),
     (''IA32SysSchedGetparam'', 155), (''IA32SysSchedSetscheduler'', 156),
     (''IA32SysSchedGetscheduler'', 157), (''IA32SysSchedYield'', 158),
     (''IA32SysSchedGetPriorityMax'', 159), (''IA32SysSchedGetPriorityMin'', 160),
     (''IA32SysSchedRrGetIntervalTime32'', 161), (''IA32SysNanosleepTime32'', 162),
     (''IA32SysMremap'', 163), (''IA32SysSetresuid16'', 164), (''IA32SysGetresuid16'', 165),
     (''IA32QueryModule'', 167), (''IA32SysPoll'', 168), (''IA32Nfsservctl'', 169),
     (''IA32SysSetresgid16'', 170), (''IA32SysGetresgid16'', 171), (''IA32SysPrctl'', 172),
     (''IA32CompatSysRtSigreturn'', 173), (''IA32CompatSysRtSigaction'', 174),
     (''IA32CompatSysRtSigprocmask'', 175), (''IA32CompatSysRtSigpending'', 176),
     (''IA32CompatSysRtSigtimedwaitTime32'', 177), (''IA32CompatSysRtSigqueueinfo'', 178),
     (''IA32CompatSysRtSigsuspend'', 179), (''IA32SysIa32Pread64'', 180),
     (''IA32SysIa32Pwrite64'', 181), (''IA32SysChown16'', 182), (''IA32SysGetcwd'', 183),
     (''IA32SysCapget'', 184), (''IA32SysCapset'', 185), (''IA32CompatSysSigaltstack'', 186),
     (''IA32CompatSysSendfile'', 187), (''IA32Getpmsg'', 188), (''IA32Putpmsg'', 189),
     (''IA32SysVfork'', 190), (''IA32CompatSysGetrlimit'', 191), (''IA32SysMmapPgoff'', 192),
     (''IA32SysIa32Truncate64'', 193), (''IA32SysIa32Ftruncate64'', 194),
     (''IA32CompatSysIa32Stat64'', 195), (''IA32CompatSysIa32Lstat64'', 196),
     (''IA32CompatSysIa32Fstat64'', 197), (''IA32SysLchown'', 198), (''IA32SysGetuid'', 199),
     (''IA32SysGetgid'', 200), (''IA32SysGeteuid'', 201), (''IA32SysGetegid'', 202),
     (''IA32SysSetreuid'', 203), (''IA32SysSetregid'', 204), (''IA32SysGetgroups'', 205),
     (''IA32SysSetgroups'', 206), (''IA32SysFchown'', 207), (''IA32SysSetresuid'', 208),
     (''IA32SysGetresuid'', 209), (''IA32SysSetresgid'', 210), (''IA32SysGetresgid'', 211),
     (''IA32SysChown'', 212), (''IA32SysSetuid'', 213), (''IA32SysSetgid'', 214),
     (''IA32SysSetfsuid'', 215), (''IA32SysSetfsgid'', 216), (''IA32SysPivotRoot'', 217),
     (''IA32SysMincore'', 218), (''IA32SysMadvise'', 219), (''IA32SysGetdents64'', 220),
     (''IA32CompatSysFcntl642'', 221), (''IA32SysGettid'', 224),
     (''IA32SysIa32Readahead'', 225), (''IA32SysSetxattr'', 226), (''IA32SysLsetxattr'', 227),
     (''IA32SysFsetxattr'', 228), (''IA32SysGetxattr'', 229), (''IA32SysLgetxattr'', 230),
     (''IA32SysFgetxattr'', 231), (''IA32SysListxattr'', 232), (''IA32SysLlistxattr'', 233),
     (''IA32SysFlistxattr'', 234), (''IA32SysRemovexattr'', 235),
     (''IA32SysLremovexattr'', 236), (''IA32SysFremovexattr'', 237), (''IA32SysTkill'', 238),
     (''IA32SysSendfile64'', 239), (''IA32SysFutexTime32'', 240),
     (''IA32CompatSysSchedSetaffinity'', 241), (''IA32CompatSysSchedGetaffinity'', 242),
     (''IA32SysSetThreadArea'', 243), (''IA32SysGetThreadArea'', 244),
     (''IA32CompatSysIoSetup'', 245), (''IA32SysIoDestroy'', 246),
     (''IA32SysIoGeteventsTime32'', 247), (''IA32CompatSysIoSubmit'', 248),
     (''IA32SysIoCancel'', 249), (''IA32SysIa32Fadvise64'', 250), (''IA32SysExitGroup'', 252),
     (''IA32CompatSysLookupDcookie'', 253), (''IA32SysEpollCreate'', 254),
     (''IA32SysEpollCtl'', 255), (''IA32SysEpollWait'', 256), (''IA32SysRemapFilePages'', 257),
     (''IA32SysSetTidAddress'', 258), (''IA32CompatSysTimerCreate'', 259),
     (''IA32SysTimerSettime32'', 260), (''IA32SysTimerGettime32'', 261),
     (''IA32SysTimerGetoverrun'', 262), (''IA32SysTimerDelete'', 263),
     (''IA32SysClockSettime32'', 264), (''IA32SysClockGettime32'', 265),
     (''IA32SysClockGetresTime32'', 266), (''IA32SysClockNanosleepTime32'', 267),
     (''IA32CompatSysStatfs64'', 268), (''IA32CompatSysFstatfs64'', 269),
     (''IA32SysTgkill'', 270), (''IA32SysUtimesTime32'', 271),
     (''IA32SysIa32Fadvise6464'', 272), (''IA32Vserver'', 273), (''IA32SysMbind'', 274),
     (''IA32SysGetMempolicy'', 275), (''IA32SysSetMempolicy'', 276),
     (''IA32CompatSysMqOpen'', 277), (''IA32SysMqUnlink'', 278),
     (''IA32SysMqTimedsendTime32'', 279), (''IA32SysMqTimedreceiveTime32'', 280),
     (''IA32CompatSysMqNotify'', 281), (''IA32CompatSysMqGetsetattr'', 282),
     (''IA32CompatSysKexecLoad'', 283), (''IA32CompatSysWaitid'', 284),
     (''IA32SysAddKey'', 286), (''IA32SysRequestKey'', 287)]"

definition ia32_syscall_guards_2 :: "(string \<times> int) list" where
  "ia32_syscall_guards_2 =
    [(''IA32CompatSysKeyctl'', 288), (''IA32SysIoprioSet'', 289), (''IA32SysIoprioGet'', 290),
     (''IA32SysInotifyInit'', 291), (''IA32SysInotifyAddWatch'', 292),
     (''IA32SysInotifyRmWatch'', 293), (''IA32SysMigratePages'', 294),
     (''IA32CompatSysOpenat'', 295), (''IA32SysMkdirat'', 296), (''IA32SysMknodat'', 297),
     (''IA32SysFchownat'', 298), (''IA32SysFutimesatTime32'', 299),
     (''IA32CompatSysIa32Fstatat64'', 300), (''IA32SysUnlinkat'', 301),
     (''IA32SysRenameat'', 302), (''IA32SysLinkat'', 303), (''IA32SysSymlinkat'', 304),
     (''IA32SysReadlinkat'', 305), (''IA32SysFchmodat'', 306), (''IA32SysFaccessat'', 307),
     (''IA32CompatSysPselect6Time32'', 308), (''IA32CompatSysPpollTime32'', 309),
     (''IA32SysUnshare'', 310), (''IA32CompatSysSetRobustList'', 311),
     (''IA32CompatSysGetRobustList'', 312), (''IA32SysSplice'', 313),
     (''IA32SysIa32SyncFileRange'', 314), (''IA32SysTee'', 315), (''IA32SysVmsplice'', 316),
     (''IA32SysMovePages'', 317), (''IA32SysGetcpu'', 318), (''IA32SysEpollPwait'', 319),
     (''IA32SysUtimensatTime32'', 320), (''IA32CompatSysSignalfd'', 321),
     (''IA32SysTimerfdCreate'', 322), (''IA32SysEventfd'', 323),
     (''IA32SysIa32Fallocate'', 324), (''IA32SysTimerfdSettime32'', 325),
     (''IA32SysTimerfdGettime32'', 326), (''IA32CompatSysSignalfd4'', 327),
     (''IA32SysEventfd2'', 328), (''IA32SysEpollCreate1'', 329), (''IA32SysDup3'', 330),
     (''IA32SysPipe2'', 331), (''IA32SysInotifyInit1'', 332), (''IA32CompatSysPreadv'', 333),
     (''IA32CompatSysPwritev'', 334), (''IA32CompatSysRtTgsigqueueinfo'', 335),
     (''IA32SysPerfEventOpen'', 336), (''IA32CompatSysRecvmmsgTime32'', 337),
     (''IA32SysFanotifyInit'', 338), (''IA32CompatSysFanotifyMark'', 339),
     (''IA32SysPrlimit64'', 340), (''IA32SysNameToHandleAt'', 341),
     (''IA32CompatSysOpenByHandleAt'', 342), (''IA32SysClockAdjtime32'', 343),
     (''IA32SysSyncfs'', 344), (''IA32CompatSysSendmmsg'', 345), (''IA32SysSetns'', 346),
     (''IA32SysProcessVmReadv'', 347), (''IA32SysProcessVmWritev'', 348),
     (''IA32SysKcmp'', 349), (''IA32SysFinitModule'', 350), (''IA32SysSchedSetattr'', 351),
     (''IA32SysSchedGetattr'', 352), (''IA32SysRenameat2'', 353), (''IA32SysSeccomp'', 354),
     (''IA32SysGetrandom'', 355), (''IA32SysMemfdCreate'', 356), (''IA32SysBpf'', 357),
     (''IA32CompatSysExecveat'', 358), (''IA32SysSocket'', 359), (''IA32SysSocketpair'', 360),
     (''IA32SysBind'', 361), (''IA32SysConnect'', 362), (''IA32SysListen'', 363),
     (''IA32SysAccept4'', 364), (''IA32SysGetsockopt'', 365), (''IA32SysSetsockopt'', 366),
     (''IA32SysGetsockname'', 367), (''IA32SysGetpeername'', 368), (''IA32SysSendto'', 369),
     (''IA32CompatSysSendmsg'', 370), (''IA32CompatSysRecvfrom'', 371),
     (''IA32CompatSysRecvmsg'', 372), (''IA32SysShutdown'', 373),
     (''IA32SysUserfaultfd'', 374), (''IA32SysMembarrier'', 375), (''IA32SysMlock2'', 376),
     (''IA32SysCopyFileRange'', 377), (''IA32CompatSysPreadv2'', 378),
     (''IA32CompatSysPwritev2'', 379), (''IA32SysPkeyMprotect'', 380),
     (''IA32SysPkeyAlloc'', 381), (''IA32SysPkeyFree'', 382), (''IA32SysStatx'', 383),
     (''IA32CompatSysArchPrctl'', 384), (''IA32CompatSysIoPgetevents'', 385),
     (''IA32SysRseq'', 386), (''IA32SysSemget'', 393), (''IA32CompatSysSemctl'', 394),
     (''IA32SysShmget'', 395), (''IA32CompatSysShmctl'', 396), (''IA32CompatSysShmat'', 397),
     (''IA32SysShmdt'', 398), (''IA32SysMsgget'', 399), (''IA32CompatSysMsgsnd'', 400),
     (''IA32CompatSysMsgrcv'', 401), (''IA32CompatSysMsgctl'', 402),
     (''IA32SysClockGettime'', 403), (''IA32SysClockSettime'', 404),
     (''IA32SysClockAdjtime'', 405), (''IA32SysClockGetres'', 406),
     (''IA32SysClockNanosleep'', 407), (''IA32SysTimerGettime'', 408),
     (''IA32SysTimerSettime'', 409), (''IA32SysTimerfdGettime'', 410),
     (''IA32SysTimerfdSettime'', 411), (''IA32SysUtimensat'', 412),
     (''IA32CompatSysPselect6Time64'', 413), (''IA32CompatSysPpollTime64'', 414),
     (''IA32SysIoPgetevents'', 416), (''IA32CompatSysRecvmmsgTime64'', 417),
     (''IA32SysMqTimedsend'', 418), (''IA32SysMqTimedreceive'', 419),
     (''IA32SysSemtimedop'', 420), (''IA32CompatSysRtSigtimedwaitTime64'', 421),
     (''IA32SysFutex'', 422), (''IA32SysSchedRrGetInterval'', 423),
     (''IA32SysPidfdSendSignal'', 424), (''IA32SysIoUringSetup'', 425),
     (''IA32SysIoUringEnter'', 426), (''IA32SysIoUringRegister'', 427),
     (''IA32SysOpenTree'', 428), (''IA32SysMoveMount'', 429), (''IA32SysFsopen'', 430),
     (''IA32SysFsconfig'', 431), (''IA32SysFsmount'', 432), (''IA32SysFspick'', 433),
     (''IA32SysPidfdOpen'', 434)]"

definition ia32_syscall_guards_3 :: "(string \<times> int) list" where
  "ia32_syscall_guards_3 =
    [(''IA32SysClone3'', 435), (''IA32SysCloseRange'', 436), (''IA32SysOpenat2'', 437),
     (''IA32SysPidfdGetfd'', 438), (''IA32SysFaccessat2'', 439),
     (''IA32SysProcessMadvise'', 440), (''IA32CompatSysEpollPwait2'', 441),
     (''IA32SysMountSetattr'', 442), (''IA32SysQuotactlFd'', 443),
     (''IA32SysLandlockCreateRuleset'', 444), (''IA32SysLandlockAddRule'', 445),
     (''IA32SysLandlockRestrictSelf'', 446), (''IA32SysMemfdSecret'', 447),
     (''IA32SysProcessMrelease'', 448), (''IA32SysFutexWaitv'', 449),
     (''IA32SysSetMempolicyHomeNode'', 450)]"

definition ia32_syscall_guards :: "(string \<times> int) list" where
  "ia32_syscall_guards = ia32_syscall_guards_0 @ ia32_syscall_guards_1 @ ia32_syscall_guards_2 @ ia32_syscall_guards_3"

definition IA32Syscall_name_0 :: string where
  "IA32Syscall_name_0 =
     ''IA32SysRestartSyscallIA32SysExitIA32SysForkIA32SysReadIA32SysWriteIA32CompatSysOpenI'' @
     ''A32SysCloseIA32SysWaitpidIA32SysCreatIA32SysLinkIA32SysUnlinkIA32CompatSysExecveIA32'' @
     ''SysChdirIA32SysTime32IA32SysMknodIA32SysChmodIA32SysLchown16IA32BreakIA32SysStatIA32'' @
     ''CompatSysLseekIA32SysGetpidIA32SysMountIA32SysOldumountIA32SysSetuid16IA32SysGetuid1'' @
     ''6IA32SysStime32IA32CompatSysPtraceIA32SysAlarmIA32SysFstatIA32SysPauseIA32SysUtime32'' @
     ''IA32SttyIA32GttyIA32SysAccessIA32SysNiceIA32FtimeIA32SysSyncIA32SysKillIA32SysRename'' @
     ''IA32SysMkdirIA32SysRmdirIA32SysDupIA32SysPipeIA32CompatSysTimesIA32ProfIA32SysBrkIA3'' @
     ''2SysSetgid16IA32SysGetgid16IA32SysSignalIA32SysGeteuid16IA32SysGetegid16IA32SysAcctI'' @
     ''A32SysUmountIA32LockIA32CompatSysIoctlIA32CompatSysFcntl64IA32MpxIA32SysSetpgidIA32U'' @
     ''limitIA32SysOldunameIA32SysUmaskIA32SysChrootIA32CompatSysUstatIA32SysDup2IA32SysGet'' @
     ''ppidIA32SysGetpgrpIA32SysSetsidIA32CompatSysSigactionIA32SysSgetmaskIA32SysSsetmaskI'' @
     ''A32SysSetreuid16IA32SysSetregid16IA32SysSigsuspendIA32CompatSysSigpendingIA32SysSeth'' @
     ''ostnameIA32CompatSysSetrlimitIA32CompatSysOldGetrlimitIA32CompatSysGetrusageIA32Comp'' @
     ''atSysGettimeofdayIA32CompatSysSettimeofdayIA32SysGetgroups16IA32SysSetgroups16IA32Co'' @
     ''mpatSysOldSelectIA32SysSymlinkIA32SysLstatIA32SysReadlinkIA32SysUselibIA32SysSwaponI'' @
     ''A32SysRebootIA32CompatSysOldReaddirIA32CompatSysIa32MmapIA32SysMunmapIA32CompatSysTr'' @
     ''uncateIA32CompatSysFtruncateIA32SysFchmodIA32SysFchown16IA32SysGetpriorityIA32SysSet'' @
     ''priorityIA32ProfilIA32CompatSysStatfsIA32CompatSysFstatfsIA32SysIopermIA32CompatSysS'' @
     ''ocketcallIA32SysSyslogIA32CompatSysSetitimerIA32CompatSysGetitimerIA32CompatSysStatI'' @
     ''A32CompatSysLstatIA32CompatSysFstatIA32SysUnameIA32SysIoplIA32SysVhangupIA32Idle''"

definition IA32Syscall_name_1 :: string where
  "IA32Syscall_name_1 =
     ''IA32CompatSysWait4IA32SysSwapoffIA32CompatSysSysinfoIA32CompatSysIpcIA32SysFsyncIA32'' @
     ''CompatSysSigreturnIA32CompatSysIa32CloneIA32SysSetdomainnameIA32SysNewUnameIA32SysMo'' @
     ''difyLdtIA32SysAdjtimexTime32IA32SysMprotectIA32CompatSysSigprocmaskIA32CreateModuleI'' @
     ''A32SysInitModuleIA32SysDeleteModuleIA32GetKernelSymsIA32SysQuotactlIA32SysGetpgidIA3'' @
     ''2SysFchdir''"

definition IA32Syscall_name_2 :: string where
  "IA32Syscall_name_2 =
     ''IA32SysSysfsIA32SysPersonalityIA32AfsSyscallIA32SysSetfsuid16IA32SysSetfsgid16IA32Sy'' @
     ''sLlseekIA32CompatSysGetdentsIA32CompatSysSelectIA32SysFlockIA32SysMsyncIA32SysReadvI'' @
     ''A32SysWritevIA32SysGetsidIA32SysFdatasync''"

definition IA32Syscall_name_3 :: string where
  "IA32Syscall_name_3 =
     ''IA32SysMlockIA32SysMunlockIA32SysMlockallIA32SysMunlockallIA32SysSchedSetparamIA32Sy'' @
     ''sSchedGetparamIA32SysSchedSetschedulerIA32SysSchedGetschedulerIA32SysSchedYieldIA32S'' @
     ''ysSchedGetPriorityMaxIA32SysSchedGetPriorityMinIA32SysSchedRrGetIntervalTime32IA32Sy'' @
     ''sNanosleepTime32IA32SysMremapIA32SysSetresuid16IA32SysGetresuid16''"

definition IA32Syscall_name_4 :: string where
  "IA32Syscall_name_4 =
     ''IA32QueryModuleIA32SysPollIA32NfsservctlIA32SysSetresgid16IA32SysGetresgid16IA32SysP'' @
     ''rctlIA32CompatSysRtSigreturnIA32CompatSysRtSigactionIA32CompatSysRtSigprocmaskIA32Co'' @
     ''mpatSysRtSigpendingIA32CompatSysRtSigtimedwaitTime32IA32CompatSysRtSigqueueinfoIA32C'' @
     ''ompatSysRtSigsuspendIA32SysIa32Pread64IA32SysIa32Pwrite64IA32SysChown16IA32SysGetcwd'' @
     ''IA32SysCapgetIA32SysCapsetIA32CompatSysSigaltstackIA32CompatSysSendfileIA32GetpmsgIA'' @
     ''32PutpmsgIA32SysVforkIA32CompatSysGetrlimitIA32SysMmapPgoffIA32SysIa32Truncate64IA32'' @
     ''SysIa32Ftruncate64IA32CompatSysIa32Stat64IA32CompatSysIa32Lstat64IA32CompatSysIa32Fs'' @
     ''tat64IA32SysLchownIA32SysGetuidIA32SysGetgidIA32SysGeteuidIA32SysGetegidIA32SysSetre'' @
     ''uidIA32SysSetregidIA32SysGetgroupsIA32SysSetgroupsIA32SysFchownIA32SysSetresuidIA32S'' @
     ''ysGetresuidIA32SysSetresgidIA32SysGetresgidIA32SysChownIA32SysSetuidIA32SysSetgidIA3'' @
     ''2SysSetfsuidIA32SysSetfsgidIA32SysPivotRootIA32SysMincoreIA32SysMadviseIA32SysGetden'' @
     ''ts64IA32CompatSysFcntl642''"

definition IA32Syscall_name_5 :: string where
  "IA32Syscall_name_5 =
     ''IA32SysGettidIA32SysIa32ReadaheadIA32SysSetxattrIA32SysLsetxattrIA32SysFsetxattrIA32'' @
     ''SysGetxattrIA32SysLgetxattrIA32SysFgetxattrIA32SysListxattrIA32SysLlistxattrIA32SysF'' @
     ''listxattrIA32SysRemovexattrIA32SysLremovexattrIA32SysFremovexattrIA32SysTkillIA32Sys'' @
     ''Sendfile64IA32SysFutexTime32IA32CompatSysSchedSetaffinityIA32CompatSysSchedGetaffini'' @
     ''tyIA32SysSetThreadAreaIA32SysGetThreadAreaIA32CompatSysIoSetupIA32SysIoDestroyIA32Sy'' @
     ''sIoGeteventsTime32IA32CompatSysIoSubmitIA32SysIoCancelIA32SysIa32Fadvise64''"

definition IA32Syscall_name_6 :: string where
  "IA32Syscall_name_6 =
     ''IA32SysExitGroupIA32CompatSysLookupDcookieIA32SysEpollCreateIA32SysEpollCtlIA32SysEp'' @
     ''ollWaitIA32SysRemapFilePagesIA32SysSetTidAddressIA32CompatSysTimerCreateIA32SysTimer'' @
     ''Settime32IA32SysTimerGettime32IA32SysTimerGetoverrunIA32SysTimerDeleteIA32SysClockSe'' @
     ''ttime32IA32SysClockGettime32IA32SysClockGetresTime32IA32SysClockNanosleepTime32IA32C'' @
     ''ompatSysStatfs64IA32CompatSysFstatfs64IA32SysTgkillIA32SysUtimesTime32IA32SysIa32Fad'' @
     ''vise6464IA32VserverIA32SysMbindIA32SysGetMempolicyIA32SysSetMempolicyIA32CompatSysMq'' @
     ''OpenIA32SysMqUnlinkIA32SysMqTimedsendTime32IA32SysMqTimedreceiveTime32IA32CompatSysM'' @
     ''qNotifyIA32CompatSysMqGetsetattrIA32CompatSysKexecLoadIA32CompatSysWaitid''"

definition IA32Syscall_name_7 :: string where
  "IA32Syscall_name_7 =
     ''IA32SysAddKeyIA32SysRequestKeyIA32CompatSysKeyctlIA32SysIoprioSetIA32SysIoprioGetIA3'' @
     ''2SysInotifyInitIA32SysInotifyAddWatchIA32SysInotifyRmWatchIA32SysMigratePagesIA32Com'' @
     ''patSysOpenatIA32SysMkdiratIA32SysMknodatIA32SysFchownatIA32SysFutimesatTime32IA32Com'' @
     ''patSysIa32Fstatat64IA32SysUnlinkatIA32SysRenameatIA32SysLinkatIA32SysSymlinkatIA32Sy'' @
     ''sReadlinkatIA32SysFchmodatIA32SysFaccessatIA32CompatSysPselect6Time32IA32CompatSysPp'' @
     ''ollTime32IA32SysUnshareIA32CompatSysSetRobustListIA32CompatSysGetRobustListIA32SysSp'' @
     ''liceIA32SysIa32SyncFileRangeIA32SysTeeIA32SysVmspliceIA32SysMovePagesIA32SysGetcpuIA'' @
     ''32SysEpollPwaitIA32SysUtimensatTime32IA32CompatSysSignalfdIA32SysTimerfdCreateIA32Sy'' @
     ''sEventfdIA32SysIa32FallocateIA32SysTimerfdSettime32IA32SysTimerfdGettime32IA32Compat'' @
     ''SysSignalfd4IA32SysEventfd2IA32SysEpollCreate1IA32SysDup3IA32SysPipe2IA32SysInotifyI'' @
     ''nit1IA32CompatSysPreadvIA32CompatSysPwritevIA32CompatSysRtTgsigqueueinfoIA32SysPerfE'' @
     ''ventOpenIA32CompatSysRecvmmsgTime32IA32SysFanotifyInitIA32CompatSysFanotifyMarkIA32S'' @
     ''ysPrlimit64IA32SysNameToHandleAtIA32CompatSysOpenByHandleAtIA32SysClockAdjtime32IA32'' @
     ''SysSyncfsIA32CompatSysSendmmsgIA32SysSetnsIA32SysProcessVmReadvIA32SysProcessVmWrite'' @
     ''vIA32SysKcmpIA32SysFinitModuleIA32SysSchedSetattrIA32SysSchedGetattrIA32SysRenameat2'' @
     ''IA32SysSeccompIA32SysGetrandomIA32SysMemfdCreateIA32SysBpfIA32CompatSysExecveatIA32S'' @
     ''ysSocketIA32SysSocketpairIA32SysBindIA32SysConnectIA32SysListenIA32SysAccept4IA32Sys'' @
     ''GetsockoptIA32SysSetsockoptIA32SysGetsocknameIA32SysGetpeernameIA32SysSendtoIA32Comp'' @
     ''atSysSendmsgIA32CompatSysRecvfromIA32CompatSysRecvmsgIA32SysShutdownIA32SysUserfault'' @
     ''fdIA32SysMembarrierIA32SysMlock2IA32SysCopyFileRangeIA32CompatSysPreadv2IA32CompatSy'' @
     ''sPwritev2IA32SysPkeyMprotectIA32SysPkeyAllocIA32SysPkeyFreeIA32SysStatxIA32CompatSys'' @
     ''ArchPrctlIA32CompatSysIoPgeteventsIA32SysRseq''"

definition IA32Syscall_name_8 :: string where
  "IA32Syscall_name_8 =
     ''IA32SysSemgetIA32CompatSysSemctlIA32SysShmgetIA32CompatSysShmctlIA32CompatSysShmatIA'' @
     ''32SysShmdtIA32SysMsggetIA32CompatSysMsgsndIA32CompatSysMsgrcvIA32CompatSysMsgctlIA32'' @
     ''SysClockGettimeIA32SysClockSettimeIA32SysClockAdjtimeIA32SysClockGetresIA32SysClockN'' @
     ''anosleepIA32SysTimerGettimeIA32SysTimerSettimeIA32SysTimerfdGettimeIA32SysTimerfdSet'' @
     ''timeIA32SysUtimensatIA32CompatSysPselect6Time64IA32CompatSysPpollTime64''"

definition IA32Syscall_name_9 :: string where
  "IA32Syscall_name_9 =
     ''IA32SysIoPgeteventsIA32CompatSysRecvmmsgTime64IA32SysMqTimedsendIA32SysMqTimedreceiv'' @
     ''eIA32SysSemtimedopIA32CompatSysRtSigtimedwaitTime64IA32SysFutexIA32SysSchedRrGetInte'' @
     ''rvalIA32SysPidfdSendSignalIA32SysIoUringSetupIA32SysIoUringEnterIA32SysIoUringRegist'' @
     ''erIA32SysOpenTreeIA32SysMoveMountIA32SysFsopenIA32SysFsconfigIA32SysFsmountIA32SysFs'' @
     ''pickIA32SysPidfdOpenIA32SysClone3IA32SysCloseRangeIA32SysOpenat2IA32SysPidfdGetfdIA3'' @
     ''2SysFaccessat2IA32SysProcessMadviseIA32CompatSysEpollPwait2IA32SysMountSetattrIA32Sy'' @
     ''sQuotactlFdIA32SysLandlockCreateRulesetIA32SysLandlockAddRuleIA32SysLandlockRestrict'' @
     ''SelfIA32SysMemfdSecretIA32SysProcessMreleaseIA32SysFutexWaitvIA32SysSetMempolicyHome'' @
     ''Node''"

definition IA32Syscall_index_0 :: "nat list" where
  "IA32Syscall_index_0 =
    [0, 21, 32, 43, 54, 66, 83, 95, 109, 121, 132, 145, 164, 176, 189, 201, 213, 228, 237, 248,
     266, 279, 291, 307, 322, 337, 351, 370, 382, 394, 406, 420, 428, 436, 449, 460, 469, 480,
     491, 504, 516, 528, 538, 549, 567, 575, 585, 600, 615, 628, 644, 660, 671, 684, 692, 710,
     730, 737, 751, 761, 776, 788, 801, 819, 830, 844, 858, 871, 893, 908, 923, 940, 957, 974,
     997, 1015, 1037, 1062, 1084, 1109, 1134, 1152, 1170, 1192, 1206, 1218, 1233, 1246, 1259,
     1272, 1295, 1316, 1329, 1350, 1372, 1385, 1400, 1418, 1436, 1446, 1465, 1485, 1498, 1521,
     1534, 1556, 1578, 1595, 1613, 1631, 1643, 1654, 1668, 1676]"

definition IA32Syscall_index_1 :: "nat list" where
  "IA32Syscall_index_1 =
    [0, 18, 32, 52, 68, 80, 102, 124, 144, 159, 175, 196, 211, 235, 251, 268, 287, 304, 319,
     333, 346]"

definition IA32Syscall_index_2 :: "nat list" where
  "IA32Syscall_index_2 =
    [0, 12, 30, 44, 61, 78, 91, 112, 131, 143, 155, 167, 180, 193, 209]"

definition IA32Syscall_index_3 :: "nat list" where
  "IA32Syscall_index_3 =
    [0, 12, 26, 41, 58, 78, 98, 122, 146, 163, 189, 215, 246, 268, 281, 299, 317]"

definition IA32Syscall_index_4 :: "nat list" where
  "IA32Syscall_index_4 =
    [0, 15, 26, 40, 58, 76, 88, 112, 136, 162, 187, 220, 247, 272, 290, 309, 323, 336, 349,
     362, 386, 407, 418, 429, 441, 463, 479, 500, 522, 545, 569, 593, 606, 619, 632, 646, 660,
     675, 690, 706, 722, 735, 751, 767, 783, 799, 811, 824, 837, 852, 867, 883, 897, 911, 928,
     949]"

definition IA32Syscall_index_5 :: "nat list" where
  "IA32Syscall_index_5 =
    [0, 13, 33, 48, 64, 80, 95, 111, 127, 143, 160, 177, 195, 214, 233, 245, 262, 280, 309,
     338, 358, 378, 398, 414, 438, 459, 474, 494]"

definition IA32Syscall_index_6 :: "nat list" where
  "IA32Syscall_index_6 =
    [0, 16, 42, 60, 75, 91, 112, 132, 156, 177, 198, 220, 238, 259, 280, 304, 331, 352, 374,
     387, 406, 428, 439, 451, 470, 489, 508, 523, 547, 574, 595, 620, 642, 661]"

definition IA32Syscall_index_7 :: "nat list" where
  "IA32Syscall_index_7 =
    [0, 13, 30, 49, 65, 81, 99, 121, 142, 161, 180, 194, 208, 223, 245, 271, 286, 301, 314,
     330, 347, 362, 378, 405, 429, 443, 469, 495, 508, 532, 542, 557, 573, 586, 603, 625, 646,
     666, 680, 700, 723, 746, 768, 783, 802, 813, 825, 844, 863, 883, 912, 932, 959, 978, 1003,
     1019, 1040, 1067, 1088, 1101, 1122, 1134, 1155, 1177, 1188, 1206, 1225, 1244, 1260, 1274,
     1290, 1308, 1318, 1339, 1352, 1369, 1380, 1394, 1407, 1421, 1438, 1455, 1473, 1491, 1504,
     1524, 1545, 1565, 1580, 1598, 1615, 1628, 1648, 1668, 1689, 1708, 1724, 1739, 1751, 1773,
     1798, 1809]"

definition IA32Syscall_index_8 :: "nat list" where
  "IA32Syscall_index_8 =
    [0, 13, 32, 45, 64, 82, 94, 107, 126, 145, 164, 183, 202, 221, 239, 260, 279, 298, 319,
     340, 356, 383, 407]"

definition IA32Syscall_index_9 :: "nat list" where
  "IA32Syscall_index_9 =
    [0, 19, 46, 64, 85, 102, 135, 147, 172, 194, 213, 232, 254, 269, 285, 298, 313, 327, 340,
     356, 369, 386, 400, 417, 434, 455, 479, 498, 515, 543, 565, 592, 610, 632, 649, 676]"

end
