(* ===== verification/Syscalls.thy ===== *)
theory Syscalls
  imports Syscall_Tables Wire
begin

text \<open>
  System call numbers: \<^verbatim>\<open>pkg/krie/events/syscalls.go\<close> and \<^verbatim>\<open>ia32_syscalls.go\<close> with the
  \<open>String\<close> methods of \<^verbatim>\<open>syscalls_string_linux.go\<close> and \<^verbatim>\<open>ia32_syscalls_string_linux.go\<close>.  A
  \<open>Syscall\<close> is a Go \<open>int\<close>.  \<open>String\<close> cuts a name out of a packed string between two entries of
  an index array; the locale \<open>packed_names\<close> says when that is the same as looking the name up
  in a list, and is interpreted on each of the twelve packed tables with the constant block
  it was generated from.
\<close>

section \<open>Model\<close>

text \<open>\<open>strconv.FormatInt(i, 10)\<close>.\<close>

definition FormatInt :: "int \<Rightarrow> string" where
  "FormatInt i = (if i < 0 then CHR ''-'' # fmt_d (nat (- i)) else fmt_d (nat i))"

text \<open>\<open>name[index[i]:index[i+1]]\<close>.\<close>

definition stringer_at :: "string \<Rightarrow> nat list \<Rightarrow> nat \<Rightarrow> string result" where
  "stringer_at name idx i =
     bindR (index idx i) (\<lambda>lo. bindR (index idx (i + 1)) (\<lambda>hi. slice name lo hi))"

definition Syscall_String :: "int \<Rightarrow> string result" where
  "Syscall_String i =
     (if 0 \<le> i \<and> i \<le> 334 then stringer_at Syscall_name_0 Syscall_index_0 (nat (i))
      else if 424 \<le> i \<and> i \<le> 448 then stringer_at Syscall_name_1 Syscall_index_1 (nat (i - 424))
      else Inr (''Syscall('' @ FormatInt i @ '')''))"

definition IA32Syscall_String :: "int \<Rightarrow> string result" where
  "IA32Syscall_String i =
     (if 0 \<le> i \<and> i \<le> 112 then stringer_at IA32Syscall_name_0 IA32Syscall_index_0 (nat (i))
      else if 114 \<le> i \<and> i \<le> 133 then stringer_at IA32Syscall_name_1 IA32Syscall_index_1 (nat (i - 114))
      else if 135 \<le> i \<and> i \<le> 148 then stringer_at IA32Syscall_name_2 IA32Syscall_index_2 (nat (i - 135))
      else if 150 \<le> i \<and> i \<le> 165 then stringer_at IA32Syscall_name_3 IA32Syscall_index_3 (nat (i - 150))
      else if 167 \<le> i \<and> i \<le> 221 then stringer_at IA32Syscall_name_4 IA32Syscall_index_4 (nat (i - 167))
      else if 224 \<le> i \<and> i \<le> 250 then stringer_at IA32Syscall_name_5 IA32Syscall_index_5 (nat (i - 224))
      else if 252 \<le> i \<and> i \<le> 284 then stringer_at IA32Syscall_name_6 IA32Syscall_index_6 (nat (i - 252))
      else if 286 \<le> i \<and> i \<le> 386 then stringer_at IA32Syscall_name_7 IA32Syscall_index_7 (nat (i - 286))
      else if 393 \<le> i \<and> i \<le> 414 then stringer_at IA32Syscall_name_8 IA32Syscall_index_8 (nat (i - 393))
      else if 416 \<le> i \<and> i \<le> 450 then stringer_at IA32Syscall_name_9 IA32Syscall_index_9 (nat (i - 416))
      else Inr (''IA32Syscall('' @ FormatInt i @ '')''))"

text \<open>The generated function without a name indexes an array of length 1 with \<open>Const-value\<close>: the package
  compiles only if every such constant index is 0.  \<open>env\<close> gives the value of each identifier.\<close>

definition guard_ok :: "(string \<Rightarrow> int) \<Rightarrow> string \<times> int \<Rightarrow> bool" where
  "guard_ok env = (\<lambda>(c, n). 0 \<le> env c - n \<and> env c - n < 1)"

definition Syscall_guards_compile :: "(string \<Rightarrow> int) \<Rightarrow> bool" where
  "Syscall_guards_compile env = list_all (guard_ok env) syscall_guards"

definition IA32Syscall_guards_compile :: "(string \<Rightarrow> int) \<Rightarrow> bool" where
  "IA32Syscall_guards_compile env = list_all (guard_ok env) ia32_syscall_guards"

definition Syscall_MarshalText :: "int \<Rightarrow> string result" where
  "Syscall_MarshalText i =
     bindR (Syscall_String i) (\<lambda>s. Inr (strings_ToLower (strings_TrimPrefix s ''Sys'')))"

definition IA32Syscall_MarshalText :: "int \<Rightarrow> string result" where
  "IA32Syscall_MarshalText i =
     bindR (IA32Syscall_String i) (\<lambda>s. Inr (strings_ToLower (strings_TrimPrefix s ''Sys'')))"

definition Syscall_MarshalBinary :: "ByteOrder \<Rightarrow> int \<Rightarrow> bytes result" where
  "Syscall_MarshalBinary bo i = st32 bo (replicate 4 0) 0 4 (word_of_int i)"

definition UnmarshalSyscall :: "ByteOrder \<Rightarrow> int \<Rightarrow> bytes \<Rightarrow> (int \<times> nat) result" where
  "UnmarshalSyscall bo i data =
     (if length data < 4
      then Inl (Error (Errorf ''parsing Syscall: got len %d, needed 4''
                  [FInt (int (length data))] (Some ErrNotEnoughData)))
      else bindR (rd32 bo data 0 4) (\<lambda>w. Inr (uint w, 4)))"

definition Syscall_UnmarshalBinary :: "ByteOrder \<Rightarrow> int \<Rightarrow> bytes \<Rightarrow> int result" where
  "Syscall_UnmarshalBinary bo i data = bindR (UnmarshalSyscall bo i data) (\<lambda>(i, _). Inr i)"

definition IA32Syscall_MarshalBinary :: "ByteOrder \<Rightarrow> int \<Rightarrow> bytes result" where
  "IA32Syscall_MarshalBinary bo i = st32 bo (replicate 4 0) 0 4 (word_of_int i)"

definition UnmarshalIA32Syscall :: "ByteOrder \<Rightarrow> int \<Rightarrow> bytes \<Rightarrow> (int \<times> nat) result" where
  "UnmarshalIA32Syscall bo i data =
     (if length data < 4
      then Inl (Error (Errorf ''parsing IA32Syscall: got len %d, needed 4''
                  [FInt (int (length data))] (Some ErrNotEnoughData)))
      else bindR (rd32 bo data 0 4) (\<lambda>w. Inr (uint w, 4)))"

definition IA32Syscall_UnmarshalBinary :: "ByteOrder \<Rightarrow> int \<Rightarrow> bytes \<Rightarrow> int result" where
  "IA32Syscall_UnmarshalBinary bo i data = bindR (UnmarshalIA32Syscall bo i data) (\<lambda>(i, _). Inr i)"

text \<open>The value of a named constant of a block.\<close>

definition const_value :: "(string \<times> int) list \<Rightarrow> string \<Rightarrow> int" where
  "const_value block c = (case map_of block c of Some v \<Rightarrow> v | None \<Rightarrow> 0)"

text \<open>The two name parsers: the cases of the switch, then a retry without the prefix \<open>new\<close> or
  the suffix \<open>64\<close>.\<close>

function ParseSyscallName :: "string \<Rightarrow> int" where
  "ParseSyscallName name =
     (case map_of syscall_cases name of
        Some c \<Rightarrow> const_value syscall_consts c
      | None \<Rightarrow>
          if strings_HasPrefix name ''new''
          then ParseSyscallName (strings_TrimPrefix name ''new'')
          else if strings_HasSuffix name ''64''
          then ParseSyscallName (strings_TrimSuffix name ''64'')
          else - 1)"
  by pat_completeness auto
termination
  by (relation "measure length")
    (auto simp: strings_HasPrefix_def strings_TrimPrefix_def strings_HasSuffix_def strings_TrimSuffix_def
      dest: prefix_length_le suffix_length_le)

function ParseIA32SyscallName :: "string \<Rightarrow> int" where
  "ParseIA32SyscallName name =
     (case map_of ia32_syscall_cases name of
        Some c \<Rightarrow> const_value ia32_syscall_consts c
      | None \<Rightarrow>
          if strings_HasPrefix name ''new''
          then ParseIA32SyscallName (strings_TrimPrefix name ''new'')
          else if strings_HasSuffix name ''64''
          then ParseIA32SyscallName (strings_TrimSuffix name ''64'')
          else - 1)"
  by pat_completeness auto
termination
  by (relation "measure length")
    (auto simp: strings_HasPrefix_def strings_TrimPrefix_def strings_HasSuffix_def strings_TrimSuffix_def
      dest: prefix_length_le suffix_length_le)

declare ParseSyscallName.simps [simp del] ParseIA32SyscallName.simps [simp del]

section \<open>Packed names\<close>

fun offsets :: "nat \<Rightarrow> string list \<Rightarrow> nat list" where
  "offsets n [] = [n]"
| "offsets n (s # ss) = n # offsets (n + length s) ss"

lemma length_offsets [simp]: "length (offsets n ss) = Suc (length ss)"
  by (induction ss arbitrary: n) simp_all

lemma offsets_nth: "i \<le> length ss \<Longrightarrow> offsets n ss ! i = n + length (concat (take i ss))"
proof (induction ss arbitrary: n i)
  case (Cons s ss)
  then show ?case by (cases i) simp_all
qed simp

lemma concat_slice:
  "i < length ss \<Longrightarrow>
     take (length (ss ! i)) (drop (length (concat (take i ss))) (concat ss)) = ss ! i"
proof (induction ss arbitrary: i)
  case (Cons s ss)
  then show ?case by (cases i) simp_all
qed simp

text \<open>A run of constants with consecutive values, and the name of a value in a block.\<close>

fun run :: "int \<Rightarrow> (string \<times> int) list \<Rightarrow> bool" where
  "run lo [] = True"
| "run lo (x # xs) = (snd x = lo \<and> run (lo + 1) xs)"

definition name_of :: "(string \<times> int) list \<Rightarrow> int \<rightharpoonup> string" where
  "name_of block = map_of (map prod.swap block)"

lemma name_of_append:
  "name_of (a @ b) v = (case name_of a v of None \<Rightarrow> name_of b v | Some c \<Rightarrow> Some c)"
  by (simp add: name_of_def map_add_def split: option.split)

lemma name_of_run:
  "run lo block \<Longrightarrow> name_of block v =
     (if lo \<le> v \<and> v < lo + int (length block) then Some (fst (block ! nat (v - lo))) else None)"
proof (induction block arbitrary: lo)
  case Nil
  then show ?case by (simp add: name_of_def)
next
  case (Cons x xs)
  then have x: "snd x = lo" and
    IH: "name_of xs v = (if lo + 1 \<le> v \<and> v < lo + 1 + int (length xs)
           then Some (fst (xs ! nat (v - (lo + 1)))) else None)" by simp_all
  have "name_of (x # xs) v = (if v = lo then Some (fst x) else name_of xs v)"
    using x by (cases x) (simp add: name_of_def)
  moreover have "lo < v \<Longrightarrow> nat (v - lo) = Suc (nat (v - (lo + 1)))" by simp
  ultimately show ?case using IH by auto
qed

locale packed_names =
  fixes name :: string and idx :: "nat list" and lo hi :: int and block :: "(string \<times> int) list"
  assumes name_eq: "name = concat (map fst block)" and idx_eq: "idx = offsets 0 (map fst block)"
    and consecutive: "run lo block" and width: "int (length block) = hi - lo + 1"
begin

lemma stringer_at_nth: "i < length block \<Longrightarrow> stringer_at name idx i = Inr (fst (block ! i))"
proof -
  assume i: "i < length block"
  let ?names = "map fst block"
  let ?lo = "length (concat (take i ?names))" and ?hi = "length (concat (take (Suc i) ?names))"
  have hi: "?hi = ?lo + length (?names ! i)" using i by (simp add: take_Suc_conv_app_nth)
  have "length (concat ?names) = ?hi + length (concat (drop (Suc i) ?names))"
    by (metis append_take_drop_id concat_append length_append)
  then have "?hi \<le> length name" by (simp add: name_eq)
  then show ?thesis
    using i concat_slice [of i ?names] hi
    by (simp add: stringer_at_def index_def idx_eq offsets_nth slice_def name_eq)
qed

lemma stringer_at_value:
  "lo \<le> v \<Longrightarrow> v \<le> hi \<Longrightarrow> stringer_at name idx (nat (v - lo)) = Inr (fst (block ! nat (v - lo)))"
  using width by (intro stringer_at_nth) linarith

lemma name_of_value:
  "name_of block v = (if lo \<le> v \<and> v \<le> hi then Some (fst (block ! nat (v - lo))) else None)"
  using width by (simp add: name_of_run [OF consecutive])

end

section \<open>The packed tables\<close>

lemma length_by_four:
  "length [a] = 1" "length [a, b] = 2" "length [a, b, c] = 3"
  "length (a # b # c # d # xs) = 4 + length xs"
  by simp_all

text \<open>The first run of the 64-bit table is longer than one group of constants.\<close>

definition syscall_run_0 :: "(string \<times> int) list" where
  "syscall_run_0 = syscall_consts_0 @ syscall_consts_1 @ syscall_consts_2"

lemmas syscall_run_0_unfold = syscall_run_0_def syscall_consts_0_def syscall_consts_1_def syscall_consts_2_def

interpretation sysn0: packed_names Syscall_name_0 Syscall_index_0 0 334 syscall_run_0
proof
  show "Syscall_name_0 = concat (map fst syscall_run_0)"
    by (simp add: Syscall_name_0_def syscall_run_0_unfold)
  show "Syscall_index_0 = offsets 0 (map fst syscall_run_0)"
    unfolding Syscall_index_0_def syscall_run_0_unfold by (simp add: length_by_four del: list.size(4))
  show "run 0 syscall_run_0" by (simp add: syscall_run_0_unfold)
  show "int (length syscall_run_0) = 334 - 0 + 1"
    unfolding syscall_run_0_unfold by (simp add: length_by_four del: list.size(4))
qed

interpretation sysn1: packed_names Syscall_name_1 Syscall_index_1 424 448 syscall_consts_3
proof
  show "Syscall_name_1 = concat (map fst syscall_consts_3)"
    by (simp add: Syscall_name_1_def syscall_consts_3_def)
  show "Syscall_index_1 = offsets 0 (map fst syscall_consts_3)"
    unfolding Syscall_index_1_def syscall_consts_3_def by (simp add: length_by_four del: list.size(4))
  show "run 424 syscall_consts_3" by (simp add: syscall_consts_3_def)
  show "int (length syscall_consts_3) = 448 - 424 + 1"
    unfolding syscall_consts_3_def by (simp add: length_by_four del: list.size(4))
qed

interpretation ian0: packed_names IA32Syscall_name_0 IA32Syscall_index_0 0 112 ia32_syscall_consts_0
proof
  show "IA32Syscall_name_0 = concat (map fst ia32_syscall_consts_0)"
    by (simp add: IA32Syscall_name_0_def ia32_syscall_consts_0_def)
  show "IA32Syscall_index_0 = offsets 0 (map fst ia32_syscall_consts_0)"
    unfolding IA32Syscall_index_0_def ia32_syscall_consts_0_def by (simp add: length_by_four del: list.size(4))
  show "run 0 ia32_syscall_consts_0" by (simp add: ia32_syscall_consts_0_def)
  show "int (length ia32_syscall_consts_0) = 112 - 0 + 1"
    unfolding ia32_syscall_consts_0_def by (simp add: length_by_four del: list.size(4))
qed

interpretation ian1: packed_names IA32Syscall_name_1 IA32Syscall_index_1 114 133 ia32_syscall_consts_1
proof
  show "IA32Syscall_name_1 = concat (map fst ia32_syscall_consts_1)"
    by (simp add: IA32Syscall_name_1_def ia32_syscall_consts_1_def)
  show "IA32Syscall_index_1 = offsets 0 (map fst ia32_syscall_consts_1)"
    unfolding IA32Syscall_index_1_def ia32_syscall_consts_1_def by (simp add: length_by_four del: list.size(4))
  show "run 114 ia32_syscall_consts_1" by (simp add: ia32_syscall_consts_1_def)
  show "int (length ia32_syscall_consts_1) = 133 - 114 + 1"
    unfolding ia32_syscall_consts_1_def by (simp add: length_by_four del: list.size(4))
qed

interpretation ian2: packed_names IA32Syscall_name_2 IA32Syscall_index_2 135 148 ia32_syscall_consts_2
proof
  show "IA32Syscall_name_2 = concat (map fst ia32_syscall_consts_2)"
    by (simp add: IA32Syscall_name_2_def ia32_syscall_consts_2_def)
  show "IA32Syscall_index_2 = offsets 0 (map fst ia32_syscall_consts_2)"
    unfolding IA32Syscall_index_2_def ia32_syscall_consts_2_def by (simp add: length_by_four del: list.size(4))
  show "run 135 ia32_syscall_consts_2" by (simp add: ia32_syscall_consts_2_def)
  show "int (length ia32_syscall_consts_2) = 148 - 135 + 1"
    unfolding ia32_syscall_consts_2_def by (simp add: length_by_four del: list.size(4))
qed

interpretation ian3: packed_names IA32Syscall_name_3 IA32Syscall_index_3 150 165 ia32_syscall_consts_3
proof
  show "IA32Syscall_name_3 = concat (map fst ia32_syscall_consts_3)"
    by (simp add: IA32Syscall_name_3_def ia32_syscall_consts_3_def)
  show "IA32Syscall_index_3 = offsets 0 (map fst ia32_syscall_consts_3)"
    unfolding IA32Syscall_index_3_def ia32_syscall_consts_3_def by (simp add: length_by_four del: list.size(4))
  show "run 150 ia32_syscall_consts_3" by (simp add: ia32_syscall_consts_3_def)
  show "int (length ia32_syscall_consts_3) = 165 - 150 + 1"
    unfolding ia32_syscall_consts_3_def by (simp add: length_by_four del: list.size(4))
qed

interpretation ian4: packed_names IA32Syscall_name_4 IA32Syscall_index_4 167 221 ia32_syscall_consts_4
proof
  show "IA32Syscall_name_4 = concat (map fst ia32_syscall_consts_4)"
    by (simp add: IA32Syscall_name_4_def ia32_syscall_consts_4_def)
  show "IA32Syscall_index_4 = offsets 0 (map fst ia32_syscall_consts_4)"
    unfolding IA32Syscall_index_4_def ia32_syscall_consts_4_def by (simp add: length_by_four del: list.size(4))
  show "run 167 ia32_syscall_consts_4" by (simp add: ia32_syscall_consts_4_def)
  show "int (length ia32_syscall_consts_4) = 221 - 167 + 1"
    unfolding ia32_syscall_consts_4_def by (simp add: length_by_four del: list.size(4))
qed

interpretation ian5: packed_names IA32Syscall_name_5 IA32Syscall_index_5 224 250 ia32_syscall_consts_5
proof
  show "IA32Syscall_name_5 = concat (map fst ia32_syscall_consts_5)"
    by (simp add: IA32Syscall_name_5_def ia32_syscall_consts_5_def)
  show "IA32Syscall_index_5 = offsets 0 (map fst ia32_syscall_consts_5)"
    unfolding IA32Syscall_index_5_def ia32_syscall_consts_5_def by (simp add: length_by_four del: list.size(4))
  show "run 224 ia32_syscall_consts_5" by (simp add: ia32_syscall_consts_5_def)
  show "int (length ia32_syscall_consts_5) = 250 - 224 + 1"
    unfolding ia32_syscall_consts_5_def by (simp add: length_by_four del: list.size(4))
qed

interpretation ian6: packed_names IA32Syscall_name_6 IA32Syscall_index_6 252 284 ia32_syscall_consts_6
proof
  show "IA32Syscall_name_6 = concat (map fst ia32_syscall_consts_6)"
    by (simp add: IA32Syscall_name_6_def ia32_syscall_consts_6_def)
  show "IA32Syscall_index_6 = offsets 0 (map fst ia32_syscall_consts_6)"
    unfolding IA32Syscall_index_6_def ia32_syscall_consts_6_def by (simp add: length_by_four del: list.size(4))
  show "run 252 ia32_syscall_consts_6" by (simp add: ia32_syscall_consts_6_def)
  show "int (length ia32_syscall_consts_6) = 284 - 252 + 1"
    unfolding ia32_syscall_consts_6_def by (simp add: length_by_four del: list.size(4))
qed

interpretation ian7: packed_names IA32Syscall_name_7 IA32Syscall_index_7 286 386 ia32_syscall_consts_7
proof
  show "IA32Syscall_name_7 = concat (map fst ia32_syscall_consts_7)"
    by (simp add: IA32Syscall_name_7_def ia32_syscall_consts_7_def)
  show "IA32Syscall_index_7 = offsets 0 (map fst ia32_syscall_consts_7)"
    unfolding IA32Syscall_index_7_def ia32_syscall_consts_7_def by (simp add: length_by_four del: list.size(4))
  show "run 286 ia32_syscall_consts_7" by (simp add: ia32_syscall_consts_7_def)
  show "int (length ia32_syscall_consts_7) = 386 - 286 + 1"
    unfolding ia32_syscall_consts_7_def by (simp add: length_by_four del: list.size(4))
qed

interpretation ian8: packed_names IA32Syscall_name_8 IA32Syscall_index_8 393 414 ia32_syscall_consts_8
proof
  show "IA32Syscall_name_8 = concat (map fst ia32_syscall_consts_8)"
    by (simp add: IA32Syscall_name_8_def ia32_syscall_consts_8_def)
  show "IA32Syscall_index_8 = offsets 0 (map fst ia32_syscall_consts_8)"
    unfolding IA32Syscall_index_8_def ia32_syscall_consts_8_def by (simp add: length_by_four del: list.size(4))
  show "run 393 ia32_syscall_consts_8" by (simp add: ia32_syscall_consts_8_def)
  show "int (length ia32_syscall_consts_8) = 414 - 393 + 1"
    unfolding ia32_syscall_consts_8_def by (simp add: length_by_four del: list.size(4))
qed

interpretation ian9: packed_names IA32Syscall_name_9 IA32Syscall_index_9 416 450 ia32_syscall_consts_9
proof
  show "IA32Syscall_name_9 = concat (map fst ia32_syscall_consts_9)"
    by (simp add: IA32Syscall_name_9_def ia32_syscall_consts_9_def)
  show "IA32Syscall_index_9 = offsets 0 (map fst ia32_syscall_consts_9)"
    unfolding IA32Syscall_index_9_def ia32_syscall_consts_9_def by (simp add: length_by_four del: list.size(4))
  show "run 416 ia32_syscall_consts_9" by (simp add: ia32_syscall_consts_9_def)
  show "int (length ia32_syscall_consts_9) = 450 - 416 + 1"
    unfolding ia32_syscall_consts_9_def by (simp add: length_by_four del: list.size(4))
qed

lemma syscall_consts_split: "syscall_consts = syscall_run_0 @ syscall_consts_3"
  by (simp add: syscall_consts_def syscall_run_0_def)

lemma ia32_syscall_consts_split: "ia32_syscall_consts = ia32_syscall_consts_0 @ ia32_syscall_consts_1 @ ia32_syscall_consts_2 @ ia32_syscall_consts_3 @ ia32_syscall_consts_4 @ ia32_syscall_consts_5 @ ia32_syscall_consts_6 @ ia32_syscall_consts_7 @ ia32_syscall_consts_8 @ ia32_syscall_consts_9"
  by (simp add: ia32_syscall_consts_def)

text \<open>\<open>String\<close> is a lookup in the constant block.\<close>

lemma Syscall_String_lookup:
  "Syscall_String v = Inr (case name_of syscall_consts v of
     Some c \<Rightarrow> c | None \<Rightarrow> ''Syscall('' @ FormatInt v @ '')'')"
  by (simp add: Syscall_String_def syscall_consts_split name_of_append sysn0.name_of_value sysn1.name_of_value
      sysn0.stringer_at_value [simplified]
      sysn1.stringer_at_value)

lemma IA32Syscall_String_lookup:
  "IA32Syscall_String v = Inr (case name_of ia32_syscall_consts v of
     Some c \<Rightarrow> c | None \<Rightarrow> ''IA32Syscall('' @ FormatInt v @ '')'')"
  by (simp add: IA32Syscall_String_def ia32_syscall_consts_split name_of_append ian0.name_of_value ian1.name_of_value ian2.name_of_value ian3.name_of_value ian4.name_of_value ian5.name_of_value ian6.name_of_value ian7.name_of_value ian8.name_of_value ian9.name_of_value
      ian0.stringer_at_value [simplified]
      ian1.stringer_at_value
      ian2.stringer_at_value
      ian3.stringer_at_value
      ian4.stringer_at_value
      ian5.stringer_at_value
      ian6.stringer_at_value
      ian7.stringer_at_value
      ian8.stringer_at_value
      ian9.stringer_at_value)

section \<open>The wire contract\<close>

interpretation sysw: wire_codec "UnmarshalSyscall bo" 4 "\<lambda>_. True" "\<lambda>_. True"
    "\<lambda>i. put_word bo 4 (word_of_int i :: u32)" "\<lambda>_ i. i mod 2 ^ 32" for bo
  by unfold_locales
    (auto simp: UnmarshalSyscall_def decoder_simps encoded_simps uint_word_of_int)

interpretation iaw: wire_codec "UnmarshalIA32Syscall bo" 4 "\<lambda>_. True" "\<lambda>_. True"
    "\<lambda>i. put_word bo 4 (word_of_int i :: u32)" "\<lambda>_ i. i mod 2 ^ 32" for bo
  by unfold_locales
    (auto simp: UnmarshalIA32Syscall_def decoder_simps encoded_simps uint_word_of_int)

section \<open>Names and texts\<close>

lemma map_of_append_case:
  "map_of (xs @ ys) k = (case map_of xs k of None \<Rightarrow> map_of ys k | Some c \<Rightarrow> Some c)"
  by (simp add: map_add_def split: option.split)

lemma map_of_eval:
  "map_of [] k = None" "map_of ((a, b) # xs) k = (if a = k then Some b else map_of xs k)"
  by simp_all

lemma run_range: "run lo block \<Longrightarrow> x \<in> set block \<Longrightarrow> lo \<le> snd x"
proof (induction block arbitrary: lo)
  case (Cons y ys)
  show ?case
  proof (cases "x \<in> set ys")
    case True
    with Cons have "lo + 1 \<le> snd x" by simp
    then show ?thesis by simp
  next
    case False
    with Cons.prems show ?thesis by simp
  qed
qed simp

lemma run_name_of: "run lo block \<Longrightarrow> (c, v) \<in> set block \<Longrightarrow> name_of block v = Some c"
proof (induction block arbitrary: lo)
  case (Cons y ys)
  show ?case
  proof (cases "snd y = v")
    case True
    with Cons.prems run_range [of "lo + 1" ys "(c, v)"] have "y = (c, v)" by auto
    then show ?thesis by (simp add: name_of_def)
  next
    case False
    with Cons have "name_of ys v = Some c" by auto
    with False show ?thesis by (cases y) (simp add: name_of_def)
  qed
qed simp

lemma name_of_constant: "(c, v) \<in> set syscall_consts \<Longrightarrow> name_of syscall_consts v = Some c"
proof -
  assume "(c, v) \<in> set syscall_consts"
  then consider "(c, v) \<in> set syscall_run_0" | "(c, v) \<in> set syscall_consts_3"
    by (auto simp: syscall_consts_split)
  then show ?thesis
  proof cases
    case 1
    from run_name_of [OF sysn0.consecutive this] show ?thesis
      by (simp add: syscall_consts_split name_of_append)
  next
    case 2
    have v: "424 \<le> v" using run_range [OF sysn1.consecutive 2] by simp
    from run_name_of [OF sysn1.consecutive 2] v show ?thesis
      by (simp add: syscall_consts_split name_of_append sysn0.name_of_value)
  qed
qed

lemmas syscall_consts_unfold =
  syscall_consts_split syscall_run_0_unfold syscall_consts_3_def
lemmas syscall_cases_unfold =
  syscall_cases_def syscall_cases_0_def syscall_cases_1_def syscall_cases_2_def syscall_cases_3_def
  syscall_cases_4_def syscall_cases_5_def

lemmas ia32_syscall_consts_unfold =
  ia32_syscall_consts_def ia32_syscall_consts_0_def ia32_syscall_consts_1_def ia32_syscall_consts_2_def
  ia32_syscall_consts_3_def ia32_syscall_consts_4_def ia32_syscall_consts_5_def ia32_syscall_consts_6_def
  ia32_syscall_consts_7_def ia32_syscall_consts_8_def ia32_syscall_consts_9_def

text \<open>The guards list the constants in declaration order, with their values.\<close>

lemma syscall_guards_eq: "syscall_guards = syscall_consts"
  by (simp add: syscall_guards_def syscall_guards_0_def syscall_guards_1_def syscall_guards_2_def syscall_consts_unfold)

lemma ia32_syscall_guards_eq: "ia32_syscall_guards = ia32_syscall_consts"
  by (simp add: ia32_syscall_guards_def ia32_syscall_guards_0_def ia32_syscall_guards_1_def ia32_syscall_guards_2_def
      ia32_syscall_guards_3_def ia32_syscall_consts_unfold)

lemma guards_ok_iff: "list_all (guard_ok env) block \<longleftrightarrow> map env (map fst block) = map snd block"
  by (induction block) (auto simp: guard_ok_def)

text \<open>The cases of the parser return the constants in declaration order.\<close>

lemma syscall_cases_constants: "map snd syscall_cases @ [''SysLastSyscall''] = map fst syscall_consts"
  by (simp add: syscall_cases_unfold syscall_consts_unfold)

definition text_of_case :: "string \<times> string \<Rightarrow> bool" where
  "text_of_case x \<longleftrightarrow> fst x = ''umount'' \<or>
     strings_ToLower (strings_TrimPrefix (snd x) ''Sys'') = filter (\<lambda>a. a \<noteq> CHR ''_'') (fst x)"

lemma lower_char_eval [simp]:
  "lower_char (CHR ''A'') = CHR ''a''" "lower_char (CHR ''B'') = CHR ''b''" "lower_char (CHR ''C'') = CHR ''c''"
  "lower_char (CHR ''D'') = CHR ''d''" "lower_char (CHR ''E'') = CHR ''e''" "lower_char (CHR ''F'') = CHR ''f''"
  "lower_char (CHR ''G'') = CHR ''g''" "lower_char (CHR ''H'') = CHR ''h''" "lower_char (CHR ''I'') = CHR ''i''"
  "lower_char (CHR ''J'') = CHR ''j''" "lower_char (CHR ''K'') = CHR ''k''" "lower_char (CHR ''L'') = CHR ''l''"
  "lower_char (CHR ''M'') = CHR ''m''" "lower_char (CHR ''N'') = CHR ''n''" "lower_char (CHR ''O'') = CHR ''o''"
  "lower_char (CHR ''P'') = CHR ''p''" "lower_char (CHR ''Q'') = CHR ''q''" "lower_char (CHR ''R'') = CHR ''r''"
  "lower_char (CHR ''S'') = CHR ''s''" "lower_char (CHR ''T'') = CHR ''t''" "lower_char (CHR ''U'') = CHR ''u''"
  "lower_char (CHR ''V'') = CHR ''v''" "lower_char (CHR ''W'') = CHR ''w''" "lower_char (CHR ''X'') = CHR ''x''"
  "lower_char (CHR ''Y'') = CHR ''y''" "lower_char (CHR ''Z'') = CHR ''z''"
  "lower_char (CHR ''a'') = CHR ''a''" "lower_char (CHR ''b'') = CHR ''b''" "lower_char (CHR ''c'') = CHR ''c''"
  "lower_char (CHR ''d'') = CHR ''d''" "lower_char (CHR ''e'') = CHR ''e''" "lower_char (CHR ''f'') = CHR ''f''"
  "lower_char (CHR ''g'') = CHR ''g''" "lower_char (CHR ''h'') = CHR ''h''" "lower_char (CHR ''i'') = CHR ''i''"
  "lower_char (CHR ''j'') = CHR ''j''" "lower_char (CHR ''k'') = CHR ''k''" "lower_char (CHR ''l'') = CHR ''l''"
  "lower_char (CHR ''m'') = CHR ''m''" "lower_char (CHR ''n'') = CHR ''n''" "lower_char (CHR ''o'') = CHR ''o''"
  "lower_char (CHR ''p'') = CHR ''p''" "lower_char (CHR ''q'') = CHR ''q''" "lower_char (CHR ''r'') = CHR ''r''"
  "lower_char (CHR ''s'') = CHR ''s''" "lower_char (CHR ''t'') = CHR ''t''" "lower_char (CHR ''u'') = CHR ''u''"
  "lower_char (CHR ''v'') = CHR ''v''" "lower_char (CHR ''w'') = CHR ''w''" "lower_char (CHR ''x'') = CHR ''x''"
  "lower_char (CHR ''y'') = CHR ''y''" "lower_char (CHR ''z'') = CHR ''z''" "lower_char (CHR ''0'') = CHR ''0''"
  "lower_char (CHR ''1'') = CHR ''1''" "lower_char (CHR ''2'') = CHR ''2''" "lower_char (CHR ''3'') = CHR ''3''"
  "lower_char (CHR ''4'') = CHR ''4''" "lower_char (CHR ''5'') = CHR ''5''" "lower_char (CHR ''6'') = CHR ''6''"
  "lower_char (CHR ''7'') = CHR ''7''" "lower_char (CHR ''8'') = CHR ''8''" "lower_char (CHR ''9'') = CHR ''9''"
  by (simp_all add: lower_char_def char_of_def bit_0)

lemma text_of_cases:
  "list_all text_of_case syscall_cases_0" "list_all text_of_case syscall_cases_1"
  "list_all text_of_case syscall_cases_2" "list_all text_of_case syscall_cases_3"
  "list_all text_of_case syscall_cases_4" "list_all text_of_case syscall_cases_5"
  by (simp_all add: syscall_cases_unfold text_of_case_def strings_ToLower_def strings_TrimPrefix_def)

lemma ParseSyscallName_case:
  assumes "map_of syscall_cases n = Some c"
  shows "(c, ParseSyscallName n) \<in> set syscall_consts"
proof -
  have "c \<in> set (map snd syscall_cases)" using map_of_SomeD [OF assms] by force
  then have "c \<in> fst ` set syscall_consts" using syscall_cases_constants
    by (metis in_set_conv_decomp list.set_map append_Cons append_assoc)
  then obtain v where "map_of syscall_consts c = Some v"
    by (metis domIff dom_map_of_conv_image_fst option.exhaust)
  then show ?thesis
    using map_of_SomeD by (fastforce simp: ParseSyscallName.simps assms const_value_def)
qed

definition decimal :: "char set" where
  "decimal = set ''-0123456789''"

lemma digit_char_decimal: "d < 10 \<Longrightarrow> digit_char d \<in> decimal"
proof -
  assume "d < 10"
  then have "d \<in> {0, 1, 2, 3, 4, 5, 6, 7, 8, 9}" by auto
  then show ?thesis by (auto simp: decimal_def)
qed

lemma fmt_d_decimal: "set (fmt_d n) \<subseteq> decimal"
proof (induction n rule: less_induct)
  case (less n)
  show ?case
  proof (cases "n < 10")
    case True
    then show ?thesis by (simp add: nat_base.simps [of 10 n] digit_char_decimal)
  next
    case False
    then have "set (fmt_d (n div 10)) \<subseteq> decimal" by (intro less) simp
    with False show ?thesis by (simp add: nat_base.simps [of 10 n] digit_char_decimal)
  qed
qed

lemma ToLower_FormatInt: "strings_ToLower (FormatInt v) = FormatInt v"
proof -
  have "set (FormatInt v) \<subseteq> decimal"
    using fmt_d_decimal by (auto simp: FormatInt_def decimal_def)
  moreover have "c \<in> decimal \<Longrightarrow> lower_char c = c" for c
    by (auto simp: decimal_def lower_char_def)
  ultimately show ?thesis unfolding strings_ToLower_def by (intro map_idI) blast
qed

lemma TrimPrefix_self: "strings_TrimPrefix (p @ s) p = s"
  by (simp add: strings_TrimPrefix_def)

lemma ia32_names_prefix: "name_of ia32_syscall_consts v = Some c \<Longrightarrow> prefix ''IA32'' c"
proof -
  assume "name_of ia32_syscall_consts v = Some c"
  then have "c \<in> fst ` set ia32_syscall_consts"
    unfolding name_of_def by (force dest!: map_of_SomeD)
  moreover have "list_all (\<lambda>x. prefix ''IA32'' (fst x)) ia32_syscall_consts"
    unfolding ia32_syscall_consts_def list_all_append
    by (intro conjI) (simp_all add: ia32_syscall_consts_0_def ia32_syscall_consts_1_def ia32_syscall_consts_2_def ia32_syscall_consts_3_def ia32_syscall_consts_4_def ia32_syscall_consts_5_def ia32_syscall_consts_6_def ia32_syscall_consts_7_def ia32_syscall_consts_8_def ia32_syscall_consts_9_def)
  ultimately show ?thesis by (auto simp: list_all_iff)
qed

text \<open>The labels of the 32-bit parser under the kernel's spelling of four system calls.\<close>

definition ia32_sys_names :: "string list" where
  "ia32_sys_names = [''ia32_syslog'', ''ia32_sysfs'', ''ia32_restart_syscall'', ''ia32_compat_sysinfo'']"

definition ia32_mangled :: "(string \<times> string) list" where
  "ia32_mangled =
     [(''ia32log'', ''IA32SysSyslog''), (''ia32fs'', ''IA32SysSysfs''),
      (''ia32_restartcall'', ''IA32SysRestartSyscall''), (''ia32_compatinfo'', ''IA32CompatSysSysinfo'')]"

definition ia32_unmangled :: "string \<times> string \<Rightarrow> bool" where
  "ia32_unmangled x \<longleftrightarrow> fst x \<notin> set ia32_sys_names"

lemma ia32_blocks_unmangled:
  "list_all ia32_unmangled ia32_syscall_cases_0"
  "list_all ia32_unmangled ia32_syscall_cases_1"
  "list_all ia32_unmangled ia32_syscall_cases_2"
  "list_all ia32_unmangled ia32_syscall_cases_3"
  "list_all ia32_unmangled ia32_syscall_cases_4"
  "list_all ia32_unmangled ia32_syscall_cases_5"
  "list_all ia32_unmangled ia32_syscall_cases_6"
  by (simp_all add: ia32_unmangled_def ia32_sys_names_def
      ia32_syscall_cases_0_def ia32_syscall_cases_1_def ia32_syscall_cases_2_def ia32_syscall_cases_3_def ia32_syscall_cases_4_def ia32_syscall_cases_5_def ia32_syscall_cases_6_def)

lemma ia32_case_misses: "n \<in> set ia32_sys_names \<Longrightarrow> map_of ia32_syscall_cases n = None"
proof -
  assume n: "n \<in> set ia32_sys_names"
  have "list_all ia32_unmangled ia32_syscall_cases"
    by (simp add: ia32_syscall_cases_def ia32_blocks_unmangled)
  with n have "n \<notin> fst ` set ia32_syscall_cases"
    by (auto simp: list_all_iff ia32_unmangled_def)
  then show ?thesis by (simp add: map_of_eq_None_iff)
qed

lemma ia32_mangled_cases:
  "(''ia32log'', ''IA32SysSyslog'') \<in> set ia32_syscall_cases_1"
  "(''ia32fs'', ''IA32SysSysfs'') \<in> set ia32_syscall_cases_1"
  "(''ia32_restartcall'', ''IA32SysRestartSyscall'') \<in> set ia32_syscall_cases_0"
  "(''ia32_compatinfo'', ''IA32CompatSysSysinfo'') \<in> set ia32_syscall_cases_1"
  by (simp_all add: ia32_syscall_cases_0_def ia32_syscall_cases_1_def)

section \<open>Properties\<close>

text \<open>C23: \<open>String\<close> never panics and agrees with the constant block for every number: a declared
  system call number is printed as the identifier of its constant, any other number in
  decimal.  The packed strings and index arrays are therefore in step with both blocks.\<close>

theorem syscall_names:
  "Syscall_String v = Inr (case name_of syscall_consts v of
     Some c \<Rightarrow> c | None \<Rightarrow> ''Syscall('' @ FormatInt v @ '')'') \<and>
   IA32Syscall_String v = Inr (case name_of ia32_syscall_consts v of
     Some c \<Rightarrow> c | None \<Rightarrow> ''IA32Syscall('' @ FormatInt v @ '')'')"
  by (simp add: Syscall_String_lookup IA32Syscall_String_lookup)

text \<open>C40: The generated files compile exactly when every constant of the two blocks has the value under which
  the packed tables list its name; the guards leave no constant out.\<close>

theorem stringer_guards_pin_constants:
  "(Syscall_guards_compile env \<longleftrightarrow> map env (map fst syscall_consts) = map snd syscall_consts) \<and>
   (IA32Syscall_guards_compile env \<longleftrightarrow> map env (map fst ia32_syscall_consts) = map snd ia32_syscall_consts)"
  unfolding Syscall_guards_compile_def IA32Syscall_guards_compile_def guards_ok_iff syscall_guards_eq
    ia32_syscall_guards_eq by blast



text \<open>The texts keep two traces of how they are built.  A number without a constant loses
  the first three letters of \<open>Syscall(n)\<close> and is reported as \<open>call(n)\<close>; and the text of a
  32-bit system call keeps the prefix of its constant, because the prefix that is removed is
  \<open>Sys\<close> and not \<open>IA32Sys\<close>.\<close>

lemma syscall_text_prefixes:
  "(name_of syscall_consts v = None \<longrightarrow>
      Syscall_MarshalText v = Inr (''call('' @ FormatInt v @ '')'')) \<and>
   (\<forall>c. name_of ia32_syscall_consts v = Some c \<longrightarrow>
      IA32Syscall_MarshalText v = Inr (strings_ToLower c))"
proof (intro conjI allI impI)
  assume "name_of syscall_consts v = None"
  then show "Syscall_MarshalText v = Inr (''call('' @ FormatInt v @ '')'')"
    using ToLower_FormatInt [of v] TrimPrefix_self [of "''Sys''" "''call('' @ FormatInt v @ '')''"]
    by (simp add: Syscall_MarshalText_def Syscall_String_lookup strings_ToLower_def lower_char_def)
next
  fix c assume c: "name_of ia32_syscall_consts v = Some c"
  from ia32_names_prefix [OF c] have "\<not> prefix ''Sys'' c" by (auto simp: prefix_def)
  with c show "IA32Syscall_MarshalText v = Inr (strings_ToLower c)"
    by (simp add: IA32Syscall_MarshalText_def IA32Syscall_String_lookup strings_TrimPrefix_def)
qed

lemma syscall_text_prefixes_witness:
  "Syscall_MarshalText 335 = Inr ''call(335)'' \<and> IA32Syscall_MarshalText 3 = Inr ''ia32sysread''"
proof -
  have "name_of syscall_consts 335 = None"
    by (simp add: syscall_consts_split name_of_append sysn0.name_of_value sysn1.name_of_value)
  moreover have "name_of ia32_syscall_consts_0 3 = Some ''IA32SysRead''"
    by (simp add: ia32_syscall_consts_0_def name_of_def)
  then have "name_of ia32_syscall_consts 3 = Some ''IA32SysRead''"
    by (simp add: ia32_syscall_consts_split name_of_append)
  ultimately show ?thesis
    using syscall_text_prefixes [of 335] syscall_text_prefixes [of 3]
    by (simp add: FormatInt_def nat_base.simps strings_ToLower_def)
qed

text \<open>Four labels of the 32-bit parser have lost the syllable \<open>sys\<close> of their system call:
  the names as the kernel spells them are not recognised, and the labels that return their
  constants are mangled.\<close>

lemma ia32_mangled_labels:
  "map ParseIA32SyscallName ia32_sys_names = [- 1, - 1, - 1, - 1] \<and>
   set ia32_mangled \<subseteq> set ia32_syscall_cases"
proof
  have "ParseIA32SyscallName n = - 1" if "n \<in> set ia32_sys_names" for n
    using that ia32_case_misses [OF that]
    by (auto simp: ParseIA32SyscallName.simps ia32_sys_names_def strings_HasPrefix_def
        strings_HasSuffix_def suffix_def)
  then show "map ParseIA32SyscallName ia32_sys_names = [- 1, - 1, - 1, - 1]"
    by (simp add: ia32_sys_names_def)
  show "set ia32_mangled \<subseteq> set ia32_syscall_cases"
    using ia32_mangled_cases by (auto simp: ia32_mangled_def ia32_syscall_cases_def)
qed

text \<open>The binary form of a system call number is read back modulo \<open>2\<^sup>32\<close>, whatever follows it.\<close>

lemma syscall_binary_roundtrip:
  "bindR (Syscall_MarshalBinary bo i) (\<lambda>b. UnmarshalSyscall bo j (b @ rest)) = Inr (i mod 2 ^ 32, 4) \<and>
   bindR (IA32Syscall_MarshalBinary bo i) (\<lambda>b. UnmarshalIA32Syscall bo j (b @ rest)) = Inr (i mod 2 ^ 32, 4)"
  using sysw.dec_stream [where bo = bo and r = j and s = i and rest = rest]
    iaw.dec_stream [where bo = bo and r = j and s = i and rest = rest]
  by (simp add: Syscall_MarshalBinary_def IA32Syscall_MarshalBinary_def go_simps)

end
