(* ===== verification/Event_Json.thy ===== *)
theory Event_Json
  imports Json_Writer Process_Context Module_Events Check_Events Sysctl_Event Bpf_Events
    Constants Event_Types Syscalls "HOL-Library.AList"
begin

text \<open>
  The event of \<^verbatim>\<open>pkg/krie/events/events.go\<close> and its JSON form: the serializers of the event
  files and the encoders of \<^verbatim>\<open>pkg/krie/events/*_easyjson.go\<close>, one definition per generated
  encoding function.  A serializer that only wraps a pointer to an event is that event.
  What the encoders need from outside is a record \<open>JsonEnv\<close>: the order in which start-up
  ranged over the name tables, the constants of \<^verbatim>\<open>golang.org/x/sys/unix\<close>, the string quoting of
  \<^verbatim>\<open>encoding/json\<close>, the text of a time in the local zone, and the writer.  The decoding
  functions of the same files are never called and are not modelled.
\<close>

section \<open>Events\<close>

record Event =
  ev_Kernel :: KernelEvent
  ev_Process :: ProcessContext
  ev_InitModule :: InitModuleEvent
  ev_DeleteModule :: DeleteModuleEvent
  ev_BPFEvent :: BPFEvent
  ev_BPFFilterEvent :: BPFFilterEvent
  ev_PTraceEvent :: PTraceEvent
  ev_KProbeEvent :: KProbeEvent
  ev_SysCtlEvent :: SysCtlEvent
  ev_HookedSyscallEvent :: HookedSyscallEvent
  ev_EventCheckEvent :: EventCheckEvent
  ev_KernelParameterEvent :: KernelParameterEvent
  ev_RegisterCheckEvent :: RegisterCheckEvent

definition zero_cgroup :: CgroupContext where
  "zero_cgroup = \<lparr>cg_SubsystemID = 0, cg_ID = 0, cg_Name = []\<rparr>"

definition zero_process :: ProcessContext where
  "zero_process =
     \<lparr>pc_Cgroups = replicate CgroupSubsystemMax zero_cgroup,
      pc_NamespaceContext = \<lparr>ns_Cgroup = 0, ns_IPC = 0, ns_Net = 0, ns_Mnt = 0, ns_PID = 0, ns_Time = 0,
        ns_User = 0, ns_UTS = 0\<rparr>,
      pc_Credentials = \<lparr>cr_UID = 0, cr_GID = 0, cr_SUID = 0, cr_SGID = 0, cr_EUID = 0, cr_EGID = 0,
        cr_FSUID = 0, cr_FSGID = 0, cr_SecureBits = 0, cr_CapInheritable = 0, cr_CapPermitted = 0,
        cr_CapEffective = 0, cr_CapBSET = 0, cr_CapAmbiant = 0\<rparr>,
      pc_Comm = [], pc_PID = 0, pc_TID = 0\<rparr>"

definition zero_symbol :: KernelSymbol where
  "zero_symbol = \<lparr>ks_Address = 0, ks_Symbol = [], ks_Module = []\<rparr>"

text \<open>\<open>var eventZero events.Event\<close> and \<open>&Event{}\<close>: Go's zero value.\<close>

definition eventZero :: Event where
  "eventZero =
     \<lparr>ev_Kernel = \<lparr>ke_Time = zero_time, ke_Retval = 0, ke_CPU = 0, ke_Type = 0, ke_Action = 0\<rparr>,
      ev_Process = zero_process,
      ev_InitModule = \<lparr>im_LoadedFromMemory = False, im_Name = []\<rparr>,
      ev_DeleteModule = \<lparr>dm_Name = []\<rparr>,
      ev_BPFEvent = \<lparr>be_Map = \<lparr>bm_ID = 0, bm_Type = 0, bm_Name = []\<rparr>,
        be_Program = \<lparr>bp_ID = 0, bp_Type = 0, bp_AttachType = 0, bp_Helpers = [], bp_Name = [], bp_Tag = []\<rparr>,
        be_Cmd = 0\<rparr>,
      ev_BPFFilterEvent = \<lparr>bf_Cmd = 0, bf_Family = 0, bf_Type = 0, bf_Protocol = 0, bf_ProgLen = 0\<rparr>,
      ev_PTraceEvent = \<lparr>pt_Address = 0, pt_Request = 0, pt_PID = 0\<rparr>,
      ev_KProbeEvent = \<lparr>kp_Address = 0, kp_Symbol = [], kp_Command = 0, kp_Type = 0\<rparr>,
      ev_SysCtlEvent = \<lparr>se_WriteAccess = False, se_FilePosition = 0, se_Action = 0, se_Name = [],
        se_CurrentValue = [], se_NewValue = [], se_NewValueOverriddenWith = []\<rparr>,
      ev_HookedSyscallEvent = \<lparr>hs_Syscall = None, hs_IA32Syscall = None, hs_SyscallTable = 0,
        hs_InitialHandler = zero_symbol, hs_NewHandler = zero_symbol\<rparr>,
      ev_EventCheckEvent = \<lparr>ec_CheckedEventType = 0\<rparr>,
      ev_KernelParameterEvent = \<lparr>kv_Parameter = zero_symbol, kv_ExpectedValue = 0, kv_ActualValue = 0\<rparr>,
      ev_RegisterCheckEvent = \<lparr>rc_StackPointer = 0, rc_InstructionPointer = 0, rc_FramePointer = 0,
        rc_HookPoint = 0\<rparr>\<rparr>"

definition NewEvent :: Event where
  "NewEvent = eventZero"

record EventSerializer =
  es_KernelEvent :: "KernelEvent option"
  es_ProcessContext :: "ProcessContext option"
  es_InitModule :: "InitModuleEvent option"
  es_DeleteModule :: "DeleteModuleEvent option"
  es_BPF :: "BPFEventSerializer option"
  es_BPFFilter :: "BPFFilterEvent option"
  es_PTrace :: "PTraceEvent option"
  es_KProbe :: "KProbeEvent option"
  es_SysCtl :: "SysCtlEvent option"
  es_HookedSyscall :: "HookedSyscallEvent option"
  es_EventCheck :: "EventCheckEvent option"
  es_KernelParameter :: "KernelParameterEvent option"
  es_RegisterCheck :: "RegisterCheckEvent option"

definition NewEventSerializer :: "Event \<Rightarrow> EventSerializer" where
  "NewEventSerializer event =
     (let serializer = \<lparr>es_KernelEvent = Some (ev_Kernel event), es_ProcessContext = None,
            es_InitModule = None, es_DeleteModule = None, es_BPF = None, es_BPFFilter = None,
            es_PTrace = None, es_KProbe = None, es_SysCtl = None, es_HookedSyscall = None,
            es_EventCheck = None, es_KernelParameter = None, es_RegisterCheck = None\<rparr>;
          type = ke_Type (ev_Kernel event);
          serializer = (if type \<noteq> HookedSyscallTableEventType
            then serializer\<lparr>es_ProcessContext := Some (ev_Process event)\<rparr> else serializer)
      in if type = InitModuleEventType then serializer\<lparr>es_InitModule := Some (ev_InitModule event)\<rparr>
         else if type = DeleteModuleEventType then serializer\<lparr>es_DeleteModule := Some (ev_DeleteModule event)\<rparr>
         else if type = BPFEventType
         then serializer\<lparr>es_BPF := Some (NewBPFEventSerializer (ev_BPFEvent event))\<rparr>
         else if type = BPFFilterEventType then serializer\<lparr>es_BPFFilter := Some (ev_BPFFilterEvent event)\<rparr>
         else if type = PTraceEventType then serializer\<lparr>es_PTrace := Some (ev_PTraceEvent event)\<rparr>
         else if type = KProbeEventType then serializer\<lparr>es_KProbe := Some (ev_KProbeEvent event)\<rparr>
         else if type = SysCtlEventType then serializer\<lparr>es_SysCtl := Some (ev_SysCtlEvent event)\<rparr>
         else if type = EventCheckEventType then serializer\<lparr>es_EventCheck := Some (ev_EventCheckEvent event)\<rparr>
         else if type = HookedSyscallTableEventType \<or> type = HookedSyscallEventType
         then serializer\<lparr>es_HookedSyscall := Some (ev_HookedSyscallEvent event)\<rparr>
         else if type = KernelParameterEventType \<or> type = PeriodicKernelParameterEventType
         then serializer\<lparr>es_KernelParameter := Some (ev_KernelParameterEvent event)\<rparr>
         else if type = RegisterCheckEventType
         then serializer\<lparr>es_RegisterCheck := Some (ev_RegisterCheckEvent event)\<rparr>
         else serializer)"

section \<open>Encoders\<close>

record 'w JsonEnv =
  je_rg :: GoRange
  je_unix16 :: "string \<Rightarrow> u16"
  je_unix32 :: "string \<Rightarrow> u32"
  je_String :: "string \<Rightarrow> string"
  je_Time :: "Time \<Rightarrow> error + string"
  je_jw :: "'w JWriter"

text \<open>The ways a value is written.\<close>

definition val_raw :: "'w JWriter \<Rightarrow> string \<Rightarrow> 'w encoder" where
  "val_raw jw t = (\<lambda>w. Inr (jw_Raw jw (Inr t) w))"

definition val_string :: "'w JWriter \<Rightarrow> string \<Rightarrow> 'w encoder" where
  "val_string jw s = (\<lambda>w. Inr (jw_String jw s w))"

definition val_uint32 :: "'w JWriter \<Rightarrow> u32 \<Rightarrow> 'w encoder" where
  "val_uint32 jw n = (\<lambda>w. Inr (jw_Uint32 jw n w))"

definition val_uint64 :: "'w JWriter \<Rightarrow> u64 \<Rightarrow> 'w encoder" where
  "val_uint64 jw n = (\<lambda>w. Inr (jw_Uint64 jw n w))"

text \<open>\<open>*p\<close> for a pointer: a nil pointer panics.\<close>

definition val_deref :: "('a \<Rightarrow> 'w encoder) \<Rightarrow> 'a option \<Rightarrow> 'w encoder" where
  "val_deref enc p = (case p of None \<Rightarrow> (\<lambda>w. Inl Panic) | Some x \<Rightarrow> enc x)"

text \<open>\<open>out.RawText(x.MarshalText())\<close>\<close>

definition val_text :: "'w JWriter \<Rightarrow> string result \<Rightarrow> 'w encoder" where
  "val_text jw r = (\<lambda>w. bindR r (\<lambda>t. Inr (jw_RawText jw (Inr t) w)))"

definition KernelEvent_encode :: "'w JsonEnv \<Rightarrow> KernelEvent \<Rightarrow> 'w encoder" where
  "KernelEvent_encode env e = (let jw = je_jw env in write_object jw
     [field_head jw ''time'' (\<lambda>w. Inr (jw_Raw jw (je_Time env (ke_Time e)) w)),
      field_tail jw True ''retval'' (\<lambda>w. Inr (jw_Int64 jw (ke_Retval e) w)),
      field_tail jw True ''cpu'' (val_uint32 jw (ke_CPU e)),
      field_tail jw True ''type'' (val_raw jw (EventType_MarshalJSON (ke_Type e))),
      field_tail jw True ''action'' (val_raw jw (Action_MarshalJSON (je_rg env) (ke_Action e)))])"

text \<open>\<open>json.Marshal\<close> of a \<open>CgroupContext\<close> and of a map: the keys of an object are sorted.\<close>

definition CgroupContext_json :: "(string \<Rightarrow> string) \<Rightarrow> CgroupContext \<Rightarrow> json" where
  "CgroupContext_json quote c =
     JObject ((''id'', JText (fmt_d (unat (cg_ID c)))) #
       opt (cg_Name c \<noteq> []) ''name'' (JText (quote (cg_Name c))))"

definition cgroups_map :: "CgroupContext list \<Rightarrow> (string \<times> CgroupContext) list" where
  "cgroups_map c =
     foldl (\<lambda>out (k, v). AList.update (CgroupSubsystemID_String (word_of_nat k)) v out) [] (enumerate 0 c)"

definition Cgroups_json :: "(string \<Rightarrow> string) \<Rightarrow> CgroupContext list \<Rightarrow> json" where
  "Cgroups_json quote c =
     JObject (map (\<lambda>(k, v). (k, CgroupContext_json quote v)) (sort_key fst (cgroups_map c)))"

definition Cgroups_MarshalJSON :: "'w JsonEnv \<Rightarrow> CgroupContext list \<Rightarrow> string" where
  "Cgroups_MarshalJSON env c = render (Cgroups_json (je_String env) c)"

definition NamespaceContext_encode :: "'w JsonEnv \<Rightarrow> NamespaceContext \<Rightarrow> 'w encoder" where
  "NamespaceContext_encode env n = (let jw = je_jw env in write_object jw
     [field_head jw ''cgroup_namespace'' (val_uint32 jw (ns_Cgroup n)),
      field_tail jw True ''ipc_namespace'' (val_uint32 jw (ns_IPC n)),
      field_tail jw True ''net_namespace'' (val_uint32 jw (ns_Net n)),
      field_tail jw True ''mnt_namespace'' (val_uint32 jw (ns_Mnt n)),
      field_tail jw True ''pid_namespace'' (val_uint32 jw (ns_PID n)),
      field_tail jw True ''time_namespace'' (val_uint32 jw (ns_Time n)),
      field_tail jw True ''user_namespace'' (val_uint32 jw (ns_User n)),
      field_tail jw True ''uts_namespace'' (val_uint32 jw (ns_UTS n))])"

definition CredentialsContext_encode :: "'w JsonEnv \<Rightarrow> CredentialsContext \<Rightarrow> 'w encoder" where
  "CredentialsContext_encode env c = (let jw = je_jw env in write_object jw
     [field_head jw ''uid'' (val_uint32 jw (cr_UID c)),
      field_tail jw True ''gid'' (val_uint32 jw (cr_GID c)),
      field_tail jw True ''suid'' (val_uint32 jw (cr_SUID c)),
      field_tail jw True ''sgid'' (val_uint32 jw (cr_SGID c)),
      field_tail jw True ''euid'' (val_uint32 jw (cr_EUID c)),
      field_tail jw True ''egid'' (val_uint32 jw (cr_EGID c)),
      field_tail jw True ''fsuid'' (val_uint32 jw (cr_FSUID c)),
      field_tail jw True ''fsgid'' (val_uint32 jw (cr_FSGID c)),
      field_tail jw True ''secure_bits'' (val_uint32 jw (cr_SecureBits c)),
      field_tail jw True ''cap_inheritable'' (val_uint64 jw (cr_CapInheritable c)),
      field_tail jw True ''cap_permitted'' (val_uint64 jw (cr_CapPermitted c)),
      field_tail jw True ''cap_effective'' (val_uint64 jw (cr_CapEffective c)),
      field_tail jw True ''cap_bset'' (val_uint64 jw (cr_CapBSET c)),
      field_tail jw True ''cap_ambiant'' (val_uint64 jw (cr_CapAmbiant c))])"

definition ProcessContext_encode :: "'w JsonEnv \<Rightarrow> ProcessContext \<Rightarrow> 'w encoder" where
  "ProcessContext_encode env p = (let jw = je_jw env in write_object jw
     [field_head jw ''cgroups'' (val_raw jw (Cgroups_MarshalJSON env (pc_Cgroups p))),
      field_tail jw True ''namespace_context'' (NamespaceContext_encode env (pc_NamespaceContext p)),
      field_tail jw True ''credentials'' (CredentialsContext_encode env (pc_Credentials p)),
      field_tail jw True ''comm'' (val_string jw (pc_Comm p)),
      field_tail jw True ''pid'' (val_uint32 jw (pc_PID p)),
      field_tail jw True ''tid'' (val_uint32 jw (pc_TID p))])"

definition InitModuleEvent_encode :: "'w JsonEnv \<Rightarrow> InitModuleEvent \<Rightarrow> 'w encoder" where
  "InitModuleEvent_encode env e = (let jw = je_jw env in write_object jw
     [field_head jw ''loaded_from_memory'' (\<lambda>w. Inr (jw_Bool jw (im_LoadedFromMemory e) w)),
      field_tail jw True ''name'' (val_string jw (im_Name e))])"

definition DeleteModuleEvent_encode :: "'w JsonEnv \<Rightarrow> DeleteModuleEvent \<Rightarrow> 'w encoder" where
  "DeleteModuleEvent_encode env e = (let jw = je_jw env in write_object jw
     [field_head jw ''name'' (val_string jw (dm_Name e))])"

definition BPFMap_encode :: "'w JsonEnv \<Rightarrow> BPFMap \<Rightarrow> 'w encoder" where
  "BPFMap_encode env m = (let jw = je_jw env in write_object jw
     [field_head jw ''id'' (val_uint32 jw (bm_ID m)),
      field_tail jw (bm_Type m \<noteq> 0) ''type'' (val_raw jw (BPFMapType_MarshalJSON (je_rg env) (bm_Type m))),
      field_tail jw (bm_Name m \<noteq> []) ''name'' (val_string jw (bm_Name m))])"

definition BPFProgram_encode :: "'w JsonEnv \<Rightarrow> BPFProgram \<Rightarrow> 'w encoder" where
  "BPFProgram_encode env p = (let jw = je_jw env in write_object jw
     [field_head jw ''id'' (val_uint32 jw (bp_ID p)),
      field_tail jw (bp_Type p \<noteq> 0) ''type''
        (val_raw jw (BPFProgramType_MarshalJSON (je_rg env) (bp_Type p))),
      field_tail jw (bp_AttachType p \<noteq> 0) ''attach_type''
        (val_raw jw (BPFAttachType_MarshalJSON (je_rg env) (bp_AttachType p))),
      field_tail jw (length (bp_Helpers p) \<noteq> 0) ''helpers''
        (val_raw jw (BPFHelperFuncList_MarshalJSON (je_rg env) (bp_Helpers p))),
      field_tail jw (bp_Name p \<noteq> []) ''name'' (val_string jw (bp_Name p)),
      field_tail jw (bp_Tag p \<noteq> []) ''tag'' (val_string jw (bp_Tag p))])"

definition BPFEventSerializer_encode :: "'w JsonEnv \<Rightarrow> BPFEventSerializer \<Rightarrow> 'w encoder" where
  "BPFEventSerializer_encode env s = (let jw = je_jw env in write_object jw
     [field_head_if jw (bs_Map s \<noteq> None) ''map'' (val_deref (BPFMap_encode env) (bs_Map s)),
      field_dyn jw (bs_Program s \<noteq> None) ''program'' (val_deref (BPFProgram_encode env) (bs_Program s)),
      field_dyn jw True ''cmd'' (val_raw jw (BPFCmd_MarshalJSON (je_rg env) (bs_Cmd s)))])"

definition BPFFilterEvent_encode :: "'w JsonEnv \<Rightarrow> BPFFilterEvent \<Rightarrow> 'w encoder" where
  "BPFFilterEvent_encode env e = (let jw = je_jw env in write_object jw
     [field_head_if jw (bf_Cmd e \<noteq> 0) ''cmd'' (val_raw jw (BPFFilterCmd_MarshalJSON (je_rg env) (bf_Cmd e))),
      field_dyn jw (bf_Family e \<noteq> 0) ''family''
        (val_raw jw (AddressFamily_MarshalJSON (je_rg env) (je_unix16 env) (bf_Family e))),
      field_dyn jw (bf_Type e \<noteq> 0) ''type''
        (val_raw jw (SocketType_MarshalJSON (je_rg env) (je_unix32 env) (bf_Type e))),
      field_dyn jw (bf_Protocol e \<noteq> 0) ''protocol''
        (val_raw jw (L3Protocol_MarshalJSON (je_rg env) (bf_Protocol e))),
      field_dyn jw (bf_ProgLen e \<noteq> 0) ''prog_len'' (\<lambda>w. Inr (jw_Uint16 jw (bf_ProgLen e) w))])"

definition PTraceEvent_encode :: "'w JsonEnv \<Rightarrow> PTraceEvent \<Rightarrow> 'w encoder" where
  "PTraceEvent_encode env e = (let jw = je_jw env in write_object jw
     [field_head_if jw (pt_Address e \<noteq> 0) ''address'' (val_raw jw (MemoryPointer_MarshalJSON (pt_Address e))),
      field_dyn jw True ''request''
        (val_raw jw (PTraceRequest_MarshalJSON (je_rg env) (je_unix32 env) (pt_Request e))),
      field_tail jw (pt_PID e \<noteq> 0) ''pid'' (val_uint32 jw (pt_PID e))])"

definition KProbeEvent_encode :: "'w JsonEnv \<Rightarrow> KProbeEvent \<Rightarrow> 'w encoder" where
  "KProbeEvent_encode env e = (let jw = je_jw env in write_object jw
     [field_head_if jw (kp_Address e \<noteq> 0) ''address'' (val_raw jw (MemoryPointer_MarshalJSON (kp_Address e))),
      field_dyn jw (kp_Symbol e \<noteq> []) ''string'' (val_string jw (kp_Symbol e)),
      field_dyn jw True ''command'' (val_raw jw (KProbeCommand_MarshalJSON (je_rg env) (kp_Command e))),
      field_tail jw True ''type'' (val_raw jw (KProbeType_MarshalJSON (je_rg env) (kp_Type e)))])"

definition SysCtlEvent_encode :: "'w JsonEnv \<Rightarrow> SysCtlEvent \<Rightarrow> 'w encoder" where
  "SysCtlEvent_encode env e = (let jw = je_jw env in write_object jw
     [field_head jw ''write_access'' (\<lambda>w. Inr (jw_Bool jw (se_WriteAccess e) w)),
      field_tail jw True ''file_position'' (val_uint32 jw (se_FilePosition e)),
      field_tail jw True ''action'' (val_raw jw (SysCtlAction_MarshalJSON (je_rg env) (se_Action e))),
      field_tail jw True ''name'' (val_string jw (se_Name e)),
      field_tail jw True ''current_value'' (val_string jw (se_CurrentValue e)),
      field_tail jw (se_NewValue e \<noteq> []) ''new_value'' (val_string jw (se_NewValue e)),
      field_tail jw (se_NewValueOverriddenWith e \<noteq> []) ''new_value_overridden_with''
        (val_string jw (se_NewValueOverriddenWith e))])"

definition KernelSymbol_encode :: "'w JsonEnv \<Rightarrow> KernelSymbol \<Rightarrow> 'w encoder" where
  "KernelSymbol_encode env k = (let jw = je_jw env in write_object jw
     [field_head_if jw (ks_Address k \<noteq> 0) ''address'' (val_raw jw (MemoryPointer_MarshalJSON (ks_Address k))),
      field_dyn jw (ks_Symbol k \<noteq> []) ''symbol'' (val_string jw (ks_Symbol k)),
      field_dyn jw (ks_Module k \<noteq> []) ''module'' (val_string jw (ks_Module k))])"

definition HookedSyscallEvent_encode :: "'w JsonEnv \<Rightarrow> HookedSyscallEvent \<Rightarrow> 'w encoder" where
  "HookedSyscallEvent_encode env e = (let jw = je_jw env in write_object jw
     [field_head_if jw (hs_Syscall e \<noteq> None) ''syscall''
        (val_deref (\<lambda>i. val_text jw (Syscall_MarshalText i)) (hs_Syscall e)),
      field_dyn jw (hs_IA32Syscall e \<noteq> None) ''ia_32_syscall''
        (val_deref (\<lambda>i. val_text jw (IA32Syscall_MarshalText i)) (hs_IA32Syscall e)),
      field_dyn jw True ''syscall_table'' (val_raw jw (SyscallTable_MarshalJSON (hs_SyscallTable e))),
      field_tail jw True ''initial_handler'' (KernelSymbol_encode env (hs_InitialHandler e)),
      field_tail jw True ''new_handler'' (KernelSymbol_encode env (hs_NewHandler e))])"

definition EventCheckEvent_encode :: "'w JsonEnv \<Rightarrow> EventCheckEvent \<Rightarrow> 'w encoder" where
  "EventCheckEvent_encode env e = (let jw = je_jw env in write_object jw
     [field_head jw ''checked_event_type'' (val_raw jw (EventType_MarshalJSON (ec_CheckedEventType e)))])"

definition KernelParameterEvent_encode :: "'w JsonEnv \<Rightarrow> KernelParameterEvent \<Rightarrow> 'w encoder" where
  "KernelParameterEvent_encode env e = (let jw = je_jw env in write_object jw
     [field_head_if jw True ''parameter'' (KernelSymbol_encode env (kv_Parameter e)),
      field_dyn jw True ''expected_value'' (val_uint64 jw (kv_ExpectedValue e)),
      field_tail jw True ''actual_value'' (val_uint64 jw (kv_ActualValue e))])"

definition RegisterCheckEvent_encode :: "'w JsonEnv \<Rightarrow> RegisterCheckEvent \<Rightarrow> 'w encoder" where
  "RegisterCheckEvent_encode env e = (let jw = je_jw env in write_object jw
     [field_head jw ''stack_pointer'' (val_raw jw (MemoryPointer_MarshalJSON (rc_StackPointer e))),
      field_tail jw True ''instruction_pointer'' (val_raw jw (MemoryPointer_MarshalJSON (rc_InstructionPointer e))),
      field_tail jw True ''frame_pointer'' (val_raw jw (MemoryPointer_MarshalJSON (rc_FramePointer e))),
      field_tail jw True ''hook_point'' (val_raw jw (HookPoint_MarshalJSON (je_rg env) (rc_HookPoint e)))])"

definition EventSerializer_encode :: "'w JsonEnv \<Rightarrow> EventSerializer \<Rightarrow> 'w encoder" where
  "EventSerializer_encode env s = (let jw = je_jw env in write_object jw
     [field_head_if jw (es_KernelEvent s \<noteq> None) ''event''
        (val_deref (KernelEvent_encode env) (es_KernelEvent s)),
      field_dyn jw (es_ProcessContext s \<noteq> None) ''process''
        (val_deref (ProcessContext_encode env) (es_ProcessContext s)),
      field_dyn jw (es_InitModule s \<noteq> None) ''init_module''
        (val_deref (InitModuleEvent_encode env) (es_InitModule s)),
      field_dyn jw (es_DeleteModule s \<noteq> None) ''delete_module''
        (val_deref (DeleteModuleEvent_encode env) (es_DeleteModule s)),
      field_dyn jw (es_BPF s \<noteq> None) ''bpf'' (val_deref (BPFEventSerializer_encode env) (es_BPF s)),
      field_dyn jw (es_BPFFilter s \<noteq> None) ''bpf_filter''
        (val_deref (BPFFilterEvent_encode env) (es_BPFFilter s)),
      field_dyn jw (es_PTrace s \<noteq> None) ''ptrace'' (val_deref (PTraceEvent_encode env) (es_PTrace s)),
      field_dyn jw (es_KProbe s \<noteq> None) ''kprobe'' (val_deref (KProbeEvent_encode env) (es_KProbe s)),
      field_dyn jw (es_SysCtl s \<noteq> None) ''sysctl'' (val_deref (SysCtlEvent_encode env) (es_SysCtl s)),
      field_dyn jw (es_HookedSyscall s \<noteq> None) ''hooked_syscall''
        (val_deref (HookedSyscallEvent_encode env) (es_HookedSyscall s)),
      field_dyn jw (es_EventCheck s \<noteq> None) ''event_check''
        (val_deref (EventCheckEvent_encode env) (es_EventCheck s)),
      field_dyn jw (es_KernelParameter s \<noteq> None) ''kernel_parameter''
        (val_deref (KernelParameterEvent_encode env) (es_KernelParameter s)),
      field_dyn jw (es_RegisterCheck s \<noteq> None) ''register_check''
        (val_deref (RegisterCheckEvent_encode env) (es_RegisterCheck s))])"

definition Event_MarshalJSON :: "'w JsonEnv \<Rightarrow> Event \<Rightarrow> (error + string) result" where
  "Event_MarshalJSON env e =
     bindR (EventSerializer_encode env (NewEventSerializer e) (jw_new (je_jw env)))
       (\<lambda>w. Inr (jw_BuildBytes (je_jw env) w))"

text \<open>\<open>Event.String\<close>: an error is printed with \<open>%v\<close>, whose text the parameter \<open>show_error\<close> gives.\<close>

definition Event_String :: "'w JsonEnv \<Rightarrow> (error \<Rightarrow> string) \<Rightarrow> Event \<Rightarrow> string result" where
  "Event_String env show_error e =
     bindR (Event_MarshalJSON env e) (\<lambda>r. Inr (case r of
        Inl err \<Rightarrow> ''failed to marshall event: '' @ show_error err
      | Inr data \<Rightarrow> data))"

end
