(* ===== verification/Plain_Names.thy ===== *)
theory Plain_Names
  imports Event_Json
begin

text \<open>
  The \<open>MarshalJSON\<close> methods of the enumerations put a name between double quotes without
  escaping it.  This is sound because every name they can print is plain: printable ASCII
  without a double quote or a backslash.  The check goes over the tables of
  \<^verbatim>\<open>pkg/krie/events/constants.go\<close>.
\<close>

definition plain_char :: "char \<Rightarrow> bool" where
  "plain_char c \<longleftrightarrow> (let n = (of_char c :: nat) in 32 \<le> n \<and> n < 127 \<and> n \<noteq> 34 \<and> n \<noteq> 92)"

definition plain :: "string \<Rightarrow> bool" where
  "plain s \<longleftrightarrow> list_all plain_char s"

section \<open>Closure\<close>

lemma plain_simps [simp]: "plain []" "plain (c # s) \<longleftrightarrow> plain_char c \<and> plain s"
  "plain (s @ t) \<longleftrightarrow> plain s \<and> plain t"
  by (simp_all add: plain_def)

lemma plain_Join: "plain sep \<Longrightarrow> \<forall>s\<in>set xs. plain s \<Longrightarrow> plain (strings_Join sep xs)"
  by (induction sep xs rule: strings_Join.induct) simp_all

lemma plain_digit: "d < 16 \<Longrightarrow> plain_char (digit_char d)"
  by (simp add: plain_char_def digit_char_def Let_def)

lemma plain_nat_base: "2 \<le> b \<Longrightarrow> b \<le> 16 \<Longrightarrow> plain (nat_base b n)"
proof (induction b n rule: nat_base.induct)
  case (1 b n)
  have "n mod b < b" using "1.prems" by simp
  also have "b \<le> 16" by (rule "1.prems"(2))
  finally have "n mod b < 16" .
  with 1 show ?case by (subst nat_base.simps) (auto intro!: plain_digit)
qed

lemma plain_no_newline: "plain s \<Longrightarrow> CHR 0x0A \<notin> set s"
  by (auto simp: plain_def list_all_iff plain_char_def)

text \<open>A name read from a table is one of its keys, or empty.\<close>

lemma plain_go_string:
  assumes "mset order = mset table" and "list_all plain (map fst table)"
  shows "plain (go_string (init_strings order) v)"
proof (cases "v \<in> snd ` set table")
  case True
  with go_string_mem [OF assms(1)] assms(2) show ?thesis by (force simp: list_all_iff)
next
  case False
  with go_string_unnamed [OF assms(1)] show ?thesis by simp
qed

section \<open>The tables\<close>

lemma value_table_keys: "map fst (value_table block es) = map fst es"
  by (simp add: value_table_def comp_def case_prod_beta)

lemma unix_table_keys: "map fst (unix_table unix es) = map fst es"
  by (simp add: unix_table_def comp_def case_prod_beta)

lemmas table_keys = iota_table_keys value_table_keys unix_table_keys

lemma plain_BPFCmd: "list_all plain (map fst BPFCmdConstants)"
  unfolding BPFCmdConstants_def table_keys by (simp add: plain_char_def)

lemma plain_BPFFilterCmd: "list_all plain (map fst BPFFilterCmdConstants)"
  unfolding BPFFilterCmdConstants_def table_keys by (simp add: plain_char_def)

lemma plain_BPFHelperFunc: "list_all plain (map fst BPFHelperFuncConstants)"
  unfolding BPFHelperFuncConstants_flat table_keys by (simp add: plain_char_def)

lemma plain_BPFMapType: "list_all plain (map fst BPFMapTypeConstants)"
  unfolding BPFMapTypeConstants_def table_keys by (simp add: plain_char_def)

lemma plain_BPFProgramType: "list_all plain (map fst BPFProgramTypeConstants)"
  unfolding BPFProgramTypeConstants_def table_keys by (simp add: plain_char_def)

lemma plain_BPFAttachType: "list_all plain (map fst BPFAttachTypeConstants)"
  unfolding BPFAttachTypeConstants_def table_keys by (simp add: plain_char_def)

lemma plain_AddressFamily: "list_all plain (map fst (addressFamilyConstants unix))"
  unfolding addressFamilyConstants_def table_keys by (simp add: plain_char_def)

lemma plain_L3Protocol: "list_all plain (map fst L3ProtocolConstants)"
  unfolding L3ProtocolConstants_def table_keys by (simp add: plain_char_def)

lemma plain_SocketType: "list_all plain (map fst (socketTypeConstants unix))"
  unfolding socketTypeConstants_def table_keys by (simp add: plain_char_def)

lemma plain_PTrace: "list_all plain (map fst (ptraceConstants unix))"
  unfolding ptraceConstants_def table_keys by (simp add: plain_char_def)

lemma plain_Action: "list_all plain (map fst ActionConstants)"
  unfolding ActionConstants_def table_keys by (simp add: plain_char_def)

lemma plain_small_tables:
  "list_all plain (map fst KProbeCommandConstants)" "list_all plain (map fst KProbeTypeConstants)"
  "list_all plain (map fst SysCtlActionConstants)" "list_all plain (map fst HookPointConstants)"
  by (simp_all add: KProbeCommandConstants_def KProbeTypeConstants_def SysCtlActionConstants_def
      HookPointConstants_def plain_char_def)

section \<open>The names\<close>

lemmas plain_tables = plain_BPFCmd plain_BPFFilterCmd plain_BPFHelperFunc plain_BPFMapType plain_BPFProgramType
  plain_BPFAttachType plain_AddressFamily plain_L3Protocol plain_SocketType plain_PTrace plain_Action
  plain_small_tables

lemma plain_names:
  assumes "GoRange_ok rg"
  shows "plain (BPFCmd_String rg a64)" "plain (BPFFilterCmd_String rg a)" "plain (BPFHelperFunc_String rg a)"
    "plain (BPFMapType_String rg a)" "plain (BPFProgramType_String rg a)" "plain (BPFAttachType_String rg a)"
    "plain (AddressFamily_String rg u16 a16)" "plain (L3Protocol_String rg a16)"
    "plain (SocketType_String rg u32 a)" "plain (PTraceRequest_String rg u32 a)"
    "plain (KProbeCommand_String rg a)" "plain (KProbeType_String rg a)" "plain (SysCtlAction_String rg a64)"
    "plain (Action_String rg a)" "plain (HookPoint_String rg a)"
  using GoRange_okD [OF assms] plain_tables
  by (simp_all add: string_defs BPFCmd_String_def bpfCmdStrings_def AddressFamily_String_def
      addressFamilyStrings_def SocketType_String_def socketTypeStrings_def PTraceRequest_String_def
      ptraceFlagsStrings_def plain_go_string)

lemma plain_switches:
  "plain (EventType_String t)" "plain (SyscallTable_String t)" "plain (CgroupSubsystemID_String t)"
  by (simp_all add: EventType_String_def SyscallTable_String_def CgroupSubsystemID_String_def plain_char_def
      plain_nat_base)

end
