(* ===== verification/Event_Document.thy ===== *)
theory Event_Document
  imports Plain_Names
begin

text \<open>
  What the JSON form of an event should be, as a document, and that the generated encoders
  write it: every object lists its fields in order without the omitted ones, commas stand
  exactly between fields, no key occurs twice, and the text of an event has no line break, so
  that the output file holds one event per line.
\<close>

section \<open>Documents\<close>

definition number :: "'w JView \<Rightarrow> 'a::len word \<Rightarrow> json" where
  "number jv n = JText (jv_Uint jv (unat n))"

definition str :: "'w JView \<Rightarrow> string \<Rightarrow> json" where
  "str jv s = JText (jv_String jv s)"

definition KernelEvent_doc :: "'w JsonEnv \<Rightarrow> 'w JView \<Rightarrow> string \<Rightarrow> KernelEvent \<Rightarrow> json" where
  "KernelEvent_doc env jv ts e = JObject
     [(''time'', JText ts), (''retval'', JText (jv_Int jv (sint (ke_Retval e)))), (''cpu'', number jv (ke_CPU e)),
      (''type'', JText (EventType_MarshalJSON (ke_Type e))),
      (''action'', JText (Action_MarshalJSON (je_rg env) (ke_Action e)))]"

definition NamespaceContext_doc :: "'w JView \<Rightarrow> NamespaceContext \<Rightarrow> json" where
  "NamespaceContext_doc jv n = JObject
     [(''cgroup_namespace'', number jv (ns_Cgroup n)), (''ipc_namespace'', number jv (ns_IPC n)),
      (''net_namespace'', number jv (ns_Net n)), (''mnt_namespace'', number jv (ns_Mnt n)),
      (''pid_namespace'', number jv (ns_PID n)), (''time_namespace'', number jv (ns_Time n)),
      (''user_namespace'', number jv (ns_User n)), (''uts_namespace'', number jv (ns_UTS n))]"

definition CredentialsContext_doc :: "'w JView \<Rightarrow> CredentialsContext \<Rightarrow> json" where
  "CredentialsContext_doc jv c = JObject
     [(''uid'', number jv (cr_UID c)), (''gid'', number jv (cr_GID c)), (''suid'', number jv (cr_SUID c)),
      (''sgid'', number jv (cr_SGID c)), (''euid'', number jv (cr_EUID c)), (''egid'', number jv (cr_EGID c)),
      (''fsuid'', number jv (cr_FSUID c)), (''fsgid'', number jv (cr_FSGID c)),
      (''secure_bits'', number jv (cr_SecureBits c)), (''cap_inheritable'', number jv (cr_CapInheritable c)),
      (''cap_permitted'', number jv (cr_CapPermitted c)), (''cap_effective'', number jv (cr_CapEffective c)),
      (''cap_bset'', number jv (cr_CapBSET c)), (''cap_ambiant'', number jv (cr_CapAmbiant c))]"

definition ProcessContext_doc :: "'w JsonEnv \<Rightarrow> 'w JView \<Rightarrow> ProcessContext \<Rightarrow> json" where
  "ProcessContext_doc env jv p = JObject
     [(''cgroups'', Cgroups_json (je_String env) (pc_Cgroups p)),
      (''namespace_context'', NamespaceContext_doc jv (pc_NamespaceContext p)),
      (''credentials'', CredentialsContext_doc jv (pc_Credentials p)), (''comm'', str jv (pc_Comm p)),
      (''pid'', number jv (pc_PID p)), (''tid'', number jv (pc_TID p))]"

definition InitModuleEvent_doc :: "'w JView \<Rightarrow> InitModuleEvent \<Rightarrow> json" where
  "InitModuleEvent_doc jv e = JObject
     [(''loaded_from_memory'', JText (jv_Bool jv (im_LoadedFromMemory e))), (''name'', str jv (im_Name e))]"

definition DeleteModuleEvent_doc :: "'w JView \<Rightarrow> DeleteModuleEvent \<Rightarrow> json" where
  "DeleteModuleEvent_doc jv e = JObject [(''name'', str jv (dm_Name e))]"

definition BPFMap_doc :: "'w JsonEnv \<Rightarrow> 'w JView \<Rightarrow> BPFMap \<Rightarrow> json" where
  "BPFMap_doc env jv m = JObject
     ((''id'', number jv (bm_ID m)) #
      opt (bm_Type m \<noteq> 0) ''type'' (JText (BPFMapType_MarshalJSON (je_rg env) (bm_Type m))) @
      opt (bm_Name m \<noteq> []) ''name'' (str jv (bm_Name m)))"

definition BPFProgram_doc :: "'w JsonEnv \<Rightarrow> 'w JView \<Rightarrow> BPFProgram \<Rightarrow> json" where
  "BPFProgram_doc env jv p = JObject
     ((''id'', number jv (bp_ID p)) #
      opt (bp_Type p \<noteq> 0) ''type'' (JText (BPFProgramType_MarshalJSON (je_rg env) (bp_Type p))) @
      opt (bp_AttachType p \<noteq> 0) ''attach_type'' (JText (BPFAttachType_MarshalJSON (je_rg env) (bp_AttachType p))) @
      opt (bp_Helpers p \<noteq> []) ''helpers'' (JText (BPFHelperFuncList_MarshalJSON (je_rg env) (bp_Helpers p))) @
      opt (bp_Name p \<noteq> []) ''name'' (str jv (bp_Name p)) @
      opt (bp_Tag p \<noteq> []) ''tag'' (str jv (bp_Tag p)))"

text \<open>The map and the program are part of the event when they have an identifier.\<close>

definition BPFEvent_doc :: "'w JsonEnv \<Rightarrow> 'w JView \<Rightarrow> BPFEvent \<Rightarrow> json" where
  "BPFEvent_doc env jv e = JObject
     (opt (bm_ID (be_Map e) \<noteq> 0) ''map'' (BPFMap_doc env jv (be_Map e)) @
      opt (bp_ID (be_Program e) \<noteq> 0) ''program'' (BPFProgram_doc env jv (be_Program e)) @
      [(''cmd'', JText (BPFCmd_MarshalJSON (je_rg env) (be_Cmd e)))])"

definition BPFFilterEvent_doc :: "'w JsonEnv \<Rightarrow> 'w JView \<Rightarrow> BPFFilterEvent \<Rightarrow> json" where
  "BPFFilterEvent_doc env jv e = JObject
     (opt (bf_Cmd e \<noteq> 0) ''cmd'' (JText (BPFFilterCmd_MarshalJSON (je_rg env) (bf_Cmd e))) @
      opt (bf_Family e \<noteq> 0) ''family''
        (JText (AddressFamily_MarshalJSON (je_rg env) (je_unix16 env) (bf_Family e))) @
      opt (bf_Type e \<noteq> 0) ''type'' (JText (SocketType_MarshalJSON (je_rg env) (je_unix32 env) (bf_Type e))) @
      opt (bf_Protocol e \<noteq> 0) ''protocol'' (JText (L3Protocol_MarshalJSON (je_rg env) (bf_Protocol e))) @
      opt (bf_ProgLen e \<noteq> 0) ''prog_len'' (number jv (bf_ProgLen e)))"

definition PTraceEvent_doc :: "'w JsonEnv \<Rightarrow> 'w JView \<Rightarrow> PTraceEvent \<Rightarrow> json" where
  "PTraceEvent_doc env jv e = JObject
     (opt (pt_Address e \<noteq> 0) ''address'' (JText (MemoryPointer_MarshalJSON (pt_Address e))) @
      [(''request'', JText (PTraceRequest_MarshalJSON (je_rg env) (je_unix32 env) (pt_Request e)))] @
      opt (pt_PID e \<noteq> 0) ''pid'' (number jv (pt_PID e)))"

definition KProbeEvent_doc :: "'w JsonEnv \<Rightarrow> 'w JView \<Rightarrow> KProbeEvent \<Rightarrow> json" where
  "KProbeEvent_doc env jv e = JObject
     (opt (kp_Address e \<noteq> 0) ''address'' (JText (MemoryPointer_MarshalJSON (kp_Address e))) @
      opt (kp_Symbol e \<noteq> []) ''string'' (str jv (kp_Symbol e)) @
      [(''command'', JText (KProbeCommand_MarshalJSON (je_rg env) (kp_Command e))),
       (''type'', JText (KProbeType_MarshalJSON (je_rg env) (kp_Type e)))])"

definition SysCtlEvent_doc :: "'w JsonEnv \<Rightarrow> 'w JView \<Rightarrow> SysCtlEvent \<Rightarrow> json" where
  "SysCtlEvent_doc env jv e = JObject
     ([(''write_access'', JText (jv_Bool jv (se_WriteAccess e))), (''file_position'', number jv (se_FilePosition e)),
       (''action'', JText (SysCtlAction_MarshalJSON (je_rg env) (se_Action e))), (''name'', str jv (se_Name e)),
       (''current_value'', str jv (se_CurrentValue e))] @
      opt (se_NewValue e \<noteq> []) ''new_value'' (str jv (se_NewValue e)) @
      opt (se_NewValueOverriddenWith e \<noteq> []) ''new_value_overridden_with'' (str jv (se_NewValueOverriddenWith e)))"

definition KernelSymbol_doc :: "'w JView \<Rightarrow> KernelSymbol \<Rightarrow> json" where
  "KernelSymbol_doc jv k = JObject
     (opt (ks_Address k \<noteq> 0) ''address'' (JText (MemoryPointer_MarshalJSON (ks_Address k))) @
      opt (ks_Symbol k \<noteq> []) ''symbol'' (str jv (ks_Symbol k)) @
      opt (ks_Module k \<noteq> []) ''module'' (str jv (ks_Module k)))"

text \<open>The text of a system call; it never panics (\<open>Syscall_String_lookup\<close>).\<close>

definition syscall_text :: "int \<Rightarrow> string" where
  "syscall_text i = (case Syscall_MarshalText i of Inr t \<Rightarrow> t | Inl _ \<Rightarrow> [])"

definition ia32_syscall_text :: "int \<Rightarrow> string" where
  "ia32_syscall_text i = (case IA32Syscall_MarshalText i of Inr t \<Rightarrow> t | Inl _ \<Rightarrow> [])"

definition HookedSyscallEvent_doc :: "'w JView \<Rightarrow> HookedSyscallEvent \<Rightarrow> json" where
  "HookedSyscallEvent_doc jv e = JObject
     ((case hs_Syscall e of None \<Rightarrow> [] | Some i \<Rightarrow> [(''syscall'', JText (jv_Text jv (syscall_text i)))]) @
      (case hs_IA32Syscall e of None \<Rightarrow> []
       | Some i \<Rightarrow> [(''ia_32_syscall'', JText (jv_Text jv (ia32_syscall_text i)))]) @
      [(''syscall_table'', JText (SyscallTable_MarshalJSON (hs_SyscallTable e))),
       (''initial_handler'', KernelSymbol_doc jv (hs_InitialHandler e)),
       (''new_handler'', KernelSymbol_doc jv (hs_NewHandler e))])"

definition EventCheckEvent_doc :: "EventCheckEvent \<Rightarrow> json" where
  "EventCheckEvent_doc e = JObject [(''checked_event_type'', JText (EventType_MarshalJSON (ec_CheckedEventType e)))]"

definition KernelParameterEvent_doc :: "'w JView \<Rightarrow> KernelParameterEvent \<Rightarrow> json" where
  "KernelParameterEvent_doc jv e = JObject
     [(''parameter'', KernelSymbol_doc jv (kv_Parameter e)), (''expected_value'', number jv (kv_ExpectedValue e)),
      (''actual_value'', number jv (kv_ActualValue e))]"

definition RegisterCheckEvent_doc :: "'w JsonEnv \<Rightarrow> RegisterCheckEvent \<Rightarrow> json" where
  "RegisterCheckEvent_doc env e = JObject
     [(''stack_pointer'', JText (MemoryPointer_MarshalJSON (rc_StackPointer e))),
      (''instruction_pointer'', JText (MemoryPointer_MarshalJSON (rc_InstructionPointer e))),
      (''frame_pointer'', JText (MemoryPointer_MarshalJSON (rc_FramePointer e))),
      (''hook_point'', JText (HookPoint_MarshalJSON (je_rg env) (rc_HookPoint e)))]"

text \<open>The part of an event that depends on its type: at most one object, under the name of
  the type.\<close>

definition payload_doc :: "'w JsonEnv \<Rightarrow> 'w JView \<Rightarrow> Event \<Rightarrow> (string \<times> json) list" where
  "payload_doc env jv e = (let t = ke_Type (ev_Kernel e) in
     if t = InitModuleEventType then [(''init_module'', InitModuleEvent_doc jv (ev_InitModule e))]
     else if t = DeleteModuleEventType then [(''delete_module'', DeleteModuleEvent_doc jv (ev_DeleteModule e))]
     else if t = BPFEventType then [(''bpf'', BPFEvent_doc env jv (ev_BPFEvent e))]
     else if t = BPFFilterEventType then [(''bpf_filter'', BPFFilterEvent_doc env jv (ev_BPFFilterEvent e))]
     else if t = PTraceEventType then [(''ptrace'', PTraceEvent_doc env jv (ev_PTraceEvent e))]
     else if t = KProbeEventType then [(''kprobe'', KProbeEvent_doc env jv (ev_KProbeEvent e))]
     else if t = SysCtlEventType then [(''sysctl'', SysCtlEvent_doc env jv (ev_SysCtlEvent e))]
     else if t = HookedSyscallTableEventType \<or> t = HookedSyscallEventType
     then [(''hooked_syscall'', HookedSyscallEvent_doc jv (ev_HookedSyscallEvent e))]
     else if t = EventCheckEventType then [(''event_check'', EventCheckEvent_doc (ev_EventCheckEvent e))]
     else if t = KernelParameterEventType \<or> t = PeriodicKernelParameterEventType
     then [(''kernel_parameter'', KernelParameterEvent_doc jv (ev_KernelParameterEvent e))]
     else if t = RegisterCheckEventType
     then [(''register_check'', RegisterCheckEvent_doc env (ev_RegisterCheckEvent e))]
     else [])"

definition event_doc :: "'w JsonEnv \<Rightarrow> 'w JView \<Rightarrow> string \<Rightarrow> Event \<Rightarrow> json" where
  "event_doc env jv ts e = JObject
     ((''event'', KernelEvent_doc env jv ts (ev_Kernel e)) #
      opt (ke_Type (ev_Kernel e) \<noteq> HookedSyscallTableEventType) ''process''
        (ProcessContext_doc env jv (ev_Process e)) @
      payload_doc env jv e)"

section \<open>The encoders write the documents\<close>

named_theorems encode_rules \<open>what the encoders of the parts write\<close>

lemma json_quote_not_Nil [simp]: "json_quote s \<noteq> []"
  by (simp add: json_quote_def)

lemmas marshal_defs = EventType_MarshalJSON_def Action_MarshalJSON_def BPFMapType_MarshalJSON_def
  BPFProgramType_MarshalJSON_def BPFAttachType_MarshalJSON_def BPFHelperFuncList_MarshalJSON_def
  BPFCmd_MarshalJSON_def BPFFilterCmd_MarshalJSON_def AddressFamily_MarshalJSON_def
  SocketType_MarshalJSON_def L3Protocol_MarshalJSON_def MemoryPointer_MarshalJSON_def
  PTraceRequest_MarshalJSON_def KProbeCommand_MarshalJSON_def KProbeType_MarshalJSON_def
  SysCtlAction_MarshalJSON_def SyscallTable_MarshalJSON_def HookPoint_MarshalJSON_def

lemma writes_val:
  assumes "jwriter_laws jw jv"
  shows "t \<noteq> [] \<Longrightarrow> writes jv (val_raw jw t) (JText t)"
    and "writes jv (val_string jw s) (str jv s)"
    and "writes jv (val_uint32 jw n) (number jv n)"
    and "writes jv (val_uint64 jw m) (number jv m)"
    and "writes jv (\<lambda>w. Inr (jw_Uint16 jw k w)) (number jv k)"
    and "writes jv (\<lambda>w. Inr (jw_Bool jw b w)) (JText (jv_Bool jv b))"
    and "writes jv (\<lambda>w. Inr (jw_Int64 jw m w)) (JText (jv_Int jv (sint m)))"
  using writes_leaf [OF assms] by (simp_all add: val_raw_def val_string_def val_uint32_def val_uint64_def
      str_def number_def)

lemma writes_raw_doc: "jwriter_laws jw jv \<Longrightarrow> render d \<noteq> [] \<Longrightarrow> writes jv (val_raw jw (render d)) d"
  using writes_val(1) [of jw jv "render d"] by (simp add: writes_def)

lemma writes_deref: "p = Some x \<Longrightarrow> writes jv (enc x) d \<Longrightarrow> writes jv (val_deref enc p) d"
  by (simp add: val_deref_def)

lemma render_object_not_Nil [simp]: "render (JObject fs) \<noteq> []"
  by simp

lemma writes_time:
  "jwriter_laws jw jv \<Longrightarrow> r = Inr ts \<Longrightarrow> ts \<noteq> [] \<Longrightarrow> writes jv (\<lambda>w. Inr (jw_Raw jw r w)) (JText ts)"
  using writes_leaf(1) by simp

lemma Syscall_texts:
  "Syscall_MarshalText i = Inr (syscall_text i)" "IA32Syscall_MarshalText i = Inr (ia32_syscall_text i)"
  by (simp_all add: syscall_text_def ia32_syscall_text_def Syscall_MarshalText_def IA32Syscall_MarshalText_def
      Syscall_String_lookup IA32Syscall_String_lookup)

lemma writes_text:
  "jwriter_laws jw jv \<Longrightarrow> r = Inr t \<Longrightarrow> writes jv (val_text jw r) (JText (jv_Text jv t))"
  using writes_leaf(2) by (simp add: val_text_def)

lemmas flat_encoders = KernelEvent_encode_def NamespaceContext_encode_def CredentialsContext_encode_def
  InitModuleEvent_encode_def DeleteModuleEvent_encode_def BPFMap_encode_def BPFProgram_encode_def
  BPFFilterEvent_encode_def PTraceEvent_encode_def KProbeEvent_encode_def SysCtlEvent_encode_def
  KernelSymbol_encode_def EventCheckEvent_encode_def RegisterCheckEvent_encode_def

lemmas flat_docs = KernelEvent_doc_def NamespaceContext_doc_def CredentialsContext_doc_def
  InitModuleEvent_doc_def DeleteModuleEvent_doc_def BPFMap_doc_def BPFProgram_doc_def
  BPFFilterEvent_doc_def PTraceEvent_doc_def KProbeEvent_doc_def SysCtlEvent_doc_def
  KernelSymbol_doc_def EventCheckEvent_doc_def RegisterCheckEvent_doc_def

lemma flat_writes:
  assumes laws: "jwriter_laws (je_jw env) jv"
  shows "je_Time env (ke_Time k) = Inr ts \<Longrightarrow> ts \<noteq> [] \<Longrightarrow>
      writes jv (KernelEvent_encode env k) (KernelEvent_doc env jv ts k)"
    and "writes jv (NamespaceContext_encode env ns) (NamespaceContext_doc jv ns)"
    and "writes jv (CredentialsContext_encode env cr) (CredentialsContext_doc jv cr)"
    and "writes jv (InitModuleEvent_encode env im) (InitModuleEvent_doc jv im)"
    and "writes jv (DeleteModuleEvent_encode env dm) (DeleteModuleEvent_doc jv dm)"
    and "writes jv (BPFMap_encode env bm) (BPFMap_doc env jv bm)"
    and "writes jv (BPFProgram_encode env bp) (BPFProgram_doc env jv bp)"
    and "writes jv (BPFFilterEvent_encode env bf) (BPFFilterEvent_doc env jv bf)"
    and "writes jv (PTraceEvent_encode env pt) (PTraceEvent_doc env jv pt)"
    and "writes jv (KProbeEvent_encode env kp) (KProbeEvent_doc env jv kp)"
    and "writes jv (SysCtlEvent_encode env se) (SysCtlEvent_doc env jv se)"
    and "writes jv (KernelSymbol_encode env ks) (KernelSymbol_doc jv ks)"
    and "writes jv (EventCheckEvent_encode env ec) (EventCheckEvent_doc ec)"
    and "writes jv (RegisterCheckEvent_encode env rc) (RegisterCheckEvent_doc env rc)"
  unfolding flat_encoders flat_docs Let_def
  by (rule laws | assumption | rule writes_object emits_rules writes_time writes_val
      | (simp add: opt_def marshal_defs; fail))+

text \<open>The serializer of a BPF event holds the parts with an identifier.\<close>

definition BPFEventSerializer_doc :: "'w JsonEnv \<Rightarrow> 'w JView \<Rightarrow> BPFEventSerializer \<Rightarrow> json" where
  "BPFEventSerializer_doc env jv s = JObject
     (opt (bs_Map s \<noteq> None) ''map'' (BPFMap_doc env jv (the (bs_Map s))) @
      opt (bs_Program s \<noteq> None) ''program'' (BPFProgram_doc env jv (the (bs_Program s))) @
      [(''cmd'', JText (BPFCmd_MarshalJSON (je_rg env) (bs_Cmd s)))])"

lemma BPFEventSerializer_doc_New:
  "BPFEventSerializer_doc env jv (NewBPFEventSerializer e) = BPFEvent_doc env jv e"
  by (simp add: NewBPFEventSerializer_def BPFEvent_doc_def BPFEventSerializer_doc_def Let_def opt_def word_gt_0)

lemma nested_writes:
  assumes laws: "jwriter_laws (je_jw env) jv"
  shows "writes jv (ProcessContext_encode env p) (ProcessContext_doc env jv p)"
    and "writes jv (BPFEventSerializer_encode env bs) (BPFEventSerializer_doc env jv bs)"
    and "writes jv (HookedSyscallEvent_encode env hs) (HookedSyscallEvent_doc jv hs)"
    and "writes jv (KernelParameterEvent_encode env kv) (KernelParameterEvent_doc jv kv)"
proof -
  show "writes jv (ProcessContext_encode env p) (ProcessContext_doc env jv p)"
    unfolding ProcessContext_encode_def ProcessContext_doc_def Let_def Cgroups_MarshalJSON_def
    by (rule laws | rule writes_object emits_rules flat_writes writes_raw_doc writes_val
        | (simp add: opt_def Cgroups_json_def; fail))+
  show "writes jv (BPFEventSerializer_encode env bs) (BPFEventSerializer_doc env jv bs)"
    unfolding BPFEventSerializer_encode_def BPFEventSerializer_doc_def Let_def
    by (rule laws | rule writes_object emits_rules writes_deref [OF option.collapse [symmetric]] flat_writes writes_val
        | (simp add: opt_def marshal_defs; fail))+
  show "writes jv (KernelParameterEvent_encode env kv) (KernelParameterEvent_doc jv kv)"
    unfolding KernelParameterEvent_encode_def KernelParameterEvent_doc_def Let_def
    by (rule laws | rule writes_object emits_rules flat_writes writes_val | (simp add: opt_def; fail))+
  have "writes jv (HookedSyscallEvent_encode env hs)
     (JObject (opt (hs_Syscall hs \<noteq> None) ''syscall'' (JText (jv_Text jv (syscall_text (the (hs_Syscall hs))))) @
       opt (hs_IA32Syscall hs \<noteq> None) ''ia_32_syscall''
         (JText (jv_Text jv (ia32_syscall_text (the (hs_IA32Syscall hs))))) @
       [(''syscall_table'', JText (SyscallTable_MarshalJSON (hs_SyscallTable hs))),
        (''initial_handler'', KernelSymbol_doc jv (hs_InitialHandler hs)),
        (''new_handler'', KernelSymbol_doc jv (hs_NewHandler hs))]))"
    unfolding HookedSyscallEvent_encode_def Let_def
    by (rule laws Syscall_texts
        | rule writes_object emits_rules writes_deref [OF option.collapse [symmetric]] flat_writes writes_text writes_val
        | (simp add: opt_def marshal_defs; fail))+
  then show "writes jv (HookedSyscallEvent_encode env hs) (HookedSyscallEvent_doc jv hs)"
    by (cases "hs_Syscall hs"; cases "hs_IA32Syscall hs") (simp_all add: HookedSyscallEvent_doc_def opt_def)
qed

text \<open>The document of a serializer: one field per pointer that is set.\<close>

definition EventSerializer_doc :: "'w JsonEnv \<Rightarrow> 'w JView \<Rightarrow> string \<Rightarrow> EventSerializer \<Rightarrow> json" where
  "EventSerializer_doc env jv ts s = JObject
     (opt (es_KernelEvent s \<noteq> None) ''event'' (KernelEvent_doc env jv ts (the (es_KernelEvent s))) @
      opt (es_ProcessContext s \<noteq> None) ''process'' (ProcessContext_doc env jv (the (es_ProcessContext s))) @
      opt (es_InitModule s \<noteq> None) ''init_module'' (InitModuleEvent_doc jv (the (es_InitModule s))) @
      opt (es_DeleteModule s \<noteq> None) ''delete_module'' (DeleteModuleEvent_doc jv (the (es_DeleteModule s))) @
      opt (es_BPF s \<noteq> None) ''bpf'' (BPFEventSerializer_doc env jv (the (es_BPF s))) @
      opt (es_BPFFilter s \<noteq> None) ''bpf_filter'' (BPFFilterEvent_doc env jv (the (es_BPFFilter s))) @
      opt (es_PTrace s \<noteq> None) ''ptrace'' (PTraceEvent_doc env jv (the (es_PTrace s))) @
      opt (es_KProbe s \<noteq> None) ''kprobe'' (KProbeEvent_doc env jv (the (es_KProbe s))) @
      opt (es_SysCtl s \<noteq> None) ''sysctl'' (SysCtlEvent_doc env jv (the (es_SysCtl s))) @
      opt (es_HookedSyscall s \<noteq> None) ''hooked_syscall'' (HookedSyscallEvent_doc jv (the (es_HookedSyscall s))) @
      opt (es_EventCheck s \<noteq> None) ''event_check'' (EventCheckEvent_doc (the (es_EventCheck s))) @
      opt (es_KernelParameter s \<noteq> None) ''kernel_parameter''
        (KernelParameterEvent_doc jv (the (es_KernelParameter s))) @
      opt (es_RegisterCheck s \<noteq> None) ''register_check'' (RegisterCheckEvent_doc env (the (es_RegisterCheck s))))"

lemma EventSerializer_writes:
  assumes laws: "jwriter_laws (je_jw env) jv"
    and ts: "es_KernelEvent s \<noteq> None \<Longrightarrow> je_Time env (ke_Time (the (es_KernelEvent s))) = Inr ts" "ts \<noteq> []"
  shows "writes jv (EventSerializer_encode env s) (EventSerializer_doc env jv ts s)"
  unfolding EventSerializer_encode_def EventSerializer_doc_def Let_def
  by (rule laws ts | assumption
      | rule writes_object emits_rules writes_deref [OF option.collapse [symmetric]] flat_writes nested_writes
      | (simp add: opt_def; fail))+

lemma EventSerializer_doc_New: "EventSerializer_doc env jv ts (NewEventSerializer e) = event_doc env jv ts e"
  by (simp add: EventSerializer_doc_def NewEventSerializer_def event_doc_def payload_doc_def Let_def opt_def
      BPFEventSerializer_doc_New event_type_defs)

lemma NewEventSerializer_kernel: "es_KernelEvent (NewEventSerializer e) = Some (ev_Kernel e)"
  by (simp add: NewEventSerializer_def Let_def)

section \<open>No key twice\<close>

lemma distinct_cgroups_map: "distinct (map fst (cgroups_map c))"
proof -
  have "distinct (map fst out) \<Longrightarrow>
      distinct (map fst (foldl (\<lambda>out (k, v). AList.update (CgroupSubsystemID_String (word_of_nat k)) v out) out kvs))"
    for out :: "(string \<times> CgroupContext) list" and kvs :: "(nat \<times> CgroupContext) list"
    by (induction kvs arbitrary: out) (auto simp: distinct_update)
  then show ?thesis by (simp add: cgroups_map_def)
qed

lemma distinct_keys_fields_append:
  "distinct_keys_fields (fs @ gs) \<longleftrightarrow> distinct_keys_fields fs \<and> distinct_keys_fields gs"
  by (induction fs) auto

lemma distinct_keys_fields_iff: "distinct_keys_fields fs \<longleftrightarrow> list_all (distinct_keys \<circ> snd) fs"
  by (induction fs) auto

lemma distinct_sort_key_fst: "distinct (map fst xs) \<Longrightarrow> distinct (map fst (sort_key fst xs))"
proof -
  have "mset (map fst (sort_key fst xs)) = mset (map fst xs)" by simp
  then show "distinct (map fst xs) \<Longrightarrow> distinct (map fst (sort_key fst xs))"
    using mset_eq_imp_distinct_iff by blast
qed

lemma distinct_cgroups [simp]: "distinct_keys (Cgroups_json q c)"
proof -
  have "distinct (map fst (sort_key fst (cgroups_map c)))"
    by (rule distinct_sort_key_fst [OF distinct_cgroups_map])
  moreover have "distinct_keys (CgroupContext_json q v)" for v by (simp add: CgroupContext_json_def opt_def)
  ultimately show ?thesis
    by (simp add: Cgroups_json_def distinct_keys_fields_iff list_all_iff comp_def case_prod_beta)
qed

lemma distinct_keys_leaf [simp]: "distinct_keys (number jv n)" "distinct_keys (str jv s)"
  by (simp_all add: number_def str_def)

lemma distinct_keys_flat [simp]:
  "distinct_keys (KernelEvent_doc env jv ts k)" "distinct_keys (NamespaceContext_doc jv ns)"
  "distinct_keys (CredentialsContext_doc jv cr)" "distinct_keys (InitModuleEvent_doc jv im)"
  "distinct_keys (DeleteModuleEvent_doc jv dm)" "distinct_keys (EventCheckEvent_doc ec)"
  "distinct_keys (RegisterCheckEvent_doc env rc)"
  by (simp_all add: KernelEvent_doc_def NamespaceContext_doc_def CredentialsContext_doc_def
      InitModuleEvent_doc_def DeleteModuleEvent_doc_def EventCheckEvent_doc_def RegisterCheckEvent_doc_def)

lemma distinct_keys_optional [simp]:
  "distinct_keys (BPFMap_doc env jv bm)" "distinct_keys (BPFProgram_doc env jv bp)"
  "distinct_keys (BPFFilterEvent_doc env jv bf)" "distinct_keys (PTraceEvent_doc env jv pt)"
  "distinct_keys (KProbeEvent_doc env jv kp)" "distinct_keys (SysCtlEvent_doc env jv se)"
  "distinct_keys (KernelSymbol_doc jv ks)"
  by (simp_all add: BPFMap_doc_def BPFProgram_doc_def BPFFilterEvent_doc_def PTraceEvent_doc_def
      KProbeEvent_doc_def SysCtlEvent_doc_def KernelSymbol_doc_def opt_def)

lemma distinct_keys_nested [simp]:
  "distinct_keys (ProcessContext_doc env jv p)" "distinct_keys (BPFEvent_doc env jv be)"
  "distinct_keys (HookedSyscallEvent_doc jv hs)" "distinct_keys (KernelParameterEvent_doc jv kv)"
  by (simp_all add: ProcessContext_doc_def BPFEvent_doc_def HookedSyscallEvent_doc_def
      KernelParameterEvent_doc_def opt_def split: option.split)

lemma distinct_keys_event: "distinct_keys (event_doc env jv ts e)"
  by (simp add: event_doc_def payload_doc_def Let_def opt_def)

section \<open>One line\<close>

text \<open>No line break in a text, in a document.\<close>

definition nl_free :: "string \<Rightarrow> bool" where
  "nl_free s \<longleftrightarrow> CHR 0x0A \<notin> set s"

fun one_line :: "json \<Rightarrow> bool" and one_line_fields :: "(string \<times> json) list \<Rightarrow> bool" where
  "one_line (JText t) = nl_free t"
| "one_line (JObject fs) = one_line_fields fs"
| "one_line_fields [] = True"
| "one_line_fields ((k, d) # fs) = (nl_free k \<and> one_line d \<and> one_line_fields fs)"

text \<open>What is asked of the libraries: quoting escapes control characters, and numbers, booleans
  and times have no line break.\<close>

definition library_texts :: "'w JsonEnv \<Rightarrow> 'w JView \<Rightarrow> bool" where
  "library_texts env jv \<longleftrightarrow>
     (\<forall>s. nl_free (jv_String jv s)) \<and> (\<forall>s. nl_free (jv_Text jv s)) \<and> (\<forall>n. nl_free (jv_Uint jv n)) \<and>
     (\<forall>i. nl_free (jv_Int jv i)) \<and> (\<forall>b. nl_free (jv_Bool jv b)) \<and> (\<forall>s. nl_free (je_String env s))"

lemma nl_free_simps [simp]: "nl_free []" "nl_free (c # s) \<longleftrightarrow> c \<noteq> CHR 0x0A \<and> nl_free s"
  "nl_free (s @ t) \<longleftrightarrow> nl_free s \<and> nl_free t"
  by (auto simp: nl_free_def)

lemma nl_free_Join: "nl_free sep \<Longrightarrow> \<forall>s\<in>set xs. nl_free s \<Longrightarrow> nl_free (strings_Join sep xs)"
  by (induction sep xs rule: strings_Join.induct) simp_all

lemma plain_nl_free: "plain s \<Longrightarrow> nl_free s"
  by (simp add: nl_free_def plain_no_newline)

lemma nl_free_json_quote: "plain s \<Longrightarrow> nl_free (json_quote s)"
  by (simp add: json_quote_def plain_nl_free)

lemma render_one_line:
  "one_line d \<Longrightarrow> nl_free (render d)" "one_line_fields fs \<Longrightarrow> \<forall>t\<in>set (render_fields fs). nl_free t"
  by (induction d and fs rule: render_render_fields.induct)
    (auto simp: field_prefix_def intro!: nl_free_Join)

lemma one_line_fields_append:
  "one_line_fields (fs @ gs) \<longleftrightarrow> one_line_fields fs \<and> one_line_fields gs"
  by (induction fs) auto

lemma one_line_fields_iff: "one_line_fields fs \<longleftrightarrow> (\<forall>(k, d)\<in>set fs. nl_free k \<and> one_line d)"
  by (induction fs) auto

lemma one_line_opt [simp]: "one_line_fields (opt c k d) \<longleftrightarrow> (c \<longrightarrow> nl_free k \<and> one_line d)"
  by (simp add: opt_def)

lemma marshal_nl_free:
  assumes "GoRange_ok rg"
  shows "nl_free (EventType_MarshalJSON t)" "nl_free (Action_MarshalJSON rg a)" "nl_free (BPFMapType_MarshalJSON rg a)"
    "nl_free (BPFProgramType_MarshalJSON rg a)" "nl_free (BPFAttachType_MarshalJSON rg a)"
    "nl_free (BPFHelperFuncList_MarshalJSON rg l)" "nl_free (BPFCmd_MarshalJSON rg b)"
    "nl_free (BPFFilterCmd_MarshalJSON rg a)" "nl_free (AddressFamily_MarshalJSON rg u16 c)"
    "nl_free (SocketType_MarshalJSON rg u32 a)" "nl_free (L3Protocol_MarshalJSON rg c)"
    "nl_free (MemoryPointer_MarshalJSON b)" "nl_free (PTraceRequest_MarshalJSON rg u32 a)"
    "nl_free (KProbeCommand_MarshalJSON rg a)" "nl_free (KProbeType_MarshalJSON rg a)"
    "nl_free (SysCtlAction_MarshalJSON rg b)" "nl_free (SyscallTable_MarshalJSON a)" "nl_free (HookPoint_MarshalJSON rg a)"
  using plain_names [OF assms]
  by (auto simp: marshal_defs BPFHelperFuncList_String_def plain_switches plain_nl_free plain_nat_base plain_char_def
      intro!: nl_free_json_quote plain_Join)

lemma cgroups_map_names: "k \<in> fst ` set (cgroups_map c) \<Longrightarrow> nl_free k"
proof -
  have "\<forall>k\<in>fst ` set out. nl_free k \<Longrightarrow>
      \<forall>k\<in>fst ` set (foldl (\<lambda>out (k, v). AList.update (CgroupSubsystemID_String (word_of_nat k)) v out) out kvs). nl_free k"
    for out :: "(string \<times> CgroupContext) list" and kvs :: "(nat \<times> CgroupContext) list"
  proof (induction kvs arbitrary: out)
    case (Cons kv kvs)
    have "nl_free (CgroupSubsystemID_String a)" for a by (rule plain_nl_free [OF plain_switches(3)])
    with Cons.prems have "\<forall>k\<in>fst ` set (AList.update (CgroupSubsystemID_String (word_of_nat (fst kv))) (snd kv) out). nl_free k"
      by (simp only: dom_update) blast
    from Cons.IH [OF this] show ?case by (simp add: case_prod_beta)
  qed simp
  from this [of "[]" "enumerate 0 c"] have "\<forall>k\<in>fst ` set (cgroups_map c). nl_free k"
    by (simp add: cgroups_map_def)
  then show "k \<in> fst ` set (cgroups_map c) \<Longrightarrow> nl_free k" by blast
qed

lemma one_line_cgroups: "\<forall>s. nl_free (q s) \<Longrightarrow> one_line (Cgroups_json q c)"
  using cgroups_map_names [of _ c]
  by (fastforce simp: Cgroups_json_def CgroupContext_json_def one_line_fields_iff plain_nl_free plain_nat_base
      opt_def split: if_splits)

lemma one_line_leaf:
  assumes "library_texts env jv"
  shows "one_line (number jv n)" "one_line (str jv s)"
  using assms by (simp_all add: number_def str_def library_texts_def)

lemma one_line_flat:
  assumes "library_texts env jv" and "GoRange_ok (je_rg env)"
  shows "nl_free ts \<Longrightarrow> one_line (KernelEvent_doc env jv ts k)" "one_line (NamespaceContext_doc jv ns)"
    "one_line (CredentialsContext_doc jv cr)" "one_line (InitModuleEvent_doc jv im)"
    "one_line (DeleteModuleEvent_doc jv dm)" "one_line (EventCheckEvent_doc ec)"
    "one_line (RegisterCheckEvent_doc env rc)" "one_line (KernelSymbol_doc jv ks)"
    "one_line (BPFMap_doc env jv bm)" "one_line (BPFProgram_doc env jv bp)"
    "one_line (BPFFilterEvent_doc env jv bf)" "one_line (PTraceEvent_doc env jv pt)"
    "one_line (KProbeEvent_doc env jv kp)" "one_line (SysCtlEvent_doc env jv se)"
  using assms(1)
  by (simp_all add: one_line_leaf [OF assms(1)] marshal_nl_free [OF assms(2)] flat_docs library_texts_def
      one_line_fields_append)

lemma one_line_nested:
  assumes "library_texts env jv" and "GoRange_ok (je_rg env)"
  shows "one_line (ProcessContext_doc env jv p)" "one_line (BPFEvent_doc env jv be)"
    "one_line (HookedSyscallEvent_doc jv hs)" "one_line (KernelParameterEvent_doc jv kv)"
  using assms(1)
  by (simp_all add: one_line_leaf [OF assms(1)] marshal_nl_free [OF assms(2)] one_line_flat [OF assms]
      ProcessContext_doc_def BPFEvent_doc_def HookedSyscallEvent_doc_def KernelParameterEvent_doc_def
      one_line_cgroups library_texts_def one_line_fields_append split: option.split)

lemma one_line_event:
  assumes "library_texts env jv" and "GoRange_ok (je_rg env)" and "nl_free ts"
  shows "one_line (event_doc env jv ts e)"
  using one_line_flat [OF assms(1,2)] one_line_nested [OF assms(1,2)] assms(3)
  by (simp add: event_doc_def payload_doc_def Let_def one_line_fields_append)

section \<open>Properties\<close>

lemma event_marshal:
  assumes "jwriter_laws (je_jw env) jv" and "je_Time env (ke_Time (ev_Kernel e)) = Inr ts" and "ts \<noteq> []"
  shows "Event_MarshalJSON env e = Inr (Inr (render (event_doc env jv ts e)))"
proof -
  have "je_Time env (ke_Time (the (es_KernelEvent (NewEventSerializer e)))) = Inr ts"
    using assms(2) by (simp add: NewEventSerializer_kernel)
  from EventSerializer_writes [OF assms(1) this assms(3)]
  have "writes jv (EventSerializer_encode env (NewEventSerializer e)) (event_doc env jv ts e)"
    by (simp only: EventSerializer_doc_New)
  then show ?thesis using writes_BuildBytes [OF assms(1)] by (simp add: Event_MarshalJSON_def)
qed

definition demo_json :: "(string \<times> error option) JsonEnv" where
  "demo_json =
     \<lparr>je_rg = \<lparr>rg16 = rev, rg32 = rev, rg64 = rev\<rparr>, je_unix16 = (\<lambda>_. 0), je_unix32 = (\<lambda>_. 0),
      je_String = quoted, je_Time = (\<lambda>t. Inr (quoted (signed_text t))), je_jw = demo_jwriter\<rparr>"

lemma nl_free_quoted: "nl_free (quoted s)"
  by (auto simp: quoted_def nl_free_def)

lemma nl_free_fmt_d: "nl_free (fmt_d n)"
  by (simp add: plain_nl_free plain_nat_base)

lemma demo_library: "library_texts demo_json demo_jview" and demo_range: "GoRange_ok (je_rg demo_json)"
  by (simp_all add: library_texts_def demo_json_def demo_jview_def nl_free_quoted nl_free_fmt_d signed_text_def
      bool_text_def GoRange_ok_def)

text \<open>C32: Every name the enumerations print in JSON is printable ASCII without a double quote or a
  backslash, whatever the value: putting it between quotes without escaping is sound.\<close>

theorem names_need_no_escape:
  assumes "GoRange_ok rg"
  shows "plain (BPFCmd_String rg b) \<and> plain (BPFFilterCmd_String rg a) \<and> plain (BPFHelperFuncList_String rg l) \<and>
    plain (BPFMapType_String rg a) \<and> plain (BPFProgramType_String rg a) \<and> plain (BPFAttachType_String rg a) \<and>
    plain (AddressFamily_String rg u c) \<and> plain (L3Protocol_String rg c) \<and> plain (SocketType_String rg v a) \<and>
    plain (PTraceRequest_String rg v a) \<and> plain (KProbeCommand_String rg a) \<and> plain (KProbeType_String rg a) \<and>
    plain (SysCtlAction_String rg b) \<and> plain (Action_String rg a) \<and> plain (HookPoint_String rg a) \<and>
    plain (EventType_String a) \<and> plain (SyscallTable_String a) \<and> plain (CgroupSubsystemID_String a)"
  by (intro conjI plain_names [OF assms] plain_switches)
    (simp add: BPFHelperFuncList_String_def plain_Join plain_char_def plain_names [OF assms])

theorem names_need_no_escape_witness:
  "GoRange_ok (je_rg demo_json) \<and> plain (BPFCmd_String (je_rg demo_json) 5) \<and>
   plain (EventType_String 7) \<and> plain (Action_String (je_rg demo_json) 99)"
  using demo_range names_need_no_escape [OF demo_range] by blast

text \<open>C4: The JSON encoders write the document of an event: encoding never fails, every object has
  exactly the fields that are not omitted, in order and separated by commas, no key occurs twice
  in an object, the payload is the one of the event's type, and the text is a single line.\<close>

theorem event_json_document:
  assumes "jwriter_laws (je_jw env) jv" and "library_texts env jv" and "GoRange_ok (je_rg env)"
    and "je_Time env (ke_Time (ev_Kernel e)) = Inr ts" and "ts \<noteq> []" and "nl_free ts"
  shows "Event_MarshalJSON env e = Inr (Inr (render (event_doc env jv ts e))) \<and>
    distinct_keys (event_doc env jv ts e) \<and> nl_free (render (event_doc env jv ts e))"
  using event_marshal [OF assms(1,4,5)] distinct_keys_event render_one_line(1) [OF one_line_event [OF assms(2,3,6)]]
  by blast

theorem event_json_document_witness:
  "jwriter_laws (je_jw demo_json) demo_jview \<and>
   Event_MarshalJSON demo_json (eventZero\<lparr>ev_EventCheckEvent := \<lparr>ec_CheckedEventType = 3\<rparr>\<rparr>) =
     Inr (Inr (render (event_doc demo_json demo_jview (quoted (signed_text zero_time))
       (eventZero\<lparr>ev_EventCheckEvent := \<lparr>ec_CheckedEventType = 3\<rparr>\<rparr>))))"
proof -
  have l: "jwriter_laws (je_jw demo_json) demo_jview" by (simp add: demo_json_def demo_jwriter_laws)
  let ?e = "eventZero\<lparr>ev_EventCheckEvent := \<lparr>ec_CheckedEventType = 3\<rparr>\<rparr>"
  have t: "je_Time demo_json (ke_Time (ev_Kernel ?e)) = Inr (quoted (signed_text zero_time))"
    by (simp add: demo_json_def eventZero_def)
  have "quoted (signed_text zero_time) \<noteq> []" by (simp add: quoted_def)
  from event_json_document [OF l demo_library demo_range t this nl_free_quoted] l show ?thesis by blast
qed

end
