(* ===== verification/Event_Options.thy ===== *)
theory Event_Options
  imports Event_Types Constants Sysctl_Event "HOL-Library.AList"
begin

text \<open>
  The configuration of \<^verbatim>\<open>pkg/krie/events/events.go\<close> (\<open>Options\<close>),
  \<^verbatim>\<open>pkg/krie/events/kernel_parameter.go\<close> (\<open>KernelParameterOptions\<close>) and
  \<^verbatim>\<open>pkg/krie/model.go\<close>.  A pointer is an \<open>option\<close> and following \<open>None\<close> is a panic; a Go map is
  an association list without duplicate keys, and \<open>None\<close> when it is nil.  The order of a
  \<open>range\<close> over a map is a parameter \<open>rng\<close>, required to be a permutation.
\<close>

section \<open>Model\<close>

definition MaxKernelParameterCount :: nat where "MaxKernelParameterCount = 25"

record ParameterOption =
  po_Symbol :: string
  po_Address :: u64
  po_ExpectedValue :: u64
  po_Size :: u64

record KernelParameterOptions =
  kpo_Action :: u32
  kpo_PeriodicAction :: u32
  kpo_Ticker :: "64 word"
  kpo_List :: "ParameterOption list"

definition errParameter :: "ParameterOption \<Rightarrow> error" where
  "errParameter param =
     Errorf ''each parameter should have at least a symbol or an address: %+v''
       [FStr (po_Symbol param), FInt (uint (po_Address param)),
        FInt (uint (po_ExpectedValue param)), FInt (uint (po_Size param))] None"

text \<open>The loop over the parameters: the error of the first one without symbol and address.\<close>

fun check_parameters :: "ParameterOption list \<Rightarrow> error option" where
  "check_parameters [] = None"
| "check_parameters (param # ps) =
     (if length (po_Symbol param) = 0 \<and> po_Address param = 0 then Some (errParameter param)
      else check_parameters ps)"

definition KernelParameterOptions_IsValid :: "KernelParameterOptions \<Rightarrow> error option" where
  "KernelParameterOptions_IsValid kpo =
     (if length (kpo_List kpo) > MaxKernelParameterCount
      then Some (Errorf ''too many kernel parameters to check: %d > %d''
                   [FInt (int (length (kpo_List kpo))), FInt (int MaxKernelParameterCount)] None)
      else case check_parameters (kpo_List kpo) of
        Some err \<Rightarrow> Some err
      | None \<Rightarrow>
          if kpo_PeriodicAction kpo = BlockAction \<or> kpo_PeriodicAction kpo = KillAction
          then Some (Errorf ''kernel_parameter.periodic_action cannot be set to block or kill'' [] None)
          else None)"

definition NewKernelParameterOptions :: KernelParameterOptions where
  "NewKernelParameterOptions =
     \<lparr>kpo_Action = 0, kpo_PeriodicAction = 0, kpo_Ticker = 0, kpo_List = []\<rparr>"

record Options =
  eo_InitModuleEvent :: u32
  eo_DeleteModuleEvent :: u32
  eo_BPFEvent :: u32
  eo_BPFFilterEvent :: u32
  eo_PTraceEvent :: u32
  eo_KProbeEvent :: u32
  eo_SysCtlEvent :: "SysCtlOptions option"
  eo_HookedSyscallTableEvent :: u32
  eo_HookedSyscallEvent :: u32
  eo_KernelParameterEvent :: "KernelParameterOptions option"
  eo_RegisterCheckEvent :: u32
  eo_eventsAction :: "(u32 \<times> u32) list option"
  eo_activatedEvents :: EventTypeList

definition deref :: "'a option \<Rightarrow> 'a result" where
  "deref p = (case p of None \<Rightarrow> Inl Panic | Some x \<Rightarrow> Inr x)"

text \<open>\<open>m[k] = v\<close>: an assignment to a nil map panics.\<close>

definition map_assign :: "('k \<times> 'v) list option \<Rightarrow> 'k \<Rightarrow> 'v \<Rightarrow> ('k \<times> 'v) list option result" where
  "map_assign m k v = bindR (deref m) (\<lambda>l. Inr (Some (AList.update k v l)))"

definition map_len :: "('k \<times> 'v) list option \<Rightarrow> nat" where
  "map_len m = (case m of None \<Rightarrow> 0 | Some l \<Rightarrow> length l)"

text \<open>The map literal of \<open>ParseEventsActions\<close>.\<close>

definition eventsAction_literal :: "Options \<Rightarrow> (u32 \<times> u32) list result" where
  "eventsAction_literal opts =
     bindR (deref (eo_SysCtlEvent opts)) (\<lambda>sc.
     bindR (deref (eo_KernelParameterEvent opts)) (\<lambda>kp.
     Inr [(InitModuleEventType, eo_InitModuleEvent opts),
          (DeleteModuleEventType, eo_DeleteModuleEvent opts),
          (BPFEventType, eo_BPFEvent opts),
          (BPFFilterEventType, eo_BPFFilterEvent opts),
          (PTraceEventType, eo_PTraceEvent opts),
          (KProbeEventType, eo_KProbeEvent opts),
          (SysCtlEventType, so_Action sc),
          (HookedSyscallTableEventType, eo_HookedSyscallTableEvent opts),
          (HookedSyscallEventType, eo_HookedSyscallEvent opts),
          (KernelParameterEventType, kpo_Action kp),
          (PeriodicKernelParameterEventType, kpo_PeriodicAction kp),
          (RegisterCheckEventType, eo_RegisterCheckEvent opts)]))"

fun assign_all :: "(u32 \<times> u32) list option \<Rightarrow> (u32 \<times> u32) list \<Rightarrow> (u32 \<times> u32) list option result" where
  "assign_all m [] = Inr m"
| "assign_all m ((k, v) # es) = bindR (map_assign m k v) (\<lambda>m. assign_all m es)"

definition ParseEventsActions ::
    "((u32 \<times> u32) list \<Rightarrow> (u32 \<times> u32) list) \<Rightarrow> Options \<Rightarrow> (Options \<times> (u32 \<times> u32) list option) result" where
  "ParseEventsActions rng opts =
     (if map_len (eo_eventsAction opts) = 0
      then bindR (eventsAction_literal opts) (\<lambda>lit.
           bindR (assign_all (eo_eventsAction opts) (rng lit)) (\<lambda>m.
           Inr (opts\<lparr>eo_eventsAction := m\<rparr>, m)))
      else Inr (opts, eo_eventsAction opts))"

definition ActivatedEventTypes ::
    "((u32 \<times> u32) list \<Rightarrow> (u32 \<times> u32) list) \<Rightarrow> Options \<Rightarrow> (Options \<times> EventTypeList) result" where
  "ActivatedEventTypes rng opts =
     (if length (eo_activatedEvents opts) = 0
      then bindR (ParseEventsActions rng opts) (\<lambda>(opts, m).
           let l = foldl (\<lambda>l (eventType, action). if action \<ge> LogAction then l @ [eventType] else l)
                     (eo_activatedEvents opts) (rng (case m of None \<Rightarrow> [] | Some es \<Rightarrow> es))
           in Inr (opts\<lparr>eo_activatedEvents := l\<rparr>, l))
      else Inr (opts, eo_activatedEvents opts))"

definition Options_IsValid :: "Options \<Rightarrow> error option result" where
  "Options_IsValid opts =
     bindR (deref (eo_KernelParameterEvent opts)) (\<lambda>kp.
     Inr (case KernelParameterOptions_IsValid kp of
            Some err \<Rightarrow> Some (Errorf ''invalid kernel_parameter section: %w'' [] (Some err))
          | None \<Rightarrow>
              if eo_HookedSyscallTableEvent opts = BlockAction \<or> eo_HookedSyscallTableEvent opts = KillAction
              then Some (Errorf ''hooked_syscall_table cannot be set to block or kill'' [] None)
              else None))"

definition NewEventsOptions :: Options where
  "NewEventsOptions =
     \<lparr>eo_InitModuleEvent = 0, eo_DeleteModuleEvent = 0, eo_BPFEvent = 0, eo_BPFFilterEvent = 0,
      eo_PTraceEvent = 0, eo_KProbeEvent = 0, eo_SysCtlEvent = Some NewSysCtlOptions,
      eo_HookedSyscallTableEvent = 0, eo_HookedSyscallEvent = 0,
      eo_KernelParameterEvent = Some NewKernelParameterOptions, eo_RegisterCheckEvent = 0,
      eo_eventsAction = Some [], eo_activatedEvents = []\<rparr>"

text \<open>\<^verbatim>\<open>pkg/krie/model.go\<close>.  The level names and numbers are those of \<open>logrus\<close>: \<open>ParseLevel\<close> and
  \<open>DebugLevel\<close> are parameters.\<close>

record KrieOptions =
  ko_LogLevel :: u32
  ko_Output :: string
  ko_VMLinux :: string
  ko_EventHandler :: "(bytes \<Rightarrow> error option) option"
  ko_Events :: "Options option"

definition KrieOptions_IsValid :: "KrieOptions \<Rightarrow> error option result" where
  "KrieOptions_IsValid opts =
     bindR (deref (ko_Events opts)) (\<lambda>ev.
     bindR (Options_IsValid ev) (\<lambda>r.
     Inr (case r of Some err \<Rightarrow> Some (Errorf ''invalid events section: %w'' [] (Some err)) | None \<Rightarrow> None)))"

definition NewOptions :: KrieOptions where
  "NewOptions =
     \<lparr>ko_LogLevel = 0, ko_Output = [], ko_VMLinux = [], ko_EventHandler = None,
      ko_Events = Some NewEventsOptions\<rparr>"

definition LogLevel_UnmarshalYAML ::
    "(string \<Rightarrow> error + u32) \<Rightarrow> u32 \<Rightarrow> error + string \<Rightarrow> u32 \<Rightarrow> u32 \<times> error option" where
  "LogLevel_UnmarshalYAML ParseLevel DebugLevel decoded kll =
     (case decoded of
        Inl err \<Rightarrow> (kll, Some (Errorf ''failed to parse log level: %w'' [] (Some err)))
      | Inr level \<Rightarrow>
          if length level > 0
          then (case ParseLevel level of
                  Inl err \<Rightarrow> (kll, Some err)
                | Inr sanitized \<Rightarrow> (sanitized, None))
          else (DebugLevel, None))"

section \<open>Lemmas\<close>

lemma check_parameters_None:
  "check_parameters ps = None \<longleftrightarrow> (\<forall>p\<in>set ps. po_Symbol p \<noteq> [] \<or> po_Address p \<noteq> 0)"
  by (induction ps) auto

lemma update_new: "k \<notin> fst ` set l \<Longrightarrow> AList.update k v l = l @ [(k, v)]"
  by (induction l) auto

lemma assign_all_distinct:
  "distinct (map fst (l @ es)) \<Longrightarrow> assign_all (Some l) es = Inr (Some (l @ es))"
proof (induction es arbitrary: l)
  case Nil
  then show ?case by simp
next
  case (Cons e es)
  obtain k v where e: "e = (k, v)" by (cases e)
  with Cons.prems have "k \<notin> fst ` set l" by auto
  with Cons.IH [of "l @ [(k, v)]"] Cons.prems e show ?case
    by (simp add: map_assign_def deref_def update_new)
qed

lemma literal_distinct: "eventsAction_literal opts = Inr lit \<Longrightarrow> distinct (map fst lit) \<and> length lit = 12"
  by (auto simp: eventsAction_literal_def deref_def event_type_defs split: option.splits)

lemma foldl_activated:
  "foldl (\<lambda>l (eventType, action). if action \<ge> LogAction then l @ [eventType] else l) acc es =
     acc @ map fst (filter (\<lambda>e. snd e \<ge> LogAction) es)"
  by (induction es arbitrary: acc) auto

lemma distinct_fst_filter: "distinct (map fst es) \<Longrightarrow> distinct (map fst (filter P es))"
  by (simp add: distinct_map inj_on_def)

lemma perm_fst_distinct: "mset xs = mset ys \<Longrightarrow> distinct (map fst xs) \<longleftrightarrow> distinct (map fst ys)"
  by (metis mset_eq_imp_distinct_iff mset_map)

definition good_parameters :: "ParameterOption list \<Rightarrow> bool" where
  "good_parameters ps \<longleftrightarrow> (\<forall>p\<in>set ps. po_Symbol p \<noteq> [] \<or> po_Address p \<noteq> 0)"

lemma KernelParameterOptions_valid_iff:
  "KernelParameterOptions_IsValid kp = None \<longleftrightarrow>
     length (kpo_List kp) \<le> 25 \<and> good_parameters (kpo_List kp) \<and>
     kpo_PeriodicAction kp \<notin> {BlockAction, KillAction}"
  unfolding good_parameters_def check_parameters_None [symmetric]
  by (auto simp: KernelParameterOptions_IsValid_def MaxKernelParameterCount_def
      split: option.splits)

text \<open>What both methods compute from a fresh set of options.\<close>

definition fresh_options :: "Options \<Rightarrow> bool" where
  "fresh_options opts \<longleftrightarrow> eo_eventsAction opts = Some [] \<and> eo_activatedEvents opts = [] \<and>
     eo_SysCtlEvent opts \<noteq> None \<and> eo_KernelParameterEvent opts \<noteq> None"

lemma ParseEventsActions_fresh:
  assumes "fresh_options opts" and rng: "\<And>l. mset (rng l) = mset l"
  shows "\<exists>lit. eventsAction_literal opts = Inr lit \<and>
    ParseEventsActions rng opts = Inr (opts\<lparr>eo_eventsAction := Some (rng lit)\<rparr>, Some (rng lit))"
proof -
  from assms(1) obtain lit where lit: "eventsAction_literal opts = Inr lit"
    by (auto simp: fresh_options_def eventsAction_literal_def deref_def)
  have "distinct (map fst (rng lit))"
    using perm_fst_distinct [OF rng] literal_distinct [OF lit] by blast
  then have "assign_all (Some []) (rng lit) = Inr (Some (rng lit))"
    using assign_all_distinct [of "[]"] by simp
  with assms(1) lit show ?thesis
    by (simp add: ParseEventsActions_def fresh_options_def map_len_def)
qed

section \<open>Properties\<close>

text \<open>C9: The events section of a configuration is valid exactly when it has at most 25 kernel
  parameters, each with a symbol or an address, and neither the periodic kernel parameter
  check nor the system call table check is asked to block or kill.\<close>

theorem options_valid_iff:
  "Options_IsValid opts = Inr None \<longleftrightarrow>
     (\<exists>kp. eo_KernelParameterEvent opts = Some kp \<and>
        length (kpo_List kp) \<le> 25 \<and> good_parameters (kpo_List kp) \<and>
        kpo_PeriodicAction kp \<notin> {BlockAction, KillAction}) \<and>
     eo_HookedSyscallTableEvent opts \<notin> {BlockAction, KillAction}"
proof (cases "eo_KernelParameterEvent opts")
  case None
  then show ?thesis by (simp add: Options_IsValid_def deref_def)
next
  case (Some kp)
  then show ?thesis
    using KernelParameterOptions_valid_iff [of kp]
    by (cases "KernelParameterOptions_IsValid kp") (auto simp: Options_IsValid_def deref_def)
qed

text \<open>C10: From fresh options, the activated event types are exactly the types of the
  configuration whose action is \<open>log\<close> or stronger, each once; the result is cached, and a
  second call returns the same list whatever order it would have used, unless the list is
  empty.\<close>

theorem activated_event_types:
  assumes "fresh_options opts" and "\<And>l. mset (rng l) = mset l"
  shows "\<exists>lit opts' l. eventsAction_literal opts = Inr lit \<and>
    ActivatedEventTypes rng opts = Inr (opts', l) \<and> distinct l \<and>
    set l = {t. \<exists>a. (t, a) \<in> set lit \<and> a \<ge> LogAction} \<and>
    (l \<noteq> [] \<longrightarrow> (\<forall>rng'. ActivatedEventTypes rng' opts' = Inr (opts', l)))"
proof -
  obtain lit where lit: "eventsAction_literal opts = Inr lit"
    and p: "ParseEventsActions rng opts = Inr (opts\<lparr>eo_eventsAction := Some (rng lit)\<rparr>, Some (rng lit))"
    using ParseEventsActions_fresh [OF assms] by blast
  let ?l = "map fst (filter (\<lambda>e. snd e \<ge> LogAction) (rng (rng lit)))"
  let ?o = "opts\<lparr>eo_eventsAction := Some (rng lit), eo_activatedEvents := ?l\<rparr>"
  have m: "mset (rng (rng lit)) = mset lit" by (simp add: assms(2))
  have a: "ActivatedEventTypes rng opts = Inr (?o, ?l)"
    using assms(1) p by (simp add: ActivatedEventTypes_def fresh_options_def foldl_activated Let_def)
  have d: "distinct ?l"
    using literal_distinct [OF lit] perm_fst_distinct [OF m] by (intro distinct_fst_filter) blast
  have s: "set ?l = {t. \<exists>a. (t, a) \<in> set lit \<and> a \<ge> LogAction}"
    using mset_eq_setD [OF m] by force
  have c: "?l \<noteq> [] \<longrightarrow> (\<forall>rng'. ActivatedEventTypes rng' ?o = Inr (?o, ?l))"
    by (simp add: ActivatedEventTypes_def)
  from lit a d s c show ?thesis by blast
qed

theorem activated_event_types_witness:
  "fresh_options (NewEventsOptions\<lparr>eo_BPFEvent := BlockAction\<rparr>) \<and>
   (\<exists>opts' l. ActivatedEventTypes rev (NewEventsOptions\<lparr>eo_BPFEvent := BlockAction\<rparr>) = Inr (opts', l) \<and>
      set l = {BPFEventType})"
proof -
  let ?o = "NewEventsOptions\<lparr>eo_BPFEvent := BlockAction\<rparr>"
  have f: "fresh_options ?o" by (simp add: fresh_options_def NewEventsOptions_def)
  obtain lit opts' l where lit: "eventsAction_literal ?o = Inr lit"
    and r: "ActivatedEventTypes rev ?o = Inr (opts', l)"
    and s: "set l = {t. \<exists>a. (t, a) \<in> set lit \<and> a \<ge> LogAction}"
    using activated_event_types [OF f, of rev] by auto
  have "set l = {BPFEventType}"
    using lit unfolding s
    by (auto simp: eventsAction_literal_def deref_def NewEventsOptions_def NewSysCtlOptions_def
        NewKernelParameterOptions_def LogAction_def BlockAction_def)
  with f r show ?thesis by blast
qed

end
