(* ===== verification/Kallsyms.thy ===== *)
theory Kallsyms
  imports Check_Events
begin

text \<open>
  \<^verbatim>\<open>pkg/krie/kallsyms.go\<close>: the symbol tables KRIe keeps of the running kernel and of its
  modules, how they are loaded from \<^verbatim>\<open>/proc/kallsyms\<close>, how an address is resolved, and how
  \<open>kernel.kptr_restrict\<close> is lifted for the time of the load.  The calls that leave the
  program (\<open>sysctl\<close>, the capability library, the file, the eBPF map) are the fields of a
  record \<open>SysHost\<close> over a type of worlds.  \<open>sort.Slice\<close> leaves the order of symbols with the same
  address open, so the sorted list is a parameter \<open>sortf\<close> with the law \<open>sort_Slice_ok\<close>; a \<open>range\<close>
  over a map takes the list of its entries in any order (\<open>enumerates\<close>).
\<close>

section \<open>Model\<close>

record Symbol =
  sym_Name :: string
  sym_Info :: byte
  sym_Value :: u64
  sym_Size :: u64
  sym_Library :: string

definition STT_NOTYPE :: byte where "STT_NOTYPE = 0"
definition STT_OBJECT :: byte where "STT_OBJECT = 1"
definition STT_FUNC :: byte where "STT_FUNC = 2"

record KSymState =
  kst_kernelSymbols :: "string \<rightharpoonup> Symbol"
  kst_kernelAddresses :: "u64 \<rightharpoonup> Symbol"
  kst_kernelKPTRRestrict :: string

record 'w SysHost =
  h_sysctl_Get :: "string \<Rightarrow> 'w \<Rightarrow> error + string"
  h_sysctl_Set :: "string \<Rightarrow> string \<Rightarrow> 'w \<Rightarrow> error option \<times> 'w"
  h_cap_GetPID :: "'w \<Rightarrow> error + nat"
  h_cap_GetFlag :: "nat \<Rightarrow> 'w \<Rightarrow> error + bool"
  h_ReadFile :: "string \<Rightarrow> 'w \<Rightarrow> error + string"
  h_kallsymsMap_Put :: "u32 \<Rightarrow> u64 \<Rightarrow> 'w \<Rightarrow> error option \<times> 'w"

subsection \<open>Parsing\<close>

definition symbol_info :: "string \<Rightarrow> byte" where
  "symbol_info t =
     (if t \<in> {''T'', ''t''} then STT_FUNC
      else if t \<in> {''R'', ''r'', ''D'', ''d'', ''B'', ''b''} then STT_OBJECT
      else STT_NOTYPE)"

definition symbol_library :: "string list \<Rightarrow> string" where
  "symbol_library splitName =
     (if length splitName > 1
      then strings_TrimSuffix (strings_TrimPrefix (splitName ! 1) ''['') '']''
      else ''system'')"

text \<open>The body of the loop over the lines: skip the line, fail, or append a symbol.\<close>

datatype line = Skip | Fail error | Sym Symbol

definition parse_line :: "(string \<rightharpoonup> Symbol) \<Rightarrow> string \<Rightarrow> line" where
  "parse_line known entry =
     (let splitSym = strings_Split (CHR '' '') entry in
      if length splitSym \<noteq> 3 then Skip
      else
        let info = symbol_info (splitSym ! 1) in
        if info = STT_NOTYPE then Skip
        else
          let (addr, err) = ParseUint (splitSym ! 0) 16 64 in
          if err \<noteq> None then Skip
          else
            let splitName = strings_Split (CHR 0x09) (splitSym ! 2) in
            if addr = 0
            then Fail (Errorf ''kernel addresses are hidden (address not found for %s)''
                         [FStr (splitName ! 0)] None)
            else if known (splitName ! 0) \<noteq> None then Skip
            else Sym \<lparr>sym_Name = splitName ! 0, sym_Info = info, sym_Value = word_of_nat addr,
                      sym_Size = 0, sym_Library = symbol_library splitName\<rparr>)"

fun parse_lines :: "(string \<rightharpoonup> Symbol) \<Rightarrow> Symbol list \<Rightarrow> string list \<Rightarrow> error + Symbol list" where
  "parse_lines known kallsyms [] = Inr kallsyms"
| "parse_lines known kallsyms (l # ls) =
     (case parse_line known l of
        Skip \<Rightarrow> parse_lines known kallsyms ls
      | Fail err \<Rightarrow> Inl err
      | Sym s \<Rightarrow> parse_lines known (kallsyms @ [s]) ls)"

definition sort_Slice_ok :: "(Symbol list \<Rightarrow> Symbol list) \<Rightarrow> bool" where
  "sort_Slice_ok sortf \<longleftrightarrow>
     (\<forall>l. mset (sortf l) = mset l \<and> sorted_wrt (\<lambda>a b. sym_Value a \<le> sym_Value b) (sortf l))"

text \<open>The size of a function reaches to the next symbol; everything else has size 1.\<close>

fun symbol_sizes :: "Symbol list \<Rightarrow> Symbol list" where
  "symbol_sizes [] = []"
| "symbol_sizes [s] = [s\<lparr>sym_Size := 1\<rparr>]"
| "symbol_sizes (s # t # ss) =
     s\<lparr>sym_Size := (if sym_Info s = STT_FUNC then sym_Value t - sym_Value s else 1)\<rparr> #
     symbol_sizes (t # ss)"

definition symbol_key :: "Symbol \<Rightarrow> string" where
  "symbol_key s = sym_Library s @ ''/'' @ sym_Name s"

definition store_symbol :: "KSymState \<Rightarrow> Symbol \<Rightarrow> KSymState" where
  "store_symbol st s =
     st\<lparr>kst_kernelAddresses := (kst_kernelAddresses st)(sym_Value s \<mapsto> s),
        kst_kernelSymbols := (kst_kernelSymbols st)(symbol_key s \<mapsto> s)\<rparr>"

definition store_symbols :: "KSymState \<Rightarrow> Symbol list \<Rightarrow> KSymState" where
  "store_symbols st ss = foldl store_symbol st ss"

definition parseKallsyms ::
    "'w SysHost \<Rightarrow> (Symbol list \<Rightarrow> Symbol list) \<Rightarrow> KSymState \<Rightarrow> 'w \<Rightarrow> error option \<times> KSymState" where
  "parseKallsyms h sortf st w =
     (case h_ReadFile h ''/proc/kallsyms'' w of
        Inl err \<Rightarrow> (Some err, st)
      | Inr raw \<Rightarrow>
          (case parse_lines (kst_kernelSymbols st) [] (strings_Split (CHR 0x0A) raw) of
             Inl err \<Rightarrow> (Some err, st)
           | Inr kallsyms \<Rightarrow> (None, store_symbols st (symbol_sizes (sortf kallsyms)))))"

subsection \<open>kptr_restrict\<close>

definition kptr_restrict :: string where "kptr_restrict = ''kernel.kptr_restrict''"

definition setKernelKPTRRestrict :: "'w SysHost \<Rightarrow> string \<Rightarrow> 'w \<Rightarrow> error option \<times> 'w" where
  "setKernelKPTRRestrict h val w = h_sysctl_Set h kptr_restrict val w"

definition saveKernelKPTRRestrict :: "KSymState \<Rightarrow> string \<Rightarrow> KSymState" where
  "saveKernelKPTRRestrict st val = st\<lparr>kst_kernelKPTRRestrict := val\<rparr>"

definition resetKernelKPTRRestrict :: "'w SysHost \<Rightarrow> KSymState \<Rightarrow> 'w \<Rightarrow> error option \<times> 'w" where
  "resetKernelKPTRRestrict h st w =
     (if length (kst_kernelKPTRRestrict st) > 0
      then setKernelKPTRRestrict h (kst_kernelKPTRRestrict st) w
      else (None, w))"

definition symbolAddressesAccessCheck ::
    "'w SysHost \<Rightarrow> KSymState \<Rightarrow> 'w \<Rightarrow> error option \<times> KSymState \<times> 'w" where
  "symbolAddressesAccessCheck h st w =
     (case h_sysctl_Get h kptr_restrict w of
        Inl err \<Rightarrow>
          (Some (Errorf ''couldn't read kernel.kptr_restrict systcl parameter: %w'' [] (Some err)), st, w)
      | Inr val \<Rightarrow>
          if val = ''0'' then (None, st, w)
          else if val = ''1'' then
            (case h_cap_GetPID h w of
               Inl err \<Rightarrow>
                 (Some (Errorf ''couldn't retrieve the kernel capabilities of the current process: %w''
                          [] (Some err)), st, w)
             | Inr capabilities \<Rightarrow>
                 (case h_cap_GetFlag h capabilities w of
                    Inl err \<Rightarrow>
                      (Some (Errorf ''couldn't retrieve SYSLOG capability status: %w'' [] (Some err)), st, w)
                  | Inr hasCapSysLog \<Rightarrow>
                      if hasCapSysLog then (None, st, w)
                      else let st = saveKernelKPTRRestrict st ''1'';
                               (err, w) = setKernelKPTRRestrict h ''0'' w in (err, st, w)))
          else if val = ''2'' then
            let st = saveKernelKPTRRestrict st ''2'';
                (err, w) = setKernelKPTRRestrict h ''0'' w in (err, st, w)
          else (Some (Errorf (''unknown kernel.kptr_restric parameter value: '' @ [CHR 0x22] @ ''%s'' @ [CHR 0x22]) [FStr val] None), st, w))"

subsection \<open>Loading\<close>

definition krieSymbols :: "string list" where
  "krieSymbols =
     [''system/sys_call_table'', ''system/x32_sys_call_table'', ''system/ia32_sys_call_table'',
      ''system/_stext'', ''system/_etext'']"

fun push_loop :: "'w SysHost \<Rightarrow> KSymState \<Rightarrow> nat \<Rightarrow> string list \<Rightarrow> 'w \<Rightarrow> error option \<times> 'w" where
  "push_loop h st key [] w = (None, w)"
| "push_loop h st key (symbol # rest) w =
     (case kst_kernelSymbols st symbol of
        None \<Rightarrow>
          if symbol = ''system/x32_sys_call_table'' then push_loop h st (key + 1) rest w
          else (Some (Errorf ''couldn't find %s symbol'' [FStr symbol] None), w)
      | Some address \<Rightarrow>
          (case h_kallsymsMap_Put h (word_of_nat key) (sym_Value address) w of
             (Some err, w) \<Rightarrow>
               (Some (Errorf ''couldn't push %s symbol address: %w'' [FStr symbol] (Some err)), w)
           | (None, w) \<Rightarrow> push_loop h st (key + 1) rest w))"

definition pushKernelSymbols :: "'w SysHost \<Rightarrow> KSymState \<Rightarrow> 'w \<Rightarrow> error option \<times> 'w" where
  "pushKernelSymbols h st w = push_loop h st 0 krieSymbols w"

definition loadKernelSymbols ::
    "'w SysHost \<Rightarrow> (Symbol list \<Rightarrow> Symbol list) \<Rightarrow> KSymState \<Rightarrow> 'w \<Rightarrow> error option \<times> KSymState \<times> 'w" where
  "loadKernelSymbols h sortf st w =
     (case symbolAddressesAccessCheck h st w of
        (Some err, st, w) \<Rightarrow> (Some err, st, w)
      | (None, st, w) \<Rightarrow>
          (case parseKallsyms h sortf st w of
             (Some err, st) \<Rightarrow> (Some err, st, w)
           | (None, st) \<Rightarrow>
               (case resetKernelKPTRRestrict h st w of
                  (Some err, w) \<Rightarrow> (Some err, st, w)
                | (None, w) \<Rightarrow>
                    (case pushKernelSymbols h st w of
                       (Some err, w) \<Rightarrow> (Some err, st, w)
                     | (None, w) \<Rightarrow> (None, st, w)))))"

subsection \<open>Resolving\<close>

definition errResolve :: "u64 \<Rightarrow> error" where
  "errResolve a = Errorf ''couldn't resolve 0x%x'' [FInt (uint a)] None"

fun resolveFuncSymbol :: "(u64 \<times> Symbol) list \<Rightarrow> KernelSymbol \<Rightarrow> KernelSymbol \<times> error option" where
  "resolveFuncSymbol [] k =
     (k\<lparr>ks_Symbol := ''unknown'', ks_Module := ''unknown''\<rparr>, Some (errResolve (ks_Address k)))"
| "resolveFuncSymbol ((symbolAddr, symbol) # rest) k =
     (if symbolAddr \<le> ks_Address k \<and> ks_Address k < symbolAddr + sym_Size symbol \<and>
         sym_Info symbol = STT_FUNC
      then (k\<lparr>ks_Symbol := sym_Name symbol, ks_Module := sym_Library symbol\<rparr>, None)
      else resolveFuncSymbol rest k)"

fun resolveObjectSymbol :: "(u64 \<times> Symbol) list \<Rightarrow> KernelSymbol \<Rightarrow> KernelSymbol \<times> error option" where
  "resolveObjectSymbol [] k =
     (k\<lparr>ks_Symbol := ''unknown'', ks_Module := ''unknown''\<rparr>, Some (errResolve (ks_Address k)))"
| "resolveObjectSymbol ((symbolAddr, symbol) # rest) k =
     (if ks_Address k = symbolAddr \<and> sym_Info symbol = STT_OBJECT
      then (k\<lparr>ks_Symbol := sym_Name symbol, ks_Module := sym_Library symbol\<rparr>, None)
      else resolveObjectSymbol rest k)"

text \<open>The entries of a map in some order.\<close>

definition enumerates :: "('k \<times> 'v) list \<Rightarrow> ('k \<rightharpoonup> 'v) \<Rightarrow> bool" where
  "enumerates order m \<longleftrightarrow> distinct (map fst order) \<and> map_of order = m"

section \<open>Stored symbols\<close>

lemma length_symbol_sizes [simp]: "length (symbol_sizes l) = length l"
  by (induction l rule: symbol_sizes.induct) simp_all

lemma symbol_sizes_nth:
  "i < length l \<Longrightarrow> symbol_sizes l ! i =
     (l ! i)\<lparr>sym_Size := (if sym_Info (l ! i) = STT_FUNC \<and> Suc i < length l
                       then sym_Value (l ! Suc i) - sym_Value (l ! i) else 1)\<rparr>"
proof (induction l arbitrary: i rule: symbol_sizes.induct)
  case (3 s t ss)
  then show ?case by (cases i) auto
qed auto

lemma kernelAddresses_store:
  "kst_kernelAddresses (store_symbols st ss) =
     foldl (\<lambda>m s. m(sym_Value s \<mapsto> s)) (kst_kernelAddresses st) ss"
  unfolding store_symbols_def by (induction ss arbitrary: st) (simp_all add: store_symbol_def)

lemma foldl_value_SomeD:
  "foldl (\<lambda>m s. m(f s \<mapsto> s)) m ss a = Some s \<Longrightarrow> m a = Some s \<or> (s \<in> set ss \<and> a = f s)"
proof (induction ss arbitrary: m)
  case Nil
  then show ?case by simp
next
  case (Cons x ss)
  from Cons.IH [of "m(f x \<mapsto> x)"] Cons.prems show ?case by (auto split: if_splits)
qed

lemma foldl_value_other: "a \<notin> f ` set ss \<Longrightarrow> foldl (\<lambda>m s. m(f s \<mapsto> s)) m ss a = m a"
  by (induction ss arbitrary: m) auto

lemma foldl_value_Some:
  "distinct (map f ss) \<Longrightarrow> s \<in> set ss \<Longrightarrow> foldl (\<lambda>m s. m(f s \<mapsto> s)) m ss (f s) = Some s"
  by (induction ss arbitrary: m) (auto simp: foldl_value_other)

text \<open>What a lookup by address relies on: the entries stored by one load into empty tables.\<close>

lemma stored_entries:
  assumes "kst_kernelAddresses st = Map.empty" and "distinct (map sym_Value ss)"
    and "enumerates order (kst_kernelAddresses (store_symbols st ss))"
  shows "set order = (\<lambda>s. (sym_Value s, s)) ` set ss"
proof -
  have d: "distinct (map fst order)" and m: "map_of order = foldl (\<lambda>m s. m(sym_Value s \<mapsto> s)) Map.empty ss"
    using assms(1,3) by (simp_all add: enumerates_def kernelAddresses_store)
  have "(a, s) \<in> set order \<longleftrightarrow> s \<in> set ss \<and> a = sym_Value s" for a s
  proof -
    have "(a, s) \<in> set order \<longleftrightarrow> foldl (\<lambda>m s. m(sym_Value s \<mapsto> s)) Map.empty ss a = Some s"
      using map_of_eq_Some_iff [OF d, of a s] unfolding m by blast
    also have "\<dots> \<longleftrightarrow> s \<in> set ss \<and> a = sym_Value s"
      using foldl_value_SomeD [of sym_Value Map.empty ss a s] foldl_value_Some [OF assms(2)] by auto
    finally show ?thesis .
  qed
  then show ?thesis by auto
qed

lemma enumerates_stored:
  assumes "kst_kernelAddresses st = Map.empty" and "distinct (map sym_Value ss)"
  shows "enumerates (map (\<lambda>s. (sym_Value s, s)) ss) (kst_kernelAddresses (store_symbols st ss))"
proof -
  let ?f = "foldl (\<lambda>m s. m(sym_Value s \<mapsto> s)) Map.empty ss"
  have d: "distinct (map fst (map (\<lambda>s. (sym_Value s, s)) ss))" using assms(2) by (simp add: comp_def)
  have "map_of (map (\<lambda>s. (sym_Value s, s)) ss) a = ?f a" for a
  proof (cases "a \<in> sym_Value ` set ss")
    case True
    then obtain s where s: "s \<in> set ss" "a = sym_Value s" by blast
    then have "map_of (map (\<lambda>s. (sym_Value s, s)) ss) a = Some s"
      using map_of_eq_Some_iff [OF d, of a s] by force
    with s foldl_value_Some [OF assms(2) s(1), of Map.empty] show ?thesis by simp
  next
    case False
    then have "map_of (map (\<lambda>s. (sym_Value s, s)) ss) a = None" by (force simp: map_of_eq_None_iff)
    with False show ?thesis by (simp add: foldl_value_other)
  qed
  with d assms(1) show ?thesis by (auto simp: enumerates_def kernelAddresses_store)
qed

section \<open>Resolution\<close>

definition covers :: "u64 \<Rightarrow> u64 \<times> Symbol \<Rightarrow> bool" where
  "covers a e \<longleftrightarrow> fst e \<le> a \<and> a < fst e + sym_Size (snd e) \<and> sym_Info (snd e) = STT_FUNC"

lemma resolveFuncSymbol_hit:
  assumes "e \<in> set order" and "covers (ks_Address k) e"
    and "\<forall>e'\<in>set order. covers (ks_Address k) e' \<longrightarrow> e' = e"
  shows "resolveFuncSymbol order k =
    (k\<lparr>ks_Symbol := sym_Name (snd e), ks_Module := sym_Library (snd e)\<rparr>, None)"
  using assms
proof (induction order)
  case Nil
  then show ?case by simp
next
  case (Cons x xs)
  show ?case
  proof (cases "covers (ks_Address k) x")
    case True
    with Cons.prems have "x = e" by simp
    with True show ?thesis by (cases e) (simp add: covers_def)
  next
    case False
    with Cons.prems(1,2) have "e \<in> set xs" by auto
    from Cons.IH [OF this Cons.prems(2)] Cons.prems(3) have "resolveFuncSymbol xs k =
        (k\<lparr>ks_Symbol := sym_Name (snd e), ks_Module := sym_Library (snd e)\<rparr>, None)"
      by (meson list.set_intros(2))
    with False show ?thesis by (cases x) (auto simp: covers_def)
  qed
qed

lemma resolveFuncSymbol_miss:
  "\<forall>e\<in>set order. \<not> covers (ks_Address k) e \<Longrightarrow>
     resolveFuncSymbol order k =
       (k\<lparr>ks_Symbol := ''unknown'', ks_Module := ''unknown''\<rparr>, Some (errResolve (ks_Address k)))"
  by (induction order) (auto simp: covers_def)

text \<open>The specification: the symbol with the greatest address that is not above \<open>a\<close>.  It
  owns \<open>a\<close> when it is a function and either some symbol lies above \<open>a\<close> or \<open>a\<close> is its own
  address.\<close>

definition nearest :: "Symbol list \<Rightarrow> u64 \<Rightarrow> Symbol \<Rightarrow> bool" where
  "nearest ks a s \<longleftrightarrow> s \<in> set ks \<and> sym_Value s \<le> a \<and> (\<forall>t\<in>set ks. sym_Value t \<le> a \<longrightarrow> sym_Value t \<le> sym_Value s)"

definition owner :: "Symbol list \<Rightarrow> u64 \<Rightarrow> Symbol \<Rightarrow> bool" where
  "owner ks a s \<longleftrightarrow> nearest ks a s \<and> sym_Info s = STT_FUNC \<and>
     ((\<exists>t\<in>set ks. a < sym_Value t) \<or> (a = sym_Value s \<and> a \<noteq> - 1))"

lemma owner_cong: "set ks = set ks' \<Longrightarrow> owner ks a s = owner ks' a s"
  by (simp add: owner_def nearest_def)

lemma word_plus_one_cover:
  fixes v a :: u64
  shows "v \<le> a \<Longrightarrow> a < v + 1 \<longleftrightarrow> a = v \<and> a \<noteq> - 1"
proof (cases "v = - 1")
  case False
  assume "v \<le> a"
  have "unat (v + 1) = Suc (unat v)" using False by (metis unatSuc add.commute add.inverse_unique)
  then have "a < v + 1 \<longleftrightarrow> unat a \<le> unat v" by (simp add: word_less_nat_alt less_Suc_eq_le)
  also have "\<dots> \<longleftrightarrow> a = v" using \<open>v \<le> a\<close> by (auto simp flip: word_le_nat_alt)
  finally show ?thesis using False by auto
qed auto

lemma covers_sized_iff:
  assumes sorted: "sorted_wrt (\<lambda>a b. sym_Value a < sym_Value b) l" and i: "i < length l"
  shows "covers a (sym_Value (l ! i), symbol_sizes l ! i) \<longleftrightarrow> owner l a (l ! i)"
proof -
  have lt: "j < j' \<Longrightarrow> j' < length l \<Longrightarrow> sym_Value (l ! j) < sym_Value (l ! j')" for j j'
    by (rule sorted_wrt_nth_less [OF sorted])
  have le: "j \<le> j' \<Longrightarrow> j' < length l \<Longrightarrow> sym_Value (l ! j) \<le> sym_Value (l ! j')" for j j'
    using lt [of j j'] by (cases "j = j'") auto
  show ?thesis
  proof (cases "Suc i < length l")
    case True
    have "nearest l a (l ! i) \<longleftrightarrow> sym_Value (l ! i) \<le> a \<and> a < sym_Value (l ! Suc i)"
    proof
      assume n: "nearest l a (l ! i)"
      have "\<not> sym_Value (l ! Suc i) \<le> a"
      proof
        assume "sym_Value (l ! Suc i) \<le> a"
        with n nth_mem [OF True] have "sym_Value (l ! Suc i) \<le> sym_Value (l ! i)"
          by (simp add: nearest_def)
        with lt [of i "Suc i"] True show False by simp
      qed
      with n show "sym_Value (l ! i) \<le> a \<and> a < sym_Value (l ! Suc i)"
        by (simp add: nearest_def)
    next
      assume a: "sym_Value (l ! i) \<le> a \<and> a < sym_Value (l ! Suc i)"
      show "nearest l a (l ! i)"
        unfolding nearest_def
      proof (intro conjI ballI impI)
        fix t assume "t \<in> set l" "sym_Value t \<le> a"
        then obtain j where j: "j < length l" "t = l ! j" by (auto simp: in_set_conv_nth)
        have "\<not> Suc i \<le> j"
          using le [of "Suc i" j] j a \<open>sym_Value t \<le> a\<close> by (metis le_less_trans leD order_trans)
        then show "sym_Value t \<le> sym_Value (l ! i)" using le [of j i] j i by simp
      qed (use a i in auto)
    qed
    moreover have "sym_Value (l ! i) + (sym_Value (l ! Suc i) - sym_Value (l ! i)) = sym_Value (l ! Suc i)"
      by simp
    ultimately show ?thesis
      using i True nth_mem [OF True] by (auto simp: covers_def symbol_sizes_nth owner_def)
  next
    case False
    then have last: "i = length l - 1" using i by simp
    have near: "nearest l a (l ! i) \<longleftrightarrow> sym_Value (l ! i) \<le> a"
      using i last le by (auto simp: nearest_def in_set_conv_nth)
    have none: "sym_Value (l ! i) \<le> a \<Longrightarrow> \<not> (\<exists>t\<in>set l. a < sym_Value t)"
    proof
      assume a: "sym_Value (l ! i) \<le> a" and "\<exists>t\<in>set l. a < sym_Value t"
      then obtain j where j: "j < length l" "a < sym_Value (l ! j)" by (auto simp: in_set_conv_nth)
      then have "sym_Value (l ! j) \<le> sym_Value (l ! i)" using le [of j i] last i by simp
      with a j(2) show False by simp
    qed
    show ?thesis
      using near none i False word_plus_one_cover [of "sym_Value (l ! i)" a]
      by (auto simp: covers_def symbol_sizes_nth owner_def)
  qed
qed

text \<open>The sorted list of symbols with distinct addresses.\<close>

lemma sorted_strict:
  assumes "sort_Slice_ok sortf" and "distinct (map sym_Value ks)"
  shows "sorted_wrt (\<lambda>a b. sym_Value a < sym_Value b) (sortf ks)" and "set (sortf ks) = set ks"
proof -
  have m: "mset (sortf ks) = mset ks" and s: "sorted_wrt (\<lambda>a b. sym_Value a \<le> sym_Value b) (sortf ks)"
    using assms(1) by (simp_all add: sort_Slice_ok_def)
  from m show "set (sortf ks) = set ks" by (rule mset_eq_setD)
  have "distinct (map sym_Value (sortf ks))"
    using assms(2) m by (metis mset_eq_imp_distinct_iff mset_map)
  moreover have "sorted (map sym_Value (sortf ks))" using s by (simp only: sorted_wrt_map)
  ultimately have "sorted_wrt (<) (map sym_Value (sortf ks))" by (simp only: strict_sorted_iff)
  then show "sorted_wrt (\<lambda>a b. sym_Value a < sym_Value b) (sortf ks)"
    by (simp add: sorted_wrt_map)
qed

lemma sized_values: "map sym_Value (symbol_sizes l) = map sym_Value l"
  by (rule nth_equalityI) (simp_all add: symbol_sizes_nth)

lemma owner_unique:
  assumes "distinct (map sym_Value ks)" and "owner ks a s" and "owner ks a t"
  shows "s = t"
proof -
  have "s \<in> set ks" "t \<in> set ks" "sym_Value s = sym_Value t"
    using assms(2,3) by (auto simp: owner_def nearest_def intro: antisym)
  with assms(1) show ?thesis by (auto simp: distinct_map dest: inj_onD)
qed

lemma resolve_owner:
  assumes ok: "sort_Slice_ok sortf" and dist: "distinct (map sym_Value ks)"
    and empty: "kst_kernelAddresses st = Map.empty"
    and ord: "enumerates order (kst_kernelAddresses (store_symbols st (symbol_sizes (sortf ks))))"
  shows "owner ks (ks_Address k) s \<Longrightarrow> resolveFuncSymbol order k =
      (k\<lparr>ks_Symbol := sym_Name s, ks_Module := sym_Library s\<rparr>, None)"
    and "\<nexists>s. owner ks (ks_Address k) s \<Longrightarrow> resolveFuncSymbol order k =
      (k\<lparr>ks_Symbol := ''unknown'', ks_Module := ''unknown''\<rparr>, Some (errResolve (ks_Address k)))"
proof -
  let ?l = "sortf ks" and ?a = "ks_Address k"
  note sorted = sorted_strict [OF ok dist]
  have dl: "distinct (map sym_Value ?l)"
    using dist ok by (metis mset_eq_imp_distinct_iff mset_map sort_Slice_ok_def)
  have entries: "set order = (\<lambda>s. (sym_Value s, s)) ` set (symbol_sizes ?l)"
    using stored_entries [OF empty _ ord] dl by (simp add: sized_values)
  have cov: "covers ?a (sym_Value (?l ! i), symbol_sizes ?l ! i) \<longleftrightarrow> owner ks ?a (?l ! i)"
    if "i < length ?l" for i
    using covers_sized_iff [OF sorted(1) that] owner_cong [OF sorted(2)] by simp
  have entry: "e \<in> set order \<longleftrightarrow> (\<exists>i < length ?l. e = (sym_Value (?l ! i), symbol_sizes ?l ! i))" for e
  proof -
    have v: "sym_Value (symbol_sizes ?l ! i) = sym_Value (?l ! i)" if "i < length ?l" for i
      using that by (simp add: symbol_sizes_nth)
    have "e \<in> set order \<longleftrightarrow>
        (\<exists>i < length ?l. e = (sym_Value (symbol_sizes ?l ! i), symbol_sizes ?l ! i))"
      unfolding entries unfolding set_conv_nth [of "symbol_sizes ?l"] by auto
    also have "\<dots> \<longleftrightarrow> (\<exists>i < length ?l. e = (sym_Value (?l ! i), symbol_sizes ?l ! i))"
      by (metis v)
    finally show ?thesis .
  qed
  show "resolveFuncSymbol order k = (k\<lparr>ks_Symbol := sym_Name s, ks_Module := sym_Library s\<rparr>, None)"
    if own: "owner ks ?a s"
  proof -
    have "s \<in> set ?l" using own sorted(2) by (simp add: owner_def nearest_def)
    then obtain i where i: "i < length ?l" "?l ! i = s" by (auto simp: in_set_conv_nth)
    let ?e = "(sym_Value (?l ! i), symbol_sizes ?l ! i)"
    have "e' = ?e" if "e' \<in> set order" "covers ?a e'" for e'
    proof -
      obtain j where j: "j < length ?l" "e' = (sym_Value (?l ! j), symbol_sizes ?l ! j)"
        using \<open>e' \<in> set order\<close> entry by blast
      with cov \<open>covers ?a e'\<close> have "owner ks ?a (?l ! j)" by simp
      with own have "?l ! j = s" using owner_unique [OF dist] by blast
      with i j dl have "j = i" by (metis distinct_map nth_eq_iff_index_eq)
      with j show ?thesis by simp
    qed
    moreover have "?e \<in> set order" using entry i by blast
    moreover have "covers ?a ?e" using cov [OF i(1)] i(2) own by simp
    ultimately have "resolveFuncSymbol order k =
        (k\<lparr>ks_Symbol := sym_Name (snd ?e), ks_Module := sym_Library (snd ?e)\<rparr>, None)"
      by (intro resolveFuncSymbol_hit) (assumption | blast)+
    with i show ?thesis by (simp add: symbol_sizes_nth)
  qed
  show "resolveFuncSymbol order k =
      (k\<lparr>ks_Symbol := ''unknown'', ks_Module := ''unknown''\<rparr>, Some (errResolve ?a))"
    if "\<nexists>s. owner ks ?a s"
  proof (rule resolveFuncSymbol_miss, rule ballI)
    fix e assume "e \<in> set order"
    then obtain j where "j < length ?l" "e = (sym_Value (?l ! j), symbol_sizes ?l ! j)"
      using entry by blast
    with cov that show "\<not> covers ?a e" by simp
  qed
qed

section \<open>The cache test\<close>

definition slash_keys :: "KSymState \<Rightarrow> bool" where
  "slash_keys st \<longleftrightarrow> (\<forall>key\<in>dom (kst_kernelSymbols st). CHR ''/'' \<in> set key)"

lemma slash_keys_step: "slash_keys st \<Longrightarrow> slash_keys (store_symbol st s)"
  by (auto simp: slash_keys_def store_symbol_def symbol_key_def)

lemma slash_keys_store: "slash_keys st \<Longrightarrow> slash_keys (store_symbols st ss)"
  unfolding store_symbols_def by (induction ss arbitrary: st) (simp_all add: slash_keys_step)

lemma slash_keys_parse: "slash_keys st \<Longrightarrow> slash_keys (snd (parseKallsyms h sortf st w))"
  by (auto simp: parseKallsyms_def slash_keys_store split: sum.splits)

lemma Split_not_Nil [simp]: "strings_Split c s \<noteq> []"
  by (cases s) (auto split: list.splits)

lemma Split_chars: "p \<in> set (strings_Split c s) \<Longrightarrow> set p \<subseteq> set s"
proof (induction s arbitrary: p)
  case Nil
  then show ?case by simp
next
  case (Cons x s)
  show ?case
  proof (cases "x = c")
    case True
    with Cons show ?thesis by auto
  next
    case False
    obtain q qs where q: "strings_Split c s = q # qs" by (cases "strings_Split c s") auto
    with False Cons.prems have "p = x # q \<or> p \<in> set qs" by auto
    moreover have "r \<in> set (q # qs) \<Longrightarrow> set r \<subseteq> set s" for r
      using Cons.IH [of r] unfolding q .
    ultimately show ?thesis by fastforce
  qed
qed

lemma parse_line_no_slash:
  assumes "\<And>name. CHR ''/'' \<notin> set name \<Longrightarrow> known name = None" and "CHR ''/'' \<notin> set entry"
  shows "parse_line known entry = parse_line Map.empty entry"
proof -
  have "known (strings_Split (CHR 0x09) (strings_Split (CHR '' '') entry ! 2) ! 0) = None"
    if "length (strings_Split (CHR '' '') entry) = 3"
  proof (rule assms(1))
    let ?sp = "strings_Split (CHR '' '') entry"
    have "set (?sp ! 2) \<subseteq> set entry" using that by (intro Split_chars [of _ "CHR '' ''"]) simp
    moreover have "set (strings_Split (CHR 0x09) (?sp ! 2) ! 0) \<subseteq> set (?sp ! 2)"
      by (intro Split_chars [of _ "CHR 0x09"]) simp
    ultimately show "CHR ''/'' \<notin> set (strings_Split (CHR 0x09) (?sp ! 2) ! 0)" using assms(2) by blast
  qed
  then show ?thesis by (auto simp: parse_line_def Let_def split: prod.splits)
qed

lemma parse_lines_no_slash:
  assumes "\<And>name. CHR ''/'' \<notin> set name \<Longrightarrow> known name = None"
    and "\<forall>l\<in>set ls. CHR ''/'' \<notin> set l"
  shows "parse_lines known acc ls = parse_lines Map.empty acc ls"
  using assms(2)
  by (induction ls arbitrary: acc) (auto simp: parse_line_no_slash [OF assms(1)] split: line.splits)

section \<open>The host\<close>

text \<open>Documented behaviour of \<open>go-sysctl\<close> and of an eBPF map update: a value that was set is
  read back, and a map update does not touch the parameter.\<close>

definition kptr_laws :: "'w SysHost \<Rightarrow> bool" where
  "kptr_laws h \<longleftrightarrow>
     (\<forall>v w w'. h_sysctl_Set h kptr_restrict v w = (None, w') \<longrightarrow> h_sysctl_Get h kptr_restrict w' = Inr v) \<and>
     (\<forall>k v w. h_sysctl_Get h kptr_restrict (snd (h_kallsymsMap_Put h k v w)) = h_sysctl_Get h kptr_restrict w)"

lemma push_loop_kptr:
  assumes "kptr_laws h"
  shows "h_sysctl_Get h kptr_restrict (snd (push_loop h st key syms w)) = h_sysctl_Get h kptr_restrict w"
proof (induction syms arbitrary: key w)
  case Nil
  then show ?case by simp
next
  case (Cons s syms)
  have put: "h_sysctl_Get h kptr_restrict w' = h_sysctl_Get h kptr_restrict w"
    if "h_kallsymsMap_Put h k v w = (r, w')" for k v r w'
    using assms that unfolding kptr_laws_def by (metis snd_conv)
  show ?case
    using Cons.IH
    by (auto split: option.splits prod.splits dest!: put)
qed

lemma parseKallsyms_kptr:
  "kst_kernelKPTRRestrict (snd (parseKallsyms h sortf st w)) = kst_kernelKPTRRestrict st"
proof -
  have "kst_kernelKPTRRestrict (store_symbols st ss) = kst_kernelKPTRRestrict st" for ss
    unfolding store_symbols_def by (induction ss arbitrary: st) (simp_all add: store_symbol_def)
  then show ?thesis by (simp add: parseKallsyms_def split: sum.splits)
qed

text \<open>A successful load, step by step.\<close>

lemma loadKernelSymbols_SomeE:
  assumes "loadKernelSymbols h sortf st w = (None, st', w')"
  obtains st1 w1 w2 where "symbolAddressesAccessCheck h st w = (None, st1, w1)"
    and "parseKallsyms h sortf st1 w1 = (None, st')"
    and "resetKernelKPTRRestrict h st' w1 = (None, w2)"
    and "pushKernelSymbols h st' w2 = (None, w')"
  using assms
  by (auto simp: loadKernelSymbols_def split: prod.splits option.splits)

section \<open>A concrete host\<close>

text \<open>A host whose world is the value of the parameter, used to instantiate the properties.\<close>

definition demo_host :: "string \<Rightarrow> string SysHost" where
  "demo_host raw =
     \<lparr>h_sysctl_Get = \<lambda>_ w. Inr w, h_sysctl_Set = \<lambda>_ v w. (None, v), h_cap_GetPID = \<lambda>_. Inr 0,
      h_cap_GetFlag = \<lambda>_ _. Inr False, h_ReadFile = \<lambda>_ _. Inr raw,
      h_kallsymsMap_Put = \<lambda>_ _ w. (None, w)\<rparr>"

definition demo_raw :: string where
  "demo_raw = ''10 D sys_call_table'' @ [CHR 0x0A] @ ''20 D ia32_sys_call_table'' @ [CHR 0x0A] @
     ''30 T _stext'' @ [CHR 0x0A] @ ''40 T _etext''"

definition demo_symbols :: "Symbol list" where
  "demo_symbols =
     [\<lparr>sym_Name = ''sys_call_table'', sym_Info = 1, sym_Value = 16, sym_Size = 0, sym_Library = ''system''\<rparr>,
      \<lparr>sym_Name = ''ia32_sys_call_table'', sym_Info = 1, sym_Value = 32, sym_Size = 0, sym_Library = ''system''\<rparr>,
      \<lparr>sym_Name = ''_stext'', sym_Info = 2, sym_Value = 48, sym_Size = 0, sym_Library = ''system''\<rparr>,
      \<lparr>sym_Name = ''_etext'', sym_Info = 2, sym_Value = 64, sym_Size = 0, sym_Library = ''system''\<rparr>]"

definition demo_state :: "string \<Rightarrow> KSymState" where
  "demo_state saved =
     \<lparr>kst_kernelSymbols = Map.empty, kst_kernelAddresses = Map.empty, kst_kernelKPTRRestrict = saved\<rparr>"

lemma demo_laws: "kptr_laws (demo_host raw)"
  by (simp add: kptr_laws_def demo_host_def)

lemma demo_sort: "sort_Slice_ok (sort_key sym_Value)"
  using sorted_sort_key [where f = "sym_Value :: Symbol \<Rightarrow> u64"] by (simp add: sort_Slice_ok_def sorted_wrt_map)

lemma demo_lines:
  "strings_Split (CHR 0x0A) demo_raw =
     [''10 D sys_call_table'', ''20 D ia32_sys_call_table'', ''30 T _stext'', ''40 T _etext'']"
  by (simp add: demo_raw_def)

lemma demo_parse: "parse_lines Map.empty [] (strings_Split (CHR 0x0A) demo_raw) = Inr demo_symbols"
  unfolding demo_lines
  by (simp add: parse_line_def symbol_info_def symbol_library_def ParseUint_def digit_val_def Let_def
      STT_FUNC_def STT_OBJECT_def STT_NOTYPE_def demo_symbols_def)

lemma demo_load:
  "\<exists>st' w'. loadKernelSymbols (demo_host demo_raw) (sort_key sym_Value) (demo_state saved) v = (None, st', w')"
  if "v \<in> {''0'', ''2''}"
proof -
  have "sort_key sym_Value demo_symbols = demo_symbols"
    by (simp add: demo_symbols_def)
  with that demo_parse show ?thesis
    by (auto simp: loadKernelSymbols_def symbolAddressesAccessCheck_def setKernelKPTRRestrict_def
        saveKernelKPTRRestrict_def parseKallsyms_def resetKernelKPTRRestrict_def pushKernelSymbols_def
        krieSymbols_def demo_host_def demo_state_def demo_symbols_def store_symbols_def
        store_symbol_def symbol_key_def)
qed

section \<open>Properties\<close>



text \<open>The test whether a symbol is already known never succeeds: the table is keyed by
  library and name joined with a slash, the test looks up the bare name.  As long as the
  symbol file has no slash, every load parses all of it again, whatever earlier loads
  have stored.\<close>

lemma kallsyms_cache_never_hits:
  assumes "slash_keys st" and "CHR ''/'' \<notin> set raw"
  shows "parse_lines (kst_kernelSymbols st) [] (strings_Split (CHR 0x0A) raw) =
      parse_lines Map.empty [] (strings_Split (CHR 0x0A) raw) \<and>
    slash_keys (snd (parseKallsyms h sortf st w))"
proof
  have "kst_kernelSymbols st name = None" if "CHR ''/'' \<notin> set name" for name
    using assms(1) that by (auto simp: slash_keys_def)
  moreover have "\<forall>l\<in>set (strings_Split (CHR 0x0A) raw). CHR ''/'' \<notin> set l"
    using assms(2) Split_chars by blast
  ultimately show "parse_lines (kst_kernelSymbols st) [] (strings_Split (CHR 0x0A) raw) =
      parse_lines Map.empty [] (strings_Split (CHR 0x0A) raw)"
    by (rule parse_lines_no_slash)
  show "slash_keys (snd (parseKallsyms h sortf st w))" using assms(1) by (rule slash_keys_parse)
qed

lemma kallsyms_cache_never_hits_witness:
  "slash_keys (demo_state []) \<and> CHR ''/'' \<notin> set demo_raw \<and>
   slash_keys (snd (parseKallsyms (demo_host demo_raw) (sort_key sym_Value) (demo_state []) ''0''))"
proof -
  have s: "slash_keys (demo_state [])" by (simp add: slash_keys_def demo_state_def)
  have r: "CHR ''/'' \<notin> set demo_raw" by (simp add: demo_raw_def)
  show ?thesis
    using s r kallsyms_cache_never_hits [OF s r, where h = "demo_host demo_raw" and w = "''0''"] by simp
qed

text \<open>C20: A first load that succeeds leaves \<open>kernel.kptr_restrict\<close> as it found it, even when it
  had to be lifted to read the addresses.\<close>

theorem kptr_restored_on_success:
  assumes "kptr_laws h" and "kst_kernelKPTRRestrict st = []"
    and "loadKernelSymbols h sortf st w = (None, st', w')"
  shows "h_sysctl_Get h kptr_restrict w' = h_sysctl_Get h kptr_restrict w"
proof -
  obtain st1 w1 w2 where check: "symbolAddressesAccessCheck h st w = (None, st1, w1)"
    and parse: "parseKallsyms h sortf st1 w1 = (None, st')"
    and reset: "resetKernelKPTRRestrict h st' w1 = (None, w2)"
    and push: "pushKernelSymbols h st' w2 = (None, w')"
    using loadKernelSymbols_SomeE [OF assms(3)] .
  have saved: "kst_kernelKPTRRestrict st' = kst_kernelKPTRRestrict st1"
    using parseKallsyms_kptr [of h sortf st1 w1] parse by simp
  have "h_sysctl_Get h kptr_restrict w' = h_sysctl_Get h kptr_restrict w2"
    using push_loop_kptr [OF assms(1), of st' 0 krieSymbols w2] push by (simp add: pushKernelSymbols_def)
  also have "\<dots> = h_sysctl_Get h kptr_restrict w"
    using check reset assms(1,2) saved
    by (auto simp: symbolAddressesAccessCheck_def resetKernelKPTRRestrict_def saveKernelKPTRRestrict_def
        setKernelKPTRRestrict_def kptr_laws_def split: sum.splits if_splits prod.splits)
  finally show ?thesis .
qed

theorem kptr_restored_on_success_witness:
  "\<exists>st' w'. loadKernelSymbols (demo_host demo_raw) (sort_key sym_Value) (demo_state []) ''2'' = (None, st', w') \<and>
     h_sysctl_Get (demo_host demo_raw) kptr_restrict w' = Inr ''2''"
proof -
  obtain st' w' where l: "loadKernelSymbols (demo_host demo_raw) (sort_key sym_Value) (demo_state []) ''2'' = (None, st', w')"
    using demo_load [of "''2''" "[]"] by blast
  have "kst_kernelKPTRRestrict (demo_state []) = []" by (simp add: demo_state_def)
  from kptr_restored_on_success [OF demo_laws this l]
  have "h_sysctl_Get (demo_host demo_raw) kptr_restrict w' = Inr ''2''" by (simp add: demo_host_def)
  with l show ?thesis by blast
qed



text \<open>A value saved by an earlier load is written again by every later load: with \<open>2\<close>
  saved and the parameter since set to \<open>0\<close>, a load that succeeds sets it back to \<open>2\<close>.\<close>

lemma kptr_stale_value_rewritten:
  assumes "kptr_laws h" and "kst_kernelKPTRRestrict st = ''2''"
    and "h_sysctl_Get h kptr_restrict w = Inr ''0''"
    and "loadKernelSymbols h sortf st w = (None, st', w')"
  shows "h_sysctl_Get h kptr_restrict w' = Inr ''2''"
proof -
  obtain st1 w1 w2 where check: "symbolAddressesAccessCheck h st w = (None, st1, w1)"
    and parse: "parseKallsyms h sortf st1 w1 = (None, st')"
    and reset: "resetKernelKPTRRestrict h st' w1 = (None, w2)"
    and push: "pushKernelSymbols h st' w2 = (None, w')"
    using loadKernelSymbols_SomeE [OF assms(4)] .
  have st1: "st1 = st" using check assms(3) by (simp add: symbolAddressesAccessCheck_def)
  have "kst_kernelKPTRRestrict st' = ''2''"
    using parseKallsyms_kptr [of h sortf st1 w1] parse st1 assms(2) by simp
  with reset assms(1) have "h_sysctl_Get h kptr_restrict w2 = Inr ''2''"
    by (simp add: resetKernelKPTRRestrict_def setKernelKPTRRestrict_def kptr_laws_def)
  with push_loop_kptr [OF assms(1), of st' 0 krieSymbols w2] push show ?thesis
    by (simp add: pushKernelSymbols_def)
qed

lemma kptr_stale_value_rewritten_witness:
  "\<exists>st' w'. loadKernelSymbols (demo_host demo_raw) (sort_key sym_Value) (demo_state ''2'') ''0'' = (None, st', w') \<and>
     h_sysctl_Get (demo_host demo_raw) kptr_restrict w' = Inr ''2''"
proof -
  obtain st' w' where l: "loadKernelSymbols (demo_host demo_raw) (sort_key sym_Value) (demo_state ''2'') ''0'' = (None, st', w')"
    using demo_load [of "''0''" "''2''"] by blast
  have "kst_kernelKPTRRestrict (demo_state ''2'') = ''2''" by (simp add: demo_state_def)
  moreover have "h_sysctl_Get (demo_host demo_raw) kptr_restrict ''0'' = Inr ''0''" by (simp add: demo_host_def)
  ultimately show ?thesis using kptr_stale_value_rewritten [OF demo_laws _ _ l] l by blast
qed

end
