(* ===== verification/Kernel_Version.thy ===== *)
theory Kernel_Version
  imports Krie_Prelude "HOL-Library.Product_Lexorder"
begin

text \<open>
  \<^verbatim>\<open>pkg/kernel/version.go\<close>: kernel versions as 32-bit codes and their parsers.  A regular
  expression is modelled by the function its match computes: the expressions used here are
  deterministic up to one choice, which is resolved as Go's leftmost-first matching does.
\<close>

unbundle bit_operations_syntax

section \<open>Version codes\<close>

type_synonym Version = u32

definition VersionCode :: "byte \<Rightarrow> byte \<Rightarrow> byte \<Rightarrow> Version" where
  "VersionCode major minor patch = push_bit 16 (ucast major) + push_bit 8 (ucast minor) + ucast patch"

definition Major :: "Version \<Rightarrow> byte" where
  "Major v = ucast (drop_bit 16 v)"

definition Minor :: "Version \<Rightarrow> byte" where
  "Minor v = ucast (drop_bit 8 v AND 0xff)"

definition Patch :: "Version \<Rightarrow> byte" where
  "Patch v = ucast (v AND 0xff)"

definition Version_String :: "Version \<Rightarrow> string" where
  "Version_String v =
     fmt_d (unat (Major v)) @ ''.'' @ fmt_d (unat (Minor v)) @ ''.'' @ fmt_d (unat (Patch v))"

section \<open>Regular expressions\<close>

definition is_digit :: "char \<Rightarrow> bool" where
  "is_digit c \<longleftrightarrow> (48::nat) \<le> of_char c \<and> of_char c \<le> (57::nat)"

definition is_lower :: "char \<Rightarrow> bool" where
  "is_lower c \<longleftrightarrow> (97::nat) \<le> of_char c \<and> of_char c \<le> (122::nat)"

text \<open>\<open>\d+\<close> at the front of a text: the maximal run of digits and the rest.\<close>

definition digits :: "string \<Rightarrow> (string \<times> string) option" where
  "digits s = (let d = takeWhile is_digit s in if d = [] then None else Some (d, dropWhile is_digit s))"

text \<open>A literal character.\<close>

definition lit :: "char \<Rightarrow> string \<Rightarrow> string option" where
  "lit c s = (case s of x # xs \<Rightarrow> if x = c then Some xs else None | [] \<Rightarrow> None)"

text \<open>\<open>versionRegex = ^(\d+)\.(\d+)(?:\.(\d+))?.*$\<close>: the three groups; a group that takes no
  part in the match is the empty string, and \<open>.\<close> does not match a newline.\<close>

definition versionRegex :: "string \<Rightarrow> (string \<times> string \<times> string) option" where
  "versionRegex s =
     (case digits s of None \<Rightarrow> None | Some (major, s1) \<Rightarrow>
      case lit (CHR ''.'') s1 of None \<Rightarrow> None | Some s2 \<Rightarrow>
      case digits s2 of None \<Rightarrow> None | Some (minor, s3) \<Rightarrow>
        let (patch, rest) =
          (case lit (CHR ''.'') s3 of
             None \<Rightarrow> ([], s3)
           | Some s4 \<Rightarrow> (case digits s4 of None \<Rightarrow> ([], s3) | Some (p, s5) \<Rightarrow> (p, s5)))
        in if CHR 0x0A \<in> set rest then None else Some (major, minor, patch))"

section \<open>Parsers\<close>

definition ParseReleaseString :: "string \<Rightarrow> error + Version" where
  "ParseReleaseString releaseString =
     (case versionRegex releaseString of
        None \<Rightarrow> Inl (Errorf ''got invalid release version %q (expected format 4.3.2-1)''
                      [FStr releaseString] None)
      | Some (g1, g2, g3) \<Rightarrow>
          let (major, err) = ParseUint g1 10 8 in
          case err of Some e \<Rightarrow> Inl e | None \<Rightarrow>
          let (minor, err) = ParseUint g2 10 8 in
          case err of Some e \<Rightarrow> Inl e | None \<Rightarrow>
          let patch = fst (ParseUint g3 10 8);
              patch = (if major = 4 \<and> minor = 14 \<and> patch \<ge> 252 then 255 else patch);
              patch = (if major = 4 \<and> minor = 19 \<and> patch \<ge> 222 then 255 else patch)
          in Inr (VersionCode (word_of_nat major) (word_of_nat minor) (word_of_nat patch)))"

text \<open>\<open>fmt.Sscanf(s, "%s %s %s", ...)\<close>: blanks are skipped before a word; a newline or the end
  of the text before it is an error.\<close>

definition is_blank :: "char \<Rightarrow> bool" where
  "is_blank c \<longleftrightarrow> c \<in> {CHR '' '', CHR 0x09, CHR 0x0B, CHR 0x0C, CHR 0x0D}"

definition scan_word :: "string \<Rightarrow> error + (string \<times> string)" where
  "scan_word s =
     (let s = dropWhile is_blank s; w = takeWhile (\<lambda>c. \<not> is_blank c \<and> c \<noteq> CHR 0x0A) s in
      if w = [] then Inl (ErrExternal (if s = [] then ''unexpected EOF'' else ''unexpected newline''))
      else Inr (w, drop (length w) s))"

text \<open>\<open>fmt.Sscanf(s, "%d", &b)\<close> for a byte: blanks, then decimal digits; no digit, or a number above 255,
  is an error and leaves the variable as it was.\<close>

definition scan_byte :: "string \<Rightarrow> (byte \<times> string) option" where
  "scan_byte s =
     (case digits (dropWhile is_blank s) of
        None \<Rightarrow> None
      | Some (tok, s) \<Rightarrow>
          (case ParseUint tok 10 64 of
             (_, Some _) \<Rightarrow> None
           | (i, None) \<Rightarrow> if i < 256 then Some (word_of_nat i, s) else None))"

text \<open>The error of \<open>Sscanf\<close> is dropped: the parts that were not reached are 0.\<close>

definition ParseVersion :: "string \<Rightarrow> Version" where
  "ParseVersion s =
     (case scan_byte s of None \<Rightarrow> VersionCode 0 0 0 | Some (a, s) \<Rightarrow>
      case lit (CHR ''.'') s of None \<Rightarrow> VersionCode a 0 0 | Some s \<Rightarrow>
      case scan_byte s of None \<Rightarrow> VersionCode a 0 0 | Some (b, s) \<Rightarrow>
      case lit (CHR ''.'') s of None \<Rightarrow> VersionCode a b 0 | Some s \<Rightarrow>
      case scan_byte s of None \<Rightarrow> VersionCode a b 0 | Some (c, s) \<Rightarrow> VersionCode a b c)"

definition parseUbuntuVersion :: "string \<Rightarrow> error + Version" where
  "parseUbuntuVersion procVersion =
     bindR (scan_word procVersion) (\<lambda>(u1, s).
     bindR (scan_word s) (\<lambda>(u2, s).
     bindR (scan_word s) (\<lambda>(releaseString, s).
     ParseReleaseString releaseString)))"

text \<open>The group \<open>(\d+\.\d+.\d+-\d+)\<close> of \<open>debianVersionRegex\<close> at the front of a text.  The
  unescaped dot matches any character but a newline; when it cannot match the character
  after the second run of digits, the run gives up its last two digits to it and to the
  third run.\<close>

definition debian_tail :: "string \<Rightarrow> string option" where
  "debian_tail s =
     (case digits s of None \<Rightarrow> None | Some (d3, s1) \<Rightarrow>
      case lit (CHR ''-'') s1 of None \<Rightarrow> None | Some s2 \<Rightarrow>
      case digits s2 of None \<Rightarrow> None | Some (d4, s3) \<Rightarrow> Some (d3 @ ''-'' @ d4))"

definition debian_group :: "string \<Rightarrow> string option" where
  "debian_group s =
     (case digits s of None \<Rightarrow> None | Some (d1, s1) \<Rightarrow>
      case lit (CHR ''.'') s1 of None \<Rightarrow> None | Some s2 \<Rightarrow>
      case digits s2 of None \<Rightarrow> None | Some (d2, s3) \<Rightarrow>
      case (case s3 of [] \<Rightarrow> None
            | x # s4 \<Rightarrow> if x = CHR 0x0A then None else map_option (\<lambda>t. x # t) (debian_tail s4)) of
        Some t \<Rightarrow> Some (d1 @ ''.'' @ d2 @ t)
      | None \<Rightarrow>
          if length d2 < 3 then None
          else map_option (\<lambda>t. d1 @ ''.'' @ take (length d2 - 1) d2 @ t)
                 (debian_tail (drop (length d2 - 1) d2 @ s3)))"

definition debian_here :: "string \<Rightarrow> string option" where
  "debian_here s =
     (if strings_HasPrefix s '' SMP Debian ''
      then debian_group (strings_TrimPrefix s '' SMP Debian '') else None)"

text \<open>The leading \<open>.*\<close> is greedy: the last place in a line where the rest matches; lines are
  tried in order.\<close>

fun debian_line :: "string \<Rightarrow> string option" where
  "debian_line [] = None"
| "debian_line (c # cs) = (case debian_line cs of Some r \<Rightarrow> Some r | None \<Rightarrow> debian_here (c # cs))"

definition debianVersionRegex :: "string \<Rightarrow> string option" where
  "debianVersionRegex s =
     foldr (\<lambda>l r. case debian_line l of Some m \<Rightarrow> Some m | None \<Rightarrow> r)
       (strings_Split (CHR 0x0A) s) None"

definition parseDebianVersion :: "string \<Rightarrow> error + Version" where
  "parseDebianVersion str =
     (case debianVersionRegex str of
        None \<Rightarrow> Inl (Errorf ''failed to parse kernel version from /proc/version: %s'' [FStr str] None)
      | Some m \<Rightarrow> ParseReleaseString m)"

record UbuntuKernelVersion =
  uk_Major :: int
  uk_Minor :: int
  uk_Patch :: int
  uk_Abi :: int
  uk_Flavor :: string

text \<open>\<open>^(\d+)\.(\d+)\.(0)-(\d+)-([[:lower:]-]+)$\<close>\<close>

definition ubuntuKernelVersionRegex :: "string \<Rightarrow> (string \<times> string \<times> string \<times> string \<times> string) option" where
  "ubuntuKernelVersionRegex s =
     (case digits s of None \<Rightarrow> None | Some (g1, s) \<Rightarrow>
      case lit (CHR ''.'') s of None \<Rightarrow> None | Some s \<Rightarrow>
      case digits s of None \<Rightarrow> None | Some (g2, s) \<Rightarrow>
      case lit (CHR ''.'') s of None \<Rightarrow> None | Some s \<Rightarrow>
      case lit (CHR ''0'') s of None \<Rightarrow> None | Some s \<Rightarrow>
      case lit (CHR ''-'') s of None \<Rightarrow> None | Some s \<Rightarrow>
      case digits s of None \<Rightarrow> None | Some (g4, s) \<Rightarrow>
      case lit (CHR ''-'') s of None \<Rightarrow> None | Some s \<Rightarrow>
        if s \<noteq> [] \<and> list_all (\<lambda>c. is_lower c \<or> c = CHR ''-'') s
        then Some (g1, g2, ''0'', g4, s) else None)"

text \<open>\<open>strconv.ParseInt(s, 10, 0)\<close> on a run of digits.\<close>

definition ParseInt_digits :: "string \<Rightarrow> error + int" where
  "ParseInt_digits s =
     (case ParseUint s 10 64 of
        (_, Some e) \<Rightarrow> Inl e
      | (n, None) \<Rightarrow> if n \<ge> 2 ^ 63 then Inl ErrRange else Inr (int n))"

definition NewUbuntuKernelVersion :: "string \<Rightarrow> error + UbuntuKernelVersion" where
  "NewUbuntuKernelVersion unameRelease =
     (case ubuntuKernelVersionRegex unameRelease of
        None \<Rightarrow> Inl (Errorf ''failed to parse ubuntu kernel version'' [] None)
      | Some (g1, g2, g3, g4, flavor) \<Rightarrow>
          bindR (ParseInt_digits g1) (\<lambda>major.
          bindR (ParseInt_digits g2) (\<lambda>minor.
          bindR (ParseInt_digits g3) (\<lambda>patch.
          bindR (ParseInt_digits g4) (\<lambda>abi.
          Inr \<lparr>uk_Major = major, uk_Minor = minor, uk_Patch = patch, uk_Abi = abi,
               uk_Flavor = flavor\<rparr>)))))"

text \<open>\<open>HostVersion\<close>: the package variable, the contents of \<^verbatim>\<open>/proc/version_signature\<close> and the
  fields of \<open>uname\<close> are arguments.\<close>

record Utsname =
  un_Release :: string
  un_Version :: string

definition HostVersion :: "Version \<Rightarrow> error + string \<Rightarrow> error + Utsname \<Rightarrow> error + Version" where
  "HostVersion hostVersion signature uname =
     (if hostVersion \<noteq> 0 then Inr hostVersion
      else case signature of
        Inr procVersion \<Rightarrow>
          (case parseUbuntuVersion procVersion of
             Inl err \<Rightarrow> Inl (Errorf ''error parsing ubuntu kernel version: %s'' [] None)
           | Inr v \<Rightarrow> Inr v)
      | Inl _ \<Rightarrow>
          (case uname of
             Inl err \<Rightarrow> Inl (Errorf ''error calling uname: %w'' [] (Some err))
           | Inr un \<Rightarrow>
               (case parseDebianVersion (un_Version un) of
                  Inr v \<Rightarrow> Inr v
                | Inl _ \<Rightarrow> ParseReleaseString (un_Release un))))"

section \<open>Codes\<close>

lemma VersionCode_uint:
  "uint (VersionCode a b c) = uint a * 65536 + uint b * 256 + uint c"
proof -
  have "uint a < 256" "uint b < 256" "uint c < 256"
    using unsigned_less [of a] unsigned_less [of b] unsigned_less [of c] by simp_all
  then show ?thesis
    by (simp add: VersionCode_def push_bit_eq_mult uint_word_ariths uint_up_ucast is_up)
qed

lemma VersionCode_unat:
  "unat (VersionCode a b c) = unat a * 65536 + unat b * 256 + unat c"
proof -
  have "int (unat (VersionCode a b c)) = int (unat a * 65536 + unat b * 256 + unat c)"
    using VersionCode_uint [of a b c] by simp
  then show ?thesis by (simp only: of_nat_eq_iff)
qed

lemma byte_bound: "unat (b::byte) < 256"
  using unsigned_less [of b] by simp

lemma uint_low_byte: "uint (ucast (w :: u32) :: byte) = uint w mod 256"
  by (simp add: unsigned_ucast_eq take_bit_eq_mod)

lemma low_byte_mask: "(ucast (w AND 0xff :: u32) :: byte) = ucast w"
proof -
  have "w AND 0xff = take_bit 8 w" by (simp add: take_bit_eq_mask mask_eq_exp_minus_1)
  moreover have "(ucast (take_bit 8 w) :: byte) = ucast w"
    by (rule bit_word_eqI) (simp add: bit_ucast_iff bit_take_bit_iff)
  ultimately show ?thesis by simp
qed

lemma uint_shifted:
  fixes w :: u32
  shows "uint (drop_bit 8 w) = uint w div 256" "uint (drop_bit 16 w) = uint w div 65536"
  by (simp_all add: drop_bit_eq_div uint_div)

lemma base256:
  fixes a b c :: int
  assumes "0 \<le> a" "a < 256" "0 \<le> b" "b < 256" "0 \<le> c" "c < 256"
  shows "(a * 65536 + b * 256 + c) div 65536 = a" "(a * 65536 + b * 256 + c) div 256 = a * 256 + b"
    "(a * 65536 + b * 256 + c) mod 256 = c"
  using assms
  by (auto intro!: int_div_pos_eq [of _ _ _ "b * 256 + c"] int_div_pos_eq [of _ _ _ c]
      int_mod_pos_eq [of _ _ "a * 256 + b"])

section \<open>Printed numbers\<close>

lemma of_char_digit: "d < 10 \<Longrightarrow> of_char (digit_char d) = (48 + d :: nat)"
  by (simp add: digit_char_def)

lemma digit_char_facts:
  "d < 10 \<Longrightarrow> is_digit (digit_char d)" "d < 10 \<Longrightarrow> digit_val (digit_char d) = Some d"
  by (simp_all add: is_digit_def digit_val_def of_char_digit)

lemma fmt_d_digits: "\<forall>c\<in>set (fmt_d n). is_digit c"
  using nat_base_digits [of 10 n] by (auto simp: digit_char_facts)

lemma ParseUint_fmt_d_8:
  "ParseUint (fmt_d n) 10 8 = (if n \<le> 255 then (n, None) else (255, Some ErrRange))"
  by (simp add: ParseUint_nat_base less_Suc_eq_le [symmetric])

lemma digits_fmt_d:
  assumes "rest = [] \<or> \<not> is_digit (hd rest)"
  shows "digits (fmt_d n @ rest) = Some (fmt_d n, rest)"
proof -
  have t: "takeWhile is_digit rest = []" "dropWhile is_digit rest = rest"
    using assms by (cases rest; simp)+
  have "takeWhile is_digit (fmt_d n @ rest) = fmt_d n" "dropWhile is_digit (fmt_d n @ rest) = rest"
    using fmt_d_digits [of n] t by (simp_all add: takeWhile_append2 dropWhile_append2)
  then show ?thesis by (simp add: digits_def)
qed

lemma not_digit_dot: "\<not> is_digit (CHR ''.'')"
  by (simp add: is_digit_def)

lemma versionRegex_abc:
  assumes "rest = [] \<or> \<not> is_digit (hd rest)" and "CHR 0x0A \<notin> set rest"
  shows "versionRegex (fmt_d a @ ''.'' @ fmt_d b @ ''.'' @ fmt_d c @ rest) =
    Some (fmt_d a, fmt_d b, fmt_d c)"
  using assms
  by (simp add: versionRegex_def digits_fmt_d lit_def not_digit_dot)

text \<open>The three parts of a version code are read back.\<close>

lemma version_code_parts:
  "Major (VersionCode a b c) = a \<and> Minor (VersionCode a b c) = b \<and> Patch (VersionCode a b c) = c"
proof -
  have v: "uint (VersionCode a b c) = uint a * 65536 + uint b * 256 + uint c" by (rule VersionCode_uint)
  have r: "0 \<le> uint a" "uint a < 256" "0 \<le> uint b" "uint b < 256" "0 \<le> uint c" "uint c < 256"
    using unsigned_less [of a] unsigned_less [of b] unsigned_less [of c] by simp_all
  have "uint (Major (VersionCode a b c)) = uint a" "uint (Minor (VersionCode a b c)) = uint b"
    "uint (Patch (VersionCode a b c)) = uint c"
    using r by (simp_all add: Major_def Minor_def Patch_def low_byte_mask uint_low_byte uint_shifted v base256)
  then show ?thesis by (simp only: word_uint_eq_iff)
qed

lemma scan_byte_fmt_d:
  assumes "rest = [] \<or> \<not> is_digit (hd rest)"
  shows "scan_byte (fmt_d (unat b) @ rest) = Some (b, rest)"
proof -
  have "\<forall>c\<in>set (fmt_d (unat b)). \<not> is_blank c"
    using fmt_d_digits [of "unat b"] by (auto simp: is_blank_def is_digit_def)
  moreover obtain x xs where x: "fmt_d (unat b) = x # xs" by (metis nat_base_not_Nil neq_Nil_conv)
  ultimately have "dropWhile is_blank (fmt_d (unat b) @ rest) = fmt_d (unat b) @ rest" by simp
  moreover have "ParseUint (fmt_d (unat b)) 10 64 = (unat b, None)"
    using ParseUint_nat_base [of 10 64 "unat b"] byte_bound [of b] by simp
  ultimately show ?thesis using assms byte_bound [of b] by (simp add: scan_byte_def digits_fmt_d)
qed

section \<open>Properties\<close>

text \<open>C35: the printed form of a version is parsed to the code of its three parts, and so every version code made
  of three bytes is read back from its text.\<close>

theorem version_text_roundtrip:
  "ParseVersion (Version_String v) = VersionCode (Major v) (Minor v) (Patch v) \<and>
   ParseVersion (Version_String (VersionCode a b c)) = VersionCode a b c"
proof -
  have "ParseVersion (Version_String v) = VersionCode (Major v) (Minor v) (Patch v)" for v
    using scan_byte_fmt_d [of "[]" "Patch v"]
    by (simp add: ParseVersion_def Version_String_def scan_byte_fmt_d not_digit_dot lit_def del: nat_base.simps)
  then show ?thesis by (simp add: version_code_parts)
qed

text \<open>C19: Version codes are ordered like the triples of their parts, so comparing codes
  compares versions.\<close>

theorem version_code_order:
  "VersionCode a b c \<le> VersionCode a' b' c' \<longleftrightarrow> (a, b, c) \<le> (a', b', c')"
proof -
  have "VersionCode a b c \<le> VersionCode a' b' c' \<longleftrightarrow>
      unat a * 65536 + unat b * 256 + unat c \<le> unat a' * 65536 + unat b' * 256 + unat c'"
    by (simp add: word_le_nat_alt VersionCode_unat)
  also have "\<dots> \<longleftrightarrow> unat a < unat a' \<or> unat a = unat a' \<and>
      (unat b < unat b' \<or> unat b = unat b' \<and> unat c \<le> unat c')"
    using byte_bound [of a] byte_bound [of b] byte_bound [of c] byte_bound [of a'] byte_bound [of b']
      byte_bound [of c'] by arith
  also have "\<dots> \<longleftrightarrow> (a, b, c) \<le> (a', b', c')"
    by (auto simp: less_eq_prod_def less_prod_def word_less_nat_alt word_le_nat_alt)
  finally show ?thesis .
qed



end
