(* ===== verification/Kernel_Host.thy ===== *)
theory Kernel_Host
  imports Kernel_Version
begin

text \<open>
  \<^verbatim>\<open>pkg/kernel/host.go\<close>: the description of the host.  What the code reads from outside
  (environment variable, \<open>uname\<close>, the os-release parser, the kernel version) are the fields
  of \<open>HostEnv\<close>; \<open>filepath.Join\<close> of a root and an absolute path is a parameter of it too.  The
  results of the two feature probes are arguments, cached in the host as in the code.
\<close>

section \<open>Version constants\<close>

definition kernel_versions :: "(string \<times> Version) list" where
  "kernel_versions =
    [(''Kernel4_9'', VersionCode 4 9 0), (''Kernel4_10'', VersionCode 4 10 0),
     (''Kernel4_12'', VersionCode 4 12 0), (''Kernel4_13'', VersionCode 4 13 0),
     (''Kernel4_14'', VersionCode 4 14 0), (''Kernel4_15'', VersionCode 4 15 0),
     (''Kernel4_16'', VersionCode 4 16 0), (''Kernel4_18'', VersionCode 4 18 0),
     (''Kernel4_19'', VersionCode 4 19 0), (''Kernel4_20'', VersionCode 4 20 0),
     (''Kernel5_0'', VersionCode 5 0 0), (''Kernel5_1'', VersionCode 5 1 0),
     (''Kernel5_2'', VersionCode 5 2 0), (''Kernel5_3'', VersionCode 5 3 0),
     (''Kernel5_4'', VersionCode 5 4 0), (''Kernel5_5'', VersionCode 5 5 0),
     (''Kernel5_6'', VersionCode 5 6 0), (''Kernel5_7'', VersionCode 5 7 0),
     (''Kernel5_8'', VersionCode 5 8 0), (''Kernel5_9'', VersionCode 5 9 0),
     (''Kernel5_10'', VersionCode 5 10 0), (''Kernel5_11'', VersionCode 5 11 0),
     (''Kernel5_12'', VersionCode 5 12 0), (''Kernel5_13'', VersionCode 5 13 0),
     (''Kernel5_14'', VersionCode 5 14 0), (''Kernel5_15'', VersionCode 5 15 0),
     (''Kernel5_16'', VersionCode 5 16 0)]"

definition kernel_version :: "string \<Rightarrow> Version" where
  "kernel_version n = (case map_of kernel_versions n of Some v \<Rightarrow> v | None \<Rightarrow> 0)"

section \<open>The host\<close>

record Host =
  ho_OsRelease :: "string \<rightharpoonup> string"
  ho_OsReleasePath :: string
  ho_Code :: Version
  ho_UnameRelease :: string
  ho_haveMmapableMaps :: "bool option"
  ho_haveRingBuffers :: "bool option"

record HostEnv =
  he_HOST_ROOT :: string
  he_Join :: "string \<Rightarrow> string \<Rightarrow> string"
  he_UsrLibOsRelease :: string
  he_EtcOsRelease :: string
  he_HostVersion :: "error + Version"
  he_Uname :: "error + Utsname"
  he_ReadFile :: "string \<Rightarrow> error + (string \<rightharpoonup> string)"

definition osReleasePaths :: "HostEnv \<Rightarrow> string list" where
  "osReleasePaths env =
     (if he_HOST_ROOT env \<noteq> []
      then [he_Join env (he_HOST_ROOT env) (he_UsrLibOsRelease env),
            he_Join env (he_HOST_ROOT env) (he_EtcOsRelease env)] else []) @
     [he_UsrLibOsRelease env, he_EtcOsRelease env]"

fun find_release :: "HostEnv \<Rightarrow> Version \<Rightarrow> string \<Rightarrow> string list \<Rightarrow> error + Host" where
  "find_release env kv unameRelease [] =
     Inl (Errorf ''failed to detect operating system version'' [] None)"
| "find_release env kv unameRelease (p # ps) =
     (case he_ReadFile env p of
        Inr release \<Rightarrow>
          Inr \<lparr>ho_OsRelease = release, ho_OsReleasePath = p, ho_Code = kv,
               ho_UnameRelease = unameRelease, ho_haveMmapableMaps = None, ho_haveRingBuffers = None\<rparr>
      | Inl _ \<Rightarrow> find_release env kv unameRelease ps)"

definition newHost :: "HostEnv \<Rightarrow> error + Host" where
  "newHost env =
     (case he_HostVersion env of
        Inl err \<Rightarrow> Inl (Errorf ''failed to detect kernel version: %w'' [] (Some err))
      | Inr kv \<Rightarrow>
          (case he_Uname env of
             Inl err \<Rightarrow> Inl (Errorf ''error calling uname: %w'' [] (Some err))
           | Inr un \<Rightarrow> find_release env kv (un_Release un) (osReleasePaths env)))"

text \<open>\<open>NewHost\<close>: the cache is assigned in any case, with nil when \<open>newHost\<close> fails.\<close>

definition NewHost :: "HostEnv \<Rightarrow> Host option \<Rightarrow> (error + Host) \<times> Host option" where
  "NewHost env cache =
     (case cache of
        Some h \<Rightarrow> (Inr h, cache)
      | None \<Rightarrow> (case newHost env of Inl err \<Rightarrow> (Inl err, None) | Inr h \<Rightarrow> (Inr h, Some h)))"

definition release_field :: "Host \<Rightarrow> string \<Rightarrow> string" where
  "release_field k key = (case ho_OsRelease k key of Some v \<Rightarrow> v | None \<Rightarrow> [])"

definition IsDebianKernel :: "Host \<Rightarrow> bool" where
  "IsDebianKernel k \<longleftrightarrow> release_field k ''ID'' = ''debian''"

definition IsUbuntuKernel :: "Host \<Rightarrow> bool" where
  "IsUbuntuKernel k \<longleftrightarrow> release_field k ''ID'' = ''ubuntu''"

definition Host_UbuntuKernelVersion :: "Host \<Rightarrow> UbuntuKernelVersion option" where
  "Host_UbuntuKernelVersion k =
     (if release_field k ''ID'' \<noteq> ''ubuntu'' then None
      else case NewUbuntuKernelVersion (ho_UnameRelease k) of Inl _ \<Rightarrow> None | Inr ukv \<Rightarrow> Some ukv)"

definition IsRH7Kernel :: "Host \<Rightarrow> bool" where
  "IsRH7Kernel k \<longleftrightarrow>
     (release_field k ''ID'' = ''centos'' \<or> release_field k ''ID'' = ''rhel'') \<and>
     release_field k ''VERSION_ID'' = ''7''"

definition IsRH8Kernel :: "Host \<Rightarrow> bool" where
  "IsRH8Kernel k \<longleftrightarrow> release_field k ''PLATFORM_ID'' = ''platform:el8''"

definition IsSLESKernel :: "Host \<Rightarrow> bool" where
  "IsSLESKernel k \<longleftrightarrow> release_field k ''ID'' = ''sles''"

definition IsSuseKernel :: "Host \<Rightarrow> bool" where
  "IsSuseKernel k \<longleftrightarrow> IsSLESKernel k \<or> release_field k ''ID'' = ''opensuse-leap''"

definition IsSuse12Kernel :: "Host \<Rightarrow> bool" where
  "IsSuse12Kernel k \<longleftrightarrow> IsSuseKernel k \<and> strings_HasPrefix (release_field k ''VERSION_ID'') ''12''"

definition IsSuse15Kernel :: "Host \<Rightarrow> bool" where
  "IsSuse15Kernel k \<longleftrightarrow> IsSuseKernel k \<and> strings_HasPrefix (release_field k ''VERSION_ID'') ''15''"

definition IsOracleUEKKernel :: "Host \<Rightarrow> bool" where
  "IsOracleUEKKernel k \<longleftrightarrow> release_field k ''ID'' = ''ol'' \<and> ho_Code k \<ge> kernel_version ''Kernel5_4''"

definition IsCOSKernel :: "Host \<Rightarrow> bool" where
  "IsCOSKernel k \<longleftrightarrow> release_field k ''ID'' = ''cos''"

definition IsAmazonLinuxKernel :: "Host \<Rightarrow> bool" where
  "IsAmazonLinuxKernel k \<longleftrightarrow> release_field k ''ID'' = ''amzn''"

definition IsInRangeCloseOpen :: "Host \<Rightarrow> Version \<Rightarrow> Version \<Rightarrow> bool" where
  "IsInRangeCloseOpen k begin_v end_v \<longleftrightarrow> ho_Code k \<noteq> 0 \<and> begin_v \<le> ho_Code k \<and> ho_Code k < end_v"

text \<open>The feature probes: \<open>err\<close> is the error of the system call, \<open>None\<close> when it succeeds.\<close>

definition HaveMmapableMaps :: "error option \<Rightarrow> Host \<Rightarrow> bool \<times> Host" where
  "HaveMmapableMaps err k =
     (case ho_haveMmapableMaps k of
        Some b \<Rightarrow> (b, k)
      | None \<Rightarrow> (err = None, k\<lparr>ho_haveMmapableMaps := Some (err = None)\<rparr>))"

definition HaveRingBuffers :: "error option \<Rightarrow> Host \<Rightarrow> bool \<times> Host" where
  "HaveRingBuffers err k =
     (case ho_haveRingBuffers k of
        Some b \<Rightarrow> (b, k)
      | None \<Rightarrow> (err = None, k\<lparr>ho_haveRingBuffers := Some (err = None)\<rparr>))"

section \<open>Properties\<close>

lemma find_release_cases:
  "(\<exists>pre p post r. ps = pre @ p # post \<and> he_ReadFile env p = Inr r \<and>
      (\<forall>q\<in>set pre. \<exists>e. he_ReadFile env q = Inl e) \<and>
      find_release env kv u ps =
        Inr \<lparr>ho_OsRelease = r, ho_OsReleasePath = p, ho_Code = kv, ho_UnameRelease = u,
             ho_haveMmapableMaps = None, ho_haveRingBuffers = None\<rparr>) \<or>
   ((\<forall>q\<in>set ps. \<exists>e. he_ReadFile env q = Inl e) \<and> (\<exists>e. find_release env kv u ps = Inl e))"
proof (induction ps)
  case Nil
  then show ?case by simp
next
  case (Cons p ps)
  show ?case
  proof (cases "he_ReadFile env p")
    case (Inr r)
    then show ?thesis by (intro disjI1 exI [of _ "[] :: string list"]) auto
  next
    case (Inl e)
    show ?thesis
      using Cons.IH
    proof (elim disjE exE conjE)
      fix pre q post r
      assume "ps = pre @ q # post" "he_ReadFile env q = Inr r"
        "\<forall>q\<in>set pre. \<exists>e. he_ReadFile env q = Inl e"
        "find_release env kv u ps = Inr \<lparr>ho_OsRelease = r, ho_OsReleasePath = q, ho_Code = kv,
          ho_UnameRelease = u, ho_haveMmapableMaps = None, ho_haveRingBuffers = None\<rparr>"
      with Inl show ?thesis by (intro disjI1 exI [of _ "p # pre"]) auto
    qed (use Inl in auto)
  qed
qed


definition demo_host_env :: HostEnv where
  "demo_host_env =
     \<lparr>he_HOST_ROOT = [], he_Join = \<lambda>a b. a @ b, he_UsrLibOsRelease = ''/usr/lib/os-release'',
      he_EtcOsRelease = ''/etc/os-release'', he_HostVersion = Inr (VersionCode 5 15 0),
      he_Uname = Inr \<lparr>un_Release = ''5.15.0'', un_Version = []\<rparr>,
      he_ReadFile = \<lambda>p. if p = ''/etc/os-release'' then Inr [''ID'' \<mapsto> ''debian''] else Inl (ErrExternal ''ENOENT'')\<rparr>"


end
