(* ===== verification/Probes.thy ===== *)
theory Probes
  imports Kernel_Host Event_Types "HOL-Library.State_Monad"
begin

text \<open>
  Which kernel-space programs KRIe loads and attaches: \<^verbatim>\<open>syscall_helpers.go\<close>, the \<open>add...\<close>
  functions of the event files and \<open>AllProbes\<close>, \<open>AllProbesSelectors\<close>, \<open>AllTailCallRoutes\<close>
  and \<open>AllExcludedFunctions\<close> of \<^verbatim>\<open>events.go\<close>.  The package variables (architecture, host and
  the two system call prefixes, all filled on first use) are the state \<open>Globals\<close> of a state
  monad; what the program asks from outside are the fields of \<open>Env\<close>.  The data of
  \<^verbatim>\<open>ebpf-manager\<close> that the code builds are records with the fields the code sets.
\<close>

unbundle bit_operations_syntax

section \<open>Data\<close>

record ProbeIdentificationPair =
  pip_UID :: string
  pip_EBPFSection :: string
  pip_EBPFFuncName :: string

record Probe =
  pr_Pair :: ProbeIdentificationPair
  pr_MatchFuncName :: string
  pr_SyscallFuncName :: string
  pr_TracepointCategory :: string
  pr_TracepointName :: string
  pr_SampleFrequency :: nat
  pr_PerfEventType :: nat
  pr_PerfEventConfig :: nat
  pr_CGroupPath :: string

datatype ProbesSelector =
    ProbeSelector ProbeIdentificationPair
  | AllOf "ProbesSelector list"
  | OneOf "ProbesSelector list"
  | BestEffort "ProbesSelector list"

record TailCallRoute =
  tr_ProgArrayName :: string
  tr_Key :: u32
  tr_Pair :: ProbeIdentificationPair

definition KRIEUID :: string where "KRIEUID = ''krie''"

definition pair :: "string \<Rightarrow> string \<Rightarrow> string \<Rightarrow> ProbeIdentificationPair" where
  "pair uid sec fn = \<lparr>pip_UID = uid, pip_EBPFSection = sec, pip_EBPFFuncName = fn\<rparr>"

definition probe :: "string \<Rightarrow> string \<Rightarrow> Probe" where
  "probe sec fn =
     \<lparr>pr_Pair = pair KRIEUID sec fn, pr_MatchFuncName = [], pr_SyscallFuncName = [],
      pr_TracepointCategory = [], pr_TracepointName = [], pr_SampleFrequency = 0,
      pr_PerfEventType = 0, pr_PerfEventConfig = 0, pr_CGroupPath = []\<rparr>"

definition selector :: "string \<Rightarrow> string \<Rightarrow> ProbesSelector" where
  "selector sec fn = ProbeSelector (pair KRIEUID sec fn)"

definition route :: "string \<Rightarrow> u32 \<Rightarrow> string \<Rightarrow> string \<Rightarrow> TailCallRoute" where
  "route arr key sec fn = \<lparr>tr_ProgArrayName = arr, tr_Key = key, tr_Pair = pair [] sec fn\<rparr>"

section \<open>\<^verbatim>\<open>syscall_helpers.go\<close>\<close>

record Globals =
  g_RuntimeArch :: string
  g_currentHost :: "Host option"
  g_syscallPrefix :: string
  g_ia32SyscallPrefix :: string

record Env =
  e_Machine :: string
  e_NewHost :: "error + Host"
  e_GetSyscallFnName :: "string \<Rightarrow> error + string"
  e_unix :: "string \<Rightarrow> nat"

type_synonym 'a krie = "(Globals, 'a) state"

definition resolveRuntimeArch :: "Env \<Rightarrow> unit krie" where
  "resolveRuntimeArch env = do {
     g \<leftarrow> State_Monad.get;
     State_Monad.set (g\<lparr>g_RuntimeArch :=
       (if e_Machine env = ''x86_64'' then ''x64''
        else if e_Machine env = ''aarch64'' then ''arm64'' else ''ia32'')\<rparr>)
   }"

definition resolveCurrentHost :: "Env \<Rightarrow> error option krie" where
  "resolveCurrentHost env = do {
     g \<leftarrow> State_Monad.get;
     (case e_NewHost env of
        Inl _ \<Rightarrow> do {
          State_Monad.set (g\<lparr>g_currentHost := None\<rparr>);
          State_Monad.return (Some (Errorf ''couldn't resolve kernel version'' [] None)) }
      | Inr h \<Rightarrow> do {
          State_Monad.set (g\<lparr>g_currentHost := Some h\<rparr>);
          State_Monad.return None })
   }"

definition getSyscallPrefix :: "Env \<Rightarrow> string krie" where
  "getSyscallPrefix env = do {
     g \<leftarrow> State_Monad.get;
     if g_syscallPrefix g = [] then
       (case e_GetSyscallFnName env ''open'' of
          Inl _ \<Rightarrow> State_Monad.return ''__unknown__''
        | Inr syscall \<Rightarrow>
            let prefix = strings_ToLower (strings_TrimSuffix syscall ''open'');
                ia32 = (if prefix \<noteq> ''sys_'' then ''__ia32_'' else ''compat_'')
            in do {
              State_Monad.set (g\<lparr>g_syscallPrefix := prefix, g_ia32SyscallPrefix := ia32\<rparr>);
              State_Monad.return prefix })
     else State_Monad.return (g_syscallPrefix g)
   }"

definition getSyscallFnName :: "Env \<Rightarrow> string \<Rightarrow> string krie" where
  "getSyscallFnName env name = do { p \<leftarrow> getSyscallPrefix env; State_Monad.return (p @ name) }"

definition getIA32SyscallFnName :: "string \<Rightarrow> string krie" where
  "getIA32SyscallFnName name = do {
     g \<leftarrow> State_Monad.get; State_Monad.return (g_ia32SyscallPrefix g @ ''sys_'' @ name) }"

definition getCompatSyscallFnName :: "string \<Rightarrow> string krie" where
  "getCompatSyscallFnName name = do {
     g \<leftarrow> State_Monad.get; State_Monad.return (g_ia32SyscallPrefix g @ ''compat_sys_'' @ name) }"

text \<open>The feature tests share their shape: resolve the host, then test it if there is one.\<close>

definition on_host :: "Env \<Rightarrow> (Host \<Rightarrow> bool) \<Rightarrow> bool krie" where
  "on_host env P = do {
     _ \<leftarrow> resolveCurrentHost env;
     g \<leftarrow> State_Monad.get;
     State_Monad.return (case g_currentHost g of None \<Rightarrow> False | Some h \<Rightarrow> P h)
   }"

definition as_uint64 :: "bool krie \<Rightarrow> u64 krie" where
  "as_uint64 m = do { b \<leftarrow> m; State_Monad.return (if b then 1 else 0) }"

definition ShouldUseSyscallExitTracepoints :: "Env \<Rightarrow> u64 krie" where
  "ShouldUseSyscallExitTracepoints env =
     as_uint64 (on_host env (\<lambda>h. ho_Code h < kernel_version ''Kernel4_12'' \<or> IsRH7Kernel h))"

definition IsBPFSendSignalHelperAvailable :: "Env \<Rightarrow> u64 krie" where
  "IsBPFSendSignalHelperAvailable env =
     as_uint64 (on_host env (\<lambda>h. ho_Code h \<ge> kernel_version ''Kernel5_3''))"

definition IsBPFOverrideReturnAvailable :: "Env \<Rightarrow> u64 krie" where
  "IsBPFOverrideReturnAvailable env =
     as_uint64 (on_host env (\<lambda>h. ho_Code h \<ge> kernel_version ''Kernel4_16'' \<or> IsRH7Kernel h \<or> IsRH8Kernel h))"

definition IsCgroupSysctlProgramAvailable :: "Env \<Rightarrow> bool krie" where
  "IsCgroupSysctlProgramAvailable env = on_host env (\<lambda>h. ho_Code h \<ge> kernel_version ''Kernel5_2'')"

definition HasOneMillionInstructionsAvailable :: "Env \<Rightarrow> bool krie" where
  "HasOneMillionInstructionsAvailable env = on_host env (\<lambda>h. ho_Code h \<ge> kernel_version ''Kernel5_3'')"

definition IsBPFLSMAvailable :: "Env \<Rightarrow> bool krie" where
  "IsBPFLSMAvailable env = on_host env (\<lambda>h. ho_Code h \<ge> kernel_version ''Kernel5_7'')"

definition GetCheckHelperCallInputType :: "Env \<Rightarrow> u64" where
  "GetCheckHelperCallInputType env =
     (case e_NewHost env of
        Inl _ \<Rightarrow> 1
      | Inr host \<Rightarrow> if ho_Code host \<noteq> 0 \<and> ho_Code host \<ge> kernel_version ''Kernel5_14'' then 2 else 1)"

definition Entry :: nat where "Entry = 1"
definition Exit :: nat where "Exit = 2"
definition ExpandTime32 :: nat where "ExpandTime32 = 4"
definition EntryAndExit :: nat where "EntryAndExit = Entry OR Exit"

definition expandKprobe :: "Env \<Rightarrow> string \<Rightarrow> string \<Rightarrow> nat \<Rightarrow> string list krie" where
  "expandKprobe env hookpoint syscallName flag = do {
     let sections = (if flag AND Entry = Entry then [''kprobe/'' @ hookpoint] else []);
     if flag AND Exit = Exit then
       (if length syscallName = 0 then State_Monad.return (sections @ [''kretprobe/'' @ hookpoint])
        else do {
          fallback \<leftarrow> ShouldUseSyscallExitTracepoints env;
          State_Monad.return
            (if fallback = 0 then sections @ [''kretprobe/'' @ hookpoint] else sections) })
     else State_Monad.return sections
   }"

definition expandSyscallSections :: "Env \<Rightarrow> string \<Rightarrow> nat \<Rightarrow> bool list \<Rightarrow> string list krie" where
  "expandSyscallSections env syscallName flag compats = do {
     hook \<leftarrow> getSyscallFnName env syscallName;
     sections \<leftarrow> expandKprobe env hook syscallName flag;
     g \<leftarrow> State_Monad.get;
     if g_RuntimeArch g = ''x64'' then
       (if length compats > 0 \<and> compats ! 0 \<and> g_syscallPrefix g \<noteq> ''sys_'' then do {
          hook \<leftarrow> getCompatSyscallFnName syscallName;
          more \<leftarrow> expandKprobe env hook [] flag;
          State_Monad.return (sections @ more) }
        else do {
          hook \<leftarrow> getIA32SyscallFnName syscallName;
          more \<leftarrow> expandKprobe env hook [] flag;
          State_Monad.return (sections @ more) })
     else State_Monad.return sections
   }"

definition getFunctionNameFromSection :: "string \<Rightarrow> string \<Rightarrow> string" where
  "getFunctionNameFromSection syscallPrefix section_name =
     (let funcName = section_name;
          funcName =
            (if syscallPrefix = ''sys_'' then
               let funcName = strings_ReplaceAll funcName ''kprobe/'' ''kprobe__64_''
               in strings_ReplaceAll funcName ''kretprobe/'' ''kretprobe__64_''
             else
               let funcName = strings_ReplaceAll funcName ''__ia32_'' ''__32_'';
                   funcName = strings_ReplaceAll funcName ''__x64_'' ''__64_'';
                   funcName = strings_ReplaceAll funcName ''__arm64_'' ''__64_'';
                   funcName = strings_ReplaceAll funcName ''__arm32_'' ''__32_''
               in strings_ReplaceAll funcName ''/_'' ''_'')
      in strings_ReplaceAll funcName ''tracepoint/syscalls/'' ''tracepoint_syscalls_'')"

definition resolve_unset :: "Env \<Rightarrow> unit krie" where
  "resolve_unset env = do {
     g \<leftarrow> State_Monad.get;
     (if length (g_RuntimeArch g) = 0 then resolveRuntimeArch env else State_Monad.return ());
     g \<leftarrow> State_Monad.get;
     (if g_currentHost g = None then do { _ \<leftarrow> resolveCurrentHost env; State_Monad.return () }
      else State_Monad.return ())
   }"

text \<open>\<open>ExpandSyscallProbes\<close>.  \<open>Copy\<close> copies the probe, whose system call name has been cleared.\<close>

definition ExpandSyscallProbes :: "Env \<Rightarrow> Probe \<Rightarrow> nat \<Rightarrow> bool list \<Rightarrow> Probe list krie" where
  "ExpandSyscallProbes env prb flag compats = do {
     let syscallName = pr_SyscallFuncName prb;
     let prb = prb\<lparr>pr_SyscallFuncName := []\<rparr>;
     _ \<leftarrow> resolve_unset env;
     p \<leftarrow> (if flag AND ExpandTime32 = ExpandTime32 then getSyscallPrefix env else State_Monad.return []);
     if flag AND ExpandTime32 = ExpandTime32 \<and> p = ''sys_'' then State_Monad.return []
     else do {
       sections \<leftarrow> expandSyscallSections env
         (if flag AND ExpandTime32 = ExpandTime32 then syscallName @ ''_time32'' else syscallName) flag compats;
       g \<leftarrow> State_Monad.get;
       State_Monad.return (map (\<lambda>s. prb\<lparr>pr_Pair := (pr_Pair prb)\<lparr>pip_EBPFSection := s,
         pip_EBPFFuncName := getFunctionNameFromSection (g_syscallPrefix g) s\<rparr>\<rparr>) sections) }
   }"

definition ExpandSyscallProbesSelector ::
    "Env \<Rightarrow> ProbeIdentificationPair \<Rightarrow> nat \<Rightarrow> bool list \<Rightarrow> ProbesSelector list krie" where
  "ExpandSyscallProbesSelector env pid flag compats = do {
     _ \<leftarrow> resolve_unset env;
     p \<leftarrow> (if flag AND ExpandTime32 = ExpandTime32 then getSyscallPrefix env else State_Monad.return []);
     if flag AND ExpandTime32 = ExpandTime32 \<and> p = ''sys_'' then State_Monad.return []
     else do {
       sections \<leftarrow> expandSyscallSections env
         (if flag AND ExpandTime32 = ExpandTime32 then pip_EBPFSection pid @ ''_time32''
          else pip_EBPFSection pid) flag compats;
       g \<leftarrow> State_Monad.get;
       State_Monad.return (map (\<lambda>s. ProbeSelector \<lparr>pip_UID = pip_UID pid, pip_EBPFSection = s,
         pip_EBPFFuncName = getFunctionNameFromSection (g_syscallPrefix g) s\<rparr>) sections) }
   }"

section \<open>The probes of each event\<close>

definition syscall_probe :: "string \<Rightarrow> Probe" where
  "syscall_probe name = (probe [] [])\<lparr>pr_SyscallFuncName := name\<rparr>"

definition syscall_id :: "string \<Rightarrow> ProbeIdentificationPair" where
  "syscall_id name = pair KRIEUID name []"

definition addKernelModuleProbes :: "Env \<Rightarrow> Probe list \<Rightarrow> EventTypeList \<Rightarrow> Probe list krie" where
  "addKernelModuleProbes env all events = do {
     all \<leftarrow> (if EventTypeList_Contains events InitModuleEventType then do {
       let all = all @ [probe ''kprobe/do_init_module'' ''kprobe_do_init_module'',
                        probe ''kprobe/module_put'' ''kprobe_module_put''];
       a \<leftarrow> ExpandSyscallProbes env (syscall_probe ''init_module'') EntryAndExit [];
       b \<leftarrow> ExpandSyscallProbes env (syscall_probe ''finit_module'') EntryAndExit [];
       State_Monad.return (all @ a @ b) } else State_Monad.return all);
     if EventTypeList_Contains events DeleteModuleEventType then do {
       a \<leftarrow> ExpandSyscallProbes env (syscall_probe ''delete_module'') EntryAndExit [];
       State_Monad.return (all @ a) } else State_Monad.return all
   }"

definition addKernelModuleTailCallRoutes :: "TailCallRoute list \<Rightarrow> EventTypeList \<Rightarrow> TailCallRoute list" where
  "addKernelModuleTailCallRoutes all events =
     (let all = (if EventTypeList_Contains events InitModuleEventType
                 then all @ [route ''sys_exit_progs'' InitModuleEventType
                               ''tracepoint/handle_sys_init_module_exit''
                               ''tracepoint_handle_sys_init_module_exit''] else all)
      in if EventTypeList_Contains events DeleteModuleEventType
         then all @ [route ''sys_exit_progs'' DeleteModuleEventType
                       ''tracepoint/handle_sys_delete_module_exit''
                       ''tracepoint_handle_sys_delete_module_exit''] else all)"

definition addAllKernelModuleProbesSelectors ::
    "Env \<Rightarrow> ProbesSelector list \<Rightarrow> EventTypeList \<Rightarrow> ProbesSelector list krie" where
  "addAllKernelModuleProbesSelectors env all events = do {
     all \<leftarrow> (if EventTypeList_Contains events InitModuleEventType then do {
       a \<leftarrow> ExpandSyscallProbesSelector env (syscall_id ''init_module'') EntryAndExit [];
       b \<leftarrow> ExpandSyscallProbesSelector env (syscall_id ''finit_module'') EntryAndExit [];
       State_Monad.return (all @ [selector ''kprobe/module_put'' ''kprobe_module_put'',
         selector ''kprobe/do_init_module'' ''kprobe_do_init_module'', OneOf a, OneOf b]) }
       else State_Monad.return all);
     if EventTypeList_Contains events DeleteModuleEventType then do {
       a \<leftarrow> ExpandSyscallProbesSelector env (syscall_id ''delete_module'') EntryAndExit [];
       State_Monad.return (all @ [OneOf a]) } else State_Monad.return all
   }"

definition addBPFProbes :: "Env \<Rightarrow> Probe list \<Rightarrow> Probe list krie" where
  "addBPFProbes env all = do {
     let all = all @
       [(probe ''kprobe/check_helper_call'' ''kprobe_check_helper_call'')\<lparr>pr_MatchFuncName := ''check_helper_call''\<rparr>,
        probe ''kprobe/security_bpf_prog'' ''kprobe_security_bpf_prog'',
        probe ''kprobe/security_bpf_map'' ''kprobe_security_bpf_map''];
     a \<leftarrow> ExpandSyscallProbes env (syscall_probe ''bpf'') EntryAndExit [];
     State_Monad.return (all @ a)
   }"

definition addBPFTailCallRoutes :: "TailCallRoute list \<Rightarrow> TailCallRoute list" where
  "addBPFTailCallRoutes all =
     all @ [route ''sys_exit_progs'' BPFEventType ''tracepoint/handle_sys_bpf_exit''
              ''tracepoint_handle_sys_bpf_exit'']"

definition addBPFProbesSelectors :: "Env \<Rightarrow> ProbesSelector list \<Rightarrow> ProbesSelector list krie" where
  "addBPFProbesSelectors env all = do {
     a \<leftarrow> ExpandSyscallProbesSelector env (syscall_id ''bpf'') EntryAndExit [];
     State_Monad.return (all @
       [BestEffort [selector ''kprobe/check_helper_call'' ''kprobe_check_helper_call''],
        selector ''kprobe/security_bpf_prog'' ''kprobe_security_bpf_prog'',
        selector ''kprobe/security_bpf_map'' ''kprobe_security_bpf_map'', OneOf a])
   }"

definition addSetSockOptProbes :: "Env \<Rightarrow> Probe list \<Rightarrow> Probe list krie" where
  "addSetSockOptProbes env all = do {
     let all = all @ [probe ''kprobe/sk_attach_filter'' ''kprobe_sk_attach_filter'',
                      probe ''kprobe/sk_detach_filter'' ''kprobe_sk_detach_filter''];
     a \<leftarrow> ExpandSyscallProbes env (syscall_probe ''setsockopt'') EntryAndExit [];
     State_Monad.return (all @ a)
   }"

definition addSetSockOptRoutes :: "TailCallRoute list \<Rightarrow> TailCallRoute list" where
  "addSetSockOptRoutes all =
     all @ [route ''sys_exit_progs'' BPFFilterEventType ''tracepoint/handle_sys_setsockopt_exit''
              ''tracepoint_handle_sys_setsockopt_exit'']"

definition addSetSockOptSelectors :: "Env \<Rightarrow> ProbesSelector list \<Rightarrow> ProbesSelector list krie" where
  "addSetSockOptSelectors env all = do {
     a \<leftarrow> ExpandSyscallProbesSelector env (syscall_id ''setsockopt'') EntryAndExit [];
     State_Monad.return (all @
       [selector ''kprobe/sk_attach_filter'' ''kprobe_sk_attach_filter'',
        selector ''kprobe/sk_detach_filter'' ''kprobe_sk_detach_filter'', OneOf a])
   }"

definition addPTraceProbes :: "Env \<Rightarrow> Probe list \<Rightarrow> Probe list krie" where
  "addPTraceProbes env all = do {
     a \<leftarrow> ExpandSyscallProbes env (syscall_probe ''ptrace'') EntryAndExit [];
     State_Monad.return (all @ a)
   }"

definition addPTraceRoutes :: "TailCallRoute list \<Rightarrow> TailCallRoute list" where
  "addPTraceRoutes all =
     all @ [route ''sys_exit_progs'' PTraceEventType ''tracepoint/handle_sys_ptrace_exit''
              ''tracepoint_handle_sys_ptrace_exit'']"

definition addPTraceSelectors :: "Env \<Rightarrow> ProbesSelector list \<Rightarrow> ProbesSelector list krie" where
  "addPTraceSelectors env all = do {
     a \<leftarrow> ExpandSyscallProbesSelector env (syscall_id ''ptrace'') EntryAndExit [];
     State_Monad.return (all @ [OneOf a])
   }"

definition addKProbeProbes :: "Probe list \<Rightarrow> Probe list" where
  "addKProbeProbes all = all @
     [probe ''kprobe/register_kprobe'' ''kprobe_register_kprobe'',
      probe ''kretprobe/register_kprobe'' ''kretprobe_register_kprobe'',
      probe ''kprobe/register_kretprobe'' ''kprobe_register_kretprobe'',
      probe ''kprobe/enable_kprobe'' ''kprobe_enable_kprobe'',
      probe ''kretprobe/enable_kprobe'' ''kretprobe_enable_kprobe'',
      probe ''kprobe/disable_kprobe'' ''kprobe_disable_kprobe'',
      probe ''kretprobe/disable_kprobe'' ''kretprobe_disable_kprobe'',
      probe ''kprobe/__unregister_kprobe_top'' ''kprobe___unregister_kprobe_top'',
      probe ''kretprobe/__unregister_kprobe_top'' ''kretprobe___unregister_kprobe_top'',
      probe ''kprobe/write_enabled_file_bool'' ''kprobe_write_enabled_file_bool'',
      probe ''kretprobe/write_enabled_file_bool'' ''kretprobe_write_enabled_file_bool'']"

definition addKProbeRoutes :: "TailCallRoute list \<Rightarrow> TailCallRoute list" where
  "addKProbeRoutes all = all"

definition addKProbeSelectors :: "ProbesSelector list \<Rightarrow> ProbesSelector list" where
  "addKProbeSelectors all = all @
     [selector ''kprobe/register_kprobe'' ''kprobe_register_kprobe'',
      selector ''kretprobe/register_kprobe'' ''kretprobe_register_kprobe'',
      selector ''kprobe/register_kretprobe'' ''kprobe_register_kretprobe'',
      selector ''kprobe/__unregister_kprobe_top'' ''kprobe___unregister_kprobe_top'',
      selector ''kretprobe/__unregister_kprobe_top'' ''kretprobe___unregister_kprobe_top'',
      selector ''kprobe/enable_kprobe'' ''kprobe_enable_kprobe'',
      selector ''kretprobe/enable_kprobe'' ''kretprobe_enable_kprobe'',
      selector ''kprobe/disable_kprobe'' ''kprobe_disable_kprobe'',
      selector ''kretprobe/disable_kprobe'' ''kretprobe_disable_kprobe'',
      selector ''kprobe/write_enabled_file_bool'' ''kprobe_write_enabled_file_bool'',
      selector ''kretprobe/write_enabled_file_bool'' ''kretprobe_write_enabled_file_bool'']"

definition addSysCtlProbes :: "Env \<Rightarrow> Probe list \<Rightarrow> Probe list krie" where
  "addSysCtlProbes env all = do {
     available \<leftarrow> IsCgroupSysctlProgramAvailable env;
     State_Monad.return (if \<not> available then all else all @
       [(probe ''cgroup/sysctl'' ''cgroup_sysctl'')\<lparr>pr_CGroupPath := ''/sys/fs/cgroup/unified''\<rparr>,
        probe ''kprobe/proc_sys_call_handler'' ''kprobe_proc_sys_call_handler''])
   }"

definition addSysCtlRoutes :: "TailCallRoute list \<Rightarrow> TailCallRoute list" where
  "addSysCtlRoutes all = all @ []"

definition addSysCtlSelectors :: "Env \<Rightarrow> ProbesSelector list \<Rightarrow> ProbesSelector list krie" where
  "addSysCtlSelectors env all = do {
     available \<leftarrow> IsCgroupSysctlProgramAvailable env;
     State_Monad.return (if \<not> available then all else all @
       [selector ''cgroup/sysctl'' ''cgroup_sysctl'',
        selector ''kprobe/proc_sys_call_handler'' ''kprobe_proc_sys_call_handler''])
   }"

definition addLSMProbes :: "Probe list \<Rightarrow> Probe list" where
  "addLSMProbes all = all @ map (\<lambda>(sec, fn). probe sec fn)
     [(''lsm/binder_set_context_mgr'', ''lsm_security_binder_set_context_mgr''),
      (''lsm/binder_transaction'', ''lsm_security_binder_transaction''),
      (''lsm/binder_transfer_binder'', ''lsm_security_binder_transfer_binder''),
      (''lsm/binder_transfer_file'', ''lsm_security_binder_transfer_file''),
      (''lsm/ptrace_access_check'', ''lsm_security_ptrace_access_check''),
      (''lsm/ptrace_traceme'', ''lsm_security_ptrace_traceme''),
      (''lsm/capget'', ''lsm_security_capget''), (''lsm/capset'', ''lsm_security_capset''),
      (''lsm/capable'', ''lsm_security_capable''),
      (''lsm/quotactl'', ''lsm_security_quotactl''),
      (''lsm/quota_on'', ''lsm_security_quota_on''), (''lsm/syslog'', ''lsm_security_syslog''),
      (''lsm/bprm_creds_for_exec'', ''lsm_security_bprm_creds_for_exec''),
      (''lsm/bprm_creds_from_file'', ''lsm_security_bprm_creds_from_file''),
      (''lsm/fs_context_dup'', ''lsm_security_fs_context_dup''),
      (''lsm/fs_context_parse_param'', ''lsm_security_fs_context_parse_param''),
      (''lsm/sb_eat_lsm_opts'', ''lsm_security_sb_eat_lsm_opts''),
      (''lsm/sb_mnt_opts_compat'', ''lsm_security_sb_mnt_opts_compat''),
      (''lsm/sb_remount'', ''lsm_security_sb_remount''),
      (''lsm/sb_kern_mount'', ''lsm_security_sb_kern_mount''),
      (''lsm/sb_show_options'', ''lsm_security_sb_show_options''),
      (''lsm/sb_statfs'', ''lsm_security_sb_statfs''),
      (''lsm/sb_mount'', ''lsm_security_sb_mount''),
      (''lsm/sb_umount'', ''lsm_security_sb_umount''),
      (''lsm/sb_pivotroot'', ''lsm_security_sb_pivotroot''),
      (''lsm/sb_set_mnt_opts'', ''lsm_security_sb_set_mnt_opts''),
      (''lsm/sb_clone_mnt_opts'', ''lsm_security_sb_clone_mnt_opts''),
      (''lsm/move_mount'', ''lsm_security_move_mount''),
      (''lsm/dentry_init_security'', ''lsm_security_dentry_init_security''),
      (''lsm/dentry_create_files_as'', ''lsm_security_dentry_create_files_as''),
      (''lsm/path_notify'', ''lsm_security_path_notify''),
      (''lsm/inode_init_security'', ''lsm_security_inode_init_security''),
      (''lsm/inode_init_security_anon'', ''lsm_security_inode_init_security_anon''),
      (''lsm/inode_create'', ''lsm_security_inode_create''),
      (''lsm/inode_link'', ''lsm_security_inode_link''),
      (''lsm/inode_unlink'', ''lsm_security_inode_unlink''),
      (''lsm/inode_symlink'', ''lsm_security_inode_symlink''),
      (''lsm/inode_mkdir'', ''lsm_security_inode_mkdir''),
      (''lsm/inode_rmdir'', ''lsm_security_inode_rmdir''),
      (''lsm/inode_mknod'', ''lsm_security_inode_mknod''),
      (''lsm/inode_rename'', ''lsm_security_inode_rename''),
      (''lsm/inode_readlink'', ''lsm_security_inode_readlink''),
      (''lsm/inode_follow_link'', ''lsm_security_inode_follow_link''),
      (''lsm/inode_permission'', ''lsm_security_inode_permission''),
      (''lsm/inode_setattr'', ''lsm_security_inode_setattr''),
      (''lsm/inode_getattr'', ''lsm_security_inode_getattr''),
      (''lsm/inode_setxattr'', ''lsm_security_inode_setxattr''),
      (''lsm/inode_getxattr'', ''lsm_security_inode_getxattr''),
      (''lsm/inode_listxattr'', ''lsm_security_inode_listxattr''),
      (''lsm/inode_removexattr'', ''lsm_security_inode_removexattr''),
      (''lsm/inode_need_killpriv'', ''lsm_security_inode_need_killpriv''),
      (''lsm/inode_killpriv'', ''lsm_security_inode_killpriv''),
      (''lsm/inode_getsecurity'', ''lsm_security_inode_getsecurity''),
      (''lsm/inode_setsecurity'', ''lsm_security_inode_setsecurity''),
      (''lsm/inode_listsecurity'', ''lsm_security_inode_listsecurity''),
      (''lsm/inode_copy_up'', ''lsm_security_inode_copy_up''),
      (''lsm/inode_copy_up_xattr'', ''lsm_security_inode_copy_up_xattr''),
      (''lsm/kernfs_init_security'', ''lsm_security_kernfs_init_security''),
      (''lsm/file_permission'', ''lsm_security_file_permission''),
      (''lsm/file_ioctl'', ''lsm_security_file_ioctl''),
      (''lsm/mmap_file'', ''lsm_security_mmap_file''),
      (''lsm/mmap_addr'', ''lsm_security_mmap_addr''),
      (''lsm/file_mprotect'', ''lsm_security_file_mprotect''),
      (''lsm/file_lock'', ''lsm_security_file_lock''),
      (''lsm/file_fcntl'', ''lsm_security_file_fcntl''),
      (''lsm/file_send_sigiotask'', ''lsm_security_file_send_sigiotask''),
      (''lsm/file_receive'', ''lsm_security_file_receive''),
      (''lsm/file_open'', ''lsm_security_file_open''),
      (''lsm/task_alloc'', ''lsm_security_task_alloc''),
      (''lsm/cred_alloc_blank'', ''lsm_security_cred_alloc_blank''),
      (''lsm/kernel_act_as'', ''lsm_security_kernel_act_as''),
      (''lsm/kernel_create_files_as'', ''lsm_security_kernel_create_files_as''),
      (''lsm/kernel_module_request'', ''lsm_security_kernel_module_request''),
      (''lsm/kernel_load_data'', ''lsm_security_kernel_load_data''),
      (''lsm/kernel_post_load_data'', ''lsm_security_kernel_post_load_data''),
      (''lsm/kernel_read_file'', ''lsm_security_kernel_read_file''),
      (''lsm/kernel_post_read_file'', ''lsm_security_kernel_post_read_file''),
      (''lsm/task_fix_setuid'', ''lsm_security_task_fix_setuid''),
      (''lsm/task_fix_setgid'', ''lsm_security_task_fix_setgid''),
      (''lsm/task_setpgid'', ''lsm_security_task_setpgid''),
      (''lsm/task_getpgid'', ''lsm_security_task_getpgid''),
      (''lsm/task_getsid'', ''lsm_security_task_getsid''),
      (''lsm/task_setnice'', ''lsm_security_task_setnice''),
      (''lsm/task_setioprio'', ''lsm_security_task_setioprio''),
      (''lsm/task_getioprio'', ''lsm_security_task_getioprio''),
      (''lsm/task_prlimit'', ''lsm_security_task_prlimit''),
      (''lsm/task_setrlimit'', ''lsm_security_task_setrlimit''),
      (''lsm/task_setscheduler'', ''lsm_security_task_setscheduler''),
      (''lsm/task_getscheduler'', ''lsm_security_task_getscheduler''),
      (''lsm/task_movememory'', ''lsm_security_task_movememory''),
      (''lsm/task_kill'', ''lsm_security_task_kill''),
      (''lsm/task_prctl'', ''lsm_security_task_prctl''),
      (''lsm/ipc_permission'', ''lsm_security_ipc_permission''),
      (''lsm/msg_queue_associate'', ''lsm_security_msg_queue_associate''),
      (''lsm/msg_queue_msgctl'', ''lsm_security_msg_queue_msgctl''),
      (''lsm/msg_queue_msgsnd'', ''lsm_security_msg_queue_msgsnd''),
      (''lsm/msg_queue_msgrcv'', ''lsm_security_msg_queue_msgrcv''),
      (''lsm/shm_associate'', ''lsm_security_shm_associate''),
      (''lsm/shm_shmctl'', ''lsm_security_shm_shmctl''),
      (''lsm/shm_shmat'', ''lsm_security_shm_shmat''),
      (''lsm/sem_associate'', ''lsm_security_sem_associate''),
      (''lsm/sem_semctl'', ''lsm_security_sem_semctl''),
      (''lsm/sem_semop'', ''lsm_security_sem_semop''),
      (''lsm/getprocattr'', ''lsm_security_getprocattr''),
      (''lsm/setprocattr'', ''lsm_security_setprocattr''),
      (''lsm/netlink_send'', ''lsm_security_netlink_send''),
      (''lsm/ismaclabel'', ''lsm_security_ismaclabel''),
      (''lsm/secid_to_secctx'', ''lsm_security_secid_to_secctx''),
      (''lsm/secctx_to_secid'', ''lsm_security_secctx_to_secid''),
      (''lsm/inode_notifysecctx'', ''lsm_security_inode_notifysecctx''),
      (''lsm/inode_setsecctx'', ''lsm_security_inode_setsecctx''),
      (''lsm/inode_getsecctx'', ''lsm_security_inode_getsecctx''),
      (''lsm/locked_down'', ''lsm_security_locked_down''), (''lsm/bpf'', ''lsm_security_bpf''),
      (''lsm/bpf_map'', ''lsm_security_bpf_map''),
      (''lsm/bpf_prog'', ''lsm_security_bpf_prog''),
      (''lsm/perf_event_open'', ''lsm_security_perf_event_open''),
      (''lsm/perf_event_alloc'', ''lsm_security_perf_event_alloc''),
      (''lsm/perf_event_free'', ''lsm_security_perf_event_free''),
      (''lsm/perf_event_read'', ''lsm_security_perf_event_read''),
      (''lsm/perf_event_write'', ''lsm_security_perf_event_write''),
      (''lsm/unix_stream_connect'', ''lsm_security_unix_stream_connect''),
      (''lsm/unix_may_send'', ''lsm_security_unix_may_send''),
      (''lsm/socket_create'', ''lsm_security_socket_create''),
      (''lsm/socket_post_create'', ''lsm_security_socket_post_create''),
      (''lsm/socket_socketpair'', ''lsm_security_socket_socketpair''),
      (''lsm/socket_bind'', ''lsm_security_socket_bind''),
      (''lsm/socket_connect'', ''lsm_security_socket_connect''),
      (''lsm/socket_listen'', ''lsm_security_socket_listen''),
      (''lsm/socket_accept'', ''lsm_security_socket_accept''),
      (''lsm/socket_sendmsg'', ''lsm_security_socket_sendmsg''),
      (''lsm/socket_recvmsg'', ''lsm_security_socket_recvmsg''),
      (''lsm/socket_getsockname'', ''lsm_security_socket_getsockname''),
      (''lsm/socket_getpeername'', ''lsm_security_socket_getpeername''),
      (''lsm/socket_getsockopt'', ''lsm_security_socket_getsockopt''),
      (''lsm/socket_setsockopt'', ''lsm_security_socket_setsockopt''),
      (''lsm/socket_shutdown'', ''lsm_security_socket_shutdown''),
      (''lsm/socket_getpeersec_stream'', ''lsm_security_socket_getpeersec_stream''),
      (''lsm/socket_getpeersec_dgram'', ''lsm_security_socket_getpeersec_dgram''),
      (''lsm/inet_conn_request'', ''lsm_security_inet_conn_request''),
      (''lsm/secmark_relabel_packet'', ''lsm_security_secmark_relabel_packet''),
      (''lsm/tun_dev_alloc_security'', ''lsm_security_tun_dev_alloc_security''),
      (''lsm/tun_dev_create'', ''lsm_security_tun_dev_create''),
      (''lsm/tun_dev_attach_queue'', ''lsm_security_tun_dev_attach_queue''),
      (''lsm/tun_dev_attach'', ''lsm_security_tun_dev_attach''),
      (''lsm/tun_dev_open'', ''lsm_security_tun_dev_open''),
      (''lsm/sctp_assoc_request'', ''lsm_security_sctp_assoc_request''),
      (''lsm/sctp_bind_connect'', ''lsm_security_sctp_bind_connect'')]"

definition addLSMSelectors :: "ProbesSelector list \<Rightarrow> ProbesSelector list" where
  "addLSMSelectors all = all @ [BestEffort (map (\<lambda>(sec, fn). selector sec fn)
     [(''lsm/binder_set_context_mgr'', ''lsm_security_binder_set_context_mgr''),
      (''lsm/binder_transaction'', ''lsm_security_binder_transaction''),
      (''lsm/binder_transfer_binder'', ''lsm_security_binder_transfer_binder''),
      (''lsm/binder_transfer_file'', ''lsm_security_binder_transfer_file''),
      (''lsm/ptrace_access_check'', ''lsm_security_ptrace_access_check''),
      (''lsm/ptrace_traceme'', ''lsm_security_ptrace_traceme''),
      (''lsm/capget'', ''lsm_security_capget''), (''lsm/capset'', ''lsm_security_capset''),
      (''lsm/capable'', ''lsm_security_capable''),
      (''lsm/quotactl'', ''lsm_security_quotactl''),
      (''lsm/quota_on'', ''lsm_security_quota_on''), (''lsm/syslog'', ''lsm_security_syslog''),
      (''lsm/bprm_creds_for_exec'', ''lsm_security_bprm_creds_for_exec''),
      (''lsm/bprm_creds_from_file'', ''lsm_security_bprm_creds_from_file''),
      (''lsm/fs_context_dup'', ''lsm_security_fs_context_dup''),
      (''lsm/fs_context_parse_param'', ''lsm_security_fs_context_parse_param''),
      (''lsm/sb_eat_lsm_opts'', ''lsm_security_sb_eat_lsm_opts''),
      (''lsm/sb_mnt_opts_compat'', ''lsm_security_sb_mnt_opts_compat''),
      (''lsm/sb_remount'', ''lsm_security_sb_remount''),
      (''lsm/sb_kern_mount'', ''lsm_security_sb_kern_mount''),
      (''lsm/sb_show_options'', ''lsm_security_sb_show_options''),
      (''lsm/sb_statfs'', ''lsm_security_sb_statfs''),
      (''lsm/sb_mount'', ''lsm_security_sb_mount''),
      (''lsm/sb_umount'', ''lsm_security_sb_umount''),
      (''lsm/sb_pivotroot'', ''lsm_security_sb_pivotroot''),
      (''lsm/sb_set_mnt_opts'', ''lsm_security_sb_set_mnt_opts''),
      (''lsm/sb_clone_mnt_opts'', ''lsm_security_sb_clone_mnt_opts''),
      (''lsm/move_mount'', ''lsm_security_move_mount''),
      (''lsm/dentry_init_security'', ''lsm_security_dentry_init_security''),
      (''lsm/dentry_create_files_as'', ''lsm_security_dentry_create_files_as''),
      (''lsm/path_notify'', ''lsm_security_path_notify''),
      (''lsm/inode_init_security'', ''lsm_security_inode_init_security''),
      (''lsm/inode_init_security_anon'', ''lsm_security_inode_init_security_anon''),
      (''lsm/inode_create'', ''lsm_security_inode_create''),
      (''lsm/inode_link'', ''lsm_security_inode_link''),
      (''lsm/inode_unlink'', ''lsm_security_inode_unlink''),
      (''lsm/inode_symlink'', ''lsm_security_inode_symlink''),
      (''lsm/inode_mkdir'', ''lsm_security_inode_mkdir''),
      (''lsm/inode_rmdir'', ''lsm_security_inode_rmdir''),
      (''lsm/inode_mknod'', ''lsm_security_inode_mknod''),
      (''lsm/inode_rename'', ''lsm_security_inode_rename''),
      (''lsm/inode_readlink'', ''lsm_security_inode_readlink''),
      (''lsm/inode_follow_link'', ''lsm_security_inode_follow_link''),
      (''lsm/inode_permission'', ''lsm_security_inode_permission''),
      (''lsm/inode_setattr'', ''lsm_security_inode_setattr''),
      (''lsm/inode_getattr'', ''lsm_security_inode_getattr''),
      (''lsm/inode_setxattr'', ''lsm_security_inode_setxattr''),
      (''lsm/inode_getxattr'', ''lsm_security_inode_getxattr''),
      (''lsm/inode_listxattr'', ''lsm_security_inode_listxattr''),
      (''lsm/inode_removexattr'', ''lsm_security_inode_removexattr''),
      (''lsm/inode_need_killpriv'', ''lsm_security_inode_need_killpriv''),
      (''lsm/inode_killpriv'', ''lsm_security_inode_killpriv''),
      (''lsm/inode_getsecurity'', ''lsm_security_inode_getsecurity''),
      (''lsm/inode_setsecurity'', ''lsm_security_inode_setsecurity''),
      (''lsm/inode_listsecurity'', ''lsm_security_inode_listsecurity''),
      (''lsm/inode_copy_up'', ''lsm_security_inode_copy_up''),
      (''lsm/inode_copy_up_xattr'', ''lsm_security_inode_copy_up_xattr''),
      (''lsm/kernfs_init_security'', ''lsm_security_kernfs_init_security''),
      (''lsm/file_permission'', ''lsm_security_file_permission''),
      (''lsm/file_ioctl'', ''lsm_security_file_ioctl''),
      (''lsm/mmap_file'', ''lsm_security_mmap_file''),
      (''lsm/mmap_addr'', ''lsm_security_mmap_addr''),
      (''lsm/file_mprotect'', ''lsm_security_file_mprotect''),
      (''lsm/file_lock'', ''lsm_security_file_lock''),
      (''lsm/file_fcntl'', ''lsm_security_file_fcntl''),
      (''lsm/file_send_sigiotask'', ''lsm_security_file_send_sigiotask''),
      (''lsm/file_receive'', ''lsm_security_file_receive''),
      (''lsm/file_open'', ''lsm_security_file_open''),
      (''lsm/task_alloc'', ''lsm_security_task_alloc''),
      (''lsm/cred_alloc_blank'', ''lsm_security_cred_alloc_blank''),
      (''lsm/kernel_act_as'', ''lsm_security_kernel_act_as''),
      (''lsm/kernel_create_files_as'', ''lsm_security_kernel_create_files_as''),
      (''lsm/kernel_module_request'', ''lsm_security_kernel_module_request''),
      (''lsm/kernel_load_data'', ''lsm_security_kernel_load_data''),
      (''lsm/kernel_post_load_data'', ''lsm_security_kernel_post_load_data''),
      (''lsm/kernel_read_file'', ''lsm_security_kernel_read_file''),
      (''lsm/kernel_post_read_file'', ''lsm_security_kernel_post_read_file''),
      (''lsm/task_fix_setuid'', ''lsm_security_task_fix_setuid''),
      (''lsm/task_fix_setgid'', ''lsm_security_task_fix_setgid''),
      (''lsm/task_setpgid'', ''lsm_security_task_setpgid''),
      (''lsm/task_getpgid'', ''lsm_security_task_getpgid''),
      (''lsm/task_getsid'', ''lsm_security_task_getsid''),
      (''lsm/task_setnice'', ''lsm_security_task_setnice''),
      (''lsm/task_setioprio'', ''lsm_security_task_setioprio''),
      (''lsm/task_getioprio'', ''lsm_security_task_getioprio''),
      (''lsm/task_prlimit'', ''lsm_security_task_prlimit''),
      (''lsm/task_setrlimit'', ''lsm_security_task_setrlimit''),
      (''lsm/task_setscheduler'', ''lsm_security_task_setscheduler''),
      (''lsm/task_getscheduler'', ''lsm_security_task_getscheduler''),
      (''lsm/task_movememory'', ''lsm_security_task_movememory''),
      (''lsm/task_kill'', ''lsm_security_task_kill''),
      (''lsm/task_prctl'', ''lsm_security_task_prctl''),
      (''lsm/ipc_permission'', ''lsm_security_ipc_permission''),
      (''lsm/msg_queue_associate'', ''lsm_security_msg_queue_associate''),
      (''lsm/msg_queue_msgctl'', ''lsm_security_msg_queue_msgctl''),
      (''lsm/msg_queue_msgsnd'', ''lsm_security_msg_queue_msgsnd''),
      (''lsm/msg_queue_msgrcv'', ''lsm_security_msg_queue_msgrcv''),
      (''lsm/shm_associate'', ''lsm_security_shm_associate''),
      (''lsm/shm_shmctl'', ''lsm_security_shm_shmctl''),
      (''lsm/shm_shmat'', ''lsm_security_shm_shmat''),
      (''lsm/sem_associate'', ''lsm_security_sem_associate''),
      (''lsm/sem_semctl'', ''lsm_security_sem_semctl''),
      (''lsm/sem_semop'', ''lsm_security_sem_semop''),
      (''lsm/getprocattr'', ''lsm_security_getprocattr''),
      (''lsm/setprocattr'', ''lsm_security_setprocattr''),
      (''lsm/netlink_send'', ''lsm_security_netlink_send''),
      (''lsm/ismaclabel'', ''lsm_security_ismaclabel''),
      (''lsm/secid_to_secctx'', ''lsm_security_secid_to_secctx''),
      (''lsm/secctx_to_secid'', ''lsm_security_secctx_to_secid''),
      (''lsm/inode_notifysecctx'', ''lsm_security_inode_notifysecctx''),
      (''lsm/inode_setsecctx'', ''lsm_security_inode_setsecctx''),
      (''lsm/inode_getsecctx'', ''lsm_security_inode_getsecctx''),
      (''lsm/locked_down'', ''lsm_security_locked_down''), (''lsm/bpf'', ''lsm_security_bpf''),
      (''lsm/bpf_map'', ''lsm_security_bpf_map''),
      (''lsm/bpf_prog'', ''lsm_security_bpf_prog''),
      (''lsm/perf_event_open'', ''lsm_security_perf_event_open''),
      (''lsm/perf_event_alloc'', ''lsm_security_perf_event_alloc''),
      (''lsm/perf_event_free'', ''lsm_security_perf_event_free''),
      (''lsm/perf_event_read'', ''lsm_security_perf_event_read''),
      (''lsm/perf_event_write'', ''lsm_security_perf_event_write''),
      (''lsm/unix_stream_connect'', ''lsm_security_unix_stream_connect''),
      (''lsm/unix_may_send'', ''lsm_security_unix_may_send''),
      (''lsm/socket_create'', ''lsm_security_socket_create''),
      (''lsm/socket_post_create'', ''lsm_security_socket_post_create''),
      (''lsm/socket_socketpair'', ''lsm_security_socket_socketpair''),
      (''lsm/socket_bind'', ''lsm_security_socket_bind''),
      (''lsm/socket_connect'', ''lsm_security_socket_connect''),
      (''lsm/socket_listen'', ''lsm_security_socket_listen''),
      (''lsm/socket_accept'', ''lsm_security_socket_accept''),
      (''lsm/socket_sendmsg'', ''lsm_security_socket_sendmsg''),
      (''lsm/socket_recvmsg'', ''lsm_security_socket_recvmsg''),
      (''lsm/socket_getsockname'', ''lsm_security_socket_getsockname''),
      (''lsm/socket_getpeername'', ''lsm_security_socket_getpeername''),
      (''lsm/socket_getsockopt'', ''lsm_security_socket_getsockopt''),
      (''lsm/socket_setsockopt'', ''lsm_security_socket_setsockopt''),
      (''lsm/socket_shutdown'', ''lsm_security_socket_shutdown''),
      (''lsm/socket_getpeersec_stream'', ''lsm_security_socket_getpeersec_stream''),
      (''lsm/socket_getpeersec_dgram'', ''lsm_security_socket_getpeersec_dgram''),
      (''lsm/inet_conn_request'', ''lsm_security_inet_conn_request''),
      (''lsm/secmark_relabel_packet'', ''lsm_security_secmark_relabel_packet''),
      (''lsm/tun_dev_alloc_security'', ''lsm_security_tun_dev_alloc_security''),
      (''lsm/tun_dev_create'', ''lsm_security_tun_dev_create''),
      (''lsm/tun_dev_attach_queue'', ''lsm_security_tun_dev_attach_queue''),
      (''lsm/tun_dev_attach'', ''lsm_security_tun_dev_attach''),
      (''lsm/tun_dev_open'', ''lsm_security_tun_dev_open''),
      (''lsm/sctp_assoc_request'', ''lsm_security_sctp_assoc_request''),
      (''lsm/sctp_bind_connect'', ''lsm_security_sctp_bind_connect'')])]"

section \<open>All of them\<close>

definition AllExcludedFunctions :: "Env \<Rightarrow> string list krie" where
  "AllExcludedFunctions env = do {
     c \<leftarrow> IsCgroupSysctlProgramAvailable env;
     m \<leftarrow> HasOneMillionInstructionsAvailable env;
     State_Monad.return ((if \<not> c then [''cgroup_sysctl''] else []) @
       (if \<not> m then [''perf_event_syscall_table_ticker''] else []))
   }"

definition base_selectors :: "ProbesSelector list" where
  "base_selectors =
     [AllOf [selector ''kprobe/prepare_kernel_cred'' ''kprobe_prepare_kernel_cred'',
             selector ''tracepoint/raw_syscalls/sys_exit'' ''sys_exit'',
             selector ''tracepoint/raw_syscalls/sys_enter_syscall'' ''sys_enter_syscall'',
             selector ''perf_event/kernel_parameter_ticker'' ''perf_event_kernel_parameter_ticker'']]"

definition add_if :: "bool \<Rightarrow> ('a \<Rightarrow> 'a krie) \<Rightarrow> 'a \<Rightarrow> 'a krie" where
  "add_if b f x = (if b then f x else State_Monad.return x)"

definition AllProbesSelectors :: "Env \<Rightarrow> EventTypeList \<Rightarrow> ProbesSelector list krie" where
  "AllProbesSelectors env events = do {
     let all = base_selectors;
     m \<leftarrow> HasOneMillionInstructionsAvailable env;
     let all = (if m then all @ [selector ''perf_event/syscall_table_ticker'' ''perf_event_syscall_table_ticker'']
                else all);
     lsm \<leftarrow> IsBPFLSMAvailable env;
     let all = (if lsm then addLSMSelectors all else all);
     all \<leftarrow> addAllKernelModuleProbesSelectors env all events;
     all \<leftarrow> add_if (EventTypeList_Contains events BPFEventType) (addBPFProbesSelectors env) all;
     all \<leftarrow> add_if (EventTypeList_Contains events BPFFilterEventType) (addSetSockOptSelectors env) all;
     all \<leftarrow> add_if (EventTypeList_Contains events PTraceEventType) (addPTraceSelectors env) all;
     let all = (if EventTypeList_Contains events KProbeEventType then addKProbeSelectors all else all);
     add_if (EventTypeList_Contains events SysCtlEventType) (addSysCtlSelectors env) all
   }"

definition ticker :: "Env \<Rightarrow> Probe \<Rightarrow> Probe" where
  "ticker env p = p\<lparr>pr_SampleFrequency := 1, pr_PerfEventType := e_unix env ''PERF_TYPE_SOFTWARE'',
     pr_PerfEventConfig := e_unix env ''PERF_COUNT_SW_CPU_CLOCK''\<rparr>"

definition base_probes :: "Env \<Rightarrow> Probe list" where
  "base_probes env =
     [probe ''tracepoint/raw_syscalls/sys_exit'' ''sys_exit'',
      probe ''kprobe/prepare_kernel_cred'' ''kprobe_prepare_kernel_cred'',
      (probe ''tracepoint/raw_syscalls/sys_enter_syscall'' ''sys_enter_syscall'')
        \<lparr>pr_TracepointCategory := ''raw_syscalls'', pr_TracepointName := ''sys_enter''\<rparr>,
      ticker env (probe ''perf_event/syscall_table_ticker'' ''perf_event_syscall_table_ticker''),
      ticker env (probe ''perf_event/kernel_parameter_ticker'' ''perf_event_kernel_parameter_ticker'')]"

definition AllProbes :: "Env \<Rightarrow> EventTypeList \<Rightarrow> Probe list krie" where
  "AllProbes env events = do {
     let all = base_probes env;
     lsm \<leftarrow> IsBPFLSMAvailable env;
     let all = (if lsm then addLSMProbes all else all);
     all \<leftarrow> addKernelModuleProbes env all events;
     all \<leftarrow> add_if (EventTypeList_Contains events BPFEventType) (addBPFProbes env) all;
     all \<leftarrow> add_if (EventTypeList_Contains events BPFFilterEventType) (addSetSockOptProbes env) all;
     all \<leftarrow> add_if (EventTypeList_Contains events PTraceEventType) (addPTraceProbes env) all;
     let all = (if EventTypeList_Contains events KProbeEventType then addKProbeProbes all else all);
     add_if (EventTypeList_Contains events SysCtlEventType) (addSysCtlProbes env) all
   }"

definition AllTailCallRoutes :: "EventTypeList \<Rightarrow> TailCallRoute list" where
  "AllTailCallRoutes events =
     (let all = [route ''sys_enter_progs'' 0 ''tracepoint/raw_syscalls/sys_enter_syscall_x32''
                   ''sys_enter_syscall_x32'',
                 route ''sys_enter_progs'' 1 ''tracepoint/raw_syscalls/sys_enter_kernel_parameter''
                   ''sys_enter_kernel_parameter''];
          all = addKernelModuleTailCallRoutes all events;
          all = (if EventTypeList_Contains events BPFEventType then addBPFTailCallRoutes all else all);
          all = (if EventTypeList_Contains events BPFFilterEventType then addSetSockOptRoutes all else all);
          all = (if EventTypeList_Contains events PTraceEventType then addPTraceRoutes all else all);
          all = (if EventTypeList_Contains events KProbeEventType then addKProbeRoutes all else all)
      in if EventTypeList_Contains events SysCtlEventType then addSysCtlRoutes all else all)"

section \<open>The package variables settle\<close>

text \<open>The values the variables have once everything has been resolved.\<close>

definition settle :: "Env \<Rightarrow> Globals \<Rightarrow> Globals" where
  "settle env g =
     (let g = snd (run_state (getSyscallPrefix env) g);
          g = (if g_RuntimeArch g = [] then snd (run_state (resolveRuntimeArch env) g) else g)
      in snd (run_state (resolveCurrentHost env) g))"

text \<open>A computation is stable when its result is a function of the settled variables and it
  leaves these as they are.\<close>

definition stable :: "Env \<Rightarrow> 'a krie \<Rightarrow> (Globals \<Rightarrow> 'a) \<Rightarrow> bool" where
  "stable env m v \<longleftrightarrow>
     (\<forall>g. fst (run_state m g) = v (settle env g) \<and> settle env (snd (run_state m g)) = settle env g)"

lemma stable_return: "stable env (State_Monad.return x) (\<lambda>_. x)"
  by (simp add: stable_def)

lemma stable_bind:
  assumes "stable env m v" and "\<And>x. stable env (f x) (w x)"
  shows "stable env (State_Monad.bind m f) (\<lambda>s. w (v s) s)"
  using assms by (auto simp: stable_def split: prod.splits) (metis fst_conv snd_conv)+

lemma stable_if:
  "stable env m v \<Longrightarrow> stable env n w \<Longrightarrow> stable env (if b then m else n) (\<lambda>s. if b then v s else w s)"
  by simp

lemmas run_defs = resolveRuntimeArch_def resolveCurrentHost_def getSyscallPrefix_def

lemma run_resolveCurrentHost:
  "snd (run_state (resolveCurrentHost env) g) =
     g\<lparr>g_currentHost := (case e_NewHost env of Inl _ \<Rightarrow> None | Inr h \<Rightarrow> Some h)\<rparr>"
  by (simp add: resolveCurrentHost_def split: sum.splits)

definition arch_of :: "Env \<Rightarrow> string" where
  "arch_of env = (if e_Machine env = ''x86_64'' then ''x64''
     else if e_Machine env = ''aarch64'' then ''arm64'' else ''ia32'')"

lemma run_resolveRuntimeArch: "run_state (resolveRuntimeArch env) g = ((), g\<lparr>g_RuntimeArch := arch_of env\<rparr>)"
  by (simp add: resolveRuntimeArch_def arch_of_def)

lemma arch_of_not_Nil [simp]: "arch_of env \<noteq> []"
  by (simp add: arch_of_def)

text \<open>The prefixes after the first use.\<close>

definition prefix_of :: "Env \<Rightarrow> Globals \<Rightarrow> string" where
  "prefix_of env g = g_syscallPrefix (snd (run_state (getSyscallPrefix env) g))"

definition ia32_of :: "Env \<Rightarrow> Globals \<Rightarrow> string" where
  "ia32_of env g = g_ia32SyscallPrefix (snd (run_state (getSyscallPrefix env) g))"

lemma run_getSyscallPrefix:
  "run_state (getSyscallPrefix env) g =
     (if prefix_of env g = [] \<and> (\<exists>e. e_GetSyscallFnName env ''open'' = Inl e) then ''__unknown__''
      else prefix_of env g,
      g\<lparr>g_syscallPrefix := prefix_of env g, g_ia32SyscallPrefix := ia32_of env g\<rparr>)"
  by (auto simp: prefix_of_def ia32_of_def getSyscallPrefix_def Let_def split: sum.splits)

lemma prefix_of_cong:
  "g_syscallPrefix g = g_syscallPrefix g' \<Longrightarrow> g_ia32SyscallPrefix g = g_ia32SyscallPrefix g' \<Longrightarrow>
     prefix_of env g = prefix_of env g' \<and> ia32_of env g = ia32_of env g'"
  by (auto simp: prefix_of_def ia32_of_def getSyscallPrefix_def Let_def split: sum.splits)

lemma prefix_of_again:
  "prefix_of env (g\<lparr>g_syscallPrefix := prefix_of env g, g_ia32SyscallPrefix := ia32_of env g\<rparr>) = prefix_of env g"
  "ia32_of env (g\<lparr>g_syscallPrefix := prefix_of env g, g_ia32SyscallPrefix := ia32_of env g\<rparr>) = ia32_of env g"
  by (auto simp: prefix_of_def ia32_of_def getSyscallPrefix_def Let_def split: sum.splits)

definition host_of :: "Env \<Rightarrow> Host option" where
  "host_of env = (case e_NewHost env of Inl _ \<Rightarrow> None | Inr h \<Rightarrow> Some h)"

lemma settle_eq:
  "settle env g =
     \<lparr>g_RuntimeArch = (if g_RuntimeArch g = [] then arch_of env else g_RuntimeArch g),
      g_currentHost = host_of env, g_syscallPrefix = prefix_of env g, g_ia32SyscallPrefix = ia32_of env g\<rparr>"
  by (simp add: settle_def run_getSyscallPrefix run_resolveRuntimeArch run_resolveCurrentHost host_of_def Let_def)

lemma settle_host: "settle env (g\<lparr>g_currentHost := h\<rparr>) = settle env g"
  using prefix_of_cong [of "g\<lparr>g_currentHost := h\<rparr>" g env] by (simp add: settle_eq)

lemma settle_arch: "g_RuntimeArch g = [] \<Longrightarrow> settle env (g\<lparr>g_RuntimeArch := arch_of env\<rparr>) = settle env g"
  using prefix_of_cong [of "g\<lparr>g_RuntimeArch := arch_of env\<rparr>" g env] by (simp add: settle_eq)

lemma settle_prefix:
  "settle env (g\<lparr>g_syscallPrefix := prefix_of env g, g_ia32SyscallPrefix := ia32_of env g\<rparr>) = settle env g"
  by (simp add: settle_eq prefix_of_again)

lemma run_on_host:
  "run_state (on_host env P) g =
     (case host_of env of None \<Rightarrow> False | Some h \<Rightarrow> P h, g\<lparr>g_currentHost := host_of env\<rparr>)"
  by (simp add: on_host_def resolveCurrentHost_def host_of_def split: sum.splits)

lemma stable_on_host:
  "stable env (on_host env P) (\<lambda>_. case host_of env of None \<Rightarrow> False | Some h \<Rightarrow> P h)"
  by (simp add: stable_def run_on_host settle_host)

section \<open>Expanded system calls\<close>

definition old_kernel :: "Env \<Rightarrow> bool" where
  "old_kernel env = (case host_of env of None \<Rightarrow> False
     | Some h \<Rightarrow> ho_Code h < kernel_version ''Kernel4_12'' \<or> IsRH7Kernel h)"

definition kprobe_sections :: "Env \<Rightarrow> string \<Rightarrow> bool \<Rightarrow> string list" where
  "kprobe_sections env hook native =
     [''kprobe/'' @ hook] @ (if native \<and> old_kernel env then [] else [''kretprobe/'' @ hook])"

lemma flag_both: "EntryAndExit AND Entry = Entry" "EntryAndExit AND Exit = Exit"
  "EntryAndExit AND ExpandTime32 \<noteq> ExpandTime32"
  by (simp_all add: EntryAndExit_def Entry_def Exit_def ExpandTime32_def)

lemma run_expandKprobe:
  "\<exists>h. run_state (expandKprobe env hook name EntryAndExit) g =
     (kprobe_sections env hook (name \<noteq> []), g\<lparr>g_currentHost := h\<rparr>)"
proof (cases "name = []")
  case True
  then show ?thesis
    by (intro exI [of _ "g_currentHost g"]) (simp add: expandKprobe_def flag_both kprobe_sections_def)
next
  case False
  then show ?thesis
    by (intro exI [of _ "host_of env"])
      (simp add: expandKprobe_def flag_both kprobe_sections_def ShouldUseSyscallExitTracepoints_def
        as_uint64_def run_on_host old_kernel_def Let_def)
qed

text \<open>The sections of a system call, from the settled variables.\<close>

definition syscall_sections :: "Env \<Rightarrow> Globals \<Rightarrow> string \<Rightarrow> string list" where
  "syscall_sections env s name =
     (let p = (if g_syscallPrefix s = [] \<and> (\<exists>e. e_GetSyscallFnName env ''open'' = Inl e)
               then ''__unknown__'' else g_syscallPrefix s)
      in kprobe_sections env (p @ name) (name \<noteq> []) @
         (if g_RuntimeArch s = ''x64''
          then kprobe_sections env (g_ia32SyscallPrefix s @ ''sys_'' @ name) False else []))"

lemma run_expandSyscallSections:
  assumes "g_RuntimeArch g \<noteq> []"
  shows "\<exists>h. run_state (expandSyscallSections env name EntryAndExit []) g =
    (syscall_sections env (settle env g) name,
     g\<lparr>g_syscallPrefix := prefix_of env g, g_ia32SyscallPrefix := ia32_of env g, g_currentHost := h\<rparr>)"
proof -
  let ?p = "fst (run_state (getSyscallPrefix env) g)"
  let ?g = "g\<lparr>g_syscallPrefix := prefix_of env g, g_ia32SyscallPrefix := ia32_of env g\<rparr>"
  obtain h1 where h1: "run_state (expandKprobe env (?p @ name) name EntryAndExit) ?g =
      (kprobe_sections env (?p @ name) (name \<noteq> []), ?g\<lparr>g_currentHost := h1\<rparr>)"
    using run_expandKprobe by blast
  obtain h2 where h2: "run_state (expandKprobe env (ia32_of env g @ ''sys_'' @ name) [] EntryAndExit)
      (?g\<lparr>g_currentHost := h1\<rparr>) =
      (kprobe_sections env (ia32_of env g @ ''sys_'' @ name) False, ?g\<lparr>g_currentHost := h1, g_currentHost := h2\<rparr>)"
    using run_expandKprobe [of env "ia32_of env g @ ''sys_'' @ name" "[]" "?g\<lparr>g_currentHost := h1\<rparr>"] by auto
  note r = h1 [unfolded run_getSyscallPrefix fst_conv] h2
  show ?thesis
    using assms r
    by (cases "g_RuntimeArch g = ''x64''")
      (auto simp: expandSyscallSections_def getSyscallFnName_def getIA32SyscallFnName_def
        run_getSyscallPrefix syscall_sections_def settle_eq Let_def)
qed

definition syscall_pairs :: "Env \<Rightarrow> Globals \<Rightarrow> string \<Rightarrow> ProbeIdentificationPair list" where
  "syscall_pairs env s name =
     map (\<lambda>sec. pair KRIEUID sec (getFunctionNameFromSection (g_syscallPrefix s) sec))
       (syscall_sections env s name)"

lemma run_resolve_unset:
  "\<exists>g'. run_state (resolve_unset env) g = ((), g') \<and> settle env g' = settle env g \<and> g_RuntimeArch g' \<noteq> []"
  by (auto simp: resolve_unset_def run_resolveRuntimeArch settle_arch settle_host
      resolveCurrentHost_def split: sum.splits)

lemma settle_expanded:
  "settle env (g\<lparr>g_syscallPrefix := prefix_of env g, g_ia32SyscallPrefix := ia32_of env g, g_currentHost := h\<rparr>) =
     settle env g"
  using settle_host [where g = "g\<lparr>g_syscallPrefix := prefix_of env g, g_ia32SyscallPrefix := ia32_of env g\<rparr>"]
  by (simp add: settle_prefix)

lemma run_settled_sections:
  "\<exists>g1 g2. run_state (resolve_unset env) g = ((), g1) \<and>
     run_state (expandSyscallSections env name EntryAndExit []) g1 =
       (syscall_sections env (settle env g) name, g2) \<and>
     g_syscallPrefix g2 = g_syscallPrefix (settle env g) \<and> settle env g2 = settle env g"
proof -
  obtain g1 where g1: "run_state (resolve_unset env) g = ((), g1)" "settle env g1 = settle env g"
    "g_RuntimeArch g1 \<noteq> []" using run_resolve_unset by blast
  obtain h where h: "run_state (expandSyscallSections env name EntryAndExit []) g1 =
      (syscall_sections env (settle env g) name,
       g1\<lparr>g_syscallPrefix := prefix_of env g1, g_ia32SyscallPrefix := ia32_of env g1, g_currentHost := h\<rparr>)"
    using run_expandSyscallSections [OF g1(3), of env name] g1(2) by auto
  have "prefix_of env g1 = g_syscallPrefix (settle env g)"
    using g1(2) by (metis Globals.select_convs(3) settle_eq)
  with g1 h settle_expanded [where g = g1 and h = h and env = env] show ?thesis by auto
qed

lemma stable_ExpandSyscallProbes:
  "stable env (ExpandSyscallProbes env (syscall_probe name) EntryAndExit [])
     (\<lambda>s. map (\<lambda>p. (probe [] [])\<lparr>pr_Pair := p\<rparr>) (syscall_pairs env s name))"
  unfolding stable_def
proof
  fix g
  from run_settled_sections [of env g name]
  show "fst (run_state (ExpandSyscallProbes env (syscall_probe name) EntryAndExit []) g) =
      map (\<lambda>p. (probe [] [])\<lparr>pr_Pair := p\<rparr>) (syscall_pairs env (settle env g) name) \<and>
    settle env (snd (run_state (ExpandSyscallProbes env (syscall_probe name) EntryAndExit []) g)) = settle env g"
    by (auto simp: ExpandSyscallProbes_def flag_both syscall_probe_def Let_def syscall_pairs_def
        probe_def pair_def)
qed

lemma stable_ExpandSyscallProbesSelector:
  "stable env (ExpandSyscallProbesSelector env (syscall_id name) EntryAndExit [])
     (\<lambda>s. map ProbeSelector (syscall_pairs env s name))"
  unfolding stable_def
proof
  fix g
  from run_settled_sections [of env g name]
  show "fst (run_state (ExpandSyscallProbesSelector env (syscall_id name) EntryAndExit []) g) =
      map ProbeSelector (syscall_pairs env (settle env g) name) \<and>
    settle env (snd (run_state (ExpandSyscallProbesSelector env (syscall_id name) EntryAndExit []) g)) = settle env g"
    by (auto simp: ExpandSyscallProbesSelector_def flag_both syscall_id_def syscall_pairs_def pair_def)
qed

section \<open>Stability of the lists\<close>

definition syscall_probes :: "Env \<Rightarrow> Globals \<Rightarrow> string \<Rightarrow> Probe list" where
  "syscall_probes env s name = map (\<lambda>p. (probe [] [])\<lparr>pr_Pair := p\<rparr>) (syscall_pairs env s name)"

definition syscall_selectors :: "Env \<Rightarrow> Globals \<Rightarrow> string \<Rightarrow> ProbesSelector list" where
  "syscall_selectors env s name = map ProbeSelector (syscall_pairs env s name)"

lemma stableD:
  "stable env m v \<Longrightarrow> fst (run_state m g) = v (settle env g)"
  "stable env m v \<Longrightarrow> settle env (snd (run_state m g)) = settle env g"
  by (simp_all add: stable_def)

lemmas stable_expand =
  stable_ExpandSyscallProbes [folded syscall_probes_def, THEN stableD(1)]
  stable_ExpandSyscallProbes [THEN stableD(2)]
  stable_ExpandSyscallProbesSelector [folded syscall_selectors_def, THEN stableD(1)]
  stable_ExpandSyscallProbesSelector [THEN stableD(2)]

definition on :: "Env \<Rightarrow> (Host \<Rightarrow> bool) \<Rightarrow> bool" where
  "on env P = (case host_of env of None \<Rightarrow> False | Some h \<Rightarrow> P h)"

lemmas stable_features = stable_on_host [folded on_def, THEN stableD(1)] stable_on_host [THEN stableD(2)]

lemma run_add_if:
  "fst (run_state (add_if b f x) g) = (if b then fst (run_state (f x) g) else x)"
  "settle env (snd (run_state (add_if b f x) g)) =
     (if b then settle env (snd (run_state (f x) g)) else settle env g)"
  by (simp_all add: add_if_def)

text \<open>What each event type adds, from the settled variables.\<close>

definition module_probes :: "Env \<Rightarrow> Globals \<Rightarrow> EventTypeList \<Rightarrow> Probe list" where
  "module_probes env s events =
     (if EventTypeList_Contains events InitModuleEventType
      then [probe ''kprobe/do_init_module'' ''kprobe_do_init_module'',
            probe ''kprobe/module_put'' ''kprobe_module_put''] @
           syscall_probes env s ''init_module'' @ syscall_probes env s ''finit_module'' else []) @
     (if EventTypeList_Contains events DeleteModuleEventType
      then syscall_probes env s ''delete_module'' else [])"

definition module_selectors :: "Env \<Rightarrow> Globals \<Rightarrow> EventTypeList \<Rightarrow> ProbesSelector list" where
  "module_selectors env s events =
     (if EventTypeList_Contains events InitModuleEventType
      then [selector ''kprobe/module_put'' ''kprobe_module_put'',
            selector ''kprobe/do_init_module'' ''kprobe_do_init_module'',
            OneOf (syscall_selectors env s ''init_module''),
            OneOf (syscall_selectors env s ''finit_module'')] else []) @
     (if EventTypeList_Contains events DeleteModuleEventType
      then [OneOf (syscall_selectors env s ''delete_module'')] else [])"

definition bpf_probes :: "Env \<Rightarrow> Globals \<Rightarrow> Probe list" where
  "bpf_probes env s =
     [(probe ''kprobe/check_helper_call'' ''kprobe_check_helper_call'')\<lparr>pr_MatchFuncName := ''check_helper_call''\<rparr>,
      probe ''kprobe/security_bpf_prog'' ''kprobe_security_bpf_prog'',
      probe ''kprobe/security_bpf_map'' ''kprobe_security_bpf_map''] @ syscall_probes env s ''bpf''"

definition bpf_selectors :: "Env \<Rightarrow> Globals \<Rightarrow> ProbesSelector list" where
  "bpf_selectors env s =
     [BestEffort [selector ''kprobe/check_helper_call'' ''kprobe_check_helper_call''],
      selector ''kprobe/security_bpf_prog'' ''kprobe_security_bpf_prog'',
      selector ''kprobe/security_bpf_map'' ''kprobe_security_bpf_map'', OneOf (syscall_selectors env s ''bpf'')]"

definition setsockopt_probes :: "Env \<Rightarrow> Globals \<Rightarrow> Probe list" where
  "setsockopt_probes env s =
     [probe ''kprobe/sk_attach_filter'' ''kprobe_sk_attach_filter'',
      probe ''kprobe/sk_detach_filter'' ''kprobe_sk_detach_filter''] @ syscall_probes env s ''setsockopt''"

definition setsockopt_selectors :: "Env \<Rightarrow> Globals \<Rightarrow> ProbesSelector list" where
  "setsockopt_selectors env s =
     [selector ''kprobe/sk_attach_filter'' ''kprobe_sk_attach_filter'',
      selector ''kprobe/sk_detach_filter'' ''kprobe_sk_detach_filter'',
      OneOf (syscall_selectors env s ''setsockopt'')]"

definition sysctl_probes :: "Env \<Rightarrow> Probe list" where
  "sysctl_probes env = (if on env (\<lambda>h. ho_Code h \<ge> kernel_version ''Kernel5_2'') then
     [(probe ''cgroup/sysctl'' ''cgroup_sysctl'')\<lparr>pr_CGroupPath := ''/sys/fs/cgroup/unified''\<rparr>,
      probe ''kprobe/proc_sys_call_handler'' ''kprobe_proc_sys_call_handler''] else [])"

definition sysctl_selectors :: "Env \<Rightarrow> ProbesSelector list" where
  "sysctl_selectors env = (if on env (\<lambda>h. ho_Code h \<ge> kernel_version ''Kernel5_2'') then
     [selector ''cgroup/sysctl'' ''cgroup_sysctl'',
      selector ''kprobe/proc_sys_call_handler'' ''kprobe_proc_sys_call_handler''] else [])"

lemmas run_simps = stable_expand stable_features run_add_if Let_def case_prod_beta

lemma stable_adds:
  "stable env (addKernelModuleProbes env pr events) (\<lambda>s. pr @ module_probes env s events)"
  "stable env (addAllKernelModuleProbesSelectors env se events) (\<lambda>s. se @ module_selectors env s events)"
  "stable env (addBPFProbes env pr) (\<lambda>s. pr @ bpf_probes env s)"
  "stable env (addBPFProbesSelectors env se) (\<lambda>s. se @ bpf_selectors env s)"
  "stable env (addSetSockOptProbes env pr) (\<lambda>s. pr @ setsockopt_probes env s)"
  "stable env (addSetSockOptSelectors env se) (\<lambda>s. se @ setsockopt_selectors env s)"
  "stable env (addPTraceProbes env pr) (\<lambda>s. pr @ syscall_probes env s ''ptrace'')"
  "stable env (addPTraceSelectors env se) (\<lambda>s. se @ [OneOf (syscall_selectors env s ''ptrace'')])"
  "stable env (addSysCtlProbes env pr) (\<lambda>_. pr @ sysctl_probes env)"
  "stable env (addSysCtlSelectors env se) (\<lambda>_. se @ sysctl_selectors env)"
  by (simp_all add: stable_def run_simps addKernelModuleProbes_def module_probes_def
      addAllKernelModuleProbesSelectors_def module_selectors_def addBPFProbes_def bpf_probes_def
      addBPFProbesSelectors_def bpf_selectors_def addSetSockOptProbes_def setsockopt_probes_def
      addSetSockOptSelectors_def setsockopt_selectors_def addPTraceProbes_def addPTraceSelectors_def
      addSysCtlProbes_def sysctl_probes_def addSysCtlSelectors_def sysctl_selectors_def
      IsCgroupSysctlProgramAvailable_def)

lemmas add_simps = stable_adds [THEN stableD(1)] stable_adds [THEN stableD(2)]

definition lsm_on :: "Env \<Rightarrow> bool" where
  "lsm_on env = on env (\<lambda>h. ho_Code h \<ge> kernel_version ''Kernel5_7'')"

text \<open>The lists, written without the state.\<close>

definition probes_of :: "Env \<Rightarrow> Globals \<Rightarrow> EventTypeList \<Rightarrow> Probe list" where
  "probes_of env s events =
     base_probes env @ (if lsm_on env then addLSMProbes [] else []) @ module_probes env s events @
     (if EventTypeList_Contains events BPFEventType then bpf_probes env s else []) @
     (if EventTypeList_Contains events BPFFilterEventType then setsockopt_probes env s else []) @
     (if EventTypeList_Contains events PTraceEventType then syscall_probes env s ''ptrace'' else []) @
     (if EventTypeList_Contains events KProbeEventType then addKProbeProbes [] else []) @
     (if EventTypeList_Contains events SysCtlEventType then sysctl_probes env else [])"

definition selectors_of :: "Env \<Rightarrow> Globals \<Rightarrow> EventTypeList \<Rightarrow> ProbesSelector list" where
  "selectors_of env s events =
     base_selectors @
     (if on env (\<lambda>h. ho_Code h \<ge> kernel_version ''Kernel5_3'')
      then [selector ''perf_event/syscall_table_ticker'' ''perf_event_syscall_table_ticker''] else []) @
     (if lsm_on env then addLSMSelectors [] else []) @ module_selectors env s events @
     (if EventTypeList_Contains events BPFEventType then bpf_selectors env s else []) @
     (if EventTypeList_Contains events BPFFilterEventType then setsockopt_selectors env s else []) @
     (if EventTypeList_Contains events PTraceEventType then [OneOf (syscall_selectors env s ''ptrace'')] else []) @
     (if EventTypeList_Contains events KProbeEventType then addKProbeSelectors [] else []) @
     (if EventTypeList_Contains events SysCtlEventType then sysctl_selectors env else [])"

lemma append_adds:
  "addLSMProbes pr = pr @ addLSMProbes []" "addLSMSelectors se = se @ addLSMSelectors []"
  "addKProbeProbes pr = pr @ addKProbeProbes []" "addKProbeSelectors se = se @ addKProbeSelectors []"
  by (simp_all add: addLSMProbes_def addLSMSelectors_def addKProbeProbes_def addKProbeSelectors_def)

lemma if_append: "(if b then xs @ ys else xs) = xs @ (if b then ys else [])"
  by simp

lemma stable_AllProbes: "stable env (AllProbes env events) (\<lambda>s. probes_of env s events)"
  unfolding stable_def AllProbes_def probes_of_def IsBPFLSMAvailable_def lsm_on_def
  by (simp add: run_simps add_simps append_adds(1) [of "base_probes env"] append_adds(1,3) [of "_ @ _"])

lemma stable_AllProbesSelectors:
  "stable env (AllProbesSelectors env events) (\<lambda>s. selectors_of env s events)"
  unfolding stable_def AllProbesSelectors_def selectors_of_def IsBPFLSMAvailable_def lsm_on_def
    HasOneMillionInstructionsAvailable_def
  by (simp add: run_simps add_simps append_adds(2) [of base_selectors] append_adds(2,4) [of "_ @ _"])

fun selector_pairs :: "ProbesSelector \<Rightarrow> ProbeIdentificationPair list" where
  "selector_pairs (ProbeSelector p) = [p]"
| "selector_pairs (AllOf ss) = concat (map selector_pairs ss)"
| "selector_pairs (OneOf ss) = concat (map selector_pairs ss)"
| "selector_pairs (BestEffort ss) = concat (map selector_pairs ss)"

definition selected :: "ProbesSelector list \<Rightarrow> ProbeIdentificationPair list" where
  "selected ss = concat (map selector_pairs ss)"

definition declared :: "Probe list \<Rightarrow> ProbeIdentificationPair list" where
  "declared ps = map pr_Pair ps"

lemma selected_append [simp]: "selected (xs @ ys) = selected xs @ selected ys"
  by (simp add: selected_def)

lemma declared_append [simp]: "declared (xs @ ys) = declared xs @ declared ys"
  by (simp add: declared_def)

lemma selected_syscalls: "concat (map selector_pairs (syscall_selectors env s name)) = syscall_pairs env s name"
  by (simp add: syscall_selectors_def comp_def)

lemma declared_syscalls: "declared (syscall_probes env s name) = syscall_pairs env s name"
  by (simp add: declared_def syscall_probes_def comp_def)

lemma lsm_same: "selected (addLSMSelectors []) = declared (addLSMProbes [])"
  unfolding addLSMSelectors_def addLSMProbes_def
  by (simp add: selected_def declared_def selector_def probe_def)

lemma selection_simps:
  "selected [] = []" "selected (s # ss) = selector_pairs s @ selected ss"
  "declared [] = []" "declared (p # ps) = pr_Pair p # declared ps"
  "selector_pairs (selector sec fn) = [pair KRIEUID sec fn]" "pr_Pair (probe sec fn) = pair KRIEUID sec fn"
  "pr_Pair (ticker env p) = pr_Pair p"
  by (simp_all add: selected_def declared_def selector_def probe_def ticker_def)

lemma pieces_declared:
  "set (selected base_selectors) \<subseteq> set (declared (base_probes env))"
  "pair KRIEUID ''perf_event/syscall_table_ticker'' ''perf_event_syscall_table_ticker'' \<in> set (declared (base_probes env))"
  "set (selected (module_selectors env s events)) \<subseteq> set (declared (module_probes env s events))"
  "set (selected (bpf_selectors env s)) \<subseteq> set (declared (bpf_probes env s))"
  "set (selected (setsockopt_selectors env s)) \<subseteq> set (declared (setsockopt_probes env s))"
  "set (selected (addKProbeSelectors [])) \<subseteq> set (declared (addKProbeProbes []))"
  "set (selected (sysctl_selectors env)) \<subseteq> set (declared (sysctl_probes env))"
  by (auto simp: base_selectors_def base_probes_def module_selectors_def module_probes_def
      bpf_selectors_def bpf_probes_def setsockopt_selectors_def setsockopt_probes_def
      addKProbeSelectors_def addKProbeProbes_def sysctl_selectors_def sysctl_probes_def
      selection_simps selected_syscalls declared_syscalls)

lemma selected_of_declared: "set (selected (selectors_of env s events)) \<subseteq> set (declared (probes_of env s events))"
proof -
  have "set (selected (selectors_of env s events)) \<subseteq>
      set (declared (base_probes env)) \<union> set (declared (if lsm_on env then addLSMProbes [] else [])) \<union>
      set (declared (module_probes env s events)) \<union>
      set (declared (if EventTypeList_Contains events BPFEventType then bpf_probes env s else [])) \<union>
      set (declared (if EventTypeList_Contains events BPFFilterEventType then setsockopt_probes env s else [])) \<union>
      set (declared (if EventTypeList_Contains events PTraceEventType then syscall_probes env s ''ptrace'' else [])) \<union>
      set (declared (if EventTypeList_Contains events KProbeEventType then addKProbeProbes [] else [])) \<union>
      set (declared (if EventTypeList_Contains events SysCtlEventType then sysctl_probes env else []))"
    unfolding selectors_of_def selected_append set_append
    using pieces_declared(1,2,7) [of env] pieces_declared(3) [of env s events]
      pieces_declared(4,5) [of env s] pieces_declared(6) lsm_same
    by (intro Un_least) (auto simp: selection_simps selected_syscalls declared_syscalls)
  then show ?thesis by (simp add: probes_of_def Un_assoc)
qed

section \<open>Properties\<close>

text \<open>C7: Whatever the host, the kernel and the activated events, every probe a selector asks
  for is one of the probes that are declared to the manager: the selectors are computed
  first, the probes from the package variables they leave behind.\<close>

theorem selected_probes_are_declared:
  "set (selected (fst (run_state (AllProbesSelectors env events) g))) \<subseteq>
     set (declared (fst (run_state (AllProbes env events) (snd (run_state (AllProbesSelectors env events) g)))))"
  using selected_of_declared [of env "settle env g" events]
  by (simp add: stable_AllProbesSelectors [THEN stableD(1)] stable_AllProbesSelectors [THEN stableD(2)]
      stable_AllProbes [THEN stableD(1)])

text \<open>No two tail call routes share a program array and a key, so no route overwrites
  another one.\<close>

lemma tail_call_routes_distinct:
  "distinct (map (\<lambda>r. (tr_ProgArrayName r, tr_Key r)) (AllTailCallRoutes events))"
  by (simp add: AllTailCallRoutes_def addKernelModuleTailCallRoutes_def addBPFTailCallRoutes_def
      addSetSockOptRoutes_def addPTraceRoutes_def addKProbeRoutes_def addSysCtlRoutes_def route_def
      event_type_defs Let_def)

text \<open>C22: An empty list of activated events selects everything: the probes, selectors and
  routes are those of a list that contains every event type.  A configuration in which
  every action is \<open>nop\<close> therefore attaches all programs.\<close>

theorem no_activated_event_selects_all:
  assumes "set events = {t. 0 < t \<and> t < MaxEventType}"
  shows "AllProbes env [] = AllProbes env events \<and> AllProbesSelectors env [] = AllProbesSelectors env events \<and>
    AllTailCallRoutes [] = AllTailCallRoutes events"
proof -
  have "EventTypeList_Contains [] t = EventTypeList_Contains events t" if "0 < t" "t < MaxEventType" for t
    using assms that by (auto simp: EventTypeList_Contains_def)
  note c = this [OF _ _, of BPFEventType] this [OF _ _, of BPFFilterEventType] this [OF _ _, of PTraceEventType]
    this [OF _ _, of KProbeEventType] this [OF _ _, of SysCtlEventType] this [OF _ _, of InitModuleEventType]
    this [OF _ _, of DeleteModuleEventType]
  note c = c [unfolded event_type_defs, simplified]
  show ?thesis
    unfolding AllProbes_def AllProbesSelectors_def AllTailCallRoutes_def addKernelModuleProbes_def
      addAllKernelModuleProbesSelectors_def addKernelModuleTailCallRoutes_def
    by (simp only: event_type_defs c)
qed

theorem no_activated_event_selects_all_witness:
  "set (map word_of_nat [1..<14] :: u32 list) = {t. 0 < t \<and> t < MaxEventType} \<and>
   AllTailCallRoutes [] = AllTailCallRoutes (map word_of_nat [1..<14])"
proof -
  have "t \<in> set (map word_of_nat [1..<14])" if "0 < t" "t < MaxEventType" for t :: u32
    using that by (auto simp: MaxEventType_def word_less_nat_alt image_iff intro!: bexI [of _ "unat t"])
  moreover have "0 < t \<and> t < MaxEventType" if "t \<in> set (map word_of_nat [1..<14])" for t :: u32
    using that by (auto simp: MaxEventType_def upt_rec)
  ultimately have "set (map word_of_nat [1..<14] :: u32 list) = {t. 0 < t \<and> t < MaxEventType}" by blast
  with no_activated_event_selects_all [OF this] show ?thesis by blast
qed

definition hooked_syscalls :: "string list" where
  "hooked_syscalls = [''init_module'', ''finit_module'', ''delete_module'', ''bpf'', ''setsockopt'', ''ptrace'']"

text \<open>On a kernel with system call wrappers, the sections of the system calls KRIe hooks
  get the function names the kernel-space programs are compiled with: the 64-bit and
  32-bit wrappers of the same call differ only in \<open>_64_\<close> and \<open>_32_\<close>.\<close>

lemma wrapper_function_names:
  "map (\<lambda>n. getFunctionNameFromSection ''__x64_sys_'' (''kprobe/__x64_sys_'' @ n)) hooked_syscalls =
     map (\<lambda>n. ''kprobe__64_sys_'' @ n) hooked_syscalls \<and>
   map (\<lambda>n. getFunctionNameFromSection ''__x64_sys_'' (''kretprobe/__ia32_sys_'' @ n)) hooked_syscalls =
     map (\<lambda>n. ''kretprobe__32_sys_'' @ n) hooked_syscalls"
  by (simp add: hooked_syscalls_def getFunctionNameFromSection_def)

end
