(* ===== verification/Krie_State.thy ===== *)
theory Krie_State
  imports Event_Document Event_Options Kallsyms Probes
begin

text \<open>
  The state of \<^verbatim>\<open>pkg/krie/krie.go\<close>: the structure \<open>KRIE\<close>, the parts of \<^verbatim>\<open>ebpf-manager\<close> that
  \<^verbatim>\<open>pkg/krie/manager.go\<close> fills in, the data pushed to the eBPF maps, and the record \<open>KrieHost\<close> of
  the calls that leave the program, over a type of worlds.  Objects of a library that the code
  only passes on (an eBPF map, a BTF specification, an open file) are known by a \<open>handle\<close>.
\<close>

type_synonym handle = nat

record ConstantEditor =
  ce_Name :: string
  ce_Value :: u64

record ManagerOptions =
  mo_DefaultKProbeMaxActive :: nat
  mo_LogSize :: nat
  mo_RLimit :: "u64 \<times> u64"
  mo_TailCallRouter :: "TailCallRoute list"
  mo_ConstantEditors :: "ConstantEditor list"
  mo_ActivatedProbes :: "ProbesSelector list"
  mo_ExcludedFunctions :: "string list"
  mo_KernelTypes :: "handle option"

record Manager =
  mg_Probes :: "Probe list"
  mg_PerfMaps :: "(string \<times> int) list"

text \<open>\<open>handleEvent\<close> is a handler of the caller's or, as \<open>None\<close>, the method \<open>defaultEventHandler\<close>.\<close>

record KRIE =
  kr_event :: Event
  kr_handleEvent :: "(bytes \<Rightarrow> error option) option"
  kr_timeResolver :: TimeResolver
  kr_outputFile :: "handle option"
  kr_options :: KrieOptions
  kr_manager :: "Manager option"
  kr_managerOptions :: ManagerOptions
  kr_symbols :: KSymState
  kr_sysctlParametersMap :: "handle option"
  kr_sysctlDefaultMap :: "handle option"
  kr_kallsymsMap :: "handle option"
  kr_policiesMap :: "handle option"
  kr_kernelParametersMap :: "handle option"
  kr_startTime :: Time
  kr_numCPU :: int

text \<open>\<^verbatim>\<open>pkg/krie/kernel_parameters.go\<close>.\<close>

record KernelParameter =
  kpm_Address :: u64
  kpm_ExpectedValue :: u64
  kpm_LastSent :: u64
  kpm_Size :: u64

definition kernelParameterFromParameterOption :: "ParameterOption \<Rightarrow> KernelParameter" where
  "kernelParameterFromParameterOption po =
     \<lparr>kpm_Address = po_Address po, kpm_ExpectedValue = po_ExpectedValue po, kpm_LastSent = 0,
      kpm_Size = po_Size po\<rparr>"

text \<open>The keys and values given to \<open>Map.Put\<close>, before the library marshals them.\<close>

datatype map_data =
    MU32 u32
  | MBytes bytes
  | MKernelParameter KernelParameter
  | MSysCtlParameter SysCtlParameter

text \<open>The calls that leave the program: the host of the symbol tables, the clocks, the order of a
  \<open>range\<close> over the address table (drawn from the world, so that two loops may differ), the order
  \<open>sort.Slice\<close> leaves, the output file, the eBPF maps and the logger with its level.\<close>

record 'w KrieHost =
  kh_sys :: "'w SysHost"
  kh_clock :: "'w \<Rightarrow> Clock"
  kh_range :: "(u64 \<rightharpoonup> Symbol) \<Rightarrow> 'w \<Rightarrow> (u64 \<times> Symbol) list \<times> 'w"
  kh_sort :: "Symbol list \<Rightarrow> Symbol list"
  kh_Write :: "handle \<Rightarrow> string \<Rightarrow> 'w \<Rightarrow> error option \<times> 'w"
  kh_Put :: "handle \<Rightarrow> map_data \<Rightarrow> map_data \<Rightarrow> 'w \<Rightarrow> error option \<times> 'w"
  kh_GetMap :: "string \<Rightarrow> 'w \<Rightarrow> error + handle option \<times> bool"
  kh_log_Error :: "error \<Rightarrow> 'w \<Rightarrow> 'w"
  kh_log_Debugf :: "string \<Rightarrow> 'w \<Rightarrow> 'w"
  kh_debug :: "'w \<Rightarrow> bool"
  kh_show_error :: "error \<Rightarrow> string"

text \<open>The result of an operation on \<open>KRIE\<close>: a panic, or the error it returns with the new state and
  the new world.\<close>

type_synonym 'w step = "(error option \<times> KRIE \<times> 'w) result"

text \<open>\<open>if err := f(); err != nil { return err }\<close>, followed by the rest of the function.\<close>

definition and_then :: "'w step \<Rightarrow> (KRIE \<Rightarrow> 'w \<Rightarrow> 'w step) \<Rightarrow> 'w step" where
  "and_then m f = bindR m (\<lambda>(err, e, w). case err of Some _ \<Rightarrow> Inr (err, e, w) | None \<Rightarrow> f e w)"

lemma and_then_simps [simp]:
  "and_then (Inl x) f = Inl x"
  "and_then (Inr (Some err, e, w)) f = Inr (Some err, e, w)"
  "and_then (Inr (None, e, w)) f = f e w"
  by (simp_all add: and_then_def)

section \<open>A concrete host\<close>

text \<open>A host of the symbol tables that leaves the world alone, used to instantiate the properties.\<close>

definition demo_sys :: "'w SysHost" where
  "demo_sys =
     \<lparr>h_sysctl_Get = \<lambda>_ w. Inr ''0'', h_sysctl_Set = \<lambda>_ v w. (None, w), h_cap_GetPID = \<lambda>_. Inr 0,
      h_cap_GetFlag = \<lambda>_ _. Inr False, h_ReadFile = \<lambda>_ _. Inr demo_raw, h_kallsymsMap_Put = \<lambda>_ _ w. (None, w)\<rparr>"

lemma demo_sys_loads: "\<exists>st. loadKernelSymbols demo_sys (sort_key sym_Value) (demo_state []) w = (None, st, w)"
proof -
  have "sort_key sym_Value demo_symbols = demo_symbols" by (simp add: demo_symbols_def)
  with demo_parse show ?thesis
    by (auto simp: loadKernelSymbols_def symbolAddressesAccessCheck_def parseKallsyms_def
        resetKernelKPTRRestrict_def pushKernelSymbols_def krieSymbols_def demo_sys_def demo_state_def
        demo_symbols_def store_symbols_def store_symbol_def symbol_key_def)
qed

definition demo_krie :: KRIE where
  "demo_krie =
     \<lparr>kr_event = NewEvent, kr_handleEvent = None, kr_timeResolver = \<lparr>tr_bootTime = 10 ^ 18\<rparr>, kr_outputFile = Some 1,
      kr_options = NewOptions, kr_manager = None,
      kr_managerOptions = \<lparr>mo_DefaultKProbeMaxActive = 0, mo_LogSize = 0, mo_RLimit = (0, 0), mo_TailCallRouter = [],
        mo_ConstantEditors = [], mo_ActivatedProbes = [], mo_ExcludedFunctions = [], mo_KernelTypes = None\<rparr>,
      kr_symbols = demo_state [], kr_sysctlParametersMap = Some 2, kr_sysctlDefaultMap = Some 3,
      kr_kallsymsMap = Some 4, kr_policiesMap = Some 5, kr_kernelParametersMap = Some 6, kr_startTime = zero_time,
      kr_numCPU = 1\<rparr>"

end
