(* ===== verification/Event_Handler.thy ===== *)
theory Event_Handler
  imports Krie_State
begin

text \<open>
  The handler of the records that arrive on the perf map (\<open>defaultEventHandler\<close> of
  \<^verbatim>\<open>pkg/krie/krie.go\<close>): a record is the memory image of a kernel event, of a process context and
  of a payload that depends on the event type.  The handler decodes it into the one event that
  is reused for all records, adds what only user space knows (symbols, the configured
  override), appends a line to the output file and logs.
\<close>

text \<open>\<open>if read, err = ...; err != nil { return err }\<close>: the fields a failing decoder has already
  written are not represented, as the event is reset before it is read again.\<close>

definition or_return :: "'a result \<Rightarrow> KRIE \<Rightarrow> 'w \<Rightarrow> ('a \<Rightarrow> 'w step) \<Rightarrow> 'w step" where
  "or_return m e w f =
     (case m of Inl Panic \<Rightarrow> Inl Panic | Inl (Error err) \<Rightarrow> Inr (Some err, e, w) | Inr x \<Rightarrow> f x)"

section \<open>The handler\<close>

definition zeroEvent :: "KRIE \<Rightarrow> KRIE" where
  "zeroEvent e = e\<lparr>kr_event := eventZero\<rparr>"

text \<open>\<open>_ = e.loadKernelSymbols()\<close>\<close>

definition reload_symbols :: "'w KrieHost \<Rightarrow> KRIE \<Rightarrow> 'w \<Rightarrow> KRIE \<times> 'w" where
  "reload_symbols h e w =
     (let (_, st, w) = loadKernelSymbols (kh_sys h) (kh_sort h) (kr_symbols e) w
      in (e\<lparr>kr_symbols := st\<rparr>, w))"

text \<open>\<open>if err = e.resolve...(&k); err != nil { logrus.Error(err) }\<close>\<close>

definition resolve_with ::
    "((u64 \<times> Symbol) list \<Rightarrow> KernelSymbol \<Rightarrow> KernelSymbol \<times> error option) \<Rightarrow>
     'w KrieHost \<Rightarrow> KRIE \<Rightarrow> KernelSymbol \<Rightarrow> 'w \<Rightarrow> KernelSymbol \<times> 'w" where
  "resolve_with resolve h e k w =
     (let (order, w) = kh_range h (kst_kernelAddresses (kr_symbols e)) w;
          (k, err) = resolve order k
      in (k, case err of None \<Rightarrow> w | Some err \<Rightarrow> kh_log_Error h err w))"

text \<open>The override that was applied to a written sysctl value.\<close>

definition override_value :: "KRIE \<Rightarrow> string \<Rightarrow> string result" where
  "override_value e name =
     bindR (deref (ko_Events (kr_options e))) (\<lambda>ev.
     bindR (deref (eo_SysCtlEvent ev)) (\<lambda>sc.
     Inr (case so_List sc name of
            Some param \<Rightarrow> sp_OverrideInputValueWith param
          | None \<Rightarrow> sp_OverrideInputValueWith (so_Default sc))))"

text \<open>The end of the handler: the output file and the debug log.\<close>

definition emit_event :: "'w KrieHost \<Rightarrow> 'j JsonEnv \<Rightarrow> KRIE \<Rightarrow> 'w \<Rightarrow> 'w step" where
  "emit_event h env e w =
     (let debug = (\<lambda>w. if kh_debug h w
            then bindR (Event_String env (kh_show_error h) (kr_event e)) (\<lambda>s. Inr (None, e, kh_log_Debugf h s w))
            else Inr (None, e, w))
      in case kr_outputFile e of
           None \<Rightarrow> debug w
         | Some f \<Rightarrow>
             bindR (Event_MarshalJSON env (kr_event e)) (\<lambda>r.
             case r of
               Inl err \<Rightarrow> Inr (Some (Errorf ''couldn't marshall event: %w'' [] (Some err)), e, w)
             | Inr jsonData \<Rightarrow>
                 (case kh_Write h f (jsonData @ [CHR 0x0A]) w of
                    (Some err, w) \<Rightarrow>
                      Inr (Some (Errorf ''couldn't write event to output: %w'' [] (Some err)), e, w)
                  | (None, w) \<Rightarrow> debug w)))"

text \<open>The \<open>switch\<close> over the event type, with the data behind the process context.\<close>

definition decode_payload ::
    "'w KrieHost \<Rightarrow> ByteOrder \<Rightarrow> bytes \<Rightarrow> KRIE \<Rightarrow> 'w \<Rightarrow> (KRIE \<Rightarrow> 'w \<Rightarrow> 'w step) \<Rightarrow> 'w step" where
  "decode_payload h bo data e w k =
     (let ev = kr_event e; t = ke_Type (ev_Kernel ev) in
      if t = InitModuleEventType then
        or_return (InitModuleEvent_UnmarshallBinary bo (ev_InitModule ev) data) e w (\<lambda>(x, read).
        let (e, w) = reload_symbols h (e\<lparr>kr_event := ev\<lparr>ev_InitModule := x\<rparr>\<rparr>) w in k e w)
      else if t = DeleteModuleEventType then
        or_return (DeleteModuleEvent_UnmarshallBinary (ev_DeleteModule ev) data) e w (\<lambda>(x, read).
        let (e, w) = reload_symbols h (e\<lparr>kr_event := ev\<lparr>ev_DeleteModule := x\<rparr>\<rparr>) w in k e w)
      else if t = BPFEventType then
        or_return (BPFEvent_UnmarshallBinary bo (ev_BPFEvent ev) data) e w (\<lambda>(x, read).
        k (e\<lparr>kr_event := ev\<lparr>ev_BPFEvent := x\<rparr>\<rparr>) w)
      else if t = BPFFilterEventType then
        or_return (BPFFilterEvent_UnmarshallBinary bo (ev_BPFFilterEvent ev) data) e w (\<lambda>(x, read).
        k (e\<lparr>kr_event := ev\<lparr>ev_BPFFilterEvent := x\<rparr>\<rparr>) w)
      else if t = PTraceEventType then
        or_return (PTraceEvent_UnmarshallBinary bo (ev_PTraceEvent ev) data) e w (\<lambda>(x, read).
        k (e\<lparr>kr_event := ev\<lparr>ev_PTraceEvent := x\<rparr>\<rparr>) w)
      else if t = KProbeEventType then
        or_return (KProbeEvent_UnmarshallBinary bo (ev_KProbeEvent ev) data) e w (\<lambda>(x, read).
        k (e\<lparr>kr_event := ev\<lparr>ev_KProbeEvent := x\<rparr>\<rparr>) w)
      else if t = SysCtlEventType then
        or_return (SysCtlEvent_UnmarshallBinary bo (ev_SysCtlEvent ev) data) e w (\<lambda>(x, read).
        bindR (if se_Action x = 2
               then bindR (override_value e (se_Name x)) (\<lambda>v. Inr (x\<lparr>se_NewValueOverriddenWith := v\<rparr>))
               else Inr x) (\<lambda>x.
        k (e\<lparr>kr_event := ev\<lparr>ev_SysCtlEvent := x\<rparr>\<rparr>) w))
      else if t = EventCheckEventType then
        or_return (EventCheckEvent_UnmarshallBinary bo (ev_EventCheckEvent ev) data) e w (\<lambda>(x, read).
        k (e\<lparr>kr_event := ev\<lparr>ev_EventCheckEvent := x\<rparr>\<rparr>) w)
      else if t = HookedSyscallEventType \<or> t = HookedSyscallTableEventType then
        or_return (HookedSyscallEvent_UnmarshallBinary bo (ev_HookedSyscallEvent ev) data) e w (\<lambda>(x, read).
        let (ih, w) = resolve_with resolveFuncSymbol h e (hs_InitialHandler x) w;
            (nh, w) = resolve_with resolveFuncSymbol h e (hs_NewHandler x) w
        in k (e\<lparr>kr_event := ev\<lparr>ev_HookedSyscallEvent := x\<lparr>hs_InitialHandler := ih, hs_NewHandler := nh\<rparr>\<rparr>\<rparr>) w)
      else if t = KernelParameterEventType \<or> t = PeriodicKernelParameterEventType then
        or_return (KernelParameterEvent_UnmarshallBinary bo (ev_KernelParameterEvent ev) data) e w (\<lambda>(x, read).
        let (p, w) = resolve_with resolveObjectSymbol h e (kv_Parameter x) w
        in k (e\<lparr>kr_event := ev\<lparr>ev_KernelParameterEvent := x\<lparr>kv_Parameter := p\<rparr>\<rparr>\<rparr>) w)
      else if t = RegisterCheckEventType then
        or_return (RegisterCheckEvent_UnmarshallBinary bo (ev_RegisterCheckEvent ev) data) e w (\<lambda>(x, read).
        k (e\<lparr>kr_event := ev\<lparr>ev_RegisterCheckEvent := x\<rparr>\<rparr>) w)
      else Inr (Some (Errorf ''unknown event type: %s'' [FStr (EventType_String t)] None), e, w))"

definition defaultEventHandler ::
    "'w KrieHost \<Rightarrow> 'j JsonEnv \<Rightarrow> ByteOrder \<Rightarrow> bytes \<Rightarrow> KRIE \<Rightarrow> 'w \<Rightarrow> 'w step" where
  "defaultEventHandler h env bo data e w =
     (let e = zeroEvent e in
      or_return (KernelEvent_UnmarshalBinary bo (kr_timeResolver e) (kh_clock h w) (ev_Kernel (kr_event e)) data) e w
        (\<lambda>(ke, cursor).
      let e = e\<lparr>kr_event := (kr_event e)\<lparr>ev_Kernel := ke\<rparr>\<rparr> in
      bindR (slice_from data cursor) (\<lambda>d.
      or_return (ProcessContext_UnmarshalBinary bo (ev_Process (kr_event e)) d) e w (\<lambda>(pc, read).
      let e = e\<lparr>kr_event := (kr_event e)\<lparr>ev_Process := pc\<rparr>\<rparr>; cursor = cursor + read in
      bindR (slice_from data cursor) (\<lambda>d.
      decode_payload h bo d e w (emit_event h env))))))"

text \<open>The data handler of the perf map in \<open>prepareManager\<close>: an error is logged, and the next record
  is handled.\<close>

definition data_handler ::
    "'w KrieHost \<Rightarrow> 'j JsonEnv \<Rightarrow> ByteOrder \<Rightarrow> bytes \<Rightarrow> KRIE \<Rightarrow> 'w \<Rightarrow> (KRIE \<times> 'w) result" where
  "data_handler h env bo data e w =
     (case kr_handleEvent e of
        Some handler \<Rightarrow>
          Inr (e, case handler data of None \<Rightarrow> w
             | Some err \<Rightarrow> kh_log_Error h (Errorf ''couldn't handle event: %v'' [] (Some err)) w)
      | None \<Rightarrow>
          bindR (defaultEventHandler h env bo data e w) (\<lambda>(err, e, w).
          Inr (e, case err of None \<Rightarrow> w
             | Some err \<Rightarrow> kh_log_Error h (Errorf ''couldn't handle event: %v'' [] (Some err)) w)))"

fun handle_records ::
    "'w KrieHost \<Rightarrow> 'j JsonEnv \<Rightarrow> ByteOrder \<Rightarrow> bytes list \<Rightarrow> KRIE \<Rightarrow> 'w \<Rightarrow> (KRIE \<times> 'w) result" where
  "handle_records h env bo [] e w = Inr (e, w)"
| "handle_records h env bo (d # ds) e w =
     bindR (data_handler h env bo d e w) (\<lambda>(e, w). handle_records h env bo ds e w)"

section \<open>Records\<close>

text \<open>The bytes each payload needs behind the process context; a sysctl payload needs at least these.\<close>

definition payload_width :: "u32 \<Rightarrow> nat option" where
  "payload_width t =
     (if t = InitModuleEventType then Some 64 else if t = DeleteModuleEventType then Some 56
      else if t = BPFEventType then Some 92 else if t = BPFFilterEventType then Some 16
      else if t = PTraceEventType then Some 16 else if t = KProbeEventType then Some 80
      else if t = SysCtlEventType then Some 16 else if t = EventCheckEventType then Some 4
      else if t = HookedSyscallEventType \<or> t = HookedSyscallTableEventType then Some 24
      else if t = KernelParameterEventType \<or> t = PeriodicKernelParameterEventType then Some 24
      else if t = RegisterCheckEventType then Some 28 else None)"

definition record_type :: "ByteOrder \<Rightarrow> bytes \<Rightarrow> u32" where
  "record_type bo d = word_at bo 4 20 d"

text \<open>A record of a known type that is long enough, and one that makes the sysctl decoder panic.\<close>

definition accepted :: "ByteOrder \<Rightarrow> bytes \<Rightarrow> bool" where
  "accepted bo d \<longleftrightarrow>
     (case payload_width (record_type bo d) of None \<Rightarrow> False | Some n \<Rightarrow> 2072 + n \<le> length d)"

definition record_panics :: "ByteOrder \<Rightarrow> bytes \<Rightarrow> bool" where
  "record_panics bo d \<longleftrightarrow> 2088 \<le> length d \<and> record_type bo d = SysCtlEventType \<and>
     (unterminated (drop 2088 d) \<or> unterminated (after_nul (drop 2088 d)))"

text \<open>What a handled record leaves of the state and of what can be observed of the world.\<close>

definition same_but_event :: "KRIE \<Rightarrow> KRIE \<Rightarrow> bool" where
  "same_but_event e e' \<longleftrightarrow> (\<exists>ev st. e' = e\<lparr>kr_event := ev, kr_symbols := st\<rparr>)"

definition preserves :: "('w \<Rightarrow> 'o) \<Rightarrow> 'w KrieHost \<Rightarrow> bool" where
  "preserves out h \<longleftrightarrow>
     (\<forall>k v w. out (snd (h_sysctl_Set (kh_sys h) k v w)) = out w) \<and>
     (\<forall>k v w. out (snd (h_kallsymsMap_Put (kh_sys h) k v w)) = out w) \<and>
     (\<forall>m w. out (snd (kh_range h m w)) = out w) \<and>
     (\<forall>err w. out (kh_log_Error h err w) = out w) \<and> (\<forall>s w. out (kh_log_Debugf h s w) = out w)"

section \<open>Lemmas\<close>

lemma or_return_simps [simp]:
  "or_return (Inr x) e w f = f x" "or_return (Inl (Error err)) e w f = Inr (Some err, e, w)"
  "or_return (Inl Panic) e w f = Inl Panic"
  by (simp_all add: or_return_def)

lemma same_but_event_refl [simp]: "same_but_event e (e\<lparr>kr_event := ev\<rparr>)" "same_but_event e e"
  unfolding same_but_event_def
  by (rule exI [of _ ev], rule exI [of _ "kr_symbols e"], simp)
    (rule exI [of _ "kr_event e"], rule exI [of _ "kr_symbols e"], simp)

lemma same_but_event_symbols [simp]: "same_but_event e (e\<lparr>kr_event := ev, kr_symbols := st\<rparr>)"
  unfolding same_but_event_def by blast

lemma same_but_event_fields:
  assumes "same_but_event e e'"
  shows "kr_outputFile e' = kr_outputFile e" "kr_timeResolver e' = kr_timeResolver e"
    "kr_handleEvent e' = kr_handleEvent e" "kr_options e' = kr_options e"
  using assms by (auto simp: same_but_event_def)

lemma same_but_event_trans: "same_but_event e e' \<Longrightarrow> same_but_event e' e'' \<Longrightarrow> same_but_event e e''"
  unfolding same_but_event_def by (elim exE) (simp, blast)

lemma push_loop_out: "preserves out h \<Longrightarrow> out (snd (push_loop (kh_sys h) st i ss w)) = out w"
proof (induction ss arbitrary: i w)
  case (Cons s ss)
  have "out (snd (h_kallsymsMap_Put (kh_sys h) k v w)) = out w" for k v w
    using Cons.prems by (simp add: preserves_def)
  from this [of "word_of_nat i" _ w] Cons.IH [OF Cons.prems] show ?case
    by (auto split: option.splits prod.splits) (metis snd_conv)+
qed simp

lemma loadKernelSymbols_out:
  assumes "preserves out h"
  shows "out (snd (snd (loadKernelSymbols (kh_sys h) sortf st w))) = out w"
proof -
  have s: "out (snd (h_sysctl_Set (kh_sys h) k v w)) = out w" for k v w
    using assms by (simp add: preserves_def)
  then have c: "out (snd (snd (symbolAddressesAccessCheck (kh_sys h) st w))) = out w" for st w
    by (auto simp: symbolAddressesAccessCheck_def setKernelKPTRRestrict_def case_prod_beta
        split: sum.split)
  have r: "out (snd (resetKernelKPTRRestrict (kh_sys h) st w)) = out w" for st w
    using s by (simp add: resetKernelKPTRRestrict_def setKernelKPTRRestrict_def)
  have p: "out (snd (pushKernelSymbols (kh_sys h) st w)) = out w" for st w
    using push_loop_out [OF assms] by (simp add: pushKernelSymbols_def)
  show ?thesis
    using c [of st w] r p
    by (auto simp: loadKernelSymbols_def split: prod.splits option.splits) (metis snd_conv)+
qed

lemma resolve_with_out: "preserves out h \<Longrightarrow> out (snd (resolve_with f h e k w)) = out w"
  by (auto simp: resolve_with_def preserves_def Let_def case_prod_beta split: option.split)

text \<open>A payload that is long enough is decoded, and the handler goes on with an event that differs
  only in its payload; a shorter one is an error and leaves the world as it is.\<close>

lemma override_value_ok:
  assumes "ko_Events (kr_options e) = Some ev" and "eo_SysCtlEvent ev = Some sc"
  obtains v where "override_value e name = Inr v"
  using assms that by (simp add: override_value_def deref_def)

lemmas payload_cases = decode_payload_def payload_width_def Let_def

definition continues ::
    "'w KrieHost \<Rightarrow> ('w \<Rightarrow> 'o) \<Rightarrow> KRIE \<Rightarrow> 'w \<Rightarrow> (KRIE \<Rightarrow> 'w \<Rightarrow> 'w step) \<Rightarrow> 'w step \<Rightarrow> bool" where
  "continues h out e w k r \<longleftrightarrow>
     (\<exists>e1 w1. r = k e1 w1 \<and> same_but_event e e1 \<and> ev_Kernel (kr_event e1) = ev_Kernel (kr_event e) \<and> out w1 = out w)"

lemma continuesI:
  "same_but_event e e1 \<Longrightarrow> ev_Kernel (kr_event e1) = ev_Kernel (kr_event e) \<Longrightarrow> out w1 = out w \<Longrightarrow>
     continues h out e w k (k e1 w1)"
  unfolding continues_def by blast

lemma continues_reload:
  assumes "preserves out h" and "ev_Kernel ev = ev_Kernel (kr_event e)"
  shows "continues h out e w k (case reload_symbols h (e\<lparr>kr_event := ev\<rparr>) w of (e, w) \<Rightarrow> k e w)"
proof -
  obtain err st w1 where l: "loadKernelSymbols (kh_sys h) (kh_sort h) (kr_symbols e) w = (err, st, w1)"
    by (cases "loadKernelSymbols (kh_sys h) (kh_sort h) (kr_symbols e) w")
  then have "out w1 = out w"
    using loadKernelSymbols_out [OF assms(1), of "kh_sort h" "kr_symbols e" w] by simp
  with l assms(2) show ?thesis by (simp add: reload_symbols_def continuesI)
qed

lemma payload_full:
  "64 \<le> length data \<Longrightarrow> \<exists>x. InitModuleEvent_UnmarshallBinary bo x0 data = Inr (x, 64)"
  "56 \<le> length data \<Longrightarrow> \<exists>x. DeleteModuleEvent_UnmarshallBinary x1 data = Inr (x, 56)"
  "92 \<le> length data \<Longrightarrow> \<exists>x. BPFEvent_UnmarshallBinary bo x2 data = Inr (x, 92)"
  "16 \<le> length data \<Longrightarrow> \<exists>x. BPFFilterEvent_UnmarshallBinary bo x3 data = Inr (x, 16)"
  "16 \<le> length data \<Longrightarrow> \<exists>x. PTraceEvent_UnmarshallBinary bo x4 data = Inr (x, 16)"
  "80 \<le> length data \<Longrightarrow> \<exists>x. KProbeEvent_UnmarshallBinary bo x5 data = Inr (x, 80)"
  "4 \<le> length data \<Longrightarrow> \<exists>x. EventCheckEvent_UnmarshallBinary bo x6 data = Inr (x, 4)"
  "24 \<le> length data \<Longrightarrow> \<exists>x. HookedSyscallEvent_UnmarshallBinary bo x7 data = Inr (x, 24)"
  "24 \<le> length data \<Longrightarrow> \<exists>x. KernelParameterEvent_UnmarshallBinary bo x8 data = Inr (x, 24)"
  "28 \<le> length data \<Longrightarrow> \<exists>x. RegisterCheckEvent_UnmarshallBinary bo x9 data = Inr (x, 28)"
  by (metis imc.dec_full dmc.dec_full bec.dec_full bfc.dec_full ptc.dec_full kpc.dec_full ecc.dec_full
      hsc.dec_full kvc.dec_full rcc.dec_full)+

lemma payload_widthE:
  assumes "payload_width t = Some n"
  obtains (im) "t = InitModuleEventType" "n = 64" | (dm) "t = DeleteModuleEventType" "n = 56"
    | (bpf) "t = BPFEventType" "n = 92" | (bf) "t = BPFFilterEventType" "n = 16"
    | (pt) "t = PTraceEventType" "n = 16" | (kp) "t = KProbeEventType" "n = 80"
    | (sc) "t = SysCtlEventType" "n = 16" | (ec) "t = EventCheckEventType" "n = 4"
    | (hs) "t = HookedSyscallEventType \<or> t = HookedSyscallTableEventType" "n = 24"
    | (kv) "t = KernelParameterEventType \<or> t = PeriodicKernelParameterEventType" "n = 24"
    | (rc) "t = RegisterCheckEventType" "n = 28"
  using assms by (auto simp: payload_width_def split: if_splits)

lemma decode_payload_full:
  assumes "preserves out h" and "ko_Events (kr_options e) = Some evo" and "eo_SysCtlEvent evo = Some sc"
    and "payload_width (ke_Type (ev_Kernel (kr_event e))) = Some n" and "n \<le> length data"
    and "ke_Type (ev_Kernel (kr_event e)) = SysCtlEventType \<Longrightarrow>
      SysCtlEvent_UnmarshallBinary bo (ev_SysCtlEvent (kr_event e)) data \<noteq> Inl Panic"
  shows "continues h out e w k (decode_payload h bo data e w k)"
proof -
  let ?ev = "kr_event e"
  let ?t = "ke_Type (ev_Kernel ?ev)"
  have upd: "continues h out e w k (k (e\<lparr>kr_event := ev\<rparr>) w)" if "ev_Kernel ev = ev_Kernel ?ev" for ev
    using that by (simp add: continuesI)
  have rel: "continues h out e w k (case reload_symbols h (e\<lparr>kr_event := ev\<rparr>) w of (e, w) \<Rightarrow> k e w)"
    if "ev_Kernel ev = ev_Kernel ?ev" for ev
    using that by (rule continues_reload [OF assms(1)])
  have res: "continues h out e w k (k (e\<lparr>kr_event := ev\<rparr>) w1)" if "ev_Kernel ev = ev_Kernel ?ev" "out w1 = out w" for ev w1
    using that by (simp add: continuesI)
  note len = assms(5)
  from assms(4) show ?thesis
  proof (cases rule: payload_widthE)
    case im
    with len payload_full(1) [of data bo "ev_InitModule ?ev"] rel show ?thesis
      by (auto simp: decode_payload_def Let_def event_type_defs)
  next
    case dm
    with len payload_full(2) [of data "ev_DeleteModule ?ev"] rel show ?thesis
      by (auto simp: decode_payload_def Let_def event_type_defs)
  next
    case bpf
    with len payload_full(3) [of data bo "ev_BPFEvent ?ev"] upd show ?thesis
      by (auto simp: decode_payload_def Let_def event_type_defs)
  next
    case bf
    with len payload_full(4) [of data bo "ev_BPFFilterEvent ?ev"] upd show ?thesis
      by (auto simp: decode_payload_def Let_def event_type_defs)
  next
    case pt
    with len payload_full(5) [of data bo "ev_PTraceEvent ?ev"] upd show ?thesis
      by (auto simp: decode_payload_def Let_def event_type_defs)
  next
    case kp
    with len payload_full(6) [of data bo "ev_KProbeEvent ?ev"] upd show ?thesis
      by (auto simp: decode_payload_def Let_def event_type_defs)
  next
    case sc
    obtain x r where x: "SysCtlEvent_UnmarshallBinary bo (ev_SysCtlEvent ?ev) data = Inr (x, r)"
      using assms(6) [OF sc(1)] SysCtlEvent_no_error [of data bo "ev_SysCtlEvent ?ev"] sc(2) len
      by (cases "SysCtlEvent_UnmarshallBinary bo (ev_SysCtlEvent ?ev) data" rule: sum.exhaust)
        (auto simp: is_error_def intro: fault.exhaust)
    obtain v where "override_value e (se_Name x) = Inr v"
      using override_value_ok [OF assms(2,3)] .
    then show ?thesis using sc(1) x upd by (simp add: decode_payload_def Let_def event_type_defs)
  next
    case ec
    with len payload_full(7) [of data bo "ev_EventCheckEvent ?ev"] upd show ?thesis
      by (auto simp: decode_payload_def Let_def event_type_defs)
  next
    case hs
    with len payload_full(8) [of data bo "ev_HookedSyscallEvent ?ev"] res resolve_with_out [OF assms(1)] show ?thesis
      by (auto simp: decode_payload_def Let_def event_type_defs case_prod_beta)
  next
    case kv
    with len payload_full(9) [of data bo "ev_KernelParameterEvent ?ev"] res resolve_with_out [OF assms(1)] show ?thesis
      by (auto simp: decode_payload_def Let_def event_type_defs case_prod_beta)
  next
    case rc
    with len payload_full(10) [of data bo "ev_RegisterCheckEvent ?ev"] upd show ?thesis
      by (auto simp: decode_payload_def Let_def event_type_defs)
  qed
qed

lemma payload_short:
  "length data < 64 \<Longrightarrow> is_error (InitModuleEvent_UnmarshallBinary bo x0 data)"
  "length data < 56 \<Longrightarrow> is_error (DeleteModuleEvent_UnmarshallBinary x1 data)"
  "length data < 92 \<Longrightarrow> is_error (BPFEvent_UnmarshallBinary bo x2 data)"
  "length data < 16 \<Longrightarrow> is_error (BPFFilterEvent_UnmarshallBinary bo x3 data)"
  "length data < 16 \<Longrightarrow> is_error (PTraceEvent_UnmarshallBinary bo x4 data)"
  "length data < 80 \<Longrightarrow> is_error (KProbeEvent_UnmarshallBinary bo x5 data)"
  "length data < 16 \<Longrightarrow> is_error (SysCtlEvent_UnmarshallBinary bo x6 data)"
  "length data < 4 \<Longrightarrow> is_error (EventCheckEvent_UnmarshallBinary bo x7 data)"
  "length data < 24 \<Longrightarrow> is_error (HookedSyscallEvent_UnmarshallBinary bo x8 data)"
  "length data < 24 \<Longrightarrow> is_error (KernelParameterEvent_UnmarshallBinary bo x9 data)"
  "length data < 28 \<Longrightarrow> is_error (RegisterCheckEvent_UnmarshallBinary bo x10 data)"
  by (simp_all add: imc.dec_short dmc.dec_short bec.dec_short bfc.dec_short ptc.dec_short kpc.dec_short
      SysCtlEvent_short ecc.dec_short hsc.dec_short kvc.dec_short rcc.dec_short)

lemma or_return_error: "is_error m \<Longrightarrow> \<exists>err. or_return m e w f = Inr (Some err, e, w)"
  by (auto simp: is_error_def)

lemma payload_width_None:
  "payload_width t = None \<longleftrightarrow> t \<notin> {InitModuleEventType, DeleteModuleEventType, BPFEventType,
     BPFFilterEventType, PTraceEventType, KProbeEventType, SysCtlEventType, EventCheckEventType,
     HookedSyscallEventType, HookedSyscallTableEventType, KernelParameterEventType,
     PeriodicKernelParameterEventType, RegisterCheckEventType}"
  by (simp add: payload_width_def)

lemma decode_payload_unknown:
  assumes "payload_width (ke_Type (ev_Kernel (kr_event e))) = None"
  shows "\<exists>err. decode_payload h bo data e w k = Inr (Some err, e, w)"
proof -
  let ?t = "ke_Type (ev_Kernel (kr_event e))"
  have "?t \<noteq> InitModuleEventType" "?t \<noteq> DeleteModuleEventType" "?t \<noteq> BPFEventType" "?t \<noteq> BPFFilterEventType"
    "?t \<noteq> PTraceEventType" "?t \<noteq> KProbeEventType" "?t \<noteq> SysCtlEventType" "?t \<noteq> EventCheckEventType"
    "?t \<noteq> HookedSyscallEventType" "?t \<noteq> HookedSyscallTableEventType" "?t \<noteq> KernelParameterEventType"
    "?t \<noteq> PeriodicKernelParameterEventType" "?t \<noteq> RegisterCheckEventType"
    using assms unfolding payload_width_None by simp_all
  then show ?thesis by (simp only: decode_payload_def Let_def if_False simp_thms) blast
qed

lemma decode_payload_short:
  assumes "payload_width (ke_Type (ev_Kernel (kr_event e))) = Some n" and "length data < n"
  shows "\<exists>err. decode_payload h bo data e w k = Inr (Some err, e, w)"
  using assms
  by (cases rule: payload_widthE)
    (auto simp: decode_payload_def Let_def event_type_defs or_return_error payload_short)

text \<open>The fixed part: 32 bytes of kernel event and 2040 bytes of process context.\<close>

lemma ProcessContext_ok_zero: "ProcessContext_ok zero_process"
  by (simp add: ProcessContext_ok_def zero_process_def)

lemma handler_header:
  assumes "2072 \<le> length data"
  obtains ke pc where "ke_Type ke = record_type bo data"
    and "ke_Time ke = ResolveMonotonicTimestamp (kr_timeResolver e) (kh_clock h w) (word_at bo 8 0 data)"
    and "defaultEventHandler h env bo data e w =
      decode_payload h bo (drop 2072 data)
        (e\<lparr>kr_event := eventZero\<lparr>ev_Kernel := ke, ev_Process := pc\<rparr>\<rparr>) w (emit_event h env)"
proof -
  obtain ke where ke: "KernelEvent_UnmarshalBinary bo (kr_timeResolver e) (kh_clock h w) (ev_Kernel eventZero) data = Inr (ke, 32)"
    and t: "ke_Type ke = record_type bo data"
    and ts: "ke_Time ke = ResolveMonotonicTimestamp (kr_timeResolver e) (kh_clock h w) (word_at bo 8 0 data)"
    using assms by (simp add: KernelEvent_UnmarshalBinary_def rd32_ok rd64_ok record_type_def)
  have "ev_Process (eventZero\<lparr>ev_Kernel := ke\<rparr>) = zero_process" by (simp add: eventZero_def)
  moreover have "2040 \<le> length (drop 32 data)" using assms by simp
  from prc.dec_full [OF ProcessContext_ok_zero this, of bo] obtain pc
    where "ProcessContext_UnmarshalBinary bo zero_process (drop 32 data) = Inr (pc, 2040)" by blast
  ultimately have "defaultEventHandler h env bo data e w =
      decode_payload h bo (drop 2072 data)
        (e\<lparr>kr_event := eventZero\<lparr>ev_Kernel := ke, ev_Process := pc\<rparr>\<rparr>) w (emit_event h env)"
    using ke assms by (simp add: defaultEventHandler_def zeroEvent_def Let_def slice_from_ok)
  with t ts that show thesis by blast
qed

lemma handler_short:
  assumes "length data < 2072"
  obtains err ev where "defaultEventHandler h env bo data e w = Inr (Some err, e\<lparr>kr_event := ev\<rparr>, w)"
proof (cases "length data < 32")
  case True
  then have "is_error (KernelEvent_UnmarshalBinary bo (kr_timeResolver e) (kh_clock h w) (ev_Kernel eventZero) data)"
    by (simp add: ker.dec_short)
  then show thesis using that by (auto simp: is_error_def defaultEventHandler_def zeroEvent_def Let_def)
next
  case False
  then obtain ke where ke: "KernelEvent_UnmarshalBinary bo (kr_timeResolver e) (kh_clock h w) (ev_Kernel eventZero) data = Inr (ke, 32)"
    by (simp add: KernelEvent_UnmarshalBinary_def rd32_ok rd64_ok)
  have "ev_Process (eventZero\<lparr>ev_Kernel := ke\<rparr>) = zero_process" by (simp add: eventZero_def)
  moreover have "is_error (ProcessContext_UnmarshalBinary bo zero_process (drop 32 data))"
    using prc.dec_short [OF ProcessContext_ok_zero, of "drop 32 data"] assms False by simp
  ultimately show thesis
    using that ke False by (auto simp: is_error_def defaultEventHandler_def zeroEvent_def Let_def slice_from_ok)
qed

section \<open>Output\<close>

text \<open>What is asked of the outside: a time whose year fits into four digits has a JSON text, the
  libraries write JSON as documented, a write to the output file succeeds and appends.\<close>

definition time_range :: "Time \<Rightarrow> bool" where
  "time_range t \<longleftrightarrow> zero_time \<le> t \<and> t < 253402214400 * 10 ^ 9"

definition json_laws :: "'j JsonEnv \<Rightarrow> 'j JView \<Rightarrow> bool" where
  "json_laws env jv \<longleftrightarrow> jwriter_laws (je_jw env) jv \<and> library_texts env jv \<and> GoRange_ok (je_rg env) \<and>
     (\<forall>t. time_range t \<longrightarrow> (\<exists>ts. je_Time env t = Inr ts \<and> ts \<noteq> [] \<and> nl_free ts))"

definition output_laws :: "('w \<Rightarrow> string) \<Rightarrow> handle \<Rightarrow> 'w KrieHost \<Rightarrow> bool" where
  "output_laws out f h \<longleftrightarrow> preserves out h \<and> (\<forall>s w. \<exists>w'. kh_Write h f s w = (None, w') \<and> out w' = out w @ s)"

definition boot_ok :: "TimeResolver \<Rightarrow> bool" where
  "boot_ok tr \<longleftrightarrow> 0 \<le> tr_bootTime tr \<and> tr_bootTime tr \<le> 2 ^ 63"

lemma resolved_time_range: "boot_ok tr \<Longrightarrow> time_range (ResolveMonotonicTimestamp tr ck ts)"
  using sint_range64 [of "ts + fst (getUptimeOffset tr ck)"]
  by (simp add: ResolveMonotonicTimestamp_def time_range_def boot_ok_def time_Add_def zero_time_def case_prod_beta Let_def)

text \<open>The text of an event in range: encoding succeeds, and the document fits on a line.\<close>

definition event_line :: "'j JsonEnv \<Rightarrow> 'j JView \<Rightarrow> Event \<Rightarrow> string" where
  "event_line env jv e =
     (case je_Time env (ke_Time (ev_Kernel e)) of Inr ts \<Rightarrow> render (event_doc env jv ts e) | Inl _ \<Rightarrow> [])"

lemma marshal_line:
  assumes "json_laws env jv" and "time_range (ke_Time (ev_Kernel e))"
  shows "Event_MarshalJSON env e = Inr (Inr (event_line env jv e))" and "nl_free (event_line env jv e)"
proof -
  obtain ts where ts: "je_Time env (ke_Time (ev_Kernel e)) = Inr ts" "ts \<noteq> []" "nl_free ts"
    using assms by (auto simp: json_laws_def)
  have laws: "jwriter_laws (je_jw env) jv" "library_texts env jv" "GoRange_ok (je_rg env)"
    using assms(1) by (simp_all add: json_laws_def)
  show "Event_MarshalJSON env e = Inr (Inr (event_line env jv e))"
    using event_marshal [OF laws(1) ts(1,2)] ts(1) by (simp add: event_line_def)
  show "nl_free (event_line env jv e)"
    using render_one_line(1) [OF one_line_event [OF laws(2,3) ts(3)]] ts(1) by (simp add: event_line_def)
qed

lemma emit_event_no_panic:
  assumes "json_laws env jv" and "time_range (ke_Time (ev_Kernel (kr_event e)))"
  shows "emit_event h env e w \<noteq> Inl Panic"
  using marshal_line(1) [OF assms]
  by (auto simp: emit_event_def Event_String_def Let_def split: option.split prod.split)

lemma emit_event_appends:
  assumes "json_laws env jv" and "time_range (ke_Time (ev_Kernel (kr_event e)))"
    and "output_laws out f h" and "kr_outputFile e = Some f"
  shows "\<exists>w'. emit_event h env e w = Inr (None, e, w') \<and> out w' = out w @ event_line env jv (kr_event e) @ [CHR 0x0A]"
proof -
  obtain w1 where w1: "kh_Write h f (event_line env jv (kr_event e) @ [CHR 0x0A]) w = (None, w1)"
    "out w1 = out w @ event_line env jv (kr_event e) @ [CHR 0x0A]"
    using assms(3) by (auto simp: output_laws_def)
  have d: "out (kh_log_Debugf h s w) = out w" for s w
    using assms(3) by (simp add: output_laws_def preserves_def)
  show ?thesis
    using marshal_line(1) [OF assms(1,2)] w1 assms(4) d [of "event_line env jv (kr_event e)" w1]
    by (simp add: emit_event_def Event_String_def Let_def)
qed

lemma sysctl_panics_drop:
  assumes "accepted bo d" and "record_type bo d = SysCtlEventType"
  shows "SysCtlEvent_UnmarshallBinary bo r (drop 2072 d) = Inl Panic \<longleftrightarrow> record_panics bo d"
proof -
  have "16 \<le> length (drop 2072 d)" "2088 \<le> length d"
    using assms by (simp_all add: accepted_def payload_width_def event_type_defs)
  with assms(2) show ?thesis
    by (auto simp: SysCtlEvent_decode sysctl_strings_def Let_def unterminated_def record_panics_def after_nul_def)
qed

text \<open>The handler on any record: an error that changes nothing outside the event, a panic, or an event
  that is emitted.\<close>

lemma handler_rejects:
  assumes "\<not> accepted bo d"
  shows "\<exists>err ev. defaultEventHandler h env bo d e w = Inr (Some err, e\<lparr>kr_event := ev\<rparr>, w)"
proof (cases "length d < 2072")
  case True
  then show ?thesis using handler_short by metis
next
  case False
  then have "2072 \<le> length d" by simp
  from handler_header [OF this, of bo e h w env] obtain ke pc where ke: "ke_Type ke = record_type bo d" and
    eq: "defaultEventHandler h env bo d e w = decode_payload h bo (drop 2072 d)
        (e\<lparr>kr_event := eventZero\<lparr>ev_Kernel := ke, ev_Process := pc\<rparr>\<rparr>) w (emit_event h env)"
    by metis
  let ?e = "e\<lparr>kr_event := eventZero\<lparr>ev_Kernel := ke, ev_Process := pc\<rparr>\<rparr>"
  have "\<exists>err. decode_payload h bo (drop 2072 d) ?e w (emit_event h env) = Inr (Some err, ?e, w)"
  proof (cases "payload_width (record_type bo d)")
    case None
    then show ?thesis by (intro decode_payload_unknown) (simp add: ke)
  next
    case (Some n)
    then have "length (drop 2072 d) < n" using assms False by (auto simp: accepted_def)
    with Some show ?thesis by (intro decode_payload_short) (simp_all add: ke)
  qed
  then show ?thesis unfolding eq by blast
qed

definition options_set :: "KRIE \<Rightarrow> bool" where
  "options_set e \<longleftrightarrow> (\<exists>ev sc. ko_Events (kr_options e) = Some ev \<and> eo_SysCtlEvent ev = Some sc)"

lemma handler_accepts:
  assumes "preserves out h" and "options_set e" and "boot_ok (kr_timeResolver e)" and "accepted bo d" and "\<not> record_panics bo d"
  shows "\<exists>e1 w1. defaultEventHandler h env bo d e w = emit_event h env e1 w1 \<and> same_but_event e e1 \<and>
    time_range (ke_Time (ev_Kernel (kr_event e1))) \<and> ke_Type (ev_Kernel (kr_event e1)) = record_type bo d \<and> out w1 = out w"
proof -
  obtain n where n: "payload_width (record_type bo d) = Some n" "2072 + n \<le> length d"
    using assms(4) by (auto simp: accepted_def split: option.splits)
  then obtain ke pc where ke: "ke_Type ke = record_type bo d"
    "ke_Time ke = ResolveMonotonicTimestamp (kr_timeResolver e) (kh_clock h w) (word_at bo 8 0 d)" and
    eq: "defaultEventHandler h env bo d e w = decode_payload h bo (drop 2072 d)
        (e\<lparr>kr_event := eventZero\<lparr>ev_Kernel := ke, ev_Process := pc\<rparr>\<rparr>) w (emit_event h env)"
    using handler_header [of d bo e h w env] by auto
  let ?e = "e\<lparr>kr_event := eventZero\<lparr>ev_Kernel := ke, ev_Process := pc\<rparr>\<rparr>"
  obtain evo sc where o: "ko_Events (kr_options ?e) = Some evo" "eo_SysCtlEvent evo = Some sc"
    using assms(2) by (auto simp: options_set_def)
  have t: "ke_Type (ev_Kernel (kr_event ?e)) = record_type bo d" using ke by simp
  have w: "payload_width (ke_Type (ev_Kernel (kr_event ?e))) = Some n" "n \<le> length (drop 2072 d)"
    using n t by simp_all
  have "continues h out ?e w (emit_event h env) (decode_payload h bo (drop 2072 d) ?e w (emit_event h env))"
    using decode_payload_full [OF assms(1) o w] sysctl_panics_drop [OF assms(4)] assms(5) unfolding t by blast
  then obtain e1 w1 where "decode_payload h bo (drop 2072 d) ?e w (emit_event h env) = emit_event h env e1 w1"
    "same_but_event ?e e1" "ev_Kernel (kr_event e1) = ke" "out w1 = out w"
    by (auto simp: continues_def)
  moreover from this have "same_but_event e e1" using same_but_event_trans same_but_event_refl(1) by blast
  ultimately show ?thesis using eq ke resolved_time_range [OF assms(3)] by metis
qed

end
