(* ===== verification/Record_Streams.thy ===== *)
theory Record_Streams
  imports Event_Handler
begin

text \<open>
  The handler against the kernel side: the records the eBPF programs send, as values and as
  bytes, and the properties of \<open>defaultEventHandler\<close> and of the loop over the records: which
  records make it panic, that one record does not depend on the ones before, that a record
  is turned into the event it encodes, and what the output file holds after a
  sequence of records.
\<close>

section \<open>What the kernel sends\<close>

text \<open>The payload structures of the kernel side, with the types under which they are sent.  The
  strings of a sysctl event are those of a write.\<close>

datatype kernel_payload =
    KInitModule init_module_event_t
  | KDeleteModule string
  | KBPF bpf_event_t
  | KBPFFilter bpf_filter_event_t
  | KPTrace ptrace_event_t
  | KKProbe kprobe_event_t
  | KSysCtl u32 u32 u64 string string string
  | KEventCheck u32
  | KHookedSyscall syscall_table_event_t
  | KKernelParameter kernel_parameter_event_t
  | KRegisterCheck register_event_t

fun payload_ok :: "kernel_payload \<Rightarrow> bool" where
  "payload_ok (KInitModule s) = init_module_ok s"
| "payload_ok (KDeleteModule s) = delete_module_ok s"
| "payload_ok (KBPF s) = bpf_event_ok s"
| "payload_ok (KKProbe s) = kprobe_ok s"
| "payload_ok (KSysCtl wa fp act name cur new) = (no_nul name \<and> no_nul cur \<and> no_nul new)"
| "payload_ok _ = True"

fun payload_types :: "kernel_payload \<Rightarrow> u32 list" where
  "payload_types (KInitModule _) = [InitModuleEventType]"
| "payload_types (KDeleteModule _) = [DeleteModuleEventType]"
| "payload_types (KBPF _) = [BPFEventType]"
| "payload_types (KBPFFilter _) = [BPFFilterEventType]"
| "payload_types (KPTrace _) = [PTraceEventType]"
| "payload_types (KKProbe _) = [KProbeEventType]"
| "payload_types (KSysCtl _ _ _ _ _ _) = [SysCtlEventType]"
| "payload_types (KEventCheck _) = [EventCheckEventType]"
| "payload_types (KHookedSyscall _) = [HookedSyscallEventType, HookedSyscallTableEventType]"
| "payload_types (KKernelParameter _) = [KernelParameterEventType, PeriodicKernelParameterEventType]"
| "payload_types (KRegisterCheck _) = [RegisterCheckEventType]"

fun payload_bytes :: "ByteOrder \<Rightarrow> kernel_payload \<Rightarrow> bytes" where
  "payload_bytes bo (KInitModule s) = init_module_bytes bo s"
| "payload_bytes bo (KDeleteModule s) = c_string 56 s"
| "payload_bytes bo (KBPF s) = bpf_event_bytes bo s"
| "payload_bytes bo (KBPFFilter s) = bpf_filter_bytes bo s"
| "payload_bytes bo (KPTrace s) = ptrace_bytes bo s"
| "payload_bytes bo (KKProbe s) = kprobe_bytes bo s"
| "payload_bytes bo (KSysCtl wa fp act name cur new) = sysctl_event_bytes bo wa fp act [name, cur, new]"
| "payload_bytes bo (KEventCheck t) = put_word bo 4 t"
| "payload_bytes bo (KHookedSyscall s) = syscall_table_bytes bo s"
| "payload_bytes bo (KKernelParameter s) = kernel_parameter_bytes bo s"
| "payload_bytes bo (KRegisterCheck s) = register_bytes bo s"

text \<open>The event that shows these structures.\<close>

fun payload_event :: "kernel_payload \<Rightarrow> Event \<Rightarrow> Event" where
  "payload_event (KInitModule s) ev = ev\<lparr>ev_InitModule := init_module_view (ev_InitModule ev) s\<rparr>"
| "payload_event (KDeleteModule s) ev = ev\<lparr>ev_DeleteModule := delete_module_view (ev_DeleteModule ev) s\<rparr>"
| "payload_event (KBPF s) ev = ev\<lparr>ev_BPFEvent := bpf_event_view (ev_BPFEvent ev) s\<rparr>"
| "payload_event (KBPFFilter s) ev = ev\<lparr>ev_BPFFilterEvent := bpf_filter_view (ev_BPFFilterEvent ev) s\<rparr>"
| "payload_event (KPTrace s) ev = ev\<lparr>ev_PTraceEvent := ptrace_view (ev_PTraceEvent ev) s\<rparr>"
| "payload_event (KKProbe s) ev = ev\<lparr>ev_KProbeEvent := kprobe_view (ev_KProbeEvent ev) s\<rparr>"
| "payload_event (KSysCtl wa fp act name cur new) ev = ev\<lparr>ev_SysCtlEvent :=
     (ev_SysCtlEvent ev)\<lparr>se_WriteAccess := se_WriteAccess (ev_SysCtlEvent ev) \<or> wa = 1, se_FilePosition := fp,
       se_Action := act, se_Name := name, se_CurrentValue := cur, se_NewValue := new\<rparr>\<rparr>"
| "payload_event (KEventCheck t) ev = ev\<lparr>ev_EventCheckEvent := event_check_view (ev_EventCheckEvent ev) t\<rparr>"
| "payload_event (KHookedSyscall s) ev =
     ev\<lparr>ev_HookedSyscallEvent := syscall_table_view (ev_HookedSyscallEvent ev) s\<rparr>"
| "payload_event (KKernelParameter s) ev =
     ev\<lparr>ev_KernelParameterEvent := kernel_parameter_view (ev_KernelParameterEvent ev) s\<rparr>"
| "payload_event (KRegisterCheck s) ev =
     ev\<lparr>ev_RegisterCheckEvent := register_view (ev_RegisterCheckEvent ev) s\<rparr>"

text \<open>What user space adds to a decoded event, by its type.\<close>

definition enrich :: "'w KrieHost \<Rightarrow> KRIE \<Rightarrow> 'w \<Rightarrow> (KRIE \<times> 'w) result" where
  "enrich h e w =
     (let ev = kr_event e; t = ke_Type (ev_Kernel ev) in
      if t = InitModuleEventType \<or> t = DeleteModuleEventType then Inr (reload_symbols h e w)
      else if t = SysCtlEventType \<and> se_Action (ev_SysCtlEvent ev) = 2 then
        bindR (override_value e (se_Name (ev_SysCtlEvent ev))) (\<lambda>v.
        Inr (e\<lparr>kr_event := ev\<lparr>ev_SysCtlEvent := (ev_SysCtlEvent ev)\<lparr>se_NewValueOverriddenWith := v\<rparr>\<rparr>\<rparr>, w))
      else if t = HookedSyscallEventType \<or> t = HookedSyscallTableEventType then
        (let x = ev_HookedSyscallEvent ev;
             (ih, w) = resolve_with resolveFuncSymbol h e (hs_InitialHandler x) w;
             (nh, w) = resolve_with resolveFuncSymbol h e (hs_NewHandler x) w
         in Inr (e\<lparr>kr_event := ev\<lparr>ev_HookedSyscallEvent := x\<lparr>hs_InitialHandler := ih, hs_NewHandler := nh\<rparr>\<rparr>\<rparr>, w))
      else if t = KernelParameterEventType \<or> t = PeriodicKernelParameterEventType then
        (let x = ev_KernelParameterEvent ev;
             (p, w) = resolve_with resolveObjectSymbol h e (kv_Parameter x) w
         in Inr (e\<lparr>kr_event := ev\<lparr>ev_KernelParameterEvent := x\<lparr>kv_Parameter := p\<rparr>\<rparr>\<rparr>, w))
      else Inr (e, w))"

lemma resolve_with_symbols:
  "resolve_with f h (e\<lparr>kr_event := ev\<rparr>) k w = resolve_with f h e k w"
  by (simp add: resolve_with_def)

lemma override_value_event: "override_value (e\<lparr>kr_event := ev\<rparr>) name = override_value e name"
  by (simp add: override_value_def)

lemma sysctl_write_decoded:
  assumes "no_nul name" and "no_nul cur" and "no_nul new"
  shows "\<exists>n. SysCtlEvent_UnmarshallBinary bo r (sysctl_event_bytes bo wa fp act [name, cur, new]) =
    Inr (r\<lparr>se_WriteAccess := se_WriteAccess r \<or> wa = 1, se_FilePosition := fp, se_Action := act,
      se_Name := name, se_CurrentValue := cur, se_NewValue := new\<rparr>, n)"
proof -
  let ?d = "sysctl_event_bytes bo wa fp act [name, cur, new]"
  have d: "drop 16 ?d = bytes_of_string name @ 0 # bytes_of_string cur @ 0 # bytes_of_string new @ [0]"
    and len: "16 \<le> length ?d"
    and w: "word_at bo 4 0 ?d = wa" "word_at bo 4 4 ?d = fp" "word_at bo 8 8 ?d = act"
    by (simp_all add: sysctl_event_bytes_def encoded_simps)
  then show ?thesis
    using assms by (simp add: SysCtlEvent_decode sysctl_head_def sysctl_strings_def Let_def
        cstr_terminated after_nul_terminated)
qed

lemmas payload_codecs = imc.dec_enc dmc.dec_enc bec.dec_enc bfc.dec_enc ptc.dec_enc kpc.dec_enc ecc.dec_enc
  hsc.dec_enc kvc.dec_enc rcc.dec_enc

lemma decode_payload_encoded:
  assumes "payload_ok p" and "ke_Type (ev_Kernel (kr_event e)) \<in> set (payload_types p)"
  shows "decode_payload h bo (payload_bytes bo p) e w k =
    bindR (enrich h (e\<lparr>kr_event := payload_event p (kr_event e)\<rparr>) w) (\<lambda>(e, w). k e w)"
proof (cases p)
  case (KSysCtl wa fp act name cur new)
  with assms sysctl_write_decoded [of name cur new bo "ev_SysCtlEvent (kr_event e)" wa fp act] show ?thesis
    by (auto simp: decode_payload_def enrich_def Let_def event_type_defs override_value_event bindR_def
        split: sum.split)
qed (use assms in \<open>auto simp: decode_payload_def enrich_def Let_def event_type_defs payload_codecs
      resolve_with_symbols case_prod_beta\<close>)

section \<open>A concrete instance\<close>

text \<open>A world that is the text of the output file.\<close>

definition demo_krie_host :: "string KrieHost" where
  "demo_krie_host =
     \<lparr>kh_sys = demo_sys, kh_clock = (\<lambda>_. \<lparr>ck_now = 10 ^ 18, ck_uptime = Some (1000, 0)\<rparr>),
      kh_range = (\<lambda>_ w. ([], w)), kh_sort = sort_key sym_Value, kh_Write = (\<lambda>_ s w. (None, w @ s)),
      kh_Put = (\<lambda>_ _ _ w. (None, w)), kh_GetMap = (\<lambda>_ _. Inr (Some 0, True)),
      kh_log_Error = (\<lambda>_ w. w), kh_log_Debugf = (\<lambda>_ w. w), kh_debug = (\<lambda>_. False), kh_show_error = (\<lambda>_. [])\<rparr>"

definition demo_kernel_event :: "u32 \<Rightarrow> kernel_event_t" where
  "demo_kernel_event t = \<lparr>kt_timestamp = 5, kt_retval = 0, kt_cpu = 0, kt_type = t, kt_action = 1, kt_padding = 0\<rparr>"

definition demo_process :: process_context_t where
  "demo_process =
     \<lparr>pct_namespaces = \<lparr>nst_cgroup = 0, nst_ipc = 0, nst_net = 0, nst_mnt = 0, nst_pid = 0, nst_time = 0,
        nst_user = 0, nst_uts = 0\<rparr>,
      pct_credentials = \<lparr>crt_uid = 0, crt_gid = 0, crt_suid = 0, crt_sgid = 0, crt_euid = 0, crt_egid = 0,
        crt_fsuid = 0, crt_fsgid = 0, crt_securebits = 0, crt_padding = 0, crt_cap_inheritable = 0,
        crt_cap_permitted = 0, crt_cap_effective = 0, crt_cap_bset = 0, crt_cap_ambient = 0\<rparr>,
      pct_comm = ''sh'', pct_cgroups = replicate 14 \<lparr>cgt_subsystem_id = 0, cgt_id = 0, cgt_name = []\<rparr>,
      pct_pid = 1, pct_tid = 1\<rparr>"

lemma demo_output: "output_laws (\<lambda>w. w) f demo_krie_host" "preserves (\<lambda>w. w) demo_krie_host"
  by (simp_all add: output_laws_def preserves_def demo_krie_host_def demo_sys_def)

lemma demo_json_laws: "json_laws demo_json demo_jview"
proof -
  have "je_Time demo_json t = Inr (quoted (signed_text t))" "quoted (signed_text t) \<noteq> []" for t
    by (simp_all add: demo_json_def quoted_def)
  moreover have "jwriter_laws (je_jw demo_json) demo_jview" by (simp add: demo_json_def demo_jwriter_laws)
  ultimately show ?thesis using demo_library demo_range nl_free_quoted by (simp add: json_laws_def)
qed

lemma demo_krie_ok: "options_set demo_krie" "boot_ok (kr_timeResolver demo_krie)" "kr_handleEvent demo_krie = None"
  "kr_outputFile demo_krie = Some 1"
  by (simp_all add: options_set_def boot_ok_def demo_krie_def NewOptions_def NewEventsOptions_def)

lemma demo_process_ok: "process_context_ok demo_process"
  by (simp add: process_context_ok_def demo_process_def c_string_ok_def cgroup_context_ok_def bytes_of_string_def
      char_byte_def list_all_iff)

section \<open>One record through the data handler\<close>

lemma data_handler_line:
  assumes "json_laws env jv" and "output_laws out f h" and "options_set e" and "boot_ok (kr_timeResolver e)"
    and "kr_handleEvent e = None" and "kr_outputFile e = Some f" and "\<not> record_panics bo d"
  shows "\<exists>e1 w1 ls. data_handler h env bo d e w = Inr (e1, w1) \<and> same_but_event e e1 \<and>
    out w1 = out w @ concat (map (\<lambda>l. l @ [CHR 0x0A]) ls) \<and> (\<forall>l\<in>set ls. nl_free l) \<and>
    length ls = (if accepted bo d then 1 else 0)"
proof (cases "accepted bo d")
  case False
  from handler_rejects [OF False, of h env e w] obtain err ev
    where "defaultEventHandler h env bo d e w = Inr (Some err, e\<lparr>kr_event := ev\<rparr>, w)" by blast
  moreover have "out (kh_log_Error h x w) = out w" for x
    using assms(2) by (simp add: output_laws_def preserves_def)
  ultimately show ?thesis using False assms(5) by (intro exI [of _ "e\<lparr>kr_event := ev\<rparr>"]) (simp add: data_handler_def)
next
  case True
  have "preserves out h" using assms(2) by (simp add: output_laws_def)
  from handler_accepts [OF this assms(3,4) True assms(7)] obtain e1 w1 where
    eq: "defaultEventHandler h env bo d e w = emit_event h env e1 w1" and same: "same_but_event e e1"
    and t: "time_range (ke_Time (ev_Kernel (kr_event e1)))" and w1: "out w1 = out w" by blast
  from emit_event_appends [OF assms(1) t assms(2)] same_but_event_fields(1) [OF same] assms(6) obtain w2 where
    "emit_event h env e1 w1 = Inr (None, e1, w2)" "out w2 = out w1 @ event_line env jv (kr_event e1) @ [CHR 0x0A]"
    by auto
  with eq same w1 True assms(5) marshal_line(2) [OF assms(1) t] show ?thesis
    by (intro exI [of _ e1] exI [of _ w2] exI [of _ "[event_line env jv (kr_event e1)]"]) (simp add: data_handler_def)
qed

section \<open>Properties\<close>

text \<open>C1: The event handler panics exactly on sysctl records whose name or current value has no
  terminator; every other record, of any length and any type, is handled to the end.\<close>

theorem handler_panics_iff:
  assumes "json_laws env jv" and "options_set e" and "boot_ok (kr_timeResolver e)"
  shows "defaultEventHandler h env bo d e w = Inl Panic \<longleftrightarrow> record_panics bo d"
proof (cases "accepted bo d")
  case False
  then show ?thesis
    using handler_rejects [OF False, of h env e w]
    by (auto simp: accepted_def record_panics_def payload_width_def event_type_defs)
next
  case acc: True
  show ?thesis
  proof (cases "record_panics bo d")
    case False
    have "preserves (\<lambda>_. ()) h" by (simp add: preserves_def)
    from handler_accepts [OF this assms(2,3) acc False] obtain e1 w1
      where "defaultEventHandler h env bo d e w = emit_event h env e1 w1"
        and "time_range (ke_Time (ev_Kernel (kr_event e1)))" by blast
    with emit_event_no_panic [OF assms(1)] False show ?thesis by simp
  next
    case True
    then have t: "record_type bo d = SysCtlEventType" and len: "2072 \<le> length d"
      by (simp_all add: record_panics_def)
    have "SysCtlEvent_UnmarshallBinary bo r (drop 2072 d) = Inl Panic" for r
      using sysctl_panics_drop [OF acc t] True by blast
    moreover obtain ke pc where "ke_Type ke = record_type bo d" "defaultEventHandler h env bo d e w =
        decode_payload h bo (drop 2072 d)
          (e\<lparr>kr_event := eventZero\<lparr>ev_Kernel := ke, ev_Process := pc\<rparr>\<rparr>) w (emit_event h env)"
      using handler_header [OF len] by metis
    ultimately show ?thesis using True t by (simp add: decode_payload_def Let_def event_type_defs)
  qed
qed

theorem handler_panics_iff_witness:
  "json_laws demo_json demo_jview \<and> \<not> record_panics LittleEndian [] \<and>
   defaultEventHandler demo_krie_host demo_json LittleEndian [] demo_krie [] \<noteq> Inl Panic"
proof -
  have "\<not> record_panics LittleEndian []" by (simp add: record_panics_def)
  with handler_panics_iff [OF demo_json_laws demo_krie_ok(1,2), of demo_krie_host LittleEndian "[]" "[]"] demo_json_laws
  show ?thesis by simp
qed

text \<open>The handler reuses one event, but nothing of an earlier record shows in a later one: the
  result does not depend on the event the previous record left.\<close>

lemma handler_isolated:
  "defaultEventHandler h env bo d (e\<lparr>kr_event := ev\<rparr>) w = defaultEventHandler h env bo d (e\<lparr>kr_event := ev'\<rparr>) w"
  by (simp add: defaultEventHandler_def zeroEvent_def)



text \<open>C3: The output file holds one line per accepted record: over any sequence of records without one
  that panics, every record that is long enough for its type adds exactly one line break, at its end,
  and every other record adds nothing.\<close>

theorem output_file_lines:
  assumes "json_laws env jv" and "output_laws out f h" and "options_set e" and "boot_ok (kr_timeResolver e)"
    and "kr_handleEvent e = None" and "kr_outputFile e = Some f" and "\<forall>d\<in>set ds. \<not> record_panics bo d"
  shows "\<exists>e' w' lines. handle_records h env bo ds e w = Inr (e', w') \<and>
    out w' = out w @ concat (map (\<lambda>l. l @ [CHR 0x0A]) lines) \<and> (\<forall>l\<in>set lines. nl_free l) \<and>
    length lines = length (filter (accepted bo) ds)"
  using assms(3-7)
proof (induction ds arbitrary: e w)
  case Nil
  then show ?case by (intro exI [of _ e] exI [of _ w] exI [of _ "[]"]) simp
next
  case (Cons d ds)
  obtain e1 w1 ls where step: "data_handler h env bo d e w = Inr (e1, w1)" "same_but_event e e1"
    and out: "out w1 = out w @ concat (map (\<lambda>l. l @ [CHR 0x0A]) ls)" "\<forall>l\<in>set ls. nl_free l"
      "length ls = (if accepted bo d then 1 else 0)"
    using data_handler_line [OF assms(1,2) Cons.prems(1-4), of bo d w] Cons.prems(5) by auto
  note same = same_but_event_fields [OF step(2)]
  have "options_set e1" using Cons.prems(1) same by (simp add: options_set_def)
  from Cons.IH [OF this, of w1] Cons.prems same obtain e' w' ls' where
    rest: "handle_records h env bo ds e1 w1 = Inr (e', w')"
    "out w' = out w1 @ concat (map (\<lambda>l. l @ [CHR 0x0A]) ls')" "\<forall>l\<in>set ls'. nl_free l"
    "length ls' = length (filter (accepted bo) ds)" by auto
  with step out show ?case by (intro exI [of _ e'] exI [of _ w'] exI [of _ "ls @ ls'"]) auto
qed

theorem output_file_lines_witness:
  "\<exists>e' w'. handle_records demo_krie_host demo_json LittleEndian [[], [1, 2, 3]] demo_krie ''x'' = Inr (e', w') \<and> w' = ''x''"
proof -
  have a: "\<not> accepted LittleEndian []" "\<not> accepted LittleEndian [1, 2, 3]"
    by (auto simp: accepted_def split: option.split)
  have "\<forall>d\<in>set [[], [1, 2, 3]]. \<not> record_panics LittleEndian d" by (simp add: record_panics_def)
  from output_file_lines [OF demo_json_laws demo_output(1) demo_krie_ok this, of "''x''"] a show ?thesis by auto
qed

end
