(* ===== verification/Krie_Filters.thy ===== *)
theory Krie_Filters
  imports Krie_State
begin

text \<open>
  What user space writes into the kernel's maps before the programs start:
  \<^verbatim>\<open>pkg/krie/policies.go\<close>, \<^verbatim>\<open>pkg/krie/kernel_parameters.go\<close>, \<^verbatim>\<open>pkg/krie/sysctl.go\<close> and
  \<open>selectMaps\<close> and \<open>loadFilters\<close> of \<^verbatim>\<open>pkg/krie/manager.go\<close>.  A \<open>range\<close> over a map goes over the
  entries in the order of a parameter.
\<close>

section \<open>Model\<close>

text \<open>\<open>m.Put(key, value)\<close>: a nil map panics.\<close>

definition put ::
    "'w KrieHost \<Rightarrow> handle option \<Rightarrow> map_data \<Rightarrow> map_data \<Rightarrow> 'w \<Rightarrow> (error option \<times> 'w) result" where
  "put h m key val w = bindR (deref m) (\<lambda>m. Inr (kh_Put h m key val w))"

subsection \<open>Policies\<close>

fun push_policies :: "GoRange \<Rightarrow> 'w KrieHost \<Rightarrow> (u32 \<times> u32) list \<Rightarrow> KRIE \<Rightarrow> 'w \<Rightarrow> 'w step" where
  "push_policies rg h [] e w = Inr (None, e, w)"
| "push_policies rg h ((eventType, action) # rest) e w =
     bindR (put h (kr_policiesMap e) (MU32 eventType) (MU32 action) w) (\<lambda>(err, w).
     case err of
       Some err \<Rightarrow>
         Inr (Some (Errorf (''failed to push '' @ json_quote ''%s'' @ '' policy for '' @ json_quote ''%s'' @ '': %w'')
                [FStr (Action_String rg action), FStr (EventType_String eventType)] (Some err)), e, w)
     | None \<Rightarrow> push_policies rg h rest e w)"

definition loadPolicies ::
    "GoRange \<Rightarrow> ((u32 \<times> u32) list \<Rightarrow> (u32 \<times> u32) list) \<Rightarrow> 'w KrieHost \<Rightarrow> KRIE \<Rightarrow> 'w \<Rightarrow> 'w step" where
  "loadPolicies rg rng h e w =
     bindR (deref (ko_Events (kr_options e))) (\<lambda>ev.
     bindR (ParseEventsActions rng ev) (\<lambda>(ev, m).
     push_policies rg h (rng (case m of None \<Rightarrow> [] | Some es \<Rightarrow> es))
       (e\<lparr>kr_options := (kr_options e)\<lparr>ko_Events := Some ev\<rparr>\<rparr>) w))"

subsection \<open>Kernel parameters\<close>

text \<open>The address a parameter is checked at: its own, or that of its symbol.\<close>

definition symbol_address :: "'w KrieHost \<Rightarrow> KRIE \<Rightarrow> ParameterOption \<Rightarrow> 'w \<Rightarrow> u64 \<times> 'w" where
  "symbol_address h e param w =
     (case kst_kernelSymbols (kr_symbols e) (po_Symbol param) of
        Some s \<Rightarrow> (sym_Value s, w)
      | None \<Rightarrow>
          (0, kh_log_Error h (Errorf ''couldn't find %s kernel parameter, this kernel parameter will be ignored''
                [FStr (po_Symbol param)] None) w))"

fun push_parameters :: "'w KrieHost \<Rightarrow> nat \<Rightarrow> ParameterOption list \<Rightarrow> KRIE \<Rightarrow> 'w \<Rightarrow> 'w step" where
  "push_parameters h key [] e w = Inr (None, e, w)"
| "push_parameters h key (param # rest) e w =
     (if po_Address param = 0 \<and> length (po_Symbol param) = 0
      then Inr (Some (Errorf
             ''couldn't load kernel parameters: an address or a symbol must be provided for each parameter: %+v''
             [FStr (po_Symbol param), FInt (uint (po_Address param)), FInt (uint (po_ExpectedValue param)),
              FInt (uint (po_Size param))] None), e, w)
      else
        let (param, w) = (if po_Address param = 0
               then let (a, w) = symbol_address h e param w in (param\<lparr>po_Address := a\<rparr>, w) else (param, w)) in
        bindR (put h (kr_kernelParametersMap e) (MU32 (word_of_nat key))
                 (MKernelParameter (kernelParameterFromParameterOption param)) w) (\<lambda>(err, w).
        case err of
          Some err \<Rightarrow>
            Inr (Some (Errorf ''couldn't push %s kernel parameter: %w'' [FStr (po_Symbol param)] (Some err)), e, w)
        | None \<Rightarrow> push_parameters h (key + 1) rest e w))"

definition loadKernelParameters :: "'w KrieHost \<Rightarrow> KRIE \<Rightarrow> 'w \<Rightarrow> 'w step" where
  "loadKernelParameters h e w =
     bindR (deref (ko_Events (kr_options e))) (\<lambda>ev.
     bindR (deref (eo_KernelParameterEvent ev)) (\<lambda>kp.
     push_parameters h 0 (kpo_List kp) e w))"

subsection \<open>Sysctl parameters\<close>

text \<open>\<open>b := make([]byte, 256); copy(b, name)\<close>\<close>

definition sysctl_key :: "string \<Rightarrow> bytes" where
  "sysctl_key name = go_copy (replicate 256 0) (bytes_of_string name)"

fun push_sysctls :: "'w KrieHost \<Rightarrow> (string \<times> SysCtlParameter) list \<Rightarrow> KRIE \<Rightarrow> 'w \<Rightarrow> 'w step" where
  "push_sysctls h [] e w = Inr (None, e, w)"
| "push_sysctls h ((name, param) # rest) e w =
     bindR (put h (kr_sysctlParametersMap e) (MBytes (sysctl_key name)) (MSysCtlParameter param) w) (\<lambda>(err, w).
     case err of
       Some err \<Rightarrow> Inr (Some (Errorf ''failed to push SysCtlParameter for %s: %w'' [FStr name] (Some err)), e, w)
     | None \<Rightarrow> push_sysctls h rest e w)"

definition loadSysCtlParameters ::
    "((string \<rightharpoonup> SysCtlParameter) \<Rightarrow> (string \<times> SysCtlParameter) list) \<Rightarrow> 'w KrieHost \<Rightarrow> KRIE \<Rightarrow> 'w \<Rightarrow> 'w step" where
  "loadSysCtlParameters order h e w =
     bindR (deref (ko_Events (kr_options e))) (\<lambda>ev.
     bindR (deref (eo_SysCtlEvent ev)) (\<lambda>sc.
     and_then (push_sysctls h (order (so_List sc)) e w) (\<lambda>e w.
     bindR (put h (kr_sysctlDefaultMap e) (MU32 0) (MSysCtlParameter (so_Default sc)) w) (\<lambda>(err, w).
     Inr (case err of Some err \<Rightarrow> Some (Errorf ''failed to push default SysCtlParameter: %w'' [] (Some err))
            | None \<Rightarrow> None, e, w)))))"

subsection \<open>Selecting the maps, loading everything\<close>

text \<open>One lookup of \<open>selectMaps\<close>; the flag that tells whether the map exists is dropped.\<close>

definition select_map ::
    "'w KrieHost \<Rightarrow> string \<Rightarrow> string \<Rightarrow> (handle option \<Rightarrow> KRIE \<Rightarrow> KRIE) \<Rightarrow> KRIE \<Rightarrow> 'w \<Rightarrow> 'w step" where
  "select_map h name errText assign e w =
     (case kh_GetMap h name w of
        Inl err \<Rightarrow> Inr (Some (Errorf errText [] (Some err)), assign None e, w)
      | Inr (m, found) \<Rightarrow> Inr (None, assign m e, w))"

definition selectMaps :: "'w KrieHost \<Rightarrow> KRIE \<Rightarrow> 'w \<Rightarrow> 'w step" where
  "selectMaps h e w =
     and_then (select_map h ''sysctl_parameters'' ''couldn't find maps/sysctl_parameters: %w''
                 (\<lambda>m e. e\<lparr>kr_sysctlParametersMap := m\<rparr>) e w) (\<lambda>e w.
     and_then (select_map h ''sysctl_default'' ''couldn't find maps/sysctl_parameters_default: %w''
                 (\<lambda>m e. e\<lparr>kr_sysctlDefaultMap := m\<rparr>) e w) (\<lambda>e w.
     and_then (select_map h ''kallsyms'' ''couldn't find maps/kallsyms: %w''
                 (\<lambda>m e. e\<lparr>kr_kallsymsMap := m\<rparr>) e w) (\<lambda>e w.
     and_then (select_map h ''policies'' ''couldn't find maps/policies: %w''
                 (\<lambda>m e. e\<lparr>kr_policiesMap := m\<rparr>) e w) (\<lambda>e w.
     select_map h ''kernel_parameters'' ''couldn't find maps/kernel_parameters: %w''
       (\<lambda>m e. e\<lparr>kr_kernelParametersMap := m\<rparr>) e w))))"

definition loadFilters ::
    "GoRange \<Rightarrow> ((u32 \<times> u32) list \<Rightarrow> (u32 \<times> u32) list) \<Rightarrow>
     ((string \<rightharpoonup> SysCtlParameter) \<Rightarrow> (string \<times> SysCtlParameter) list) \<Rightarrow> 'w KrieHost \<Rightarrow> KRIE \<Rightarrow> 'w \<Rightarrow> 'w step" where
  "loadFilters rg rng order h e w =
     and_then (let (err, st, w) = loadKernelSymbols (kh_sys h) (kh_sort h) (kr_symbols e) w
               in Inr (err, e\<lparr>kr_symbols := st\<rparr>, w)) (\<lambda>e w.
     and_then (loadPolicies rg rng h e w) (\<lambda>e w.
     and_then (loadKernelParameters h e w) (\<lambda>e w.
     loadSysCtlParameters order h e w)))"

section \<open>Lemmas\<close>

text \<open>What a write to a map does, in terms of what a lookup in the kernel finds.\<close>

type_synonym 'w lookup = "handle \<Rightarrow> map_data \<Rightarrow> 'w \<Rightarrow> map_data option"

definition map_laws :: "'w lookup \<Rightarrow> 'w KrieHost \<Rightarrow> bool" where
  "map_laws look h \<longleftrightarrow>
     (\<forall>m k v w. \<exists>w'. kh_Put h m k v w = (None, w') \<and>
        (\<forall>m' k'. look m' k' w' = (if m' = m \<and> k' = k then Some v else look m' k' w))) \<and>
     (\<forall>err w m k. look m k (kh_log_Error h err w) = look m k w)"

lemma put_ok:
  assumes "map_laws look h"
  obtains w' where "put h (Some m) k v w = Inr (None, w')"
    and "\<And>m' k'. look m' k' w' = (if m' = m \<and> k' = k then Some v else look m' k' w)"
  using assms that by (auto simp: map_laws_def put_def deref_def) metis

text \<open>The maps after a sequence of writes to one of them.\<close>

definition writes_to :: "'w lookup \<Rightarrow> handle \<Rightarrow> (map_data \<times> map_data) list \<Rightarrow> 'w \<Rightarrow> 'w \<Rightarrow> bool" where
  "writes_to look m es w w' \<longleftrightarrow>
     (\<forall>m' k. look m' k w' = (if m' = m \<and> k \<in> fst ` set es then map_of es k else look m' k w))"

lemma writes_to_Nil: "writes_to look m [] w w"
  by (simp add: writes_to_def)

lemma writes_to_Cons:
  assumes "\<And>m' k'. look m' k' w1 = (if m' = m \<and> k' = k then Some v else look m' k' w)"
    and "writes_to look m es w1 w'" and "k \<notin> fst ` set es"
  shows "writes_to look m ((k, v) # es) w w'"
  using assms by (auto simp: writes_to_def)

lemma writes_to_lookup: "writes_to look m es w w' \<Longrightarrow> distinct (map fst es) \<Longrightarrow> (k, v) \<in> set es \<Longrightarrow> look m k w' = Some v"
  by (force simp: writes_to_def)

lemma writes_to_other: "writes_to look m es w w' \<Longrightarrow> m' \<noteq> m \<Longrightarrow> look m' k w' = look m' k w"
  by (simp add: writes_to_def)

lemma push_policies_ok:
  assumes "map_laws look h" and "kr_policiesMap e = Some m" and "distinct (map fst es)"
  shows "\<exists>w'. push_policies rg h es e w = Inr (None, e, w') \<and>
    writes_to look m (map (\<lambda>(t, a). (MU32 t, MU32 a)) es) w w'"
  using assms(3)
proof (induction es arbitrary: w)
  case Nil
  then show ?case by (simp add: writes_to_Nil)
next
  case (Cons x es)
  obtain t a where x: "x = (t, a)" by (cases x)
  obtain w1 where w1: "put h (Some m) (MU32 t) (MU32 a) w = Inr (None, w1)"
    "\<And>m' k'. look m' k' w1 = (if m' = m \<and> k' = MU32 t then Some (MU32 a) else look m' k' w)"
    using put_ok [OF assms(1)] by blast
  obtain w' where w': "push_policies rg h es e w1 = Inr (None, e, w')"
    "writes_to look m (map (\<lambda>(t, a). (MU32 t, MU32 a)) es) w1 w'"
    using Cons by auto
  have "MU32 t \<notin> fst ` set (map (\<lambda>(t, a). (MU32 t, MU32 a)) es)" using Cons.prems x by force
  from writes_to_Cons [OF w1(2) w'(2) this] w1(1) w'(1) x assms(2) show ?case by auto
qed

lemma push_sysctls_ok:
  assumes "map_laws look h" and "kr_sysctlParametersMap e = Some m" and "distinct (map (sysctl_key \<circ> fst) es)"
  shows "\<exists>w'. push_sysctls h es e w = Inr (None, e, w') \<and>
    writes_to look m (map (\<lambda>(n, p). (MBytes (sysctl_key n), MSysCtlParameter p)) es) w w'"
  using assms(3)
proof (induction es arbitrary: w)
  case Nil
  then show ?case by (simp add: writes_to_Nil)
next
  case (Cons x es)
  obtain n p where x: "x = (n, p)" by (cases x)
  obtain w1 where w1: "put h (Some m) (MBytes (sysctl_key n)) (MSysCtlParameter p) w = Inr (None, w1)"
    "\<And>m' k'. look m' k' w1 = (if m' = m \<and> k' = MBytes (sysctl_key n) then Some (MSysCtlParameter p) else look m' k' w)"
    using put_ok [OF assms(1)] by blast
  obtain w' where w': "push_sysctls h es e w1 = Inr (None, e, w')"
    "writes_to look m (map (\<lambda>(n, p). (MBytes (sysctl_key n), MSysCtlParameter p)) es) w1 w'"
    using Cons by auto
  have "MBytes (sysctl_key n) \<notin> fst ` set (map (\<lambda>(n, p). (MBytes (sysctl_key n), MSysCtlParameter p)) es)"
    using Cons.prems x by force
  from writes_to_Cons [OF w1(2) w'(2) this] w1(1) w'(1) x assms(2) show ?case by auto
qed

text \<open>The names of sysctl parameters are file names: no NUL, and shorter than the key.\<close>

lemma sysctl_key_c_string: "c_string_ok 256 n \<Longrightarrow> sysctl_key n = c_string 256 n"
  by (simp add: sysctl_key_def go_copy_def c_string_def c_string_ok_def)

lemma inj_sysctl_key: "inj_on sysctl_key {n. c_string_ok 256 n}"
  using SplitN2_c_string sysctl_key_c_string by (intro inj_onI) (metis mem_Collect_eq)

text \<open>The value pushed for a kernel parameter.\<close>

definition checked_address :: "(string \<rightharpoonup> Symbol) \<Rightarrow> ParameterOption \<Rightarrow> u64" where
  "checked_address syms p =
     (if po_Address p \<noteq> 0 then po_Address p
      else case syms (po_Symbol p) of Some s \<Rightarrow> sym_Value s | None \<Rightarrow> 0)"

definition checked_parameter :: "(string \<rightharpoonup> Symbol) \<Rightarrow> ParameterOption \<Rightarrow> KernelParameter" where
  "checked_parameter syms p =
     \<lparr>kpm_Address = checked_address syms p, kpm_ExpectedValue = po_ExpectedValue p, kpm_LastSent = 0, kpm_Size = po_Size p\<rparr>"

definition parameter_entries :: "(string \<rightharpoonup> Symbol) \<Rightarrow> nat \<Rightarrow> ParameterOption list \<Rightarrow> (map_data \<times> map_data) list" where
  "parameter_entries syms i ps =
     map (\<lambda>(i, p). (MU32 (word_of_nat i), MKernelParameter (checked_parameter syms p))) (enumerate i ps)"

lemma parameter_entries_Cons:
  "parameter_entries syms i (p # ps) =
     (MU32 (word_of_nat i), MKernelParameter (checked_parameter syms p)) # parameter_entries syms (i + 1) ps"
  by (simp add: parameter_entries_def)

lemma parameter_entries_keys:
  assumes "i + length ps \<le> 2 ^ 32"
  shows "distinct (map fst (parameter_entries syms i ps))"
proof -
  have "map fst (parameter_entries syms i ps) = map MU32 (map (\<lambda>j. word_of_nat (i + j)) [0..<length ps])"
    by (auto simp: parameter_entries_def enumerate_eq_zip intro!: nth_equalityI)
  moreover have "distinct (map (\<lambda>j. word_of_nat (i + j) :: u32) [0..<length ps])"
    by (rule distinct_iota_values) (use assms in simp)
  ultimately show ?thesis by (simp add: distinct_map inj_on_def)
qed

lemma push_parameters_ok:
  assumes "map_laws look h" and "kr_kernelParametersMap e = Some m" and "good_parameters ps" and "i + length ps \<le> 2 ^ 32"
  shows "\<exists>w'. push_parameters h i ps e w = Inr (None, e, w') \<and>
    writes_to look m (parameter_entries (kst_kernelSymbols (kr_symbols e)) i ps) w w'"
  using assms(3,4)
proof (induction ps arbitrary: i w)
  case Nil
  then show ?case by (simp add: writes_to_Nil parameter_entries_def)
next
  case (Cons p ps)
  let ?syms = "kst_kernelSymbols (kr_symbols e)"
  let ?v = "MKernelParameter (checked_parameter ?syms p)"
  define w0 where "w0 = (if po_Address p = 0 then snd (symbol_address h e p w) else w)"
  have w0: "look m' k' w0 = look m' k' w" for m' k'
    using assms(1) by (auto simp: w0_def symbol_address_def map_laws_def split: option.split)
  obtain w1 where w1: "put h (Some m) (MU32 (word_of_nat i)) ?v w0 = Inr (None, w1)"
    "\<And>m' k'. look m' k' w1 = (if m' = m \<and> k' = MU32 (word_of_nat i) then Some ?v else look m' k' w0)"
    using put_ok [OF assms(1)] by blast
  obtain w' where w': "push_parameters h (i + 1) ps e w1 = Inr (None, e, w')"
    "writes_to look m (parameter_entries ?syms (i + 1) ps) w1 w'"
    using Cons.IH [of "i + 1" w1] Cons.prems by (auto simp: good_parameters_def)
  have "push_parameters h i (p # ps) e w = Inr (None, e, w')"
    using w1(1) w'(1) assms(2) Cons.prems(1)
    by (auto simp: w0_def symbol_address_def good_parameters_def checked_parameter_def checked_address_def
        kernelParameterFromParameterOption_def split: option.splits if_splits)
  moreover have "MU32 (word_of_nat i) \<notin> fst ` set (parameter_entries ?syms (i + 1) ps)"
    using parameter_entries_keys [of i "p # ps" ?syms] Cons.prems(2) by (simp add: parameter_entries_Cons)
  with w1(2) w0 have "writes_to look m (parameter_entries ?syms i (p # ps)) w w'"
    using writes_to_Cons [OF _ w'(2), where w = w and k = "MU32 (word_of_nat i)" and v = ?v]
    by (simp add: parameter_entries_Cons)
  ultimately show ?case by blast
qed

lemma Options_IsValid_parameters:
  assumes "Options_IsValid ev = Inr None" and "eo_KernelParameterEvent ev = Some kp"
  shows "good_parameters (kpo_List kp)" and "length (kpo_List kp) \<le> 25"
  using assms KernelParameterOptions_valid_iff [of kp]
  by (auto simp: Options_IsValid_def deref_def split: option.splits)

text \<open>The map handles are set and different, the options are fresh and valid, and the names of the sysctl
  parameters fit into a key.\<close>

definition filters_ready ::
    "KRIE \<Rightarrow> Options \<Rightarrow> KernelParameterOptions \<Rightarrow> SysCtlOptions \<Rightarrow> handle \<Rightarrow> handle \<Rightarrow> handle \<Rightarrow> handle \<Rightarrow> bool" where
  "filters_ready e ev kp sc pol par sys def \<longleftrightarrow>
     ko_Events (kr_options e) = Some ev \<and> fresh_options ev \<and> Options_IsValid ev = Inr None \<and>
     eo_KernelParameterEvent ev = Some kp \<and> eo_SysCtlEvent ev = Some sc \<and>
     kr_policiesMap e = Some pol \<and> kr_kernelParametersMap e = Some par \<and> kr_sysctlParametersMap e = Some sys \<and>
     kr_sysctlDefaultMap e = Some def \<and> distinct [pol, par, sys, def] \<and> (\<forall>n\<in>dom (so_List sc). c_string_ok 256 n)"

lemma enumerated_keys_distinct:
  assumes "enumerates es m" and "\<forall>n\<in>dom m. c_string_ok 256 n"
  shows "distinct (map (sysctl_key \<circ> fst) es)"
proof -
  have "m = map_of es" using assms(1) by (simp add: enumerates_def)
  then have "set (map fst es) = dom m" by (simp add: dom_map_of_conv_image_fst)
  with assms(2) have "set (map fst es) \<subseteq> {n. c_string_ok 256 n}" by blast
  then have "inj_on sysctl_key (set (map fst es))" by (rule inj_on_subset [OF inj_sysctl_key])
  moreover have "distinct (map fst es)" using assms(1) by (simp add: enumerates_def)
  ultimately show ?thesis unfolding map_map [symmetric] distinct_map by simp
qed

text \<open>The three loops in terms of lookups.\<close>

lemma policies_pushed:
  assumes "map_laws look h" and "kr_policiesMap e = Some m" and "distinct (map fst es)"
  shows "\<exists>w'. push_policies rg h es e w = Inr (None, e, w') \<and>
    (\<forall>(t, a)\<in>set es. look m (MU32 t) w' = Some (MU32 a)) \<and> (\<forall>m' k. m' \<noteq> m \<longrightarrow> look m' k w' = look m' k w)"
proof -
  obtain w' where w': "push_policies rg h es e w = Inr (None, e, w')"
    "writes_to look m (map (\<lambda>(t, a). (MU32 t, MU32 a)) es) w w'"
    using push_policies_ok [OF assms] by blast
  have "distinct (map fst (map (\<lambda>(t, a). (MU32 t, MU32 a)) es))"
    using assms(3) by (simp add: comp_def case_prod_beta distinct_map inj_on_def)
  from writes_to_lookup [OF w'(2) this] have "\<forall>(t, a)\<in>set es. look m (MU32 t) w' = Some (MU32 a)" by force
  with w' writes_to_other [OF w'(2)] show ?thesis by blast
qed

lemma parameters_pushed:
  assumes "map_laws look h" and "kr_kernelParametersMap e = Some m" and "good_parameters ps" and "length ps \<le> 25"
  shows "\<exists>w'. push_parameters h 0 ps e w = Inr (None, e, w') \<and>
    (\<forall>i<length ps. look m (MU32 (word_of_nat i)) w' =
       Some (MKernelParameter (checked_parameter (kst_kernelSymbols (kr_symbols e)) (ps ! i)))) \<and>
    (\<forall>m' k. m' \<noteq> m \<longrightarrow> look m' k w' = look m' k w)"
proof -
  let ?es = "parameter_entries (kst_kernelSymbols (kr_symbols e)) 0 ps"
  obtain w' where w': "push_parameters h 0 ps e w = Inr (None, e, w')" "writes_to look m ?es w w'"
    using push_parameters_ok [OF assms(1-3), of 0 w] assms(4) by auto
  have d: "distinct (map fst ?es)" using parameter_entries_keys [of 0 ps] assms(4) by simp
  have "(MU32 (word_of_nat i), MKernelParameter (checked_parameter (kst_kernelSymbols (kr_symbols e)) (ps ! i))) \<in> set ?es"
    if "i < length ps" for i
    using that by (force simp: parameter_entries_def in_set_enumerate_eq)
  with w' writes_to_lookup [OF w'(2) d] writes_to_other [OF w'(2)] show ?thesis by blast
qed

lemma sysctls_pushed:
  assumes "map_laws look h" and "kr_sysctlParametersMap e = Some m" and "enumerates es ps" and "\<forall>n\<in>dom ps. c_string_ok 256 n"
  shows "\<exists>w'. push_sysctls h es e w = Inr (None, e, w') \<and>
    (\<forall>n p. ps n = Some p \<longrightarrow> look m (MBytes (c_string 256 n)) w' = Some (MSysCtlParameter p)) \<and>
    (\<forall>m' k. m' \<noteq> m \<longrightarrow> look m' k w' = look m' k w)"
proof -
  let ?es = "map (\<lambda>(n, p). (MBytes (sysctl_key n), MSysCtlParameter p)) es"
  note d = enumerated_keys_distinct [OF assms(3,4)]
  obtain w' where w': "push_sysctls h es e w = Inr (None, e, w')" "writes_to look m ?es w w'"
    using push_sysctls_ok [OF assms(1,2) d] by blast
  have d': "distinct (map fst ?es)" using d by (simp add: comp_def case_prod_beta distinct_map inj_on_def)
  have "(MBytes (c_string 256 n), MSysCtlParameter p) \<in> set ?es" if "ps n = Some p" for n p
  proof -
    have "(n, p) \<in> set es" using assms(3) that by (auto simp: enumerates_def map_of_SomeD)
    moreover have "sysctl_key n = c_string 256 n" using that assms(4) by (intro sysctl_key_c_string) blast
    ultimately show ?thesis by force
  qed
  with w' writes_to_lookup [OF w'(2) d'] writes_to_other [OF w'(2)] show ?thesis by blast
qed

section \<open>Properties\<close>


text \<open>A world that is the contents of the maps.\<close>

definition demo_map_host :: "(handle \<Rightarrow> map_data \<Rightarrow> map_data option) KrieHost" where
  "demo_map_host =
     \<lparr>kh_sys = demo_sys, kh_clock = (\<lambda>_. \<lparr>ck_now = 10 ^ 18, ck_uptime = Some (1000, 0)\<rparr>),
      kh_range = (\<lambda>_ w. ([], w)), kh_sort = sort_key sym_Value, kh_Write = (\<lambda>_ s w. (None, w)),
      kh_Put = (\<lambda>m k v w. (None, w(m := (w m)(k := Some v)))), kh_GetMap = (\<lambda>_ _. Inr (Some 0, True)),
      kh_log_Error = (\<lambda>_ w. w), kh_log_Debugf = (\<lambda>_ w. w), kh_debug = (\<lambda>_. False), kh_show_error = (\<lambda>_. [])\<rparr>"

lemma demo_map_laws: "map_laws (\<lambda>m k w. w m k) demo_map_host"
  by (simp add: map_laws_def demo_map_host_def)

lemma demo_filters_ready:
  "filters_ready demo_krie NewEventsOptions NewKernelParameterOptions NewSysCtlOptions 5 6 2 3"
  by (simp add: filters_ready_def demo_krie_def NewOptions_def NewEventsOptions_def fresh_options_def Options_IsValid_def
      deref_def NewKernelParameterOptions_def KernelParameterOptions_IsValid_def NewSysCtlOptions_def BlockAction_def
      KillAction_def)


end
