(* ===== verification/Krie_Manager.thy ===== *)
theory Krie_Manager
  imports Krie_Filters
begin

text \<open>
  The life of an instance: \<^verbatim>\<open>pkg/krie/utils.go\<close>, \<open>NewKRIE\<close>, \<open>Start\<close> and \<open>Stop\<close> of
  \<^verbatim>\<open>pkg/krie/krie.go\<close> and the rest of \<^verbatim>\<open>pkg/krie/manager.go\<close>: the choice of the eBPF object, the
  manager and its options, the BTF types of the kernel and their download, the start sequence.
  The package variables of the probe selection are threaded as a second state.
\<close>

section \<open>\<^verbatim>\<open>utils.go\<close>\<close>

text \<open>\<open>count += inf.Cores\<close> over 32-bit integers.\<close>

definition NumCPU :: "error + 32 word list \<Rightarrow> error + int" where
  "NumCPU cpuInfos =
     (case cpuInfos of Inl err \<Rightarrow> Inl err | Inr infs \<Rightarrow> Inr (sint (foldl (+) 0 infs)))"

text \<open>\<open>strconv.ParseInt(s, 10, 32)\<close>, the value when there is no error.\<close>

definition ParseInt :: "string \<Rightarrow> nat \<Rightarrow> nat \<Rightarrow> int option" where
  "ParseInt s base bits =
     (let neg = (s \<noteq> [] \<and> hd s = CHR ''-'');
          body = (if s \<noteq> [] \<and> (hd s = CHR ''-'' \<or> hd s = CHR ''+'') then tl s else s);
          (un, err) = ParseUint body base bits
      in if err \<noteq> None then None
         else if \<not> neg \<and> un \<ge> 2 ^ (bits - 1) then None
         else if neg \<and> un > 2 ^ (bits - 1) then None
         else Some (if neg then - int un else int un))"

definition Getpid :: "error + string \<Rightarrow> int \<Rightarrow> 32 word" where
  "Getpid readlink pid =
     (case readlink of
        Inl _ \<Rightarrow> word_of_int pid
      | Inr p \<Rightarrow> (case ParseInt p 10 32 of Some n \<Rightarrow> word_of_int n | None \<Rightarrow> word_of_int pid))"

text \<open>The archive: what \<open>tarReader.Next\<close> gives until the end, and what copying an entry gives.\<close>

record TarEntry =
  te_Typeflag :: char
  te_Name :: string
  te_Data :: "error + bytes"

definition TypeReg :: char where "TypeReg = CHR ''0''"

fun scan_tar :: "(error + TarEntry) list \<Rightarrow> error + bytes" where
  "scan_tar [] = Inr []"
| "scan_tar (Inl err # _) = Inl (Errorf ''failed to read entry from tarball: %w'' [] (Some err))"
| "scan_tar (Inr hdr # rest) =
     (if te_Typeflag hdr = TypeReg \<and> strings_HasSuffix (te_Name hdr) ''.btf''
      then (case te_Data hdr of
              Inl err \<Rightarrow> Inl (Errorf ''failed to uncompress file %s: %w'' [FStr (te_Name hdr)] (Some err))
            | Inr d \<Rightarrow> Inr d)
      else scan_tar rest)"

text \<open>The files, the network and the libraries of the start sequence.\<close>

record 'w StartHost =
  sh_Open :: "string \<Rightarrow> 'w \<Rightarrow> error + handle"
  sh_xz :: "handle \<Rightarrow> 'w \<Rightarrow> error + (error + TarEntry) list"
  sh_Stat :: "string \<Rightarrow> 'w \<Rightarrow> error option"
  sh_Create :: "string \<Rightarrow> 'w \<Rightarrow> (error + handle) \<times> 'w"
  sh_Chmod :: "string \<Rightarrow> 'w \<Rightarrow> 'w"
  sh_http_Get :: "string \<Rightarrow> 'w \<Rightarrow> (error + handle) \<times> 'w"
  sh_Copy :: "handle \<Rightarrow> handle \<Rightarrow> 'w \<Rightarrow> error option \<times> 'w"
  sh_Close :: "handle \<Rightarrow> 'w \<Rightarrow> error option \<times> 'w"
  sh_log_Infof :: "string \<Rightarrow> fmt_arg list \<Rightarrow> 'w \<Rightarrow> 'w"
  sh_LoadSpecFromReader :: "bytes \<Rightarrow> error + handle"
  sh_LoadKernelSpec :: "'w \<Rightarrow> error + handle"
  sh_NewHost :: "'w \<Rightarrow> error + Host"
  sh_Asset :: "string \<Rightarrow> error + bytes"
  sh_Readlink_self :: "'w \<Rightarrow> error + string"
  sh_Getpid :: "'w \<Rightarrow> int"
  sh_Getpagesize :: int
  sh_BootTime :: "'w \<Rightarrow> error + u64"
  sh_cpu_Info :: "'w \<Rightarrow> error + 32 word list"
  sh_InitWithOptions :: "bytes \<Rightarrow> Manager \<Rightarrow> ManagerOptions \<Rightarrow> 'w \<Rightarrow> error option \<times> 'w"
  sh_manager_Start :: "Manager \<Rightarrow> 'w \<Rightarrow> error option \<times> 'w"
  sh_manager_Stop :: "Manager \<Rightarrow> 'w \<Rightarrow> error option \<times> 'w"
  sh_Now :: "'w \<Rightarrow> Time"

definition createBTFReaderFromTarball :: "'w StartHost \<Rightarrow> string \<Rightarrow> 'w \<Rightarrow> error + bytes" where
  "createBTFReaderFromTarball s archivePath w =
     bindR (sh_Open s archivePath w) (\<lambda>archiveFile. bindR (sh_xz s archiveFile w) scan_tar)"

section \<open>BTF\<close>

definition BTFHubURL :: string where
  "BTFHubURL = ''https://github.com/aquasecurity/btfhub-archive/raw/main/%s/%s/x86_64/%s.btf.tar.xz''"

definition btfhub_url :: "Host \<Rightarrow> string" where
  "btfhub_url h =
     ''https://github.com/aquasecurity/btfhub-archive/raw/main/'' @ go_string (ho_OsRelease h) ''ID'' @ ''/'' @
     go_string (ho_OsRelease h) ''VERSION_ID'' @ ''/x86_64/'' @ ho_UnameRelease h @ ''.btf.tar.xz''"

definition btfhub_file :: "Host \<Rightarrow> string" where
  "btfhub_file h = ''/tmp/'' @ ho_UnameRelease h @ ''.tar.xz''"

text \<open>The download into the cache; the open handles are closed when the function returns.\<close>

definition btfhub_download :: "'w StartHost \<Rightarrow> Host \<Rightarrow> 'w \<Rightarrow> error option \<times> 'w" where
  "btfhub_download s hst w =
     (let file = btfhub_file hst;
          w = sh_log_Infof s ''Downloading BTF specs from %s ...'' [FStr (btfhub_url hst)] w in
      case sh_http_Get s (btfhub_url hst) w of
        (Inl err, w) \<Rightarrow> (Some (Errorf ''couldn't download BTF specs from BTFHub: %w'' [] (Some err)), w)
      | (Inr body, w) \<Rightarrow>
          (case sh_Create s file w of
             (Inl err, w) \<Rightarrow>
               (Some (Errorf ''couldn't create local BTFHub cache at %s: %w'' [FStr file] (Some err)), snd (sh_Close s body w))
           | (Inr out, w) \<Rightarrow>
               (case sh_Copy s out body w of
                  (Some err, w) \<Rightarrow>
                    (Some (Errorf ''couldn't create local BTFHub cache at %s: %w'' [FStr file] (Some err)),
                     snd (sh_Close s body (snd (sh_Close s out w))))
                | (None, w) \<Rightarrow> (None, snd (sh_Close s body (snd (sh_Close s out w)))))))"

definition loadSpecFromBTFHub :: "'w StartHost \<Rightarrow> KRIE \<Rightarrow> 'w \<Rightarrow> (error + handle) \<times> 'w" where
  "loadSpecFromBTFHub s e w =
     (case sh_NewHost s w of
        Inl err \<Rightarrow> (Inl err, w)
      | Inr hst \<Rightarrow>
          (let file = btfhub_file hst;
               (err, w) = (if sh_Stat s file w \<noteq> None then btfhub_download s hst w else (None, w)) in
           case err of
             Some err \<Rightarrow> (Inl err, w)
           | None \<Rightarrow>
               (case createBTFReaderFromTarball s file w of
                  Inl err \<Rightarrow> (Inl err, w)
                | Inr f \<Rightarrow>
                    (case sh_LoadSpecFromReader s f of
                       Inl err \<Rightarrow> (Inl (Errorf ''couldn't load %s: %w'' [FStr (ko_VMLinux (kr_options e))] (Some err)), w)
                     | Inr btfSpec \<Rightarrow> (Inr btfSpec, w)))))"

definition set_kernel_types :: "handle \<Rightarrow> KRIE \<Rightarrow> KRIE" where
  "set_kernel_types spec e = e\<lparr>kr_managerOptions := (kr_managerOptions e)\<lparr>mo_KernelTypes := Some spec\<rparr>\<rparr>"

definition loadVMLinux :: "'w StartHost \<Rightarrow> KRIE \<Rightarrow> 'w \<Rightarrow> error option \<times> KRIE \<times> 'w" where
  "loadVMLinux s e w =
     (let path = ko_VMLinux (kr_options e) in
      if length path > 0 then
        (case createBTFReaderFromTarball s path w of
           Inl err \<Rightarrow> (Some err, e, w)
         | Inr f \<Rightarrow>
             (case sh_LoadSpecFromReader s f of
                Inl err \<Rightarrow> (Some (Errorf ''couldn't load %s: %w'' [FStr path] (Some err)), e, w)
              | Inr spec \<Rightarrow> (None, set_kernel_types spec e, w)))
      else
        (case sh_LoadKernelSpec s w of
           Inr spec \<Rightarrow> (None, set_kernel_types spec e, w)
         | Inl _ \<Rightarrow>
             (case loadSpecFromBTFHub s e w of
                (Inl err, w) \<Rightarrow> (Some (Errorf ''couldn't load kernel BTF specs from BTFHub: %w'' [] (Some err)), e, w)
              | (Inr spec, w) \<Rightarrow> (None, set_kernel_types spec e, w))))"

section \<open>The manager\<close>

definition loadAsset :: "'w StartHost \<Rightarrow> string \<Rightarrow> error + bytes" where
  "loadAsset s name =
     (case sh_Asset s name of
        Inl err \<Rightarrow> Inl (Errorf ''couldn't find load asset %s: %w'' [FStr name] (Some err))
      | Inr buf \<Rightarrow> Inr buf)"

definition fetchAssets :: "'w StartHost \<Rightarrow> Env \<Rightarrow> error + bytes" where
  "fetchAssets s env =
     (case e_GetSyscallFnName env ''open'' of
        Inl err \<Rightarrow> Inl (Errorf ''couldn't determine which asset to use: %w'' [] (Some err))
      | Inr openSyscall \<Rightarrow>
          if \<not> strings_HasPrefix openSyscall ''SyS_'' \<and> \<not> strings_HasPrefix openSyscall ''sys_''
          then loadAsset s ''/probe_syscall_wrapper.o'' else loadAsset s ''/probe.o'')"

text \<open>\<open>e.options.Events.ActivatedEventTypes()\<close>, which fills the caches of the options.\<close>

definition activated ::
    "((u32 \<times> u32) list \<Rightarrow> (u32 \<times> u32) list) \<Rightarrow> KRIE \<Rightarrow> (KRIE \<times> EventTypeList) result" where
  "activated rng e =
     bindR (deref (ko_Events (kr_options e))) (\<lambda>ev.
     bindR (ActivatedEventTypes rng ev) (\<lambda>(ev, l).
     Inr (e\<lparr>kr_options := (kr_options e)\<lparr>ko_Events := Some ev\<rparr>\<rparr>, l)))"

definition kernel_parameters :: "KRIE \<Rightarrow> KernelParameterOptions result" where
  "kernel_parameters e =
     bindR (deref (ko_Events (kr_options e))) (\<lambda>ev. deref (eo_KernelParameterEvent ev))"

text \<open>The constants edited into the programs.\<close>

definition constant_editors :: "u64 \<Rightarrow> u64 \<Rightarrow> u64 \<Rightarrow> u64 \<Rightarrow> u64 \<Rightarrow> KernelParameterOptions \<Rightarrow> ConstantEditor list" where
  "constant_editors fallback input pid send_signal override_return kp =
     [\<lparr>ce_Name = ''raw_syscall_tracepoint_fallback'', ce_Value = fallback\<rparr>,
      \<lparr>ce_Name = ''check_helper_call_input'', ce_Value = input\<rparr>,
      \<lparr>ce_Name = ''krie_pid'', ce_Value = pid\<rparr>,
      \<lparr>ce_Name = ''krie_send_signal'', ce_Value = send_signal\<rparr>,
      \<lparr>ce_Name = ''krie_override_return'', ce_Value = override_return\<rparr>,
      \<lparr>ce_Name = ''kernel_parameter_ticker'', ce_Value = kpo_Ticker kp * 1000000000\<rparr>,
      \<lparr>ce_Name = ''kernel_parameter_count'', ce_Value = word_of_nat (length (kpo_List kp))\<rparr>]"

definition prepareManager ::
    "'w StartHost \<Rightarrow> Env \<Rightarrow> ((u32 \<times> u32) list \<Rightarrow> (u32 \<times> u32) list) \<Rightarrow> KRIE \<Rightarrow> Globals \<Rightarrow> 'w \<Rightarrow> (KRIE \<times> Globals) result" where
  "prepareManager s env rng e g w =
     bindR (activated rng e) (\<lambda>(e, evs1).
     let routes = AllTailCallRoutes evs1;
         (fallback, g) = run_state (ShouldUseSyscallExitTracepoints env) g;
         pid = scast (Getpid (sh_Readlink_self s w) (sh_Getpid s w));
         (send_signal, g) = run_state (IsBPFSendSignalHelperAvailable env) g;
         (override_return, g) = run_state (IsBPFOverrideReturnAvailable env) g in
     bindR (kernel_parameters e) (\<lambda>kp.
     bindR (activated rng e) (\<lambda>(e, evs2).
     let (selectors, g) = run_state (AllProbesSelectors env evs2) g;
         (excluded, g) = run_state (AllExcludedFunctions env) g;
         e = e\<lparr>kr_managerOptions :=
           \<lparr>mo_DefaultKProbeMaxActive = 512, mo_LogSize = 2097152, mo_RLimit = (- 1, - 1), mo_TailCallRouter = routes,
            mo_ConstantEditors = constant_editors fallback (GetCheckHelperCallInputType env) pid send_signal override_return kp,
            mo_ActivatedProbes = selectors, mo_ExcludedFunctions = excluded, mo_KernelTypes = None\<rparr>\<rparr> in
     bindR (activated rng e) (\<lambda>(e, evs3).
     let (probes, g) = run_state (AllProbes env evs3) g in
     Inr (e\<lparr>kr_manager := Some \<lparr>mg_Probes = probes, mg_PerfMaps = [(''events'', 8192 * sh_Getpagesize s)]\<rparr>\<rparr>, g)))))"

section \<open>Life cycle\<close>

text \<open>The orders of the \<open>range\<close> loops.\<close>

record Orders =
  or_rg :: GoRange
  or_actions :: "(u32 \<times> u32) list \<Rightarrow> (u32 \<times> u32) list"
  or_sysctl :: "(string \<rightharpoonup> SysCtlParameter) \<Rightarrow> (string \<times> SysCtlParameter) list"

text \<open>\<open>if err = f(); err != nil { return fmt.Errorf(text, err) }\<close>\<close>

definition wrapped :: "string \<Rightarrow> error option \<Rightarrow> error option" where
  "wrapped txt err = map_option (\<lambda>e. Errorf txt [] (Some e)) err"

definition startManager ::
    "'w StartHost \<Rightarrow> 'w KrieHost \<Rightarrow> Env \<Rightarrow> Orders \<Rightarrow> KRIE \<Rightarrow> Globals \<Rightarrow> 'w \<Rightarrow> (error option \<times> KRIE \<times> Globals \<times> 'w) result" where
  "startManager s h env ord e g w =
     (case fetchAssets s env of
        Inl err \<Rightarrow> Inr (Some err, e, g, w)
      | Inr asset \<Rightarrow>
          bindR (prepareManager s env (or_actions ord) e g w) (\<lambda>(e, g).
          bindR (deref (kr_manager e)) (\<lambda>mgr.
          bindR (and_then
             (let (err, e, w) = loadVMLinux s e w in
              Inr (wrapped ''couldn't load kernel BTF specs, please try to provide one in the configuration: %w'' err, e, w))
             (\<lambda>e w. and_then
             (let (err, w) = sh_InitWithOptions s asset mgr (kr_managerOptions e) w in
              Inr (wrapped ''couldn't init manager: %w'' err, e, w)) (\<lambda>e w.
              and_then (selectMaps h e w) (\<lambda>e w.
              and_then (loadFilters (or_rg ord) (or_actions ord) (or_sysctl ord) h e w) (\<lambda>e w.
              bindR (activated (or_actions ord) e) (\<lambda>(e, evs).
              let w = sh_log_Infof s ''KRIE is now running (Ctrl + C to stop)'' [] w;
                  w = sh_log_Infof s ''activated events: [%s]'' [FStr (EventTypeList_String evs)] w in
              and_then (let (err, w) = sh_manager_Start s mgr w in
                        Inr (wrapped ''couldn't start manager: %w'' err, e, w)) (\<lambda>e w.
              Inr (None, e\<lparr>kr_startTime := sh_Now s w\<rparr>, w))))))))
          (\<lambda>(err, e, w). Inr (err, e, g, w)))))"

definition Start ::
    "'w StartHost \<Rightarrow> 'w KrieHost \<Rightarrow> Env \<Rightarrow> Orders \<Rightarrow> KRIE \<Rightarrow> Globals \<Rightarrow> 'w \<Rightarrow> (error option \<times> KRIE \<times> Globals \<times> 'w) result" where
  "Start s h env ord e g w = startManager s h env ord e g w"

definition Stop :: "'w StartHost \<Rightarrow> 'w KrieHost \<Rightarrow> KRIE \<Rightarrow> 'w \<Rightarrow> error option \<times> 'w" where
  "Stop s h e w =
     (case kr_manager e of
        None \<Rightarrow> (None, w)
      | Some mgr \<Rightarrow>
          (let (err, w) = sh_manager_Stop s mgr w;
               w = (case err of None \<Rightarrow> w
                    | Some err \<Rightarrow> kh_log_Error h (Errorf ''couldn't stop manager: %v'' [] (Some err)) w) in
           case kr_outputFile e of
             None \<Rightarrow> (None, w)
           | Some f \<Rightarrow>
               (let (err, w) = sh_Close s f w in
                (None, case err of None \<Rightarrow> w
                   | Some err \<Rightarrow> kh_log_Error h (Errorf ''couldn't close output file: %v'' [] (Some err)) w))))"

definition pushFilters :: "KRIE \<Rightarrow> error option" where
  "pushFilters e = None"

definition zeroManagerOptions :: ManagerOptions where
  "zeroManagerOptions =
     \<lparr>mo_DefaultKProbeMaxActive = 0, mo_LogSize = 0, mo_RLimit = (0, 0), mo_TailCallRouter = [], mo_ConstantEditors = [],
      mo_ActivatedProbes = [], mo_ExcludedFunctions = [], mo_KernelTypes = None\<rparr>"

definition NewKRIE :: "'w StartHost \<Rightarrow> KrieOptions \<Rightarrow> 'w \<Rightarrow> ((error + KRIE) \<times> 'w) result" where
  "NewKRIE s options w =
     bindR (KrieOptions_IsValid options) (\<lambda>err.
     case err of
       Some err \<Rightarrow> Inr (Inl (Errorf ''invalid configuration: %w'' [] (Some err)), w)
     | None \<Rightarrow>
         (case NewTimeResolver (sh_BootTime s w) of
            Inl err \<Rightarrow> Inr (Inl err, w)
          | Inr tr \<Rightarrow>
              (case NumCPU (sh_cpu_Info s w) of
                 Inl err \<Rightarrow> Inr (Inl err, w)
               | Inr n \<Rightarrow>
                   let e = \<lparr>kr_event = NewEvent, kr_handleEvent = ko_EventHandler options, kr_timeResolver = tr,
                         kr_outputFile = None, kr_options = options, kr_manager = None,
                         kr_managerOptions = zeroManagerOptions,
                         kr_symbols = \<lparr>kst_kernelSymbols = Map.empty, kst_kernelAddresses = Map.empty,
                           kst_kernelKPTRRestrict = []\<rparr>,
                         kr_sysctlParametersMap = None, kr_sysctlDefaultMap = None, kr_kallsymsMap = None,
                         kr_policiesMap = None, kr_kernelParametersMap = None, kr_startTime = zero_time, kr_numCPU = n\<rparr> in
                   if length (ko_Output options) > 0 then
                     (case sh_Create s (ko_Output options) w of
                        (Inl err, w) \<Rightarrow> Inr (Inl (Errorf ''couldn't create output file: %w'' [] (Some err)), w)
                      | (Inr f, w) \<Rightarrow> Inr (Inr (e\<lparr>kr_outputFile := Some f\<rparr>), sh_Chmod s (ko_Output options) w))
                   else Inr (Inr e, w))))"

section \<open>Lemmas\<close>

text \<open>Asking for the activated events again gives the same list and changes nothing.\<close>

lemma ActivatedEventTypes_again:
  assumes "fresh_options ev" and "\<And>l. mset (rng l) = mset l"
  obtains ev' l where "ActivatedEventTypes rng ev = Inr (ev', l)" and "ActivatedEventTypes rng ev' = Inr (ev', l)"
    and "eo_KernelParameterEvent ev' = eo_KernelParameterEvent ev"
proof -
  obtain lit where lit: "eventsAction_literal ev = Inr lit"
    and p: "ParseEventsActions rng ev = Inr (ev\<lparr>eo_eventsAction := Some (rng lit)\<rparr>, Some (rng lit))"
    using ParseEventsActions_fresh [OF assms] by blast
  let ?l = "map fst (filter (\<lambda>e. snd e \<ge> LogAction) (rng (rng lit)))"
  let ?o = "ev\<lparr>eo_eventsAction := Some (rng lit), eo_activatedEvents := ?l\<rparr>"
  have "length (rng lit) = 12" using literal_distinct [OF lit] mset_eq_length [OF assms(2)] by metis
  then have q: "ParseEventsActions rng ?o = Inr (?o, Some (rng lit))"
    by (simp add: ParseEventsActions_def map_len_def)
  have a: "ActivatedEventTypes rng ev = Inr (?o, ?l)"
    using assms(1) p by (simp add: ActivatedEventTypes_def fresh_options_def foldl_activated Let_def)
  have "ActivatedEventTypes rng ?o = Inr (?o, ?l)"
    using q by (auto simp: ActivatedEventTypes_def foldl_activated Let_def)
  with a that show thesis by simp
qed

lemma stable_AllExcludedFunctions: "\<exists>v. stable env (AllExcludedFunctions env) v"
  unfolding AllExcludedFunctions_def IsCgroupSysctlProgramAvailable_def HasOneMillionInstructionsAvailable_def
  by (rule exI, (rule stable_bind stable_on_host stable_return)+)

lemma activated_again:
  assumes "ActivatedEventTypes rng ev = Inr (ev, l)" and "ko_Events (kr_options e) = Some ev"
  shows "activated rng e = Inr (e, l)"
  using assms by (simp add: activated_def deref_def)

text \<open>A created file exists, and neither copying into a file nor closing one changes which files exist.\<close>

definition file_laws :: "'w StartHost \<Rightarrow> bool" where
  "file_laws s \<longleftrightarrow>
     (\<forall>p w f w'. sh_Create s p w = (Inr f, w') \<longrightarrow> sh_Stat s p w' = None) \<and>
     (\<forall>dst src w p. sh_Stat s p (snd (sh_Copy s dst src w)) = sh_Stat s p w) \<and>
     (\<forall>f w p. sh_Stat s p (snd (sh_Close s f w)) = sh_Stat s p w)"

section \<open>A concrete instance\<close>

text \<open>A world in which one file may exist, and a download that breaks off.\<close>

definition demo_hst :: Host where
  "demo_hst = \<lparr>ho_OsRelease = [''ID'' \<mapsto> ''ubuntu'', ''VERSION_ID'' \<mapsto> ''20.04''], ho_OsReleasePath = [],
     ho_Code = VersionCode 5 4 0, ho_UnameRelease = ''5.4.0-42-generic'', ho_haveMmapableMaps = None,
     ho_haveRingBuffers = None\<rparr>"

definition demo_start :: "bool StartHost" where
  "demo_start =
     \<lparr>sh_Open = (\<lambda>_ _. Inr 1), sh_xz = (\<lambda>_ _. Inl (ErrExternal ''xz'')),
      sh_Stat = (\<lambda>_ w. if w then None else Some (ErrExternal ''stat'')), sh_Create = (\<lambda>_ _. (Inr 2, True)),
      sh_Chmod = (\<lambda>_ w. w), sh_http_Get = (\<lambda>_ w. (Inr 3, w)), sh_Copy = (\<lambda>_ _ w. (Some (ErrExternal ''copy''), w)),
      sh_Close = (\<lambda>_ w. (None, w)), sh_log_Infof = (\<lambda>_ _ w. w), sh_LoadSpecFromReader = (\<lambda>_. Inr 4),
      sh_LoadKernelSpec = (\<lambda>_. Inl (ErrExternal ''btf'')), sh_NewHost = (\<lambda>_. Inr demo_hst), sh_Asset = (\<lambda>_. Inr []),
      sh_Readlink_self = (\<lambda>_. Inr ''42''), sh_Getpid = (\<lambda>_. 42), sh_Getpagesize = 4096, sh_BootTime = (\<lambda>_. Inr 1),
      sh_cpu_Info = (\<lambda>_. Inr [4]), sh_InitWithOptions = (\<lambda>_ _ _ w. (None, w)), sh_manager_Start = (\<lambda>_ w. (None, w)),
      sh_manager_Stop = (\<lambda>_ w. (None, w)), sh_Now = (\<lambda>_. 0)\<rparr>"

definition demo_env :: Env where
  "demo_env = \<lparr>e_Machine = ''x86_64'', e_NewHost = Inr demo_hst, e_GetSyscallFnName = (\<lambda>n. Inr (''__x64_sys_'' @ n)),
     e_unix = (\<lambda>_. 0)\<rparr>"

section \<open>Properties\<close>



text \<open>C33: A failed download poisons the cache: when copying the response into the cache file fails, the file
  exists all the same, and the next attempt reads the broken archive instead of downloading it again.\<close>

theorem btfhub_failed_download_cached:
  assumes files: "file_laws s"
    and host: "\<And>w. sh_NewHost s w = Inr hst"
    and absent: "sh_Stat s (btfhub_file hst) w = Some e0"
    and get: "sh_http_Get s (btfhub_url hst) (sh_log_Infof s ''Downloading BTF specs from %s ...'' [FStr (btfhub_url hst)] w) = (Inr body, w1)"
    and created: "sh_Create s (btfhub_file hst) w1 = (Inr out, w2)"
    and failed: "fst (sh_Copy s out body w2) = Some err"
  shows "\<exists>w'. loadSpecFromBTFHub s e w =
      (Inl (Errorf ''couldn't create local BTFHub cache at %s: %w'' [FStr (btfhub_file hst)] (Some err)), w') \<and>
    snd (loadSpecFromBTFHub s e' w') = w' \<and>
    fst (loadSpecFromBTFHub s e' w') =
      bindR (createBTFReaderFromTarball s (btfhub_file hst) w') (\<lambda>f. case sh_LoadSpecFromReader s f of
        Inl err \<Rightarrow> Inl (Errorf ''couldn't load %s: %w'' [FStr (ko_VMLinux (kr_options e'))] (Some err)) | Inr spec \<Rightarrow> Inr spec)"
proof -
  obtain w3 where w3: "sh_Copy s out body w2 = (Some err, w3)" using failed by (metis prod.collapse)
  let ?w = "snd (sh_Close s body (snd (sh_Close s out w3)))"
  have "sh_Stat s (btfhub_file hst) ?w = None"
    using files created w3 unfolding file_laws_def by (metis snd_conv)
  moreover have "loadSpecFromBTFHub s e w =
      (Inl (Errorf ''couldn't create local BTFHub cache at %s: %w'' [FStr (btfhub_file hst)] (Some err)), ?w)"
    using absent get created w3 by (simp add: loadSpecFromBTFHub_def host btfhub_download_def Let_def)
  ultimately show ?thesis
    by (intro exI [of _ ?w]) (simp add: loadSpecFromBTFHub_def host bindR_def split: sum.split)
qed

theorem btfhub_failed_download_cached_witness:
  "\<exists>w'. loadSpecFromBTFHub demo_start demo_krie False =
      (Inl (Errorf ''couldn't create local BTFHub cache at %s: %w'' [FStr (btfhub_file demo_hst)] (Some (ErrExternal ''copy''))), w') \<and>
     fst (loadSpecFromBTFHub demo_start demo_krie w') = Inl (ErrExternal ''xz'')"
proof -
  have s: "file_laws demo_start" "\<And>w. sh_NewHost demo_start w = Inr demo_hst"
    "sh_Stat demo_start (btfhub_file demo_hst) False = Some (ErrExternal ''stat'')"
    "sh_http_Get demo_start (btfhub_url demo_hst) (sh_log_Infof demo_start ''Downloading BTF specs from %s ...''
       [FStr (btfhub_url demo_hst)] False) = (Inr 3, False)"
    "sh_Create demo_start (btfhub_file demo_hst) False = (Inr 2, True)"
    "fst (sh_Copy demo_start 2 3 True) = Some (ErrExternal ''copy'')"
    by (simp_all add: demo_start_def file_laws_def)
  have "createBTFReaderFromTarball demo_start p w = Inl (ErrExternal ''xz'')" for p w
    by (simp add: createBTFReaderFromTarball_def demo_start_def)
  with btfhub_failed_download_cached [OF s, of demo_krie demo_krie] show ?thesis by auto
qed

end
