(* ===== verification/Krie_Command.thy ===== *)
theory Krie_Command
  imports Krie_Manager
begin

text \<open>
  The command \<^verbatim>\<open>cmd/krie\<close>: the flag that names the configuration file (\<^verbatim>\<open>run/options.go\<close>), reading the
  configuration and running an instance (\<^verbatim>\<open>run/krie.go\<close>).  The YAML decoder, the file system, the
  logger's level and the wait for a signal are the fields of \<open>CmdHost\<close>.
\<close>

record CLIOptions =
  cli_Config :: string
  cli_KRIEOptions :: KrieOptions

record KRIEOptionsSanitizer =
  kos_field :: string
  kos_options :: CLIOptions

definition NewKRIEOptionsSanitizer :: "CLIOptions \<Rightarrow> string \<Rightarrow> KRIEOptionsSanitizer" where
  "NewKRIEOptionsSanitizer opts field =
     \<lparr>kos_field = field, kos_options = opts\<lparr>cli_Config := ''./cmd/krie/run/config/default_config.yaml''\<rparr>\<rparr>"

definition Sanitizer_String :: "KRIEOptionsSanitizer \<Rightarrow> string" where
  "Sanitizer_String kos = (if kos_field kos = ''config'' then cli_Config (kos_options kos) else [])"

definition Sanitizer_Set :: "(string \<Rightarrow> error option) \<Rightarrow> string \<Rightarrow> KRIEOptionsSanitizer \<Rightarrow> error option \<times> KRIEOptionsSanitizer" where
  "Sanitizer_Set Stat val kos =
     (if kos_field kos = ''config'' then
        (case Stat val of
           Some err \<Rightarrow> (Some (Errorf ''couldn't find config file %s: %w'' [FStr val] (Some err)), kos)
         | None \<Rightarrow> (None, kos\<lparr>kos_options := (kos_options kos)\<lparr>cli_Config := val\<rparr>\<rparr>))
      else (None, kos))"

definition Sanitizer_Type :: "KRIEOptionsSanitizer \<Rightarrow> string" where
  "Sanitizer_Type kos = (if kos_field kos = ''config'' then ''string'' else [])"

text \<open>\<^verbatim>\<open>run/cmd.go\<close>: the options before the flag is parsed, with the sanitizer that the initialiser registers.\<close>

definition cli_options :: CLIOptions where
  "cli_options = \<lparr>cli_Config = [], cli_KRIEOptions = NewOptions\<rparr>"

definition init_cmd :: KRIEOptionsSanitizer where
  "init_cmd = NewKRIEOptionsSanitizer cli_options ''config''"

record 'w CmdHost =
  ch_Decode :: "handle \<Rightarrow> KrieOptions \<Rightarrow> 'w \<Rightarrow> error option \<times> KrieOptions"
  ch_MkdirAll :: "string \<Rightarrow> 'w \<Rightarrow> 'w"
  ch_Dir :: "string \<Rightarrow> string"
  ch_SetLevel :: "u32 \<Rightarrow> 'w \<Rightarrow> 'w"
  ch_wait :: "'w \<Rightarrow> 'w"

text \<open>\<open>parseConfig\<close>; the file is closed when the function returns.\<close>

definition parseConfig :: "'w StartHost \<Rightarrow> 'w CmdHost \<Rightarrow> CLIOptions \<Rightarrow> 'w \<Rightarrow> error option \<times> CLIOptions \<times> 'w" where
  "parseConfig s c opts w =
     (case sh_Open s (cli_Config opts) w of
        Inl err \<Rightarrow> (Some (Errorf ''couldn't load config file %s: %w'' [FStr (cli_Config opts)] (Some err)), opts, w)
      | Inr f \<Rightarrow>
          (let (err, ko) = ch_Decode c f (cli_KRIEOptions opts) w; opts = opts\<lparr>cli_KRIEOptions := ko\<rparr> in
           case err of
             Some err \<Rightarrow>
               (Some (Errorf ''couldn't decode config file %s: %w'' [FStr (cli_Config opts)] (Some err)), opts, snd (sh_Close s f w))
           | None \<Rightarrow>
               (let w = (if length (ko_Output ko) > 0 then ch_MkdirAll c (ch_Dir c (ko_Output ko)) w else w);
                    err = (if length (ko_VMLinux ko) > 0 then sh_Stat s (ko_VMLinux ko) w else None) in
                (wrapped ''couldn't find vmlinux: %w'' err, opts, snd (sh_Close s f w)))))"

definition krieCmd ::
    "'w StartHost \<Rightarrow> 'w KrieHost \<Rightarrow> 'w CmdHost \<Rightarrow> Env \<Rightarrow> Orders \<Rightarrow> CLIOptions \<Rightarrow> Globals \<Rightarrow> 'w \<Rightarrow> (error option \<times> 'w) result" where
  "krieCmd s h c env ord opts g w =
     (let (err, opts, w) = parseConfig s c opts w in
      case err of
        Some err \<Rightarrow> Inr (Some err, w)
      | None \<Rightarrow>
          (let w = ch_SetLevel c (ko_LogLevel (cli_KRIEOptions opts)) w in
           bindR (NewKRIE s (cli_KRIEOptions opts) w) (\<lambda>(r, w).
           case r of
             Inl err \<Rightarrow> Inr (Some (Errorf ''couldn't create a new instance of KRIE: %w'' [] (Some err)), w)
           | Inr trace \<Rightarrow>
               bindR (Start s h env ord trace g w) (\<lambda>(err, trace, g, w).
               case err of
                 Some err \<Rightarrow> Inr (Some (Errorf ''couldn't start: %w'' [] (Some err)), w)
               | None \<Rightarrow> Inr (None, snd (Stop s h trace (ch_wait c w)))))))"

section \<open>Lemmas\<close>

text \<open>A configuration that is not valid is refused before anything is touched: no file is created, no
  program is loaded, and the command returns the validation error inside its own.\<close>

lemma invalid_configuration_refused:
  assumes "parseConfig s c opts w = (None, opts', w')"
    and "KrieOptions_IsValid (cli_KRIEOptions opts') = Inr (Some err)"
  shows "krieCmd s h c env ord opts g w =
    Inr (Some (Errorf ''couldn't create a new instance of KRIE: %w'' []
           (Some (Errorf ''invalid configuration: %w'' [] (Some err)))),
         ch_SetLevel c (ko_LogLevel (cli_KRIEOptions opts')) w')"
  using assms by (simp add: krieCmd_def NewKRIE_def Let_def)

text \<open>A flag whose file does not exist changes nothing, and one whose file cannot be opened afterwards ends the command
  with an error that names the file, before anything else happens.\<close>

lemma config_flag_missing:
  "Stat val = Some err \<Longrightarrow> snd (Sanitizer_Set Stat val init_cmd) = init_cmd"
  by (simp add: Sanitizer_Set_def)

lemma config_flag_unreadable:
  assumes "Sanitizer_Set Stat val init_cmd = (None, kos)" and "sh_Open s val w = Inl err"
  shows "krieCmd s h c env ord (kos_options kos) g w =
    Inr (Some (Errorf ''couldn't load config file %s: %w'' [FStr val] (Some err)), w)"
  using assms
  by (auto simp: Sanitizer_Set_def init_cmd_def NewKRIEOptionsSanitizer_def krieCmd_def parseConfig_def Let_def
      split: option.splits)

end
