(* ===== verification/Json_Lexer.thy ===== *)
theory Json_Lexer
  imports Json_Writer Plain_Names
begin

text \<open>
  The input side of the generated code \<^verbatim>\<open>pkg/krie/events/*_easyjson.go\<close>.  The lexer of
  \<^verbatim>\<open>github.com/mailru/easyjson/jlexer\<close> is not part of the repository: it is a record \<open>JLexer\<close> of operations
  over an abstract type of lexer states.  All generated decoders have the same shape, a loop over the
  keys of an object with one case per field; the shape is modelled once, and a decoder is its table of cases.
  The loops are partial functions, so that a decoder that does not return has the value \<open>None\<close>.  Two
  hypotheses state the documented behaviour of the lexer: \<open>lexer_progress\<close> (tokens are consumed, an error
  stays) carries termination, \<open>lexer_reads\<close> (it reads back what the writer writes) carries the round trips.
\<close>

section \<open>Lexers\<close>

record 's JLexer =
  lx_Ok :: "'s \<Rightarrow> bool"
  lx_IsStart :: "'s \<Rightarrow> bool"
  lx_IsNull :: "'s \<Rightarrow> bool \<times> 's"
  lx_Consumed :: "'s \<Rightarrow> 's"
  lx_Skip :: "'s \<Rightarrow> 's"
  lx_SkipRecursive :: "'s \<Rightarrow> 's"
  lx_Delim :: "char \<Rightarrow> 's \<Rightarrow> 's"
  lx_IsDelim :: "char \<Rightarrow> 's \<Rightarrow> bool \<times> 's"
  lx_UnsafeFieldName :: "bool \<Rightarrow> 's \<Rightarrow> string \<times> 's"
  lx_WantColon :: "'s \<Rightarrow> 's"
  lx_WantComma :: "'s \<Rightarrow> 's"
  lx_String :: "'s \<Rightarrow> string \<times> 's"
  lx_Bool :: "'s \<Rightarrow> bool \<times> 's"
  lx_Uint16 :: "'s \<Rightarrow> u16 \<times> 's"
  lx_Uint32 :: "'s \<Rightarrow> u32 \<times> 's"
  lx_Uint64 :: "'s \<Rightarrow> u64 \<times> 's"
  lx_Int64 :: "'s \<Rightarrow> u64 \<times> 's"
  lx_Int :: "'s \<Rightarrow> int \<times> 's"
  lx_Raw :: "'s \<Rightarrow> string \<times> 's"
  lx_AddError :: "error option \<Rightarrow> 's \<Rightarrow> 's"

section \<open>The shape of a decoder\<close>

type_synonym ('s, 'a) dec = "'a \<times> 's \<Rightarrow> ('a \<times> 's) option"

text \<open>\<open>out.F = T(in.Kind())\<close>, \<open>decode(in, &out.F)\<close>, and the three lines that fill a pointer field.\<close>

definition dec_into :: "('s \<Rightarrow> 'v \<times> 's) \<Rightarrow> ('v \<Rightarrow> 'a \<Rightarrow> 'a) \<Rightarrow> ('s, 'a) dec" where
  "dec_into rd put = (\<lambda>(out, s). case rd s of (v, s) \<Rightarrow> Some (put v out, s))"

definition dec_part :: "('a \<Rightarrow> 'b) \<Rightarrow> ('b \<Rightarrow> 'a \<Rightarrow> 'a) \<Rightarrow> ('s, 'b) dec \<Rightarrow> ('s, 'a) dec" where
  "dec_part get put d = (\<lambda>(out, s). case d (get out, s) of None \<Rightarrow> None | Some (x, s) \<Rightarrow> Some (put x out, s))"

definition dec_ptr :: "'s JLexer \<Rightarrow> 'b \<Rightarrow> ('s, 'b) dec \<Rightarrow> ('s, 'b option) dec" where
  "dec_ptr lx new d = (\<lambda>(p, s).
     case lx_IsNull lx s of (null, s) \<Rightarrow>
       if null then Some (None, lx_Skip lx s)
       else (case d (case p of None \<Rightarrow> new | Some x \<Rightarrow> x, s) of
               None \<Rightarrow> None | Some (x, s) \<Rightarrow> Some (Some x, s)))"

text \<open>The loop over the keys: a null value is skipped before the switch, an unknown key is skipped with
  its value.\<close>

definition switch :: "'s JLexer \<Rightarrow> (string \<times> ('s, 'a) dec) list \<Rightarrow> string \<Rightarrow> ('s, 'a) dec" where
  "switch lx cases key = (\<lambda>(out, s).
     case map_of cases key of Some d \<Rightarrow> d (out, s) | None \<Rightarrow> Some (out, lx_SkipRecursive lx s))"

partial_function (option) object_loop ::
    "'s JLexer \<Rightarrow> (string \<times> ('s, 'a) dec) list \<Rightarrow> 'a \<Rightarrow> 's \<Rightarrow> ('a \<times> 's) option" where
  "object_loop lx cases out s =
     (case lx_IsDelim lx (CHR ''}'') s of (close, s) \<Rightarrow>
        if close then Some (out, s)
        else
          (case lx_UnsafeFieldName lx False s of (key, s) \<Rightarrow>
           case lx_IsNull lx (lx_WantColon lx s) of (null, s) \<Rightarrow>
             if null then object_loop lx cases out (lx_WantComma lx (lx_Skip lx s))
             else Option.bind (switch lx cases key (out, s))
                    (\<lambda>(out, s). object_loop lx cases out (lx_WantComma lx s))))"

text \<open>What surrounds the loop.  \<open>decode_object\<close> fills the value it is given, \<open>decode_new\<close> first replaces
  the embedded pointer of a serializer by one to a zero value.\<close>

definition with_object :: "'s JLexer \<Rightarrow> ('a \<Rightarrow> 's \<Rightarrow> ('a \<times> 's) option) \<Rightarrow> ('s, 'a) dec" where
  "with_object lx body = (\<lambda>(out, s).
     let isTopLevel = lx_IsStart lx s; finish = (\<lambda>s. if isTopLevel then lx_Consumed lx s else s) in
     case lx_IsNull lx s of (null, s) \<Rightarrow>
       if null then Some (out, lx_Skip lx (finish s))
       else (case body out (lx_Delim lx (CHR ''{'') s) of
               None \<Rightarrow> None
             | Some (out, s) \<Rightarrow> Some (out, finish (lx_Delim lx (CHR ''}'') s))))"

definition decode_object :: "'s JLexer \<Rightarrow> (string \<times> ('s, 'a) dec) list \<Rightarrow> ('s, 'a) dec" where
  "decode_object lx cases = with_object lx (object_loop lx cases)"

definition decode_new :: "'s JLexer \<Rightarrow> 'a \<Rightarrow> (string \<times> ('s, 'a) dec) list \<Rightarrow> ('s, 'a option) dec" where
  "decode_new lx zero cases = with_object lx (\<lambda>_ s. map_option (\<lambda>(x, s). (Some x, s)) (object_loop lx cases zero s))"

section \<open>Termination\<close>

text \<open>The input that is left, or 0 once the lexer has failed.\<close>

definition fuel :: "'s JLexer \<Rightarrow> ('s \<Rightarrow> nat) \<Rightarrow> 's \<Rightarrow> nat" where
  "fuel lx left s = (if lx_Ok lx s then Suc (left s) else 0)"

definition keeps :: "'s JLexer \<Rightarrow> ('s \<Rightarrow> nat) \<Rightarrow> ('s \<Rightarrow> 's) \<Rightarrow> bool" where
  "keeps lx left f \<longleftrightarrow> (\<forall>s. fuel lx left (f s) \<le> fuel lx left s)"

definition consumes :: "'s JLexer \<Rightarrow> ('s \<Rightarrow> nat) \<Rightarrow> ('s \<Rightarrow> 's) \<Rightarrow> bool" where
  "consumes lx left f \<longleftrightarrow> (\<forall>s. fuel lx left (f s) \<le> fuel lx left s - 1)"

text \<open>No operation gives input back or forgives an error; names, numbers, delimiters and skipped values
  consume a token or fail; and a lexer that has failed is at every delimiter.\<close>

definition lexer_progress :: "'s JLexer \<Rightarrow> ('s \<Rightarrow> nat) \<Rightarrow> bool" where
  "lexer_progress lx left \<longleftrightarrow>
     keeps lx left (snd \<circ> lx_IsNull lx) \<and> keeps lx left (lx_Consumed lx) \<and>
     keeps lx left (lx_WantColon lx) \<and> keeps lx left (lx_WantComma lx) \<and>
     keeps lx left (snd \<circ> lx_String lx) \<and> keeps lx left (snd \<circ> lx_Bool lx) \<and>
     keeps lx left (snd \<circ> lx_Uint16 lx) \<and> keeps lx left (snd \<circ> lx_Uint64 lx) \<and>
     keeps lx left (snd \<circ> lx_Int64 lx) \<and> keeps lx left (snd \<circ> lx_Int lx) \<and>
     keeps lx left (snd \<circ> lx_Raw lx) \<and> (\<forall>e. keeps lx left (lx_AddError lx e)) \<and>
     (\<forall>c. keeps lx left (snd \<circ> lx_IsDelim lx c)) \<and>
     (\<forall>c s. \<not> fst (lx_IsDelim lx c s) \<longrightarrow> lx_Ok lx (snd (lx_IsDelim lx c s))) \<and>
     consumes lx left (lx_Skip lx) \<and> consumes lx left (lx_SkipRecursive lx) \<and>
     (\<forall>c. consumes lx left (lx_Delim lx c)) \<and> (\<forall>b. consumes lx left (snd \<circ> lx_UnsafeFieldName lx b)) \<and>
     consumes lx left (snd \<circ> lx_Uint32 lx)"

definition returns :: "'s JLexer \<Rightarrow> ('s \<Rightarrow> nat) \<Rightarrow> ('s, 'a) dec \<Rightarrow> bool" where
  "returns lx left d \<longleftrightarrow> (\<forall>out s. \<exists>out' s'. d (out, s) = Some (out', s') \<and> fuel lx left s' \<le> fuel lx left s)"

lemma consumes_keeps: "consumes lx left f \<Longrightarrow> keeps lx left f"
  by (metis (no_types, opaque_lifting) consumes_def keeps_def diff_le_self le_trans)

lemma keepsD: "keeps lx left f \<Longrightarrow> fuel lx left (f s) \<le> fuel lx left s"
  by (simp add: keeps_def)

lemma consumesD: "consumes lx left f \<Longrightarrow> 0 < fuel lx left s \<Longrightarrow> fuel lx left (f s) < fuel lx left s"
  by (metis One_nat_def Suc_pred consumes_def le_imp_less_Suc)

lemma progress_keeps:
  assumes "lexer_progress lx left"
  shows "keeps lx left (snd \<circ> lx_IsNull lx)" "keeps lx left (lx_Consumed lx)" "keeps lx left (lx_WantColon lx)"
    "keeps lx left (lx_WantComma lx)" "keeps lx left (snd \<circ> lx_String lx)" "keeps lx left (snd \<circ> lx_Bool lx)"
    "keeps lx left (snd \<circ> lx_Uint16 lx)" "keeps lx left (snd \<circ> lx_Uint32 lx)" "keeps lx left (snd \<circ> lx_Uint64 lx)"
    "keeps lx left (snd \<circ> lx_Int64 lx)" "keeps lx left (snd \<circ> lx_Int lx)" "keeps lx left (snd \<circ> lx_Raw lx)"
    "keeps lx left (lx_AddError lx e)" "keeps lx left (snd \<circ> lx_IsDelim lx c)" "keeps lx left (lx_Skip lx)"
    "keeps lx left (lx_SkipRecursive lx)" "keeps lx left (lx_Delim lx c)" "keeps lx left (snd \<circ> lx_UnsafeFieldName lx b)"
  using assms by (simp_all add: lexer_progress_def consumes_keeps)

lemma returnsI: "(\<And>out s. \<exists>out' s'. d (out, s) = Some (out', s') \<and> fuel lx left s' \<le> fuel lx left s) \<Longrightarrow> returns lx left d"
  by (simp add: returns_def)

lemma returnsE:
  assumes "returns lx left d"
  obtains out' s' where "d (out, s) = Some (out', s')" and "fuel lx left s' \<le> fuel lx left s"
  using assms unfolding returns_def by blast

lemma returns_into: "keeps lx left (snd \<circ> rd) \<Longrightarrow> returns lx left (dec_into rd put)"
  by (rule returnsI) (metis (no_types, lifting) dec_into_def keepsD comp_apply case_prod_conv prod.collapse)

lemma returns_part: "returns lx left d \<Longrightarrow> returns lx left (dec_part get put d)"
proof (rule returnsI)
  fix out s
  assume "returns lx left d"
  then obtain x s' where "d (get out, s) = Some (x, s')" "fuel lx left s' \<le> fuel lx left s" by (rule returnsE)
  then show "\<exists>out' s'. dec_part get put d (out, s) = Some (out', s') \<and> fuel lx left s' \<le> fuel lx left s"
    by (simp add: dec_part_def)
qed

lemma returns_ptr:
  assumes p: "lexer_progress lx left" and d: "returns lx left d"
  shows "returns lx left (dec_ptr lx new d)"
proof (rule returnsI)
  fix q s
  obtain null s1 where n: "lx_IsNull lx s = (null, s1)" by fastforce
  have s1: "fuel lx left s1 \<le> fuel lx left s" using keepsD [OF progress_keeps(1) [OF p], of s] n by simp
  obtain x s2 where "d (case q of None \<Rightarrow> new | Some x \<Rightarrow> x, s1) = Some (x, s2)" "fuel lx left s2 \<le> fuel lx left s1"
    using d by (rule returnsE)
  moreover have "fuel lx left (lx_Skip lx s1) \<le> fuel lx left s1" using keepsD [OF progress_keeps(15) [OF p]] .
  ultimately show "\<exists>out' s'. dec_ptr lx new d (q, s) = Some (out', s') \<and> fuel lx left s' \<le> fuel lx left s"
    using n s1 by (auto simp: dec_ptr_def)
qed

text \<open>A loop that goes on has a key in front of it: the lexer has not failed, and reading the key costs a token.\<close>

lemma loop_key:
  assumes p: "lexer_progress lx left" and "lx_IsDelim lx c s = (False, s1)" and "lx_UnsafeFieldName lx b s1 = (key, s2)"
  shows "fuel lx left s2 < fuel lx left s"
proof -
  have "lx_Ok lx s1" using p assms(2) unfolding lexer_progress_def by (metis fst_conv snd_conv)
  then have "0 < fuel lx left s1" by (simp add: fuel_def)
  then have "fuel lx left s2 < fuel lx left s1"
    using consumesD [of lx left "snd \<circ> lx_UnsafeFieldName lx b" s1] p assms(3) by (simp add: lexer_progress_def)
  moreover have "fuel lx left s1 \<le> fuel lx left s"
    using keepsD [OF progress_keeps(14) [OF p, of c], of s] assms(2) by simp
  ultimately show ?thesis by simp
qed

lemma switch_returns:
  assumes "lexer_progress lx left" and "list_all (\<lambda>(k, d). returns lx left d) cases"
  shows "returns lx left (switch lx cases key)"
proof (rule returnsI)
  fix out s
  show "\<exists>out' s'. switch lx cases key (out, s) = Some (out', s') \<and> fuel lx left s' \<le> fuel lx left s"
  proof (cases "map_of cases key")
    case None
    then show ?thesis using keepsD [OF progress_keeps(16) [OF assms(1)]] by (simp add: switch_def)
  next
    case (Some d)
    then have "returns lx left d" using assms(2) by (auto simp: list_all_iff dest: map_of_SomeD)
    with Some show ?thesis by (auto simp: switch_def elim!: returnsE [of _ _ _ out s])
  qed
qed

lemma object_loop_returns:
  assumes p: "lexer_progress lx left" and c: "list_all (\<lambda>(k, d). returns lx left d) cases"
  shows "\<exists>out' s'. object_loop lx cases out s = Some (out', s') \<and> fuel lx left s' \<le> fuel lx left s"
proof (induction "fuel lx left s" arbitrary: out s rule: less_induct)
  case less
  note k = keepsD [OF progress_keeps(1) [OF p], unfolded o_def] keepsD [OF progress_keeps(3) [OF p]]
    keepsD [OF progress_keeps(4) [OF p]] keepsD [OF progress_keeps(15) [OF p]]
  obtain close s1 where d: "lx_IsDelim lx (CHR ''}'') s = (close, s1)" by fastforce
  obtain key s2 where u: "lx_UnsafeFieldName lx False s1 = (key, s2)" by fastforce
  obtain null s3 where n: "lx_IsNull lx (lx_WantColon lx s2) = (null, s3)" by fastforce
  obtain out' s4 where w: "switch lx cases key (out, s3) = Some (out', s4)" "fuel lx left s4 \<le> fuel lx left s3"
    using switch_returns [OF p c] by (rule returnsE)
  show ?case
  proof (cases close)
    case True
    then show ?thesis
      using keepsD [OF progress_keeps(14) [OF p], of "CHR ''}''" s] d by (subst object_loop.simps) simp
  next
    case False
    have "fuel lx left s3 \<le> fuel lx left s2" using k(1) [of "lx_WantColon lx s2"] k(2) [of s2] n by simp
    then have s3: "fuel lx left s3 < fuel lx left s" using loop_key [OF p _ u, of "CHR ''}''" s] d False by simp
    have "fuel lx left (lx_WantComma lx (lx_Skip lx s3)) < fuel lx left s"
      "fuel lx left (lx_WantComma lx s4) < fuel lx left s"
      using s3 w(2) k(3) [of "lx_Skip lx s3"] k(3) [of s4] k(4) [of s3] by linarith+
    from less [OF this(1), of out] less [OF this(2), of out'] this show ?thesis
      using d u n w(1) False by (subst (1) object_loop.simps) (force dest: less_imp_le le_less_trans)
  qed
qed

lemma with_object_returns:
  assumes p: "lexer_progress lx left"
    and b: "\<And>out s. \<exists>out' s'. body out s = Some (out', s') \<and> fuel lx left s' \<le> fuel lx left s"
  shows "\<exists>out' s'. with_object lx body (out, s) = Some (out', s') \<and> fuel lx left s' \<le> fuel lx left s - 1"
proof -
  note k = keepsD [OF progress_keeps(1) [OF p], unfolded o_def] keepsD [OF progress_keeps(2) [OF p]]
    keepsD [OF progress_keeps(17) [OF p, of "CHR ''}''"]]
  have c: "fuel lx left (lx_Skip lx s) \<le> fuel lx left s - 1"
    "fuel lx left (lx_Delim lx (CHR ''{'') s) \<le> fuel lx left s - 1" for s
    using p by (simp_all add: lexer_progress_def consumes_def)
  obtain null s1 where n: "lx_IsNull lx s = (null, s1)" by fastforce
  obtain out' s2 where w: "body out (lx_Delim lx (CHR ''{'') s1) = Some (out', s2)"
    "fuel lx left s2 \<le> fuel lx left (lx_Delim lx (CHR ''{'') s1)" using b by blast
  have s1: "fuel lx left s1 \<le> fuel lx left s" using k(1) [of s] n by simp
  have "fuel lx left (lx_Skip lx s1) \<le> fuel lx left s - 1" "fuel lx left (lx_Skip lx (lx_Consumed lx s1)) \<le> fuel lx left s - 1"
    "fuel lx left (lx_Delim lx (CHR ''}'') s2) \<le> fuel lx left s - 1"
    "fuel lx left (lx_Consumed lx (lx_Delim lx (CHR ''}'') s2)) \<le> fuel lx left s - 1"
    using s1 w(2) c [of s1] c [of "lx_Consumed lx s1"] k(2) [of s1] k(3) [of s2] k(2) [of "lx_Delim lx (CHR ''}'') s2"]
    by linarith+
  with n w(1) show ?thesis by (simp add: with_object_def Let_def)
qed

lemma decode_object_returns:
  assumes "lexer_progress lx left" and "list_all (\<lambda>(k, d). returns lx left d) cases"
  shows "\<exists>out' s'. decode_object lx cases (out, s) = Some (out', s') \<and> fuel lx left s' \<le> fuel lx left s - 1"
  unfolding decode_object_def by (rule with_object_returns [OF assms(1) object_loop_returns [OF assms]])

lemma decode_new_returns:
  assumes "lexer_progress lx left" and "list_all (\<lambda>(k, d). returns lx left d) cases"
  shows "\<exists>out' s'. decode_new lx zero cases (out, s) = Some (out', s') \<and> fuel lx left s' \<le> fuel lx left s - 1"
  unfolding decode_new_def
  using object_loop_returns [OF assms, of zero] by (intro with_object_returns [OF assms(1)]) force

lemma returns_decode:
  assumes "lexer_progress lx left" and "list_all (\<lambda>(k, d). returns lx left d) cases"
  shows "returns lx left (decode_object lx cases)" and "returns lx left (decode_new lx zero cases)"
  using decode_object_returns [OF assms] decode_new_returns [OF assms] unfolding returns_def
  by (meson diff_le_self le_trans)+

text \<open>The loop of an array whose elements consume a token each.\<close>

lemma array_step_fuel:
  assumes p: "lexer_progress lx left" and "lx_IsDelim lx c s = (False, s1)" and "fuel lx left s2 \<le> fuel lx left s1 - 1"
  shows "fuel lx left (lx_WantComma lx s2) < fuel lx left s"
proof -
  have "lx_Ok lx s1" using p assms(2) unfolding lexer_progress_def by (metis fst_conv snd_conv)
  then have "0 < fuel lx left s1" by (simp add: fuel_def)
  moreover have "fuel lx left s1 \<le> fuel lx left s"
    using keepsD [OF progress_keeps(14) [OF p, of c], of s] assms(2) by simp
  moreover have "fuel lx left (lx_WantComma lx s2) \<le> fuel lx left s2" using keepsD [OF progress_keeps(4) [OF p]] .
  ultimately show ?thesis using assms(3) by linarith
qed


section \<open>Reading what was written\<close>

text \<open>\<open>at s t\<close>: the lexer has not failed, and \<open>t\<close> is the text in front of it, without a separator that it
  was told to expect and has found.  \<open>inside\<close> adds that it is past the start of the input.\<close>

definition inside :: "'s JLexer \<Rightarrow> ('s \<Rightarrow> string \<Rightarrow> bool) \<Rightarrow> 's \<Rightarrow> string \<Rightarrow> bool" where
  "inside lx at s t \<longleftrightarrow> at s t \<and> \<not> lx_IsStart lx s"

definition value_end :: "char \<Rightarrow> bool" where
  "value_end c \<longleftrightarrow> c = CHR '','' \<or> c = CHR ''}''"

text \<open>\<open>rd\<close> reads the value \<open>x\<close> from the text \<open>v\<close> and stops at the delimiter behind it.\<close>

definition reads_value :: "'s JLexer \<Rightarrow> ('s \<Rightarrow> string \<Rightarrow> bool) \<Rightarrow> ('s \<Rightarrow> 'v \<times> 's) \<Rightarrow> string \<Rightarrow> 'v \<Rightarrow> bool" where
  "reads_value lx at rd v x \<longleftrightarrow>
     (\<forall>s c t. inside lx at s (v @ c # t) \<longrightarrow> value_end c \<longrightarrow> (\<exists>s'. rd s = (x, s') \<and> inside lx at s' (c # t)))"

definition lexer_reads :: "'s JLexer \<Rightarrow> ('s \<Rightarrow> string \<Rightarrow> bool) \<Rightarrow> 'w JView \<Rightarrow> bool" where
  "lexer_reads lx at jv \<longleftrightarrow>
     (\<forall>s t. at s t \<longrightarrow> lx_Ok lx s) \<and>
     (\<forall>s. at s [] \<longrightarrow> at (lx_Consumed lx s) []) \<and>
     (\<forall>s x t. at s (x # t) \<longrightarrow> x \<noteq> CHR ''n'' \<longrightarrow>
        (\<exists>s'. lx_IsNull lx s = (False, s') \<and> at s' (x # t) \<and> (lx_IsStart lx s' \<longrightarrow> lx_IsStart lx s))) \<and>
     (\<forall>s c t. at s (c # t) \<longrightarrow> c = CHR ''{'' \<or> c = CHR ''}'' \<longrightarrow> inside lx at (lx_Delim lx c s) t) \<and>
     (\<forall>s x t. inside lx at s (x # t) \<longrightarrow>
        (\<exists>s'. lx_IsDelim lx (CHR ''}'') s = (x = CHR ''}'', s') \<and> inside lx at s' (x # t))) \<and>
     (\<forall>s k t. inside lx at s (CHR 0x22 # k @ CHR 0x22 # t) \<longrightarrow> plain k \<longrightarrow>
        (\<exists>s'. lx_UnsafeFieldName lx False s = (k, s') \<and> inside lx at s' t)) \<and>
     (\<forall>s t. inside lx at s (CHR '':'' # t) \<longrightarrow> inside lx at (lx_WantColon lx s) t) \<and>
     (\<forall>s t. inside lx at s (CHR '','' # t) \<longrightarrow> inside lx at (lx_WantComma lx s) t) \<and>
     (\<forall>s t. inside lx at s (CHR ''}'' # t) \<longrightarrow> inside lx at (lx_WantComma lx s) (CHR ''}'' # t)) \<and>
     (\<forall>x. plain x \<longrightarrow> reads_value lx at (lx_String lx) (jv_String jv x) x) \<and>
     (\<forall>x. reads_value lx at (lx_Bool lx) (jv_Bool jv x) x) \<and>
     (\<forall>n. reads_value lx at (lx_Uint32 lx) (jv_Uint jv (unat n)) n) \<and>
     (\<forall>n. reads_value lx at (lx_Uint64 lx) (jv_Uint jv (unat n)) n) \<and>
     (\<forall>n. reads_value lx at (lx_Int64 lx) (jv_Int jv (sint n)) n) \<and>
     (\<forall>x. plain x \<longrightarrow> reads_value lx at (lx_Raw lx) (CHR 0x22 # x @ [CHR 0x22]) (CHR 0x22 # x @ [CHR 0x22])) \<and>
     (\<forall>s t. inside lx at s t \<longrightarrow> inside lx at (lx_AddError lx None s) t) \<and>
     (\<forall>s t. inside lx at s (CHR 0x22 # t) \<longrightarrow> \<not> lx_Ok lx (snd (lx_Uint32 lx s)))"

text \<open>The texts of numbers, strings and truth values do not start like \<open>null\<close>.\<close>

definition value_text :: "string \<Rightarrow> bool" where
  "value_text v \<longleftrightarrow> v \<noteq> [] \<and> hd v \<noteq> CHR ''n''"

definition jview_texts :: "'w JView \<Rightarrow> bool" where
  "jview_texts jv \<longleftrightarrow> (\<forall>x. value_text (jv_String jv x)) \<and> (\<forall>x. value_text (jv_Bool jv x)) \<and>
     (\<forall>x. value_text (jv_Uint jv x)) \<and> (\<forall>x. value_text (jv_Int jv x))"

text \<open>A decoder that turns the text \<open>v\<close> into the update \<open>f\<close>.\<close>

definition reads :: "'s JLexer \<Rightarrow> ('s \<Rightarrow> string \<Rightarrow> bool) \<Rightarrow> ('s, 'a) dec \<Rightarrow> string \<Rightarrow> ('a \<Rightarrow> 'a) \<Rightarrow> bool" where
  "reads lx at d v f \<longleftrightarrow> value_text v \<and>
     (\<forall>out s c t. inside lx at s (v @ c # t) \<longrightarrow> value_end c \<longrightarrow>
        (\<exists>s'. d (out, s) = Some (f out, s') \<and> inside lx at s' (c # t)))"

lemma reads_into: "reads_value lx at rd v x \<Longrightarrow> value_text v \<Longrightarrow> reads lx at (dec_into rd put) v (put x)"
  unfolding reads_def reads_value_def dec_into_def by fastforce

lemma readsE:
  assumes "reads lx at d v f" and "inside lx at s (v @ c # t)" and "value_end c"
  obtains s' where "d (out, s) = Some (f out, s')" and "inside lx at s' (c # t)"
  using assms unfolding reads_def by blast

lemma lexer_readsD:
  assumes "lexer_reads lx at jv"
  shows "at s t \<Longrightarrow> lx_Ok lx s" and "at s [] \<Longrightarrow> at (lx_Consumed lx s) []"
    and "inside lx at s (CHR '':'' # t) \<Longrightarrow> inside lx at (lx_WantColon lx s) t"
    and "inside lx at s (CHR '','' # t) \<Longrightarrow> inside lx at (lx_WantComma lx s) t"
    and "inside lx at s (CHR ''}'' # t) \<Longrightarrow> inside lx at (lx_WantComma lx s) (CHR ''}'' # t)"
    and "at s (CHR ''{'' # t) \<Longrightarrow> inside lx at (lx_Delim lx (CHR ''{'') s) t"
    and "at s (CHR ''}'' # t) \<Longrightarrow> inside lx at (lx_Delim lx (CHR ''}'') s) t"
    and "inside lx at s (CHR 0x22 # t) \<Longrightarrow> \<not> lx_Ok lx (snd (lx_Uint32 lx s))"
    and "inside lx at s t \<Longrightarrow> inside lx at (lx_AddError lx None s) t"
  using assms by (auto simp: lexer_reads_def)

lemma lexer_reads_values:
  assumes "lexer_reads lx at jv" and "jview_texts jv"
  shows "plain x \<Longrightarrow> g = f1 x \<Longrightarrow> reads lx at (dec_into (lx_String lx) f1) (jv_String jv x) g"
    and "g = f2 y \<Longrightarrow> reads lx at (dec_into (lx_Bool lx) f2) (jv_Bool jv y) g"
    and "g = f3 n \<Longrightarrow> reads lx at (dec_into (lx_Uint32 lx) f3) (jv_Uint jv (unat n)) g"
    and "g = f4 m \<Longrightarrow> reads lx at (dec_into (lx_Uint64 lx) f4) (jv_Uint jv (unat m)) g"
    and "g = f5 i \<Longrightarrow> reads lx at (dec_into (lx_Int64 lx) f5) (jv_Int jv (sint i)) g"
  using assms by (auto intro!: reads_into simp: lexer_reads_def jview_texts_def)

lemma lexer_readsE:
  assumes "lexer_reads lx at jv"
  shows "\<lbrakk>at s (x # t); x \<noteq> CHR ''n''\<rbrakk> \<Longrightarrow>
      \<exists>s'. lx_IsNull lx s = (False, s') \<and> at s' (x # t) \<and> (lx_IsStart lx s' \<longrightarrow> lx_IsStart lx s)"
    and "inside lx at s (x # t) \<Longrightarrow>
      \<exists>s'. lx_IsDelim lx (CHR ''}'') s = (x = CHR ''}'', s') \<and> inside lx at s' (x # t)"
    and "\<lbrakk>inside lx at s (CHR 0x22 # k @ CHR 0x22 # t); plain k\<rbrakk> \<Longrightarrow>
      \<exists>s'. lx_UnsafeFieldName lx False s = (k, s') \<and> inside lx at s' t"
  using assms by (simp_all add: lexer_reads_def)

lemma IsNull_inside:
  assumes "lexer_reads lx at jv" and "inside lx at s (v @ u)" and "value_text v"
  obtains s' where "lx_IsNull lx s = (False, s')" and "inside lx at s' (v @ u)"
proof -
  from assms(3) obtain x v' where v: "v = x # v'" "x \<noteq> CHR ''n''" by (cases v) (auto simp: value_text_def)
  from lexer_readsE(1) [OF assms(1), of s x "v' @ u"] assms(2) v that show ?thesis by (auto simp: inside_def)
qed

text \<open>One field of an object: up to its value, and behind it.\<close>

lemma loop_head:
  assumes l: "lexer_reads lx at jv" and i: "inside lx at s (drop 1 (field_prefix k) @ v @ u)" and "plain k" "value_text v"
  obtains s' where "inside lx at s' (v @ u)"
    and "object_loop lx cases out s =
      Option.bind (switch lx cases k (out, s')) (\<lambda>(out, s). object_loop lx cases out (lx_WantComma lx s))"
proof -
  have t: "drop 1 (field_prefix k) @ v @ u = CHR 0x22 # k @ CHR 0x22 # CHR '':'' # v @ u"
    by (simp add: field_prefix_def)
  obtain s1 where s1: "lx_IsDelim lx (CHR ''}'') s = (False, s1)" "inside lx at s1 (CHR 0x22 # k @ CHR 0x22 # CHR '':'' # v @ u)"
    using lexer_readsE(2) [OF l i [unfolded t]] by auto
  obtain s2 where s2: "lx_UnsafeFieldName lx False s1 = (k, s2)" "inside lx at s2 (CHR '':'' # v @ u)"
    using lexer_readsE(3) [OF l s1(2) assms(3)] by auto
  obtain s3 where s3: "lx_IsNull lx (lx_WantColon lx s2) = (False, s3)" "inside lx at s3 (v @ u)"
    using IsNull_inside [OF l lexer_readsD(3) [OF l s2(2)] assms(4)] .
  have "object_loop lx cases out s =
      Option.bind (switch lx cases k (out, s3)) (\<lambda>(out, s). object_loop lx cases out (lx_WantComma lx s))"
    using s1(1) s2(1) s3(1) by (subst (1) object_loop.simps) simp
  with s3(2) show thesis by (rule that)
qed

lemma loop_reads_one:
  assumes l: "lexer_reads lx at jv" and i: "inside lx at s (drop 1 (field_prefix k) @ v @ c # t)"
    and d: "plain k" "map_of cases k = Some d" "reads lx at d v f" and c: "value_end c"
  obtains s' where "object_loop lx cases out s = object_loop lx cases (f out) s'"
    and "inside lx at s' (if c = CHR '','' then t else c # t)"
proof -
  have "value_text v" using d(3) by (simp add: reads_def)
  then obtain s1 where s1: "inside lx at s1 (v @ c # t)" "object_loop lx cases out s =
      Option.bind (switch lx cases k (out, s1)) (\<lambda>(out, s). object_loop lx cases out (lx_WantComma lx s))"
    by (rule loop_head [OF l i d(1)])
  obtain s2 where s2: "d (out, s1) = Some (f out, s2)" "inside lx at s2 (c # t)" using readsE [OF d(3) s1(1) c] .
  show thesis
  proof (rule that)
    show "object_loop lx cases out s = object_loop lx cases (f out) (lx_WantComma lx s2)"
      using s1(2) s2(1) d(2) by (simp add: switch_def)
    show "inside lx at (lx_WantComma lx s2) (if c = CHR '','' then t else c # t)"
      using s2(2) c lexer_readsD(4,5) [OF l, of s2 t] by (auto simp: value_end_def)
  qed
qed

text \<open>All fields of an object; \<open>fs\<close> lists key, document and update of each.\<close>

abbreviation updates :: "(string \<times> json \<times> ('a \<Rightarrow> 'a)) list \<Rightarrow> 'a \<Rightarrow> 'a" where
  "updates fs out \<equiv> foldl (\<lambda>out (k, d, f). f out) out fs"

abbreviation doc_of :: "(string \<times> json \<times> ('a \<Rightarrow> 'a)) list \<Rightarrow> (string \<times> json) list" where
  "doc_of fs \<equiv> map (\<lambda>(k, d, f). (k, d)) fs"

definition field_ok ::
    "'s JLexer \<Rightarrow> ('s \<Rightarrow> string \<Rightarrow> bool) \<Rightarrow> (string \<times> ('s, 'a) dec) list \<Rightarrow> string \<times> json \<times> ('a \<Rightarrow> 'a) \<Rightarrow> bool" where
  "field_ok lx at cases = (\<lambda>(k, d, f). plain k \<and> (\<exists>dec. map_of cases k = Some dec \<and> reads lx at dec (render d) f))"

lemma fields_text_Cons:
  "fields_text ((k, d) # fs) = drop 1 (field_prefix k) @ render d @ (if fs = [] then [] else CHR '','' # fields_text fs)"
  by (cases fs) (auto simp: fields_text_def)

lemma loop_reads:
  assumes l: "lexer_reads lx at jv" and "list_all (field_ok lx at cases) fs"
    and "inside lx at s (fields_text (doc_of fs) @ CHR ''}'' # t)"
  shows "\<exists>s'. object_loop lx cases out s = Some (updates fs out, s') \<and> inside lx at s' (CHR ''}'' # t)"
  using assms(2,3)
proof (induction fs arbitrary: out s)
  case Nil
  then have "inside lx at s (CHR ''}'' # t)" by (simp add: fields_text_def)
  then obtain s' where "lx_IsDelim lx (CHR ''}'') s = (True, s')" "inside lx at s' (CHR ''}'' # t)"
    using lexer_readsE(2) [OF l, of s "CHR ''}''" t] by auto
  then show ?case by (subst object_loop.simps) simp
next
  case (Cons x fs)
  obtain k d f where x: "x = (k, d, f)" by (metis prod_cases3)
  from Cons.prems(1) x obtain dec where d: "plain k" "map_of cases k = Some dec" "reads lx at dec (render d) f"
    by (auto simp: field_ok_def)
  let ?c = "if fs = [] then CHR ''}'' else CHR '',''"
  let ?t = "if fs = [] then t else fields_text (doc_of fs) @ CHR ''}'' # t"
  have i: "inside lx at s (drop 1 (field_prefix k) @ render d @ ?c # ?t)"
    using Cons.prems(2) x by (simp add: fields_text_Cons split: if_splits)
  have "value_end ?c" by (simp add: value_end_def)
  from loop_reads_one [OF l i d this] obtain s' where
    s': "object_loop lx cases out s = object_loop lx cases (f out) s'"
      "inside lx at s' (if ?c = CHR '','' then ?t else ?c # ?t)" .
  have "inside lx at s' (fields_text (doc_of fs) @ CHR ''}'' # t)"
    using s'(2) by (simp add: fields_text_def split: if_splits)
  from Cons.IH [OF _ this, of "f out"] Cons.prems(1) s'(1) x show ?case by simp
qed

text \<open>A decoder on the text of a whole object, at the start of the input or inside it.\<close>

lemma with_object_reads:
  assumes l: "lexer_reads lx at jv" and i: "at s (render (JObject ds) @ t)" and top: "lx_IsStart lx s \<Longrightarrow> t = []"
    and b: "\<And>s. inside lx at s (fields_text ds @ CHR ''}'' # t) \<Longrightarrow>
              \<exists>s'. body out s = Some (out', s') \<and> inside lx at s' (CHR ''}'' # t)"
  shows "\<exists>s'. with_object lx body (out, s) = Some (out', s') \<and> at s' t \<and> (\<not> lx_IsStart lx s \<longrightarrow> inside lx at s' t)"
proof -
  have t: "render (JObject ds) @ t = CHR ''{'' # fields_text ds @ CHR ''}'' # t" by (simp add: fields_text_def)
  from lexer_readsE(1) [OF l i [unfolded t]] obtain s1 where
    s1: "lx_IsNull lx s = (False, s1)" "at s1 (CHR ''{'' # fields_text ds @ CHR ''}'' # t)" by auto
  from b [OF lexer_readsD(6) [OF l s1(2)]] obtain s2 where
    s2: "body out (lx_Delim lx (CHR ''{'') s1) = Some (out', s2)" "inside lx at s2 (CHR ''}'' # t)" by blast
  from s2(2) have s3: "inside lx at (lx_Delim lx (CHR ''}'') s2) t"
    using lexer_readsD(7) [OF l, of s2 t] by (simp add: inside_def)
  show ?thesis
  proof (cases "lx_IsStart lx s")
    case True
    with s3 have "at (lx_Consumed lx (lx_Delim lx (CHR ''}'') s2)) t"
      using lexer_readsD(2) [OF l] top by (simp add: inside_def)
    with s1(1) s2(1) True show ?thesis by (simp add: with_object_def Let_def)
  next
    case False
    with s1(1) s2(1) s3 show ?thesis by (simp add: with_object_def Let_def inside_def)
  qed
qed

lemma decode_object_reads:
  assumes l: "lexer_reads lx at jv" and "at s (render (JObject (doc_of fs)))"
    and "list_all (field_ok lx at cases) fs" and "updates fs out = out'"
  shows "\<exists>s'. decode_object lx cases (out, s) = Some (out', s') \<and> at s' []"
proof -
  have "\<exists>s'. with_object lx (object_loop lx cases) (out, s) = Some (out', s') \<and> at s' [] \<and>
      (\<not> lx_IsStart lx s \<longrightarrow> inside lx at s' [])"
    by (rule with_object_reads [OF l, where ds = "doc_of fs"])
      (use assms(2,4) loop_reads [OF l assms(3), of _ "[]" out] in auto)
  then show ?thesis unfolding decode_object_def by blast
qed

lemma decode_new_reads:
  assumes l: "lexer_reads lx at jv" and "at s (render (JObject (doc_of fs)))"
    and "list_all (field_ok lx at cases) fs" and "updates fs zero = out'"
  shows "\<exists>s'. decode_new lx zero cases (out, s) = Some (Some out', s') \<and> at s' []"
proof -
  have "\<exists>s'. with_object lx (\<lambda>_ s. map_option (\<lambda>(x, s). (Some x, s)) (object_loop lx cases zero s)) (out, s) =
      Some (Some out', s') \<and> at s' [] \<and> (\<not> lx_IsStart lx s \<longrightarrow> inside lx at s' [])"
    by (rule with_object_reads [OF l, where ds = "doc_of fs"])
      (use assms(2,4) loop_reads [OF l assms(3), of _ "[]" zero] in fastforce)+
  then show ?thesis unfolding decode_new_def by blast
qed

section \<open>Failing on what was written\<close>

text \<open>A decoder that has an error on the text \<open>v\<close>.  An error stays, so it makes every surrounding decoder fail.\<close>

definition fails :: "'s JLexer \<Rightarrow> ('s \<Rightarrow> string \<Rightarrow> bool) \<Rightarrow> ('s, 'a) dec \<Rightarrow> string \<Rightarrow> bool" where
  "fails lx at d v \<longleftrightarrow> value_text v \<and>
     (\<forall>out s u. inside lx at s (v @ u) \<longrightarrow> (\<exists>out' s'. d (out, s) = Some (out', s') \<and> \<not> lx_Ok lx s'))"

lemma failed_stays: "keeps lx left f \<Longrightarrow> \<not> lx_Ok lx s \<Longrightarrow> \<not> lx_Ok lx (f s)"
  using keepsD [of lx left f s] by (simp add: fuel_def split: if_splits)

lemma fails_number:
  assumes "lexer_reads lx at jv"
  shows "fails lx at (dec_into (lx_Uint32 lx) put) (CHR 0x22 # v)"
  unfolding fails_def
proof (intro conjI allI impI)
  show "value_text (CHR 0x22 # v)" by (simp add: value_text_def)
  fix out s u
  assume "inside lx at s ((CHR 0x22 # v) @ u)"
  then have "\<not> lx_Ok lx (snd (lx_Uint32 lx s))" using lexer_readsD(8) [OF assms] by simp
  then show "\<exists>out' s'. dec_into (lx_Uint32 lx) put (out, s) = Some (out', s') \<and> \<not> lx_Ok lx s'"
    by (cases "lx_Uint32 lx s") (simp add: dec_into_def)
qed

lemma fails_part: "fails lx at d v \<Longrightarrow> fails lx at (dec_part get put d) v"
  unfolding fails_def dec_part_def by (fastforce split: option.split)

lemma fails_ptr:
  assumes l: "lexer_reads lx at jv" and d: "fails lx at d v"
  shows "fails lx at (dec_ptr lx new d) v"
  unfolding fails_def
proof (intro conjI allI impI)
  show v: "value_text v" using d by (simp add: fails_def)
  fix p s u
  assume "inside lx at s (v @ u)"
  then obtain s1 where s1: "lx_IsNull lx s = (False, s1)" "inside lx at s1 (v @ u)" by (rule IsNull_inside [OF l _ v])
  with d obtain out' s' where "d (case p of None \<Rightarrow> new | Some x \<Rightarrow> x, s1) = Some (out', s')" "\<not> lx_Ok lx s'"
    unfolding fails_def by blast
  with s1(1) show "\<exists>out' s'. dec_ptr lx new d (p, s) = Some (out', s') \<and> \<not> lx_Ok lx s'" by (simp add: dec_ptr_def)
qed

lemma loop_fails:
  assumes l: "lexer_reads lx at jv" and p: "lexer_progress lx left" and r: "list_all (\<lambda>(k, d). returns lx left d) cases"
    and d: "plain k" "map_of cases k = Some dec" "fails lx at dec (render doc)"
    and "list_all (field_ok lx at cases) fs" and "inside lx at s (fields_text (doc_of fs @ (k, doc) # ds) @ u)"
  shows "\<exists>out' s'. object_loop lx cases out s = Some (out', s') \<and> \<not> lx_Ok lx s'"
  using assms(7,8)
proof (induction fs arbitrary: out s)
  case Nil
  then have i: "inside lx at s (drop 1 (field_prefix k) @ render doc @ (if ds = [] then [] else CHR '','' # fields_text ds) @ u)"
    by (simp add: fields_text_Cons)
  have "value_text (render doc)" using d(3) by (simp add: fails_def)
  then obtain s1 where s1: "inside lx at s1 (render doc @ (if ds = [] then [] else CHR '','' # fields_text ds) @ u)"
    "object_loop lx cases out s =
      Option.bind (switch lx cases k (out, s1)) (\<lambda>(out, s). object_loop lx cases out (lx_WantComma lx s))"
    by (rule loop_head [OF l i d(1)])
  from d(3) s1(1) obtain out' s2 where s2: "dec (out, s1) = Some (out', s2)" "\<not> lx_Ok lx s2" unfolding fails_def by blast
  obtain out'' s3 where s3: "object_loop lx cases out' (lx_WantComma lx s2) = Some (out'', s3)"
    "fuel lx left s3 \<le> fuel lx left (lx_WantComma lx s2)" using object_loop_returns [OF p r] by blast
  have "\<not> lx_Ok lx s3"
    using s3(2) failed_stays [OF progress_keeps(4) [OF p] s2(2)] by (simp add: fuel_def split: if_splits)
  with s1(2) s2(1) s3(1) d(2) show ?case by (simp add: switch_def)
next
  case (Cons x fs)
  obtain k' d' f where x: "x = (k', d', f)" by (metis prod_cases3)
  from Cons.prems(1) x obtain dec' where d': "plain k'" "map_of cases k' = Some dec'" "reads lx at dec' (render d') f"
    by (auto simp: field_ok_def)
  have i: "inside lx at s (drop 1 (field_prefix k') @ render d' @ CHR '','' # fields_text (doc_of fs @ (k, doc) # ds) @ u)"
    using Cons.prems(2) x by (simp add: fields_text_Cons)
  have "value_end (CHR '','')" by (simp add: value_end_def)
  from loop_reads_one [OF l i d' this] obtain s' where
    s': "object_loop lx cases out s = object_loop lx cases (f out) s'"
      "inside lx at s' (if CHR '','' = CHR '','' then fields_text (doc_of fs @ (k, doc) # ds) @ u
         else CHR '','' # fields_text (doc_of fs @ (k, doc) # ds) @ u)" .
  from Cons.IH [of s' "f out"] Cons.prems(1) s' show ?case by simp
qed

lemma with_object_fails:
  assumes l: "lexer_reads lx at jv" and p: "lexer_progress lx left" and i: "at s (render (JObject ds) @ u)"
    and b: "\<And>s u. inside lx at s (fields_text ds @ u) \<Longrightarrow> \<exists>out' s'. body out s = Some (out', s') \<and> \<not> lx_Ok lx s'"
  shows "\<exists>out' s'. with_object lx body (out, s) = Some (out', s') \<and> \<not> lx_Ok lx s'"
proof -
  have t: "render (JObject ds) @ u = CHR ''{'' # fields_text ds @ CHR ''}'' # u" by (simp add: fields_text_def)
  from lexer_readsE(1) [OF l i [unfolded t]] obtain s1 where
    s1: "lx_IsNull lx s = (False, s1)" "at s1 (CHR ''{'' # fields_text ds @ CHR ''}'' # u)" by auto
  from b [OF lexer_readsD(6) [OF l s1(2)]] obtain out' s2 where
    s2: "body out (lx_Delim lx (CHR ''{'') s1) = Some (out', s2)" "\<not> lx_Ok lx s2" by blast
  have "\<not> lx_Ok lx (lx_Delim lx (CHR ''}'') s2)" using failed_stays [OF progress_keeps(17) [OF p] s2(2)] .
  moreover from this have "\<not> lx_Ok lx (lx_Consumed lx (lx_Delim lx (CHR ''}'') s2))"
    using failed_stays [OF progress_keeps(2) [OF p]] by blast
  ultimately show ?thesis using s1(1) s2(1) by (simp add: with_object_def Let_def)
qed

lemma decode_new_fails:
  assumes l: "lexer_reads lx at jv" and p: "lexer_progress lx left" and r: "list_all (\<lambda>(k, d). returns lx left d) cases"
    and d: "plain k" "map_of cases k = Some dec" "fails lx at dec (render doc)" and fs: "list_all (field_ok lx at cases) fs"
  shows "fails lx at (decode_new lx zero cases) (render (JObject (doc_of fs @ (k, doc) # ds)))"
  unfolding fails_def decode_new_def
proof (intro conjI allI impI)
  show "value_text (render (JObject (doc_of fs @ (k, doc) # ds)))" by (simp add: value_text_def)
  fix out s u
  assume "inside lx at s (render (JObject (doc_of fs @ (k, doc) # ds)) @ u)"
  then have "at s (render (JObject (doc_of fs @ (k, doc) # ds)) @ u)" by (simp add: inside_def)
  then show "\<exists>out' s'. with_object lx (\<lambda>_ s. map_option (\<lambda>(x, s). (Some x, s)) (object_loop lx cases zero s)) (out, s) =
      Some (out', s') \<and> \<not> lx_Ok lx s'"
    by (rule with_object_fails [OF l p]) (use loop_fails [OF l p r d fs, of _ ds _ zero] in fastforce)
qed

end
