(* ===== verification/Text_Lexer.thy ===== *)
theory Text_Lexer
  imports Json_Lexer Kernel_Version
begin

text \<open>
  A lexer over plain text that has the two laws of \<open>Json_Lexer\<close>: the hypotheses on the library's lexer can
  hold together, with the texts of the writer that the encoders are tried on.  Its state is whether it has
  started and the text that is left, if it has not failed.
\<close>

section \<open>The lexer\<close>

type_synonym lstate = "bool \<times> string option"

definition eat :: "(string \<Rightarrow> ('v \<times> string) option) \<Rightarrow> 'v \<Rightarrow> lstate \<Rightarrow> 'v \<times> lstate" where
  "eat p v s = (case Option.bind (snd s) p of
     None \<Rightarrow> (v, (True, None)) | Some (x, r) \<Rightarrow> (x, (True, Some r)))"

definition eat_char :: "(char \<Rightarrow> bool) \<Rightarrow> string \<Rightarrow> (unit \<times> string) option" where
  "eat_char P t = (if t \<noteq> [] \<and> P (hd t) then Some ((), tl t) else None)"

definition eat_quoted :: "string \<Rightarrow> (string \<times> string) option" where
  "eat_quoted t =
     (if t \<noteq> [] \<and> hd t = CHR 0x22 \<and> CHR 0x22 \<in> set (tl t)
      then Some (takeWhile (\<lambda>c. c \<noteq> CHR 0x22) (tl t), tl (dropWhile (\<lambda>c. c \<noteq> CHR 0x22) (tl t))) else None)"

definition eat_nat :: "nat \<Rightarrow> string \<Rightarrow> (nat \<times> string) option" where
  "eat_nat bits t = (case digits t of
     None \<Rightarrow> None
   | Some (ds, r) \<Rightarrow> (case ParseUint ds 10 bits of (n, None) \<Rightarrow> Some (n, r) | (_, Some _) \<Rightarrow> None))"

definition eat_int :: "string \<Rightarrow> (int \<times> string) option" where
  "eat_int t =
     (if t \<noteq> [] \<and> hd t = CHR ''-'' then map_option (\<lambda>(n, r). (- int n, r)) (eat_nat 64 (tl t))
      else map_option (\<lambda>(n, r). (int n, r)) (eat_nat 64 t))"

definition eat_bool :: "string \<Rightarrow> (bool \<times> string) option" where
  "eat_bool t =
     (if prefix ''true'' t then Some (True, drop 4 t)
      else if prefix ''false'' t then Some (False, drop 5 t) else None)"

definition eat_word :: "nat \<Rightarrow> string \<Rightarrow> ('a::len word \<times> string) option" where
  "eat_word bits t = map_option (\<lambda>(n, r). (of_nat n, r)) (eat_nat bits t)"

definition text_lexer :: "lstate JLexer" where
  "text_lexer =
     \<lparr>lx_Ok = (\<lambda>s. snd s \<noteq> None), lx_IsStart = (\<lambda>s. \<not> fst s),
      lx_IsNull = (\<lambda>s. (case snd s of None \<Rightarrow> False | Some t \<Rightarrow> prefix ''null'' t, s)),
      lx_Consumed = (\<lambda>s. if snd s = Some [] then s else (fst s, None)),
      lx_Skip = (\<lambda>s. snd (eat (eat_char (\<lambda>_. True)) () s)),
      lx_SkipRecursive = (\<lambda>s. snd (eat (eat_char (\<lambda>_. True)) () s)),
      lx_Delim = (\<lambda>c s. snd (eat (eat_char (\<lambda>x. x = c)) () s)),
      lx_IsDelim = (\<lambda>c s. case snd s of None \<Rightarrow> (True, s) | Some [] \<Rightarrow> (True, (fst s, None)) | Some (x # t) \<Rightarrow> (x = c, s)),
      lx_UnsafeFieldName = (\<lambda>_. eat eat_quoted []),
      lx_WantColon = (\<lambda>s. snd (eat (eat_char (\<lambda>x. x = CHR '':'')) () s)),
      lx_WantComma = (\<lambda>s. case snd s of
         Some (x # t) \<Rightarrow> if x = CHR '','' then (fst s, Some t) else if x = CHR ''}'' then s else (fst s, None)
       | _ \<Rightarrow> (fst s, None)),
      lx_String = eat eat_quoted [], lx_Bool = eat eat_bool False, lx_Uint16 = eat (eat_word 16) 0,
      lx_Uint32 = eat (eat_word 32) 0, lx_Uint64 = eat (eat_word 64) 0,
      lx_Int64 = eat (\<lambda>t. map_option (\<lambda>(i, r). (of_int i, r)) (eat_int t)) 0, lx_Int = eat eat_int 0,
      lx_Raw = eat (\<lambda>t. map_option (\<lambda>(x, r). (CHR 0x22 # x @ [CHR 0x22], r)) (eat_quoted t)) [],
      lx_AddError = (\<lambda>e s. if e = None then s else (fst s, None))\<rparr>"

definition text_left :: "lstate \<Rightarrow> nat" where
  "text_left s = (case snd s of None \<Rightarrow> 0 | Some t \<Rightarrow> length t)"

definition text_at :: "lstate \<Rightarrow> string \<Rightarrow> bool" where
  "text_at s t \<longleftrightarrow> snd s = Some t"

section \<open>Progress\<close>

definition shortens :: "(string \<Rightarrow> ('v \<times> string) option) \<Rightarrow> bool" where
  "shortens p \<longleftrightarrow> (\<forall>t x r. p t = Some (x, r) \<longrightarrow> length r < length t)"

lemma text_fuel: "fuel text_lexer text_left s = (case snd s of None \<Rightarrow> 0 | Some t \<Rightarrow> Suc (length t))"
  by (simp add: fuel_def text_lexer_def text_left_def split: option.split)

lemma eat_consumes: "shortens p \<Longrightarrow> consumes text_lexer text_left (snd \<circ> eat p v)"
  unfolding consumes_def text_fuel
  by (auto simp: eat_def shortens_def bind_eq_Some_conv Suc_le_eq split: option.splits)

lemma shortens_char: "shortens (eat_char P)"
  by (auto simp: shortens_def eat_char_def split: if_splits)

lemma shortens_quoted: "shortens eat_quoted"
  unfolding shortens_def
proof (intro allI impI)
  fix t x r
  assume "eat_quoted t = Some (x, r)"
  then obtain u where t: "t = CHR 0x22 # u" and r: "r = tl (dropWhile (\<lambda>c. c \<noteq> CHR 0x22) u)"
    by (cases t) (auto simp: eat_quoted_def split: if_splits)
  have "length r \<le> length u" using length_dropWhile_le [of "\<lambda>c. c \<noteq> CHR 0x22" u] by (simp add: r)
  with t show "length r < length t" by simp
qed

lemma shortens_nat: "shortens (eat_nat bits)"
  unfolding shortens_def
proof (intro allI impI)
  fix t x r
  assume "eat_nat bits t = Some (x, r)"
  then have r: "r = dropWhile is_digit t" and "takeWhile is_digit t \<noteq> []"
    by (auto simp: eat_nat_def digits_def Let_def split: option.splits if_splits prod.splits)
  then have "0 < length (takeWhile is_digit t)" by simp
  moreover have "length (takeWhile is_digit t) + length r = length t"
    unfolding r by (metis length_append takeWhile_dropWhile_id)
  ultimately show "length r < length t" by linarith
qed

lemma shortens_map: "shortens p \<Longrightarrow> shortens (\<lambda>t. map_option (\<lambda>(x, r). (f x, r)) (p t))"
  by (auto simp: shortens_def)

lemma shortens_values: "shortens eat_bool" "shortens (eat_word bits)" "shortens eat_int"
proof -
  show "shortens eat_bool" by (auto simp: shortens_def eat_bool_def prefix_def split: if_splits)
  show "shortens (eat_word bits)" unfolding eat_word_def by (rule shortens_map [OF shortens_nat])
  have n: "eat_nat 64 t = Some (x, r) \<Longrightarrow> length r < length t" for t x r
    using shortens_nat unfolding shortens_def by blast
  show "shortens eat_int"
    unfolding shortens_def
  proof (intro allI impI)
    fix t x r
    assume e: "eat_int t = Some (x, r)"
    show "length r < length t"
    proof (cases t)
      case Nil
      with e n [of "[]"] show ?thesis by (auto simp: eat_int_def)
    next
      case (Cons c u)
      with e n [of u] n [of t] show ?thesis by (auto simp: eat_int_def split: if_splits)
    qed
  qed
qed

lemmas text_shortens = shortens_char shortens_quoted shortens_map shortens_values

lemma text_keeps:
  "keeps text_lexer text_left (snd \<circ> lx_IsNull text_lexer)" "keeps text_lexer text_left (lx_Consumed text_lexer)"
  "keeps text_lexer text_left (lx_WantComma text_lexer)" "keeps text_lexer text_left (lx_AddError text_lexer e)"
  "keeps text_lexer text_left (snd \<circ> lx_IsDelim text_lexer c)"
  unfolding keeps_def text_fuel by (auto simp: text_lexer_def split: option.splits list.splits)

lemma text_eats:
  "snd \<circ> lx_UnsafeFieldName text_lexer b = snd \<circ> eat eat_quoted []" "snd \<circ> lx_String text_lexer = snd \<circ> eat eat_quoted []"
  "snd \<circ> lx_Bool text_lexer = snd \<circ> eat eat_bool False" "snd \<circ> lx_Uint16 text_lexer = snd \<circ> eat (eat_word 16) (0 :: u16)"
  "snd \<circ> lx_Uint32 text_lexer = snd \<circ> eat (eat_word 32) (0 :: u32)" "snd \<circ> lx_Uint64 text_lexer = snd \<circ> eat (eat_word 64) (0 :: u64)"
  "snd \<circ> lx_Int64 text_lexer = snd \<circ> eat (\<lambda>t. map_option (\<lambda>(i, r). (of_int i, r)) (eat_int t)) (0 :: u64)"
  "snd \<circ> lx_Int text_lexer = snd \<circ> eat eat_int 0"
  "snd \<circ> lx_Raw text_lexer = snd \<circ> eat (\<lambda>t. map_option (\<lambda>(x, r). (CHR 0x22 # x @ [CHR 0x22], r)) (eat_quoted t)) []"
  "lx_Skip text_lexer = snd \<circ> eat (eat_char (\<lambda>_. True)) ()" "lx_SkipRecursive text_lexer = snd \<circ> eat (eat_char (\<lambda>_. True)) ()"
  "lx_Delim text_lexer c = snd \<circ> eat (eat_char (\<lambda>x. x = c)) ()"
  "lx_WantColon text_lexer = snd \<circ> eat (eat_char (\<lambda>x. x = CHR '':'')) ()"
  by (simp_all add: text_lexer_def fun_eq_iff)

lemma text_lexer_progress: "lexer_progress text_lexer text_left"
proof -
  have d: "\<not> fst (lx_IsDelim text_lexer c s) \<Longrightarrow> lx_Ok text_lexer (snd (lx_IsDelim text_lexer c s))" for c s
    by (auto simp: text_lexer_def split: option.splits list.splits)
  show ?thesis
    unfolding lexer_progress_def text_eats
    by (intro conjI allI impI d text_keeps eat_consumes consumes_keeps [OF eat_consumes] text_shortens)
qed

section \<open>Reading\<close>

lemma fmt_d_start: "value_text (fmt_d n)" "hd (fmt_d n) \<noteq> CHR ''-''"
proof -
  have "is_digit (hd (fmt_d n))" using fmt_d_digits [of n] by (simp add: hd_in_set)
  then show "value_text (fmt_d n)" "hd (fmt_d n) \<noteq> CHR ''-''" by (auto simp: value_text_def is_digit_def)
qed

lemma text_jview: "jview_texts demo_jview"
  by (auto simp: jview_texts_def demo_jview_def quoted_def bool_text_def signed_text_def fmt_d_start)
     (auto simp: value_text_def)

lemma eat_nat_fmt_d:
  assumes "n < 2 ^ bits" and "10 \<le> (2 :: nat) ^ bits" and "value_end c"
  shows "eat_nat bits (fmt_d n @ c # t) = Some (n, c # t)"
proof -
  have "\<not> is_digit (hd (c # t))" using assms(3) by (auto simp: value_end_def is_digit_def)
  then have "digits (fmt_d n @ c # t) = Some (fmt_d n, c # t)" by (intro digits_fmt_d) simp
  with assms(1,2) show ?thesis by (simp add: eat_nat_def ParseUint_nat_base)
qed

lemma eat_int_signed:
  assumes "\<bar>i\<bar> < 2 ^ 64" and "value_end c"
  shows "eat_int (signed_text i @ c # t) = Some (i, c # t)"
proof (cases "i < 0")
  case True
  with assms show ?thesis
    by (simp add: eat_int_def signed_text_def eat_nat_fmt_d nat_less_iff)
next
  case False
  with assms fmt_d_start [of "nat i"] show ?thesis
    by (simp add: eat_int_def signed_text_def eat_nat_fmt_d nat_less_iff hd_append)
qed

lemma eat_quoted_plain:
  assumes "plain x"
  shows "eat_quoted (CHR 0x22 # x @ CHR 0x22 # t) = Some (x, t)"
proof -
  have "\<forall>c\<in>set x. c \<noteq> CHR 0x22" using assms by (auto simp: plain_def list_all_iff plain_char_def)
  then show ?thesis by (simp add: eat_quoted_def takeWhile_append2 dropWhile_append2)
qed

lemma quoted_plain: "plain x \<Longrightarrow> quoted x = CHR 0x22 # x @ [CHR 0x22]"
  by (induction x) (auto simp: quoted_def plain_char_def Let_def)

lemma eat_reads:
  assumes "\<And>c t. value_end c \<Longrightarrow> p (v @ c # t) = Some (x, c # t)"
  shows "reads_value text_lexer text_at (eat p y) v x"
  using assms by (auto simp: reads_value_def inside_def text_at_def eat_def text_lexer_def)


lemma text_values:
  "plain x \<Longrightarrow> reads_value text_lexer text_at (lx_String text_lexer) (jv_String demo_jview x) x"
  "reads_value text_lexer text_at (lx_Bool text_lexer) (jv_Bool demo_jview y) y"
  "reads_value text_lexer text_at (lx_Uint32 text_lexer) (jv_Uint demo_jview (unat n)) n"
  "reads_value text_lexer text_at (lx_Uint64 text_lexer) (jv_Uint demo_jview (unat m)) m"
  "reads_value text_lexer text_at (lx_Int64 text_lexer) (jv_Int demo_jview (sint i)) i"
  "plain x \<Longrightarrow> reads_value text_lexer text_at (lx_Raw text_lexer) (CHR 0x22 # x @ [CHR 0x22]) (CHR 0x22 # x @ [CHR 0x22])"
proof -
  have f: "lx_String text_lexer = eat eat_quoted []" "lx_Bool text_lexer = eat eat_bool False"
    "lx_Uint32 text_lexer = eat (eat_word 32) 0" "lx_Uint64 text_lexer = eat (eat_word 64) 0"
    "lx_Int64 text_lexer = eat (\<lambda>t. map_option (\<lambda>(i, r). (of_int i, r)) (eat_int t)) 0"
    "lx_Raw text_lexer = eat (\<lambda>t. map_option (\<lambda>(x, r). (CHR 0x22 # x @ [CHR 0x22], r)) (eat_quoted t)) []"
    by (simp_all add: text_lexer_def)
  have "unat n < 2 ^ 32" "unat m < 2 ^ 64" using unsigned_less [of n] unsigned_less [of m] by simp_all
  moreover have "\<bar>sint i\<bar> < 2 ^ 64"
    using sint_ge [of i] sint_lt [of i] by (simp add: abs_if)
  ultimately show
    "plain x \<Longrightarrow> reads_value text_lexer text_at (lx_String text_lexer) (jv_String demo_jview x) x"
    "reads_value text_lexer text_at (lx_Bool text_lexer) (jv_Bool demo_jview y) y"
    "reads_value text_lexer text_at (lx_Uint32 text_lexer) (jv_Uint demo_jview (unat n)) n"
    "reads_value text_lexer text_at (lx_Uint64 text_lexer) (jv_Uint demo_jview (unat m)) m"
    "reads_value text_lexer text_at (lx_Int64 text_lexer) (jv_Int demo_jview (sint i)) i"
    "plain x \<Longrightarrow> reads_value text_lexer text_at (lx_Raw text_lexer) (CHR 0x22 # x @ [CHR 0x22]) (CHR 0x22 # x @ [CHR 0x22])"
    unfolding f
    by (auto intro!: eat_reads simp: demo_jview_def quoted_plain eat_quoted_plain eat_bool_def bool_text_def eat_word_def
        eat_nat_fmt_d eat_int_signed)
qed

lemma text_lexer_reads: "lexer_reads text_lexer text_at demo_jview"
proof -
  have s: "text_at s t \<Longrightarrow> s = (fst s, Some t)" for s t by (cases s) (simp add: text_at_def)
  have "\<not> lx_Ok text_lexer (snd (lx_Uint32 text_lexer s))" if "inside text_lexer text_at s (CHR 0x22 # t)" for s t
    using that by (auto simp: inside_def text_at_def text_lexer_def eat_def eat_word_def eat_nat_def digits_def is_digit_def)
  moreover have "\<exists>s'. lx_UnsafeFieldName text_lexer False s = (k, s') \<and> inside text_lexer text_at s' t"
    if "inside text_lexer text_at s (CHR 0x22 # k @ CHR 0x22 # t)" "plain k" for s k t
    using that by (auto simp: inside_def text_at_def text_lexer_def eat_def eat_quoted_plain)
  ultimately show ?thesis
    unfolding lexer_reads_def
    by (intro conjI allI impI text_values)
       (auto simp: inside_def text_at_def text_lexer_def eat_def eat_char_def split: option.splits)
qed

end
