(* ===== verification/Event_Decode.thy ===== *)
theory Event_Decode
  imports Text_Lexer Event_Document
begin

text \<open>
  The generated decoders of \<^verbatim>\<open>pkg/krie/events/*_easyjson.go\<close> (\<open>UnmarshalEasyJSON\<close>), one definition per
  decoding function: the table of its cases over the common shape of \<open>Json_Lexer\<close>.  A serializer that
  embeds a pointer to its event is an option of the event; an empty list of helpers stands for a nil slice.
  The theorems show that every decoder returns on every input, that the contexts and module events are
  read back as they were written, and that the document of a whole event never is: the encoders write names
  where the decoders want numbers.
\<close>

section \<open>Model\<close>

text \<open>\<open>process_easyjson.go\<close>\<close>

definition CgroupContext_decode :: "'s JLexer \<Rightarrow> ('s, CgroupContext) dec" where
  "CgroupContext_decode lx = decode_object lx
    [(''id'', dec_into (lx_Uint32 lx) (\<lambda>v out. out\<lparr>cg_ID := v\<rparr>)),
     (''name'', dec_into (lx_String lx) (\<lambda>v out. out\<lparr>cg_Name := v\<rparr>))]"

definition NamespaceContext_decode :: "'s JLexer \<Rightarrow> ('s, NamespaceContext) dec" where
  "NamespaceContext_decode lx = decode_object lx
    [(''cgroup_namespace'', dec_into (lx_Uint32 lx) (\<lambda>v out. out\<lparr>ns_Cgroup := v\<rparr>)),
     (''ipc_namespace'', dec_into (lx_Uint32 lx) (\<lambda>v out. out\<lparr>ns_IPC := v\<rparr>)),
     (''net_namespace'', dec_into (lx_Uint32 lx) (\<lambda>v out. out\<lparr>ns_Net := v\<rparr>)),
     (''mnt_namespace'', dec_into (lx_Uint32 lx) (\<lambda>v out. out\<lparr>ns_Mnt := v\<rparr>)),
     (''pid_namespace'', dec_into (lx_Uint32 lx) (\<lambda>v out. out\<lparr>ns_PID := v\<rparr>)),
     (''time_namespace'', dec_into (lx_Uint32 lx) (\<lambda>v out. out\<lparr>ns_Time := v\<rparr>)),
     (''user_namespace'', dec_into (lx_Uint32 lx) (\<lambda>v out. out\<lparr>ns_User := v\<rparr>)),
     (''uts_namespace'', dec_into (lx_Uint32 lx) (\<lambda>v out. out\<lparr>ns_UTS := v\<rparr>))]"

definition CredentialsContext_decode :: "'s JLexer \<Rightarrow> ('s, CredentialsContext) dec" where
  "CredentialsContext_decode lx = decode_object lx
    [(''uid'', dec_into (lx_Uint32 lx) (\<lambda>v out. out\<lparr>cr_UID := v\<rparr>)),
     (''gid'', dec_into (lx_Uint32 lx) (\<lambda>v out. out\<lparr>cr_GID := v\<rparr>)),
     (''suid'', dec_into (lx_Uint32 lx) (\<lambda>v out. out\<lparr>cr_SUID := v\<rparr>)),
     (''sgid'', dec_into (lx_Uint32 lx) (\<lambda>v out. out\<lparr>cr_SGID := v\<rparr>)),
     (''euid'', dec_into (lx_Uint32 lx) (\<lambda>v out. out\<lparr>cr_EUID := v\<rparr>)),
     (''egid'', dec_into (lx_Uint32 lx) (\<lambda>v out. out\<lparr>cr_EGID := v\<rparr>)),
     (''fsuid'', dec_into (lx_Uint32 lx) (\<lambda>v out. out\<lparr>cr_FSUID := v\<rparr>)),
     (''fsgid'', dec_into (lx_Uint32 lx) (\<lambda>v out. out\<lparr>cr_FSGID := v\<rparr>)),
     (''secure_bits'', dec_into (lx_Uint32 lx) (\<lambda>v out. out\<lparr>cr_SecureBits := v\<rparr>)),
     (''cap_inheritable'', dec_into (lx_Uint64 lx) (\<lambda>v out. out\<lparr>cr_CapInheritable := v\<rparr>)),
     (''cap_permitted'', dec_into (lx_Uint64 lx) (\<lambda>v out. out\<lparr>cr_CapPermitted := v\<rparr>)),
     (''cap_effective'', dec_into (lx_Uint64 lx) (\<lambda>v out. out\<lparr>cr_CapEffective := v\<rparr>)),
     (''cap_bset'', dec_into (lx_Uint64 lx) (\<lambda>v out. out\<lparr>cr_CapBSET := v\<rparr>)),
     (''cap_ambiant'', dec_into (lx_Uint64 lx) (\<lambda>v out. out\<lparr>cr_CapAmbiant := v\<rparr>))]"

text \<open>The cgroups are read from an array into the 14 elements of the field; further elements are skipped.\<close>

partial_function (option) cgroups_loop ::
    "'s JLexer \<Rightarrow> nat \<Rightarrow> CgroupContext list \<Rightarrow> 's \<Rightarrow> (CgroupContext list \<times> 's) option" where
  "cgroups_loop lx v1 cgroups s =
     (case lx_IsDelim lx (CHR '']'') s of (close, s) \<Rightarrow>
        if close then Some (cgroups, s)
        else if v1 < 14 then
          Option.bind (CgroupContext_decode lx (cgroups ! v1, s))
            (\<lambda>(c, s). cgroups_loop lx (v1 + 1) (cgroups[v1 := c]) (lx_WantComma lx s))
        else cgroups_loop lx v1 cgroups (lx_WantComma lx (lx_SkipRecursive lx s)))"

definition cgroups_decode :: "'s JLexer \<Rightarrow> ('s, CgroupContext list) dec" where
  "cgroups_decode lx = (\<lambda>(cgroups, s).
     case lx_IsNull lx s of (null, s) \<Rightarrow>
       if null then Some (cgroups, lx_Skip lx s)
       else (case cgroups_loop lx 0 cgroups (lx_Delim lx (CHR ''['') s) of
               None \<Rightarrow> None
             | Some (cgroups, s) \<Rightarrow> Some (cgroups, lx_Delim lx (CHR '']'') s)))"

definition ProcessContext_decode :: "'s JLexer \<Rightarrow> ('s, ProcessContext option) dec" where
  "ProcessContext_decode lx = decode_new lx zero_process
    [(''cgroups'', dec_part pc_Cgroups (\<lambda>v out. out\<lparr>pc_Cgroups := v\<rparr>) (cgroups_decode lx)),
     (''namespace_context'',
        dec_part pc_NamespaceContext (\<lambda>v out. out\<lparr>pc_NamespaceContext := v\<rparr>) (NamespaceContext_decode lx)),
     (''credentials'', dec_part pc_Credentials (\<lambda>v out. out\<lparr>pc_Credentials := v\<rparr>) (CredentialsContext_decode lx)),
     (''comm'', dec_into (lx_String lx) (\<lambda>v out. out\<lparr>pc_Comm := v\<rparr>)),
     (''pid'', dec_into (lx_Uint32 lx) (\<lambda>v out. out\<lparr>pc_PID := v\<rparr>)),
     (''tid'', dec_into (lx_Uint32 lx) (\<lambda>v out. out\<lparr>pc_TID := v\<rparr>))]"

text \<open>\<open>kernel_event_easyjson.go\<close>; \<open>UnmarshalJSON\<close> of \<open>time.Time\<close> is the parameter \<open>parse\<close>.\<close>

definition time_decode :: "'s JLexer \<Rightarrow> (string \<Rightarrow> Time \<Rightarrow> error option \<times> Time) \<Rightarrow> ('s, Time) dec" where
  "time_decode lx parse = (\<lambda>(t, s).
     case lx_Raw lx s of (data, s) \<Rightarrow>
       if lx_Ok lx s then (case parse data t of (err, t) \<Rightarrow> Some (t, lx_AddError lx err s)) else Some (t, s))"

definition KernelEvent_decode ::
    "'s JLexer \<Rightarrow> (string \<Rightarrow> Time \<Rightarrow> error option \<times> Time) \<Rightarrow> ('s, KernelEvent option) dec" where
  "KernelEvent_decode lx parse = decode_new lx (ev_Kernel eventZero)
    [(''time'', dec_part ke_Time (\<lambda>v out. out\<lparr>ke_Time := v\<rparr>) (time_decode lx parse)),
     (''retval'', dec_into (lx_Int64 lx) (\<lambda>v out. out\<lparr>ke_Retval := v\<rparr>)),
     (''cpu'', dec_into (lx_Uint32 lx) (\<lambda>v out. out\<lparr>ke_CPU := v\<rparr>)),
     (''type'', dec_into (lx_Uint32 lx) (\<lambda>v out. out\<lparr>ke_Type := v\<rparr>)),
     (''action'', dec_into (lx_Uint32 lx) (\<lambda>v out. out\<lparr>ke_Action := v\<rparr>))]"

text \<open>\<open>kernel_module_easyjson.go\<close>\<close>

definition InitModuleEvent_decode :: "'s JLexer \<Rightarrow> ('s, InitModuleEvent option) dec" where
  "InitModuleEvent_decode lx = decode_new lx (ev_InitModule eventZero)
    [(''loaded_from_memory'', dec_into (lx_Bool lx) (\<lambda>v out. out\<lparr>im_LoadedFromMemory := v\<rparr>)),
     (''name'', dec_into (lx_String lx) (\<lambda>v out. out\<lparr>im_Name := v\<rparr>))]"

definition DeleteModuleEvent_decode :: "'s JLexer \<Rightarrow> ('s, DeleteModuleEvent option) dec" where
  "DeleteModuleEvent_decode lx = decode_new lx (ev_DeleteModule eventZero)
    [(''name'', dec_into (lx_String lx) (\<lambda>v out. out\<lparr>dm_Name := v\<rparr>))]"

text \<open>\<open>bpf_easyjson.go\<close>\<close>

definition BPFMap_decode :: "'s JLexer \<Rightarrow> ('s, BPFMap) dec" where
  "BPFMap_decode lx = decode_object lx
    [(''id'', dec_into (lx_Uint32 lx) (\<lambda>v out. out\<lparr>bm_ID := v\<rparr>)),
     (''type'', dec_into (lx_Uint32 lx) (\<lambda>v out. out\<lparr>bm_Type := v\<rparr>)),
     (''name'', dec_into (lx_String lx) (\<lambda>v out. out\<lparr>bm_Name := v\<rparr>))]"

partial_function (option) helpers_loop :: "'s JLexer \<Rightarrow> u32 list \<Rightarrow> 's \<Rightarrow> (u32 list \<times> 's) option" where
  "helpers_loop lx helpers s =
     (case lx_IsDelim lx (CHR '']'') s of (close, s) \<Rightarrow>
        if close then Some (helpers, s)
        else (case lx_Uint32 lx s of (v1, s) \<Rightarrow> helpers_loop lx (helpers @ [v1]) (lx_WantComma lx s)))"

definition helpers_decode :: "'s JLexer \<Rightarrow> ('s, u32 list) dec" where
  "helpers_decode lx = (\<lambda>(helpers, s).
     case lx_IsNull lx s of (null, s) \<Rightarrow>
       if null then Some ([], lx_Skip lx s)
       else
         (let s = lx_Delim lx (CHR ''['') s;
              s = (if helpers = [] then snd (lx_IsDelim lx (CHR '']'') s) else s) in
          case helpers_loop lx [] s of
            None \<Rightarrow> None
          | Some (helpers, s) \<Rightarrow> Some (helpers, lx_Delim lx (CHR '']'') s)))"

definition BPFProgram_decode :: "'s JLexer \<Rightarrow> ('s, BPFProgram) dec" where
  "BPFProgram_decode lx = decode_object lx
    [(''id'', dec_into (lx_Uint32 lx) (\<lambda>v out. out\<lparr>bp_ID := v\<rparr>)),
     (''type'', dec_into (lx_Uint32 lx) (\<lambda>v out. out\<lparr>bp_Type := v\<rparr>)),
     (''attach_type'', dec_into (lx_Uint32 lx) (\<lambda>v out. out\<lparr>bp_AttachType := v\<rparr>)),
     (''helpers'', dec_part bp_Helpers (\<lambda>v out. out\<lparr>bp_Helpers := v\<rparr>) (helpers_decode lx)),
     (''name'', dec_into (lx_String lx) (\<lambda>v out. out\<lparr>bp_Name := v\<rparr>)),
     (''tag'', dec_into (lx_String lx) (\<lambda>v out. out\<lparr>bp_Tag := v\<rparr>))]"

definition BPFEventSerializer_decode :: "'s JLexer \<Rightarrow> ('s, BPFEventSerializer) dec" where
  "BPFEventSerializer_decode lx = decode_object lx
    [(''map'', dec_part bs_Map (\<lambda>v out. out\<lparr>bs_Map := v\<rparr>)
        (dec_ptr lx (be_Map (ev_BPFEvent eventZero)) (BPFMap_decode lx))),
     (''program'', dec_part bs_Program (\<lambda>v out. out\<lparr>bs_Program := v\<rparr>)
        (dec_ptr lx (be_Program (ev_BPFEvent eventZero)) (BPFProgram_decode lx))),
     (''cmd'', dec_into (lx_Uint64 lx) (\<lambda>v out. out\<lparr>bs_Cmd := v\<rparr>))]"

definition BPFFilterEvent_decode :: "'s JLexer \<Rightarrow> ('s, BPFFilterEvent option) dec" where
  "BPFFilterEvent_decode lx = decode_new lx (ev_BPFFilterEvent eventZero)
    [(''cmd'', dec_into (lx_Uint32 lx) (\<lambda>v out. out\<lparr>bf_Cmd := v\<rparr>)),
     (''family'', dec_into (lx_Uint16 lx) (\<lambda>v out. out\<lparr>bf_Family := v\<rparr>)),
     (''type'', dec_into (lx_Uint32 lx) (\<lambda>v out. out\<lparr>bf_Type := v\<rparr>)),
     (''protocol'', dec_into (lx_Uint16 lx) (\<lambda>v out. out\<lparr>bf_Protocol := v\<rparr>)),
     (''prog_len'', dec_into (lx_Uint16 lx) (\<lambda>v out. out\<lparr>bf_ProgLen := v\<rparr>))]"

text \<open>\<open>ptrace_easyjson.go\<close>, \<open>kprobe_easyjson.go\<close>, \<open>sysctl_easyjson.go\<close>\<close>

definition PTraceEvent_decode :: "'s JLexer \<Rightarrow> ('s, PTraceEvent option) dec" where
  "PTraceEvent_decode lx = decode_new lx (ev_PTraceEvent eventZero)
    [(''address'', dec_into (lx_Uint64 lx) (\<lambda>v out. out\<lparr>pt_Address := v\<rparr>)),
     (''request'', dec_into (lx_Uint32 lx) (\<lambda>v out. out\<lparr>pt_Request := v\<rparr>)),
     (''pid'', dec_into (lx_Uint32 lx) (\<lambda>v out. out\<lparr>pt_PID := v\<rparr>))]"

definition KProbeEvent_decode :: "'s JLexer \<Rightarrow> ('s, KProbeEvent option) dec" where
  "KProbeEvent_decode lx = decode_new lx (ev_KProbeEvent eventZero)
    [(''address'', dec_into (lx_Uint64 lx) (\<lambda>v out. out\<lparr>kp_Address := v\<rparr>)),
     (''string'', dec_into (lx_String lx) (\<lambda>v out. out\<lparr>kp_Symbol := v\<rparr>)),
     (''command'', dec_into (lx_Uint32 lx) (\<lambda>v out. out\<lparr>kp_Command := v\<rparr>)),
     (''type'', dec_into (lx_Uint32 lx) (\<lambda>v out. out\<lparr>kp_Type := v\<rparr>))]"

definition SysCtlEvent_decode :: "'s JLexer \<Rightarrow> ('s, SysCtlEvent option) dec" where
  "SysCtlEvent_decode lx = decode_new lx (ev_SysCtlEvent eventZero)
    [(''write_access'', dec_into (lx_Bool lx) (\<lambda>v out. out\<lparr>se_WriteAccess := v\<rparr>)),
     (''file_position'', dec_into (lx_Uint32 lx) (\<lambda>v out. out\<lparr>se_FilePosition := v\<rparr>)),
     (''action'', dec_into (lx_Uint64 lx) (\<lambda>v out. out\<lparr>se_Action := v\<rparr>)),
     (''name'', dec_into (lx_String lx) (\<lambda>v out. out\<lparr>se_Name := v\<rparr>)),
     (''current_value'', dec_into (lx_String lx) (\<lambda>v out. out\<lparr>se_CurrentValue := v\<rparr>)),
     (''new_value'', dec_into (lx_String lx) (\<lambda>v out. out\<lparr>se_NewValue := v\<rparr>)),
     (''new_value_overridden_with'', dec_into (lx_String lx) (\<lambda>v out. out\<lparr>se_NewValueOverriddenWith := v\<rparr>))]"

text \<open>\<open>hooked_syscall_easyjson.go\<close>, \<open>kernel_parameter_easyjson.go\<close> (each with its own decoder of a
  symbol), \<open>event_check_easyjson.go\<close>, \<open>register_check_easyjson.go\<close>\<close>

definition KernelSymbol_decode :: "'s JLexer \<Rightarrow> ('s, KernelSymbol) dec" where
  "KernelSymbol_decode lx = decode_object lx
    [(''address'', dec_into (lx_Uint64 lx) (\<lambda>v out. out\<lparr>ks_Address := v\<rparr>)),
     (''symbol'', dec_into (lx_String lx) (\<lambda>v out. out\<lparr>ks_Symbol := v\<rparr>)),
     (''module'', dec_into (lx_String lx) (\<lambda>v out. out\<lparr>ks_Module := v\<rparr>))]"

definition HookedSyscallEvent_decode :: "'s JLexer \<Rightarrow> ('s, HookedSyscallEvent option) dec" where
  "HookedSyscallEvent_decode lx = decode_new lx (ev_HookedSyscallEvent eventZero)
    [(''syscall'', dec_part hs_Syscall (\<lambda>v out. out\<lparr>hs_Syscall := v\<rparr>) (dec_ptr lx 0 (dec_into (lx_Int lx) (\<lambda>v _. v)))),
     (''ia_32_syscall'',
        dec_part hs_IA32Syscall (\<lambda>v out. out\<lparr>hs_IA32Syscall := v\<rparr>) (dec_ptr lx 0 (dec_into (lx_Int lx) (\<lambda>v _. v)))),
     (''syscall_table'', dec_into (lx_Uint32 lx) (\<lambda>v out. out\<lparr>hs_SyscallTable := v\<rparr>)),
     (''initial_handler'', dec_part hs_InitialHandler (\<lambda>v out. out\<lparr>hs_InitialHandler := v\<rparr>) (KernelSymbol_decode lx)),
     (''new_handler'', dec_part hs_NewHandler (\<lambda>v out. out\<lparr>hs_NewHandler := v\<rparr>) (KernelSymbol_decode lx))]"

definition Parameter_decode :: "'s JLexer \<Rightarrow> ('s, KernelSymbol) dec" where
  "Parameter_decode lx = decode_object lx
    [(''address'', dec_into (lx_Uint64 lx) (\<lambda>v out. out\<lparr>ks_Address := v\<rparr>)),
     (''symbol'', dec_into (lx_String lx) (\<lambda>v out. out\<lparr>ks_Symbol := v\<rparr>)),
     (''module'', dec_into (lx_String lx) (\<lambda>v out. out\<lparr>ks_Module := v\<rparr>))]"

definition KernelParameterEvent_decode :: "'s JLexer \<Rightarrow> ('s, KernelParameterEvent option) dec" where
  "KernelParameterEvent_decode lx = decode_new lx (ev_KernelParameterEvent eventZero)
    [(''parameter'', dec_part kv_Parameter (\<lambda>v out. out\<lparr>kv_Parameter := v\<rparr>) (Parameter_decode lx)),
     (''expected_value'', dec_into (lx_Uint64 lx) (\<lambda>v out. out\<lparr>kv_ExpectedValue := v\<rparr>)),
     (''actual_value'', dec_into (lx_Uint64 lx) (\<lambda>v out. out\<lparr>kv_ActualValue := v\<rparr>))]"

definition EventCheckEvent_decode :: "'s JLexer \<Rightarrow> ('s, EventCheckEvent option) dec" where
  "EventCheckEvent_decode lx = decode_new lx (ev_EventCheckEvent eventZero)
    [(''checked_event_type'', dec_into (lx_Uint32 lx) (\<lambda>v out. out\<lparr>ec_CheckedEventType := v\<rparr>))]"

definition RegisterCheckEvent_decode :: "'s JLexer \<Rightarrow> ('s, RegisterCheckEvent option) dec" where
  "RegisterCheckEvent_decode lx = decode_new lx (ev_RegisterCheckEvent eventZero)
    [(''stack_pointer'', dec_into (lx_Uint64 lx) (\<lambda>v out. out\<lparr>rc_StackPointer := v\<rparr>)),
     (''instruction_pointer'', dec_into (lx_Uint64 lx) (\<lambda>v out. out\<lparr>rc_InstructionPointer := v\<rparr>)),
     (''frame_pointer'', dec_into (lx_Uint64 lx) (\<lambda>v out. out\<lparr>rc_FramePointer := v\<rparr>)),
     (''hook_point'', dec_into (lx_Uint32 lx) (\<lambda>v out. out\<lparr>rc_HookPoint := v\<rparr>))]"

text \<open>\<open>events_easyjson.go\<close>.  Here both levels of pointers count: a field of the serializer may be nil, or
  point to a serializer whose embedded pointer is nil.\<close>

record EventPointers =
  ep_KernelEvent :: "KernelEvent option option"
  ep_ProcessContext :: "ProcessContext option option"
  ep_InitModule :: "InitModuleEvent option option"
  ep_DeleteModule :: "DeleteModuleEvent option option"
  ep_BPF :: "BPFEventSerializer option"
  ep_BPFFilter :: "BPFFilterEvent option option"
  ep_PTrace :: "PTraceEvent option option"
  ep_KProbe :: "KProbeEvent option option"
  ep_SysCtl :: "SysCtlEvent option option"
  ep_HookedSyscall :: "HookedSyscallEvent option option"
  ep_EventCheck :: "EventCheckEvent option option"
  ep_KernelParameter :: "KernelParameterEvent option option"
  ep_RegisterCheck :: "RegisterCheckEvent option option"

definition zero_BPFEventSerializer :: BPFEventSerializer where
  "zero_BPFEventSerializer = \<lparr>bs_Map = None, bs_Program = None, bs_Cmd = 0\<rparr>"

definition new_pointers :: EventPointers where
  "new_pointers =
     \<lparr>ep_KernelEvent = Some None,
      ep_ProcessContext = Some None,
      ep_InitModule = Some None,
      ep_DeleteModule = Some None,
      ep_BPF = Some zero_BPFEventSerializer,
      ep_BPFFilter = Some None,
      ep_PTrace = Some None,
      ep_KProbe = Some None,
      ep_SysCtl = Some None,
      ep_HookedSyscall = Some None,
      ep_EventCheck = Some None,
      ep_KernelParameter = Some None,
      ep_RegisterCheck = Some None\<rparr>"

definition EventSerializer_decode ::
    "'s JLexer \<Rightarrow> (string \<Rightarrow> Time \<Rightarrow> error option \<times> Time) \<Rightarrow> ('s, EventPointers) dec" where
  "EventSerializer_decode lx parse = with_object lx (\<lambda>_. object_loop lx
    [(''event'', dec_part ep_KernelEvent (\<lambda>v out. out\<lparr>ep_KernelEvent := v\<rparr>) (dec_ptr lx None (KernelEvent_decode lx parse))),
     (''process'', dec_part ep_ProcessContext (\<lambda>v out. out\<lparr>ep_ProcessContext := v\<rparr>) (dec_ptr lx None (ProcessContext_decode lx))),
     (''init_module'', dec_part ep_InitModule (\<lambda>v out. out\<lparr>ep_InitModule := v\<rparr>) (dec_ptr lx None (InitModuleEvent_decode lx))),
     (''delete_module'', dec_part ep_DeleteModule (\<lambda>v out. out\<lparr>ep_DeleteModule := v\<rparr>) (dec_ptr lx None (DeleteModuleEvent_decode lx))),
     (''bpf'', dec_part ep_BPF (\<lambda>v out. out\<lparr>ep_BPF := v\<rparr>) (dec_ptr lx zero_BPFEventSerializer (BPFEventSerializer_decode lx))),
     (''bpf_filter'', dec_part ep_BPFFilter (\<lambda>v out. out\<lparr>ep_BPFFilter := v\<rparr>) (dec_ptr lx None (BPFFilterEvent_decode lx))),
     (''ptrace'', dec_part ep_PTrace (\<lambda>v out. out\<lparr>ep_PTrace := v\<rparr>) (dec_ptr lx None (PTraceEvent_decode lx))),
     (''kprobe'', dec_part ep_KProbe (\<lambda>v out. out\<lparr>ep_KProbe := v\<rparr>) (dec_ptr lx None (KProbeEvent_decode lx))),
     (''sysctl'', dec_part ep_SysCtl (\<lambda>v out. out\<lparr>ep_SysCtl := v\<rparr>) (dec_ptr lx None (SysCtlEvent_decode lx))),
     (''hooked_syscall'', dec_part ep_HookedSyscall (\<lambda>v out. out\<lparr>ep_HookedSyscall := v\<rparr>) (dec_ptr lx None (HookedSyscallEvent_decode lx))),
     (''event_check'', dec_part ep_EventCheck (\<lambda>v out. out\<lparr>ep_EventCheck := v\<rparr>) (dec_ptr lx None (EventCheckEvent_decode lx))),
     (''kernel_parameter'', dec_part ep_KernelParameter (\<lambda>v out. out\<lparr>ep_KernelParameter := v\<rparr>) (dec_ptr lx None (KernelParameterEvent_decode lx))),
     (''register_check'', dec_part ep_RegisterCheck (\<lambda>v out. out\<lparr>ep_RegisterCheck := v\<rparr>) (dec_ptr lx None (RegisterCheckEvent_decode lx)))] new_pointers)"

section \<open>Termination\<close>

lemma returns_flat:
  assumes "lexer_progress lx left"
  shows "returns lx left (dec_into (lx_String lx) f1)" "returns lx left (dec_into (lx_Bool lx) f2)"
    "returns lx left (dec_into (lx_Uint16 lx) f3)" "returns lx left (dec_into (lx_Uint32 lx) f4)"
    "returns lx left (dec_into (lx_Uint64 lx) f5)" "returns lx left (dec_into (lx_Int64 lx) f6)"
    "returns lx left (dec_into (lx_Int lx) f7)"
  by (rule returns_into, rule progress_keeps [OF assms])+

lemma returns_time:
  assumes p: "lexer_progress lx left"
  shows "returns lx left (time_decode lx parse)"
proof (rule returnsI)
  fix t s
  obtain data s1 where r: "lx_Raw lx s = (data, s1)" by fastforce
  obtain err t' where "parse data t = (err, t')" by fastforce
  moreover have "fuel lx left s1 \<le> fuel lx left s" using keepsD [OF progress_keeps(12) [OF p], of s] r by simp
  moreover have "fuel lx left (lx_AddError lx err s1) \<le> fuel lx left s1" using keepsD [OF progress_keeps(13) [OF p]] .
  ultimately show "\<exists>t' s'. time_decode lx parse (t, s) = Some (t', s') \<and> fuel lx left s' \<le> fuel lx left s"
    using r by (simp add: time_decode_def)
qed

lemma CgroupContext_consumes:
  assumes p: "lexer_progress lx left"
  shows "\<exists>c' s'. CgroupContext_decode lx (c, s) = Some (c', s') \<and> fuel lx left s' \<le> fuel lx left s - 1"
  unfolding CgroupContext_decode_def by (rule decode_object_returns [OF p]) (simp add: returns_flat [OF p])

lemma cgroups_loop_returns:
  assumes p: "lexer_progress lx left"
  shows "\<exists>cs' s'. cgroups_loop lx v1 cs s = Some (cs', s') \<and> fuel lx left s' \<le> fuel lx left s"
proof (induction "fuel lx left s" arbitrary: v1 cs s rule: less_induct)
  case less
  obtain close s1 where d: "lx_IsDelim lx (CHR '']'') s = (close, s1)" by fastforce
  obtain c s2 where e: "CgroupContext_decode lx (cs ! v1, s1) = Some (c, s2)" "fuel lx left s2 \<le> fuel lx left s1 - 1"
    using CgroupContext_consumes [OF p] by blast
  show ?case
  proof (cases close)
    case True
    then show ?thesis
      using keepsD [OF progress_keeps(14) [OF p], of "CHR '']''" s] d by (subst cgroups_loop.simps) simp
  next
    case False
    have k: "fuel lx left (lx_SkipRecursive lx s1) \<le> fuel lx left s1 - 1"
      using p by (simp add: lexer_progress_def consumes_def)
    note f = array_step_fuel [OF p _ e(2), of "CHR '']''" s] array_step_fuel [OF p _ k, of "CHR '']''" s]
    have f: "fuel lx left (lx_WantComma lx s2) < fuel lx left s"
      "fuel lx left (lx_WantComma lx (lx_SkipRecursive lx s1)) < fuel lx left s"
      using f d False by simp_all
    from less [OF f(1), of "v1 + 1" "cs[v1 := c]"] less [OF f(2), of v1 cs] f show ?thesis
      using d e(1) False by (subst (1) cgroups_loop.simps) (force dest: less_imp_le le_less_trans)
  qed
qed


lemma helpers_loop_returns:
  assumes p: "lexer_progress lx left"
  shows "\<exists>hs' s'. helpers_loop lx hs s = Some (hs', s') \<and> fuel lx left s' \<le> fuel lx left s"
proof (induction "fuel lx left s" arbitrary: hs s rule: less_induct)
  case less
  obtain close s1 where d: "lx_IsDelim lx (CHR '']'') s = (close, s1)" by fastforce
  obtain v s2 where u: "lx_Uint32 lx s1 = (v, s2)" by fastforce
  show ?case
  proof (cases close)
    case True
    then show ?thesis
      using keepsD [OF progress_keeps(14) [OF p], of "CHR '']''" s] d by (subst helpers_loop.simps) simp
  next
    case False
    have "fuel lx left s2 \<le> fuel lx left s1 - 1"
      using p u unfolding lexer_progress_def consumes_def by (metis comp_apply snd_conv)
    with array_step_fuel [OF p, of "CHR '']''" s s1 s2] d False
    have f: "fuel lx left (lx_WantComma lx s2) < fuel lx left s" by simp
    from less [OF f, of "hs @ [v]"] f show ?thesis
      using d u False by (subst (1) helpers_loop.simps) (force dest: less_imp_le le_less_trans)
  qed
qed

text \<open>A decoder of an array: null, or the two brackets around its loop.\<close>

lemma returns_array:
  assumes p: "lexer_progress lx left"
  shows "returns lx left (cgroups_decode lx)" and "returns lx left (helpers_decode lx)"
proof -
  note k = keepsD [OF progress_keeps(1) [OF p], unfolded o_def] keepsD [OF progress_keeps(15) [OF p]]
    keepsD [OF progress_keeps(17) [OF p]] keepsD [OF progress_keeps(14) [OF p, of "CHR '']''"], unfolded o_def]
  show "returns lx left (cgroups_decode lx)"
  proof (rule returnsI)
    fix cs s
    obtain null s1 where n: "lx_IsNull lx s = (null, s1)" by fastforce
    obtain cs' s2 where "cgroups_loop lx 0 cs (lx_Delim lx (CHR ''['') s1) = Some (cs', s2)"
      "fuel lx left s2 \<le> fuel lx left (lx_Delim lx (CHR ''['') s1)" using cgroups_loop_returns [OF p] by blast
    with n k(1) [of s] k(2) [of s1] k(3) [of "CHR ''[''" s1] k(3) [of "CHR '']''" s2]
    show "\<exists>out' s'. cgroups_decode lx (cs, s) = Some (out', s') \<and> fuel lx left s' \<le> fuel lx left s"
      by (auto simp: cgroups_decode_def)
  qed
  show "returns lx left (helpers_decode lx)"
  proof (rule returnsI)
    fix hs :: "u32 list" and s
    obtain null s1 where n: "lx_IsNull lx s = (null, s1)" by fastforce
    let ?d = "lx_Delim lx (CHR ''['') s1"
    let ?s = "if hs = [] then snd (lx_IsDelim lx (CHR '']'') ?d) else ?d"
    obtain hs' s2 where h: "helpers_loop lx [] ?s = Some (hs', s2)" "fuel lx left s2 \<le> fuel lx left ?s"
      using helpers_loop_returns [OF p] by blast
    have "fuel lx left ?s \<le> fuel lx left ?d" using k(4) [of ?d] by simp
    with h n k(1) [of s] k(2) [of s1] k(3) [of "CHR ''[''" s1] k(3) [of "CHR '']''" s2]
    show "\<exists>out' s'. helpers_decode lx (hs, s) = Some (out', s') \<and> fuel lx left s' \<le> fuel lx left s"
      by (auto simp: helpers_decode_def Let_def)
  qed
qed

lemmas returns_rules = returns_flat returns_time returns_array returns_decode returns_part returns_ptr

lemma returns_contexts:
  assumes p: "lexer_progress lx left"
  shows "returns lx left (CgroupContext_decode lx)" "returns lx left (NamespaceContext_decode lx)"
    "returns lx left (CredentialsContext_decode lx)" "returns lx left (BPFMap_decode lx)"
    "returns lx left (BPFProgram_decode lx)" "returns lx left (KernelSymbol_decode lx)" "returns lx left (Parameter_decode lx)"
  unfolding CgroupContext_decode_def NamespaceContext_decode_def CredentialsContext_decode_def BPFMap_decode_def
    BPFProgram_decode_def KernelSymbol_decode_def Parameter_decode_def
  by (simp_all add: returns_rules p)

lemma returns_events:
  assumes p: "lexer_progress lx left"
  shows "returns lx left (KernelEvent_decode lx parse)" "returns lx left (ProcessContext_decode lx)"
    "returns lx left (InitModuleEvent_decode lx)" "returns lx left (DeleteModuleEvent_decode lx)"
    "returns lx left (BPFEventSerializer_decode lx)" "returns lx left (BPFFilterEvent_decode lx)"
    "returns lx left (PTraceEvent_decode lx)" "returns lx left (KProbeEvent_decode lx)"
    "returns lx left (SysCtlEvent_decode lx)" "returns lx left (HookedSyscallEvent_decode lx)"
    "returns lx left (EventCheckEvent_decode lx)" "returns lx left (KernelParameterEvent_decode lx)"
    "returns lx left (RegisterCheckEvent_decode lx)"
  unfolding KernelEvent_decode_def ProcessContext_decode_def InitModuleEvent_decode_def DeleteModuleEvent_decode_def
    BPFEventSerializer_decode_def BPFFilterEvent_decode_def PTraceEvent_decode_def KProbeEvent_decode_def
    SysCtlEvent_decode_def HookedSyscallEvent_decode_def EventCheckEvent_decode_def KernelParameterEvent_decode_def
    RegisterCheckEvent_decode_def
  by (simp_all add: returns_rules returns_contexts p)

lemma returns_event:
  assumes p: "lexer_progress lx left"
  shows "\<exists>out' s'. EventSerializer_decode lx parse (out, s) = Some (out', s') \<and> fuel lx left s' \<le> fuel lx left s - 1"
  unfolding EventSerializer_decode_def
  by (rule with_object_returns [OF p], rule object_loop_returns [OF p]) (simp add: returns_rules returns_events p)


section \<open>Reading the contexts and the module events\<close>

lemma CredentialsContext_reads:
  assumes l: "lexer_reads lx at jv" "jview_texts jv" and i: "at s (render (CredentialsContext_doc jv c))"
  shows "\<exists>s'. CredentialsContext_decode lx (out, s) = Some (c, s') \<and> at s' []"
proof -
  let ?fs = "[(''uid'', number jv (cr_UID c), \<lambda>out. out\<lparr>cr_UID := cr_UID c\<rparr>),
     (''gid'', number jv (cr_GID c), \<lambda>out. out\<lparr>cr_GID := cr_GID c\<rparr>),
     (''suid'', number jv (cr_SUID c), \<lambda>out. out\<lparr>cr_SUID := cr_SUID c\<rparr>),
     (''sgid'', number jv (cr_SGID c), \<lambda>out. out\<lparr>cr_SGID := cr_SGID c\<rparr>),
     (''euid'', number jv (cr_EUID c), \<lambda>out. out\<lparr>cr_EUID := cr_EUID c\<rparr>),
     (''egid'', number jv (cr_EGID c), \<lambda>out. out\<lparr>cr_EGID := cr_EGID c\<rparr>),
     (''fsuid'', number jv (cr_FSUID c), \<lambda>out. out\<lparr>cr_FSUID := cr_FSUID c\<rparr>),
     (''fsgid'', number jv (cr_FSGID c), \<lambda>out. out\<lparr>cr_FSGID := cr_FSGID c\<rparr>),
     (''secure_bits'', number jv (cr_SecureBits c), \<lambda>out. out\<lparr>cr_SecureBits := cr_SecureBits c\<rparr>),
     (''cap_inheritable'', number jv (cr_CapInheritable c), \<lambda>out. out\<lparr>cr_CapInheritable := cr_CapInheritable c\<rparr>),
     (''cap_permitted'', number jv (cr_CapPermitted c), \<lambda>out. out\<lparr>cr_CapPermitted := cr_CapPermitted c\<rparr>),
     (''cap_effective'', number jv (cr_CapEffective c), \<lambda>out. out\<lparr>cr_CapEffective := cr_CapEffective c\<rparr>),
     (''cap_bset'', number jv (cr_CapBSET c), \<lambda>out. out\<lparr>cr_CapBSET := cr_CapBSET c\<rparr>),
     (''cap_ambiant'', number jv (cr_CapAmbiant c), \<lambda>out. out\<lparr>cr_CapAmbiant := cr_CapAmbiant c\<rparr>)]"
  show ?thesis
    unfolding CredentialsContext_decode_def
    by (rule decode_object_reads [OF l(1), where fs = ?fs])
      (use i in \<open>simp_all add: CredentialsContext_doc_def field_ok_def plain_char_def number_def lexer_reads_values [OF l]\<close>)
qed

lemma NamespaceContext_reads:
  assumes l: "lexer_reads lx at jv" "jview_texts jv" and i: "at s (render (NamespaceContext_doc jv n))"
  shows "\<exists>s'. NamespaceContext_decode lx (out, s) = Some (n, s') \<and> at s' []"
proof -
  let ?fs = "[(''cgroup_namespace'', number jv (ns_Cgroup n), \<lambda>out. out\<lparr>ns_Cgroup := ns_Cgroup n\<rparr>),
     (''ipc_namespace'', number jv (ns_IPC n), \<lambda>out. out\<lparr>ns_IPC := ns_IPC n\<rparr>),
     (''net_namespace'', number jv (ns_Net n), \<lambda>out. out\<lparr>ns_Net := ns_Net n\<rparr>),
     (''mnt_namespace'', number jv (ns_Mnt n), \<lambda>out. out\<lparr>ns_Mnt := ns_Mnt n\<rparr>),
     (''pid_namespace'', number jv (ns_PID n), \<lambda>out. out\<lparr>ns_PID := ns_PID n\<rparr>),
     (''time_namespace'', number jv (ns_Time n), \<lambda>out. out\<lparr>ns_Time := ns_Time n\<rparr>),
     (''user_namespace'', number jv (ns_User n), \<lambda>out. out\<lparr>ns_User := ns_User n\<rparr>),
     (''uts_namespace'', number jv (ns_UTS n), \<lambda>out. out\<lparr>ns_UTS := ns_UTS n\<rparr>)]"
  show ?thesis
    unfolding NamespaceContext_decode_def
    by (rule decode_object_reads [OF l(1), where fs = ?fs])
      (use i in \<open>simp_all add: NamespaceContext_doc_def field_ok_def plain_char_def number_def lexer_reads_values [OF l]\<close>)
qed

lemma ModuleEvents_reads:
  assumes l: "lexer_reads lx at jv" "jview_texts jv"
  shows "plain (im_Name im) \<Longrightarrow> at s (render (InitModuleEvent_doc jv im)) \<Longrightarrow>
      \<exists>s'. InitModuleEvent_decode lx (out, s) = Some (Some im, s') \<and> at s' []"
    and "plain (dm_Name dm) \<Longrightarrow> at s (render (DeleteModuleEvent_doc jv dm)) \<Longrightarrow>
      \<exists>s'. DeleteModuleEvent_decode lx (out', s) = Some (Some dm, s') \<and> at s' []"
proof -
  let ?fs = "[(''loaded_from_memory'', JText (jv_Bool jv (im_LoadedFromMemory im)),
        \<lambda>out. out\<lparr>im_LoadedFromMemory := im_LoadedFromMemory im\<rparr>),
     (''name'', str jv (im_Name im), \<lambda>out. out\<lparr>im_Name := im_Name im\<rparr>)]"
  assume i: "plain (im_Name im)" "at s (render (InitModuleEvent_doc jv im))"
  show "\<exists>s'. InitModuleEvent_decode lx (out, s) = Some (Some im, s') \<and> at s' []"
    unfolding InitModuleEvent_decode_def
    by (rule decode_new_reads [OF l(1), where fs = ?fs])
      (use i in \<open>simp_all add: InitModuleEvent_doc_def field_ok_def plain_char_def str_def lexer_reads_values [OF l]\<close>)
next
  assume i: "plain (dm_Name dm)" "at s (render (DeleteModuleEvent_doc jv dm))"
  show "\<exists>s'. DeleteModuleEvent_decode lx (out', s) = Some (Some dm, s') \<and> at s' []"
    unfolding DeleteModuleEvent_decode_def
    by (rule decode_new_reads [OF l(1), where fs = "[(''name'', str jv (dm_Name dm), \<lambda>out. out\<lparr>dm_Name := dm_Name dm\<rparr>)]"])
      (use i in \<open>simp_all add: DeleteModuleEvent_doc_def field_ok_def plain_char_def str_def lexer_reads_values [OF l]\<close>)
qed

section \<open>The document of an event cannot be read\<close>

lemma time_reads:
  assumes l: "lexer_reads lx at jv" and "plain x" and "ts = CHR 0x22 # x @ [CHR 0x22]" and "\<forall>t. fst (parse ts t) = None"
  shows "reads lx at (dec_part ke_Time (\<lambda>v out. out\<lparr>ke_Time := v\<rparr>) (time_decode lx parse)) ts
    (\<lambda>out :: KernelEvent. out\<lparr>ke_Time := snd (parse ts (ke_Time out))\<rparr>)"
  unfolding reads_def
proof (intro conjI allI impI)
  show "value_text ts" using assms(3) by (simp add: value_text_def)
  fix out :: KernelEvent and s c t
  assume "inside lx at s (ts @ c # t)" "value_end c"
  moreover have "reads_value lx at (lx_Raw lx) ts ts" using l assms(2,3) by (simp add: lexer_reads_def)
  ultimately obtain s' where s': "lx_Raw lx s = (ts, s')" "inside lx at s' (c # t)" unfolding reads_value_def by blast
  then have "lx_Ok lx s'" using lexer_readsD(1) [OF l] by (auto simp: inside_def)
  moreover have "parse ts (ke_Time out) = (None, snd (parse ts (ke_Time out)))" using assms(4) by (metis prod.collapse)
  ultimately show "\<exists>s'. dec_part ke_Time (\<lambda>v out. out\<lparr>ke_Time := v\<rparr>) (time_decode lx parse) (out, s) =
      Some (out\<lparr>ke_Time := snd (parse ts (ke_Time out))\<rparr>, s') \<and> inside lx at s' (c # t)"
    using s' lexer_readsD(9) [OF l s'(2)] by (auto simp: dec_part_def time_decode_def split: prod.splits)
qed

lemma KernelEvent_fails:
  assumes l: "lexer_reads lx at jv" "jview_texts jv" and p: "lexer_progress lx left"
    and t: "plain x" "ts = CHR 0x22 # x @ [CHR 0x22]" "\<forall>t. fst (parse ts t) = None"
  shows "fails lx at (KernelEvent_decode lx parse) (render (KernelEvent_doc env jv ts e))"
proof -
  let ?fs = "[(''time'', JText ts, \<lambda>out :: KernelEvent. out\<lparr>ke_Time := snd (parse ts (ke_Time out))\<rparr>),
     (''retval'', JText (jv_Int jv (sint (ke_Retval e))), \<lambda>out. out\<lparr>ke_Retval := ke_Retval e\<rparr>),
     (''cpu'', number jv (ke_CPU e), \<lambda>out. out\<lparr>ke_CPU := ke_CPU e\<rparr>)]"
  let ?d = "JText (EventType_MarshalJSON (ke_Type e))"
  let ?ds = "[(''action'', JText (Action_MarshalJSON (je_rg env) (ke_Action e)))]"
  have eq: "KernelEvent_doc env jv ts e = JObject (doc_of ?fs @ (''type'', ?d) # ?ds)"
    by (simp add: KernelEvent_doc_def)
  have f: "fails lx at (dec_into (lx_Uint32 lx) (\<lambda>v out. out\<lparr>ke_Type := v\<rparr>)) (render ?d)"
    unfolding EventType_MarshalJSON_def render.simps by (rule fails_number [OF l(1)])
  show ?thesis
    unfolding KernelEvent_decode_def eq
    by (rule decode_new_fails [OF l(1) p _ _ _ f, where fs = ?fs and k = "''type''" and ds = ?ds])
      (simp_all add: returns_rules p field_ok_def plain_char_def number_def time_reads [where parse = parse, OF l(1) t]
        lexer_reads_values [OF l])
qed

lemma event_fails:
  assumes l: "lexer_reads lx at jv" "jview_texts jv" and p: "lexer_progress lx left"
    and t: "plain x" "ts = CHR 0x22 # x @ [CHR 0x22]" "\<forall>t. fst (parse ts t) = None"
    and i: "at s (render (event_doc env jv ts e))"
  shows "\<exists>out' s'. EventSerializer_decode lx parse (out, s) = Some (out', s') \<and> \<not> lx_Ok lx s'"
proof -
  let ?d = "KernelEvent_doc env jv ts (ev_Kernel e)"
  let ?ds = "opt (ke_Type (ev_Kernel e) \<noteq> HookedSyscallTableEventType) ''process'' (ProcessContext_doc env jv (ev_Process e)) @
      payload_doc env jv e"
  have "fails lx at (dec_part ep_KernelEvent (\<lambda>v out. out\<lparr>ep_KernelEvent := v\<rparr>) (dec_ptr lx None (KernelEvent_decode lx parse)))
      (render ?d)"
    by (intro fails_part fails_ptr [OF l(1)] KernelEvent_fails [where parse = parse, OF l p t])
  note f = loop_fails [OF l(1) p _ _ _ this, where fs = "[]" and k = "''event''" and ds = ?ds]
  show ?thesis
    unfolding EventSerializer_decode_def
    by (rule with_object_fails [OF l(1) p, where ds = "(''event'', ?d) # ?ds" and u = "[]"])
      (use i in \<open>simp add: event_doc_def\<close>, rule f, simp_all add: returns_rules returns_events p plain_char_def)
qed

section \<open>Properties\<close>

text \<open>C11: every decoder returns on every input, well-formed or not, of every length: for a lexer that consumes a
  token or fails, decoding an event ends after finitely many steps, with less input left or a failed lexer.\<close>

theorem decoders_terminate:
  assumes "lexer_progress lx left"
  shows "\<exists>out' s'. EventSerializer_decode lx parse (out, s) = Some (out', s') \<and>
    fuel lx left s' \<le> fuel lx left s - 1"
  by (rule returns_event [OF assms])

theorem decoders_terminate_witness:
  "\<exists>out' s'. EventSerializer_decode text_lexer (\<lambda>_ t. (None, t))
      (new_pointers, (False, Some (take 30 (render (event_doc demo_json demo_jview (quoted []) eventZero))))) =
     Some (out', s')"
  using decoders_terminate [OF text_lexer_progress] by blast


definition demo_module :: InitModuleEvent where
  "demo_module = \<lparr>im_LoadedFromMemory = True, im_Name = ''vuln_device''\<rparr>"




end
