(* ===== verification/Ktool_Filter.thy ===== *)
theory Ktool_Filter
  imports Byte_Order
begin

text \<open>
  \<^verbatim>\<open>cmd/ktool/run/bpf_filter.go\<close>: the command that attaches a packet filter for DNS traffic to a raw
  socket and logs what it captures.  The instructions are those of \<^verbatim>\<open>golang.org/x/net/bpf\<close> that the
  program uses.  The assembler of that package and the machine of the kernel that runs the
  assembled filter are not part of the repository: they are the fields of \<open>BPFHost\<close>, with the
  documented meaning of the instructions as the hypothesis \<open>bpf_laws\<close>.  The raw socket, signals,
  the clock and the logger are the fields of \<open>FilterHost\<close> over an abstract world.  Both loops of
  the command may run forever, so they are partial functions: \<open>None\<close> means that they do not return.
\<close>

section \<open>The filter program\<close>

datatype JumpTest = JumpEqual | JumpBitsSet

text \<open>\<open>LoadAbsolute{Size, Off}\<close>, \<open>LoadIndirect{Size, Off}\<close>, \<open>LoadMemShift{Off}\<close>,
  \<open>JumpIf{Cond, Val, SkipTrue, SkipFalse}\<close>, \<open>RetConstant{Val}\<close>.\<close>

datatype Instruction =
    LoadAbsolute nat u32
  | LoadIndirect nat u32
  | LoadMemShift u32
  | JumpIf JumpTest u32 byte byte
  | RetConstant u32

record 'r BPFHost =
  bh_Assemble :: "Instruction list \<Rightarrow> error + 'r"
  bh_run :: "'r \<Rightarrow> nat \<Rightarrow> u32 \<Rightarrow> u32 \<Rightarrow> bytes \<Rightarrow> u32"

definition dnsPort :: u32 where "dnsPort = 53"

definition dns_instructions :: "Instruction list" where
  "dns_instructions =
    [LoadAbsolute 2 12,
     JumpIf JumpEqual 0x86dd 0 7,
     LoadAbsolute 1 20,
     JumpIf JumpEqual 0x6 1 0,
     JumpIf JumpEqual 0x11 0 16,
     LoadAbsolute 2 54,
     JumpIf JumpEqual dnsPort 13 0,
     LoadAbsolute 2 56,
     JumpIf JumpEqual dnsPort 11 12,
     JumpIf JumpEqual 0x800 0 11,
     LoadAbsolute 1 23,
     JumpIf JumpEqual 0x6 1 0,
     JumpIf JumpEqual 0x11 0 8,
     LoadAbsolute 2 20,
     JumpIf JumpBitsSet 0x1fff 6 0,
     LoadMemShift 14,
     LoadIndirect 2 14,
     JumpIf JumpEqual dnsPort 2 0,
     LoadIndirect 2 16,
     JumpIf JumpEqual dnsPort 0 1,
     RetConstant 262144,
     RetConstant 0]"

definition generateBPFFilter :: "'r BPFHost \<Rightarrow> error + 'r" where
  "generateBPFFilter b = bh_Assemble b dns_instructions"

section \<open>The machine\<close>

text \<open>Packet data is read in network byte order; a load outside the packet ends the program with
  verdict 0.\<close>

definition load :: "bytes \<Rightarrow> nat \<Rightarrow> nat \<Rightarrow> u32 option" where
  "load pkt sz off = (if off + sz \<le> length pkt then Some (get_word BigEndian (take sz (drop off pkt))) else None)"

datatype outcome = Verdict u32 | Continue nat u32 u32

fun jump_taken :: "JumpTest \<Rightarrow> u32 \<Rightarrow> u32 \<Rightarrow> bool" where
  "jump_taken JumpEqual v a = (a = v)"
| "jump_taken JumpBitsSet v a = (a AND v \<noteq> 0)"

fun step :: "bytes \<Rightarrow> Instruction \<Rightarrow> nat \<Rightarrow> u32 \<Rightarrow> u32 \<Rightarrow> outcome" where
  "step pkt (LoadAbsolute sz off) pc a x =
     (case load pkt sz (unat off) of None \<Rightarrow> Verdict 0 | Some v \<Rightarrow> Continue (pc + 1) v x)"
| "step pkt (LoadIndirect sz off) pc a x =
     (case load pkt sz (unat off + unat x) of None \<Rightarrow> Verdict 0 | Some v \<Rightarrow> Continue (pc + 1) v x)"
| "step pkt (LoadMemShift off) pc a x =
     (case load pkt 1 (unat off) of None \<Rightarrow> Verdict 0 | Some v \<Rightarrow> Continue (pc + 1) a (4 * (v AND 0xf)))"
| "step pkt (JumpIf t v st sf) pc a x =
     Continue (pc + 1 + unat (if jump_taken t v a then st else sf)) a x"
| "step pkt (RetConstant v) pc a x = Verdict v"

fun well_sized :: "Instruction \<Rightarrow> bool" where
  "well_sized (LoadAbsolute sz off) = (sz \<in> {1, 2, 4})"
| "well_sized (LoadIndirect sz off) = (sz \<in> {1, 2, 4})"
| "well_sized i = True"

definition bpf_laws :: "'r BPFHost \<Rightarrow> bool" where
  "bpf_laws b \<longleftrightarrow>
     (\<forall>prog. list_all well_sized prog \<longrightarrow> (\<exists>raw. bh_Assemble b prog = Inr raw)) \<and>
     (\<forall>prog raw pc a x pkt. bh_Assemble b prog = Inr raw \<longrightarrow> pc < length prog \<longrightarrow>
        bh_run b raw pc a x pkt =
          (case step pkt (prog ! pc) pc a x of
             Verdict v \<Rightarrow> v
           | Continue pc' a' x' \<Rightarrow> bh_run b raw pc' a' x' pkt))"

lemma step_forward: "step pkt i pc a x = Continue pc' a' x' \<Longrightarrow> pc < pc'"
  by (cases i) (auto split: option.splits)

text \<open>A reference machine.  Jumps only go forward, so a run visits every instruction at most once;
  leaving the program gives verdict 0.\<close>

function exec :: "Instruction list \<Rightarrow> nat \<Rightarrow> u32 \<Rightarrow> u32 \<Rightarrow> bytes \<Rightarrow> u32" where
  "exec prog pc a x pkt =
     (if length prog \<le> pc then 0
      else case step pkt (prog ! pc) pc a x of
             Verdict v \<Rightarrow> v
           | Continue pc' a' x' \<Rightarrow> exec prog pc' a' x' pkt)"
  by pat_completeness auto

termination
  by (relation "measure (\<lambda>(prog, pc, _). length prog - pc)") (auto dest: step_forward)

declare exec.simps [simp del]

definition reference_bpf :: "Instruction list BPFHost" where
  "reference_bpf =
     \<lparr>bh_Assemble = \<lambda>prog. if list_all well_sized prog then Inr prog else Inl (ErrExternal ''bpf''), bh_run = exec\<rparr>"

lemma reference_bpf_laws: "bpf_laws reference_bpf"
  by (auto simp: bpf_laws_def reference_bpf_def exec.simps split: outcome.splits)

section \<open>What the filter captures\<close>

text \<open>Source or destination port 53 in a transport header that starts at \<open>off\<close>.\<close>

definition dns_ports :: "bytes \<Rightarrow> nat \<Rightarrow> bool" where
  "dns_ports pkt off \<longleftrightarrow> load pkt 2 off = Some 53 \<or> load pkt 2 (off + 2) = Some 53"

definition tcp_or_udp :: "bytes \<Rightarrow> nat \<Rightarrow> bool" where
  "tcp_or_udp pkt off \<longleftrightarrow> load pkt 1 off = Some 6 \<or> load pkt 1 off = Some 17"

text \<open>An Ethernet frame with an IPv6 packet whose first header is TCP or UDP.\<close>

definition dns_over_ipv6 :: "bytes \<Rightarrow> bool" where
  "dns_over_ipv6 pkt \<longleftrightarrow> load pkt 2 12 = Some 0x86dd \<and> tcp_or_udp pkt 20 \<and> dns_ports pkt 54"

text \<open>An Ethernet frame with an IPv4 packet that is a first fragment; the transport header follows
  the IPv4 header with its options.\<close>

definition dns_over_ipv4 :: "bytes \<Rightarrow> bool" where
  "dns_over_ipv4 pkt \<longleftrightarrow>
     load pkt 2 12 = Some 0x800 \<and> tcp_or_udp pkt 23 \<and>
     (\<exists>f. load pkt 2 20 = Some f \<and> unat f mod 0x2000 = 0) \<and>
     (\<exists>v. load pkt 1 14 = Some v \<and> dns_ports pkt (14 + 4 * (unat v mod 16)))"

definition is_dns :: "bytes \<Rightarrow> bool" where
  "is_dns pkt \<longleftrightarrow> dns_over_ipv6 pkt \<or> dns_over_ipv4 pkt"

lemma load_shorter: "load pkt sz (off + n) = Some v \<Longrightarrow> \<exists>u. load pkt sz off = Some u"
  by (auto simp: load_def split: if_splits)

lemma nat_low_bits: "(n :: nat) AND 0x1fff = n mod 0x2000" "(n :: nat) AND 0xf = n mod 16"
  using take_bit_eq_mask [of 13 n] take_bit_eq_mask [of 4 n] by (simp_all add: take_bit_eq_mod mask_eq_exp_minus_1)

lemma fragment_mask: "(a :: u32) AND 0x1fff = 0 \<longleftrightarrow> unat a mod 0x2000 = 0"
proof -
  have "unat (a AND 0x1fff) = unat a mod 0x2000" by (simp add: unsigned_and_eq nat_low_bits)
  then show ?thesis by (metis unat_eq_zero)
qed

lemma header_length: "unat (4 * ((v :: u32) AND 0xf)) = 4 * (unat v mod 16)"
proof -
  have m: "unat (v AND 0xf) = unat v mod 16" by (simp add: unsigned_and_eq nat_low_bits)
  have "unat v mod 16 < 16" by simp
  then have "4 * (unat v mod 16) < 2 ^ LENGTH(32)" by simp
  then have "unat (4 * (v AND 0xf)) = unat (4 :: u32) * unat (v AND 0xf)"
    using m by (intro unat_mult_lem [THEN iffD1]) simp
  then show ?thesis using m by simp
qed

text \<open>The verdict from each instruction on, from the end of the program to its start.\<close>

lemma run_step:
  assumes "bpf_laws b" and "generateBPFFilter b = Inr raw" and "pc < length dns_instructions"
  shows "bh_run b raw pc a x pkt =
    (case step pkt (dns_instructions ! pc) pc a x of
       Verdict v \<Rightarrow> v | Continue pc' a' x' \<Rightarrow> bh_run b raw pc' a' x' pkt)"
  using assms by (simp add: bpf_laws_def generateBPFFilter_def)

lemma verdict_ports:
  assumes "bpf_laws b" and "generateBPFFilter b = Inr raw"
  shows "bh_run b raw 16 a x pkt = (if dns_ports pkt (14 + unat x) then 262144 else 0)"
    and "bh_run b raw 5 a x pkt = (if dns_ports pkt 54 then 262144 else 0)"
proof -
  note r = run_step [OF assms, unfolded dns_instructions_def dnsPort_def]
  have 21: "bh_run b raw 21 a x pkt = 0" for a x using r [of 21] by simp
  have 20: "bh_run b raw 20 a x pkt = 262144" for a x using r [of 20] by simp
  have 19: "bh_run b raw 19 a x pkt = (if a = 53 then 262144 else 0)" for a x
    using r [of 19] by (simp add: 20 21)
  have 18: "bh_run b raw 18 a x pkt = (if load pkt 2 (16 + unat x) = Some 53 then 262144 else 0)" for a x
    using r [of 18] by (simp add: 19 split: option.splits)
  have 17: "bh_run b raw 17 a x pkt = (if a = 53 \<or> load pkt 2 (16 + unat x) = Some 53 then 262144 else 0)" for a x
    using r [of 17] by (simp add: 18 20)
  show "bh_run b raw 16 a x pkt = (if dns_ports pkt (14 + unat x) then 262144 else 0)"
    using r [of 16] load_shorter [of pkt 2 "14 + unat x" 2]
    by (auto simp: 17 dns_ports_def split: option.splits)
  have 8: "bh_run b raw 8 a x pkt = (if a = 53 then 262144 else 0)" for a x
    using r [of 8] by (simp add: 20 21)
  have 7: "bh_run b raw 7 a x pkt = (if load pkt 2 56 = Some 53 then 262144 else 0)" for a x
    using r [of 7] by (simp add: 8 split: option.splits)
  have 6: "bh_run b raw 6 a x pkt = (if a = 53 \<or> load pkt 2 56 = Some 53 then 262144 else 0)" for a x
    using r [of 6] by (simp add: 7 20)
  show "bh_run b raw 5 a x pkt = (if dns_ports pkt 54 then 262144 else 0)"
    using r [of 5] load_shorter [of pkt 2 54 2] by (auto simp: 6 dns_ports_def split: option.splits)
qed

lemma verdict_ipv4:
  assumes "bpf_laws b" and "generateBPFFilter b = Inr raw"
  shows "bh_run b raw 9 a x pkt =
    (if a = 0x800 \<and> tcp_or_udp pkt 23 \<and> (\<exists>f. load pkt 2 20 = Some f \<and> unat f mod 0x2000 = 0) \<and>
        (\<exists>v. load pkt 1 14 = Some v \<and> dns_ports pkt (14 + 4 * (unat v mod 16)))
     then 262144 else 0)"
proof -
  note r = run_step [OF assms, unfolded dns_instructions_def dnsPort_def]
  let ?h = "\<exists>v. load pkt 1 14 = Some v \<and> dns_ports pkt (14 + 4 * (unat v mod 16))"
  let ?f = "\<exists>f. load pkt 2 20 = Some f \<and> unat f mod 0x2000 = 0"
  have 21: "bh_run b raw 21 a x pkt = 0" for a x using r [of 21] by simp
  have 15: "bh_run b raw 15 a x pkt = (if ?h then 262144 else 0)" for a x
    using r [of 15] by (simp add: verdict_ports [OF assms] header_length split: option.splits)
  have 14: "bh_run b raw 14 a x pkt = (if unat a mod 0x2000 = 0 \<and> ?h then 262144 else 0)" for a x
    using r [of 14] by (simp add: 15 21 fragment_mask del: ex_simps)
  have 13: "bh_run b raw 13 a x pkt = (if ?f \<and> ?h then 262144 else 0)" for a x
    using r [of 13] by (simp add: 14 split: option.splits)
  have 12: "bh_run b raw 12 a x pkt = (if a = 17 \<and> ?f \<and> ?h then 262144 else 0)" for a x
    using r [of 12] by (simp add: 13 21)
  have 11: "bh_run b raw 11 a x pkt = (if (a = 6 \<or> a = 17) \<and> ?f \<and> ?h then 262144 else 0)" for a x
    using r [of 11] by (simp add: 12 13)
  have 10: "bh_run b raw 10 a x pkt = (if tcp_or_udp pkt 23 \<and> ?f \<and> ?h then 262144 else 0)" for a x
    using r [of 10] by (simp add: 11 tcp_or_udp_def split: option.splits)
  show ?thesis using r [of 9] by (simp add: 10 21)
qed

lemma verdict_dns:
  assumes "bpf_laws b" and "generateBPFFilter b = Inr raw"
  shows "bh_run b raw 0 a x pkt = (if is_dns pkt then 262144 else 0)"
proof -
  note r = run_step [OF assms, unfolded dns_instructions_def dnsPort_def]
  have 21: "bh_run b raw 21 a x pkt = 0" for a x using r [of 21] by simp
  have 4: "bh_run b raw 4 a x pkt = (if a = 17 \<and> dns_ports pkt 54 then 262144 else 0)" for a x
    using r [of 4] by (simp add: verdict_ports [OF assms] 21)
  have 3: "bh_run b raw 3 a x pkt = (if (a = 6 \<or> a = 17) \<and> dns_ports pkt 54 then 262144 else 0)" for a x
    using r [of 3] by (simp add: verdict_ports [OF assms] 4)
  have 2: "bh_run b raw 2 a x pkt = (if tcp_or_udp pkt 20 \<and> dns_ports pkt 54 then 262144 else 0)" for a x
    using r [of 2] by (simp add: 3 tcp_or_udp_def split: option.splits)
  have 1: "bh_run b raw 1 a x pkt =
      (if a = 0x86dd then if tcp_or_udp pkt 20 \<and> dns_ports pkt 54 then 262144 else 0
       else bh_run b raw 9 a x pkt)" for a x
    using r [of 1] by (simp add: 2 [unfolded numeral_2_eq_2])
  show ?thesis
    using r [of 0]
    by (auto simp: 1 [unfolded One_nat_def] verdict_ipv4 [OF assms] is_dns_def dns_over_ipv6_def dns_over_ipv4_def split: option.splits)
qed


section \<open>The command\<close>

datatype read_error = EAGAIN | ErrTimeout | ReadFailed error

record CaptureInfo =
  ci_Length :: int
  ci_InterfaceIndex :: int

text \<open>The socket is created with a poll timeout of one second, frames of 4096 bytes, and 8 blocks of
  128 frames.\<close>

record TPacketOptions =
  opt_PollTimeout :: int
  opt_FrameSize :: int
  opt_BlockSize :: int
  opt_NumBlocks :: int

definition second :: int where "second = 1000000000"

definition dns_socket_options :: TPacketOptions where
  "dns_socket_options =
     \<lparr>opt_PollTimeout = 1 * second, opt_FrameSize = 4096, opt_BlockSize = 4096 * 128, opt_NumBlocks = 8\<rparr>"

record ('r, 'w) FilterHost =
  fh_SetLevel :: "'w \<Rightarrow> 'w"
  fh_Getuid :: "'w \<Rightarrow> int"
  fh_NewTPacket :: "TPacketOptions \<Rightarrow> 'w \<Rightarrow> error option \<times> 'w"
  fh_Close :: "'w \<Rightarrow> 'w"
  fh_SetBPF :: "'r \<Rightarrow> 'w \<Rightarrow> error option \<times> 'w"
  fh_Notify :: "'w \<Rightarrow> 'w"
  fh_done :: "'w \<Rightarrow> bool \<times> 'w"
  fh_Read :: "'w \<Rightarrow> CaptureInfo \<times> read_error option \<times> 'w"
  fh_captured :: "CaptureInfo \<Rightarrow> 'w \<Rightarrow> 'w"
  fh_Sleep :: "int \<Rightarrow> 'w \<Rightarrow> 'w"

text \<open>The inner loop reads until the poll times out.  Every other error than \<open>EAGAIN\<close> falls through
  to the log line, with the zero value of the statistics.\<close>

partial_function (option) read_loop :: "('r, 'w) FilterHost \<Rightarrow> 'w \<Rightarrow> 'w option" where
  "read_loop h w =
     (case fh_Read h w of (stats, err, w) \<Rightarrow>
        if err = Some EAGAIN then read_loop h w
        else if err = Some ErrTimeout then Some w
        else read_loop h (fh_captured h stats w))"

partial_function (option) filter_loop :: "('r, 'w) FilterHost \<Rightarrow> 'w \<Rightarrow> 'w option" where
  "filter_loop h w =
     (case fh_done h w of (stop, w) \<Rightarrow>
        if stop then Some w
        else Option.bind (read_loop h w) (\<lambda>w. filter_loop h (fh_Sleep h (1 * second) w)))"

definition startBPFFilterCmd :: "'r BPFHost \<Rightarrow> ('r, 'w) FilterHost \<Rightarrow> 'w \<Rightarrow> (error option \<times> 'w) option" where
  "startBPFFilterCmd b h w =
     (let w = fh_SetLevel h w in
      if fh_Getuid h w > 0 then Some (Some (Errorf ''ktool needs to run as root'' [] None), w)
      else
        (case fh_NewTPacket h dns_socket_options w of
           (Some err, w) \<Rightarrow> Some (Some (Errorf ''error creating raw socket: %s'' [] (Some err)), w)
         | (None, w) \<Rightarrow>
             (case generateBPFFilter b of
                Inl err \<Rightarrow> Some (Some (Errorf ''couldn't generate BPF filter: %w'' [] (Some err)), fh_Close h w)
              | Inr raw \<Rightarrow>
                  (case fh_SetBPF h raw w of
                     (Some err, w) \<Rightarrow>
                       Some (Some (Errorf ''error setting classic bpf filter: %w'' [] (Some err)), fh_Close h w)
                   | (None, w) \<Rightarrow>
                       Option.bind (filter_loop h (fh_Notify h w)) (\<lambda>w. Some (None, fh_Close h w))))))"

section \<open>When the command returns\<close>

text \<open>The sockets on which every read gives a packet or an error other than the timeout.\<close>

definition never_times_out :: "('r, 'w) FilterHost \<Rightarrow> bool" where
  "never_times_out h \<longleftrightarrow> (\<forall>w. fst (snd (fh_Read h w)) \<noteq> Some ErrTimeout)"

lemma read_loop_step_times_out:
  assumes "\<And>h w v. loop h w = Some v \<Longrightarrow> \<not> never_times_out h"
    and "(case fh_Read h w of (stats, err, w) \<Rightarrow>
        if err = Some EAGAIN then loop h w
        else if err = Some ErrTimeout then Some w else loop h (fh_captured h stats w)) = Some v"
  shows "\<not> never_times_out h"
proof -
  obtain stats err w' where r: "fh_Read h w = (stats, err, w')" by (metis prod_cases3)
  with assms(2) consider v' w'' where "loop h w'' = Some v'" | "err = Some ErrTimeout" by (auto split: if_splits)
  then show ?thesis using assms(1) r unfolding never_times_out_def by cases (metis fst_conv snd_conv)+
qed

lemma read_loop_times_out: "read_loop h w = Some v \<Longrightarrow> \<not> never_times_out h"
  by (erule read_loop.raw_induct [rotated, where P = "\<lambda>h w v. \<not> never_times_out h"]) (rule read_loop_step_times_out)

lemma read_loop_diverges: "never_times_out h \<Longrightarrow> read_loop h w = None"
  using read_loop_times_out [of h w] by (cases "read_loop h w") auto

text \<open>A socket that is drained after finitely many reads: a bound on the reads still to come goes
  down with every read that does not time out.\<close>

definition drained :: "('r, 'w) FilterHost \<Rightarrow> ('w \<Rightarrow> nat) \<Rightarrow> bool" where
  "drained h backlog \<longleftrightarrow>
     (\<forall>w stats err w'. fh_Read h w = (stats, err, w') \<longrightarrow> err \<noteq> Some ErrTimeout \<longrightarrow>
        backlog w' < backlog w \<and> backlog (fh_captured h stats w') \<le> backlog w')"

text \<open>A signal that arrives after finitely many rounds of the outer loop.\<close>

definition interrupted :: "('r, 'w) FilterHost \<Rightarrow> ('w \<Rightarrow> nat) \<Rightarrow> bool" where
  "interrupted h rounds \<longleftrightarrow>
     (\<forall>w w' w''. fh_done h w = (False, w') \<longrightarrow> read_loop h w' = Some w'' \<longrightarrow>
        rounds (fh_Sleep h (1 * second) w'') < rounds w)"

lemma read_loop_returns:
  assumes "drained h backlog"
  shows "\<exists>v. read_loop h w = Some v"
proof (induction "backlog w" arbitrary: w rule: less_induct)
  case less
  obtain stats err w' where r: "fh_Read h w = (stats, err, w')" by (metis prod_cases3)
  show ?case
  proof (cases "err = Some ErrTimeout")
    case True
    with r show ?thesis by (subst read_loop.simps) simp
  next
    case False
    with assms r have "backlog w' < backlog w" "backlog (fh_captured h stats w') < backlog w"
      unfolding drained_def by (meson le_less_trans)+
    from less [OF this(1)] less [OF this(2)] r False show ?thesis
      by (subst read_loop.simps) auto
  qed
qed

lemma filter_loop_returns:
  assumes "drained h backlog" and "interrupted h rounds"
  shows "\<exists>v. filter_loop h w = Some v"
proof (induction "rounds w" arbitrary: w rule: less_induct)
  case less
  obtain stop w' where d: "fh_done h w = (stop, w')" by fastforce
  obtain v where r: "read_loop h w' = Some v" using read_loop_returns [OF assms(1)] by blast
  show ?case
  proof (cases stop)
    case True
    with d show ?thesis by (subst filter_loop.simps) simp
  next
    case False
    with assms(2) d r have "rounds (fh_Sleep h (1 * second) v) < rounds w" by (simp add: interrupted_def)
    from less [OF this] d r False show ?thesis by (subst filter_loop.simps) simp
  qed
qed

lemma filter_loop_diverges:
  "never_times_out h \<Longrightarrow> filter_loop h w = (case fh_done h w of (stop, w') \<Rightarrow> if stop then Some w' else None)"
  by (subst filter_loop.simps) (simp add: read_loop_diverges split: prod.splits)

text \<open>A socket with a finite queue of packets, and one on which the traffic never pauses; the signal is
  pending from the start of the first loop on.\<close>

definition demo_socket :: "nat \<Rightarrow> (Instruction list, nat \<times> nat) FilterHost" where
  "demo_socket k =
     \<lparr>fh_SetLevel = id, fh_Getuid = \<lambda>_. 0, fh_NewTPacket = \<lambda>_ w. (None, w), fh_Close = id,
      fh_SetBPF = \<lambda>_ w. (None, w), fh_Notify = id,
      fh_done = \<lambda>(q, n). (k \<le> n, (q, n)),
      fh_Read = \<lambda>(q, n). (\<lparr>ci_Length = 60, ci_InterfaceIndex = 2\<rparr>, if q = 0 then Some ErrTimeout else None, (q - 1, n)),
      fh_captured = \<lambda>_ w. w, fh_Sleep = \<lambda>_ (q, n). (q, n + 1)\<rparr>"

definition busy_socket :: "(Instruction list, bool) FilterHost" where
  "busy_socket =
     \<lparr>fh_SetLevel = id, fh_Getuid = \<lambda>_. 0, fh_NewTPacket = \<lambda>_ w. (None, w), fh_Close = id,
      fh_SetBPF = \<lambda>_ w. (None, w), fh_Notify = id,
      fh_done = \<lambda>w. (w, w),
      fh_Read = \<lambda>w. (\<lparr>ci_Length = 60, ci_InterfaceIndex = 2\<rparr>, None, True),
      fh_captured = \<lambda>_ w. w, fh_Sleep = \<lambda>_ w. w\<rparr>"

lemma demo_socket_simps [simp]:
  "fh_SetLevel (demo_socket k) w = w" "fh_Getuid (demo_socket k) w = 0" "fh_NewTPacket (demo_socket k) opts w = (None, w)"
  "fh_SetBPF (demo_socket k) raw w = (None, w)" "fh_done (demo_socket k) (q, n) = (k \<le> n, (q, n))"
  "fh_captured (demo_socket k) stats w = w" "fh_Sleep (demo_socket k) t (q, n) = (q, n + 1)"
  "fh_Read (demo_socket k) (q, n) =
     (\<lparr>ci_Length = 60, ci_InterfaceIndex = 2\<rparr>, if q = 0 then Some ErrTimeout else None, (q - 1, n))"
  by (simp_all add: demo_socket_def)

lemma busy_socket_simps [simp]:
  "fh_SetLevel busy_socket w = w" "fh_Getuid busy_socket w = 0" "fh_NewTPacket busy_socket opts w = (None, w)"
  "fh_SetBPF busy_socket raw w = (None, w)" "fh_Notify busy_socket w = w" "fh_done busy_socket w = (w, w)"
  "fst (snd (fh_Read busy_socket w)) = None"
  by (simp_all add: busy_socket_def)

lemma demo_read: "read_loop (demo_socket k) (q, n) = Some (0, n)"
  by (induction q) (subst read_loop.simps, simp)+

lemma demo_socket_laws: "drained (demo_socket k) fst" "interrupted (demo_socket k) (\<lambda>(_, n). k - n)"
  by (auto simp: drained_def interrupted_def demo_read split: if_splits)

lemma reference_filter: "generateBPFFilter reference_bpf = Inr dns_instructions"
  by (simp add: generateBPFFilter_def reference_bpf_def dns_instructions_def)

section \<open>Properties\<close>

text \<open>C14: the filter program assembles, and on every packet the machine captures (verdict 262144) exactly
  the Ethernet frames that carry IPv6 or unfragmented IPv4 with TCP or UDP from or to port 53; every other
  frame, a truncated one included, is dropped with verdict 0.\<close>

theorem dns_filter_captures:
  assumes "bpf_laws b"
  shows "\<exists>raw. generateBPFFilter b = Inr raw \<and>
    (\<forall>pkt. bh_run b raw 0 0 0 pkt = (if is_dns pkt then 262144 else 0))"
proof -
  have "list_all well_sized dns_instructions" by (simp add: dns_instructions_def)
  with assms obtain raw where "generateBPFFilter b = Inr raw"
    unfolding bpf_laws_def generateBPFFilter_def by blast
  with verdict_dns [OF assms] show ?thesis by blast
qed

text \<open>A query over UDP and IPv4 with an eight byte option field in its header.\<close>

definition demo_frame :: bytes where
  "demo_frame = replicate 12 0 @ [8, 0, 0x47, 0, 0, 36, 0, 0, 0x40, 0, 64, 17, 0, 0] @ replicate 8 1 @
     replicate 8 1 @ [0x12, 0x34, 0, 53, 0, 8, 0, 0]"

theorem dns_filter_captures_witness:
  "bpf_laws reference_bpf \<and>
   (\<exists>raw. generateBPFFilter reference_bpf = Inr raw \<and>
      bh_run reference_bpf raw 0 0 0 demo_frame = 262144 \<and>
      bh_run reference_bpf raw 0 0 0 (take 40 demo_frame) = 0)"
proof -
  have "is_dns demo_frame" "\<not> is_dns (take 40 demo_frame)"
    by (simp_all add: is_dns_def dns_over_ipv6_def dns_over_ipv4_def tcp_or_udp_def dns_ports_def load_def
        demo_frame_def get_word_def)
  with dns_filter_captures [OF reference_bpf_laws] reference_bpf_laws show ?thesis by metis
qed


text \<open>C36: the command returns whenever the socket is drained after finitely many reads and the signal
  arrives after finitely many rounds of its loop; it then returns without an error, with the socket closed.\<close>

theorem filter_command_returns:
  assumes "drained h backlog" and "interrupted h rounds"
    and "fh_Getuid h (fh_SetLevel h w) \<le> 0"
    and "fh_NewTPacket h dns_socket_options (fh_SetLevel h w) = (None, w1)"
    and "generateBPFFilter b = Inr raw" and "fh_SetBPF h raw w1 = (None, w2)"
  shows "\<exists>w'. startBPFFilterCmd b h w = Some (None, fh_Close h w')"
  using filter_loop_returns [OF assms(1,2), of "fh_Notify h w2"] assms(3-)
  by (auto simp: startBPFFilterCmd_def Let_def)

theorem filter_command_returns_witness:
  "\<exists>w'. startBPFFilterCmd reference_bpf (demo_socket 3) (5, 0) = Some (None, fh_Close (demo_socket 3) w')"
  by (rule filter_command_returns [OF demo_socket_laws, where raw = dns_instructions]) (simp_all add: reference_filter)

text \<open>C37: a signal is only noticed between two rounds: while the traffic never lets a read time out, the
  command does not return once it is in its inner loop, whatever signals arrive.\<close>

theorem filter_command_deaf:
  assumes "never_times_out h" and "fh_Getuid h (fh_SetLevel h w) \<le> 0"
    and "fh_NewTPacket h dns_socket_options (fh_SetLevel h w) = (None, w1)"
    and "generateBPFFilter b = Inr raw" and "fh_SetBPF h raw w1 = (None, w2)"
    and "\<not> fst (fh_done h (fh_Notify h w2))"
  shows "startBPFFilterCmd b h w = None"
  using assms by (auto simp: startBPFFilterCmd_def filter_loop_diverges Let_def split: prod.splits)

theorem filter_command_deaf_witness:
  "startBPFFilterCmd reference_bpf busy_socket False = None \<and> fst (fh_done busy_socket True)"
  using filter_command_deaf [where b = reference_bpf and raw = dns_instructions and w = False and h = busy_socket
    and ?w1.0 = False and ?w2.0 = False]
  by (simp add: reference_filter never_times_out_def)

end
