(* ===== verification/Ktool_Device.thy ===== *)
theory Ktool_Device
  imports Krie_Prelude
begin

text \<open>
  The command line options of \<^verbatim>\<open>cmd/ktool\<close> (\<^verbatim>\<open>run/options.go\<close>, \<^verbatim>\<open>run/krie_tool.go\<close>) and the part of
  \<^verbatim>\<open>run/vuln_device.go\<close> that computes addresses: looking a symbol up in a symbol file, relocating an
  address of \<^verbatim>\<open>System.map\<close> into the running kernel, and the offset from the function table of the test
  module.  The two package variables \<open>diff\<close> and \<open>sign\<close>, which keep the displacement between two calls,
  are the state \<open>Reloc\<close>.  Files, memory mappings, system calls and the JSON decoder are the fields of
  \<open>DeviceHost\<close>, the level names of \<open>logrus\<close> those of \<open>Levels\<close>.  What an operation logs, writes or closes is a list of
  \<open>effect\<close>s in its result, in the order in which it happens (closing a file that was only read is left out).  The other two commands of the file are in
  \<open>Ktool_Trigger\<close>.
\<close>

unbundle bit_operations_syntax

section \<open>Options\<close>

record KtoolOptions =
  kt_LogLevel :: u32
  kt_SystemMapFile :: string
  kt_KallsymsSystemMapOffsetSymbol :: string
  kt_SystemMapGadgetAddr :: u64
  kt_ComputeOffsetFromFnArray :: bool
  kt_VulnDevicePath :: string

record Levels =
  lv_InfoLevel :: u32
  lv_String :: "u32 \<Rightarrow> string"
  lv_ParseLevel :: "string \<Rightarrow> error + u32"

text \<open>A sanitizer refers to the options by a pointer; its methods take and return the options.\<close>

record KRIEToolOptionsSanitizer =
  kts_field :: string

definition NewKRIEToolOptionsSanitizer ::
    "Levels \<Rightarrow> KtoolOptions \<Rightarrow> string \<Rightarrow> KRIEToolOptionsSanitizer \<times> KtoolOptions" where
  "NewKRIEToolOptionsSanitizer lv opts field =
     (\<lparr>kts_field = field\<rparr>, opts\<lparr>kt_LogLevel := lv_InfoLevel lv\<rparr>)"

definition ToolSanitizer_String :: "Levels \<Rightarrow> KRIEToolOptionsSanitizer \<Rightarrow> KtoolOptions \<Rightarrow> string" where
  "ToolSanitizer_String lv kts opts =
     (if kts_field kts = ''log_level'' then lv_String lv (kt_LogLevel opts)
      else if kts_field kts = ''gadget_addr'' then ''0x'' @ fmt_x (unat (kt_SystemMapGadgetAddr opts))
      else [])"

definition ToolSanitizer_Set ::
    "Levels \<Rightarrow> KRIEToolOptionsSanitizer \<Rightarrow> string \<Rightarrow> KtoolOptions \<Rightarrow> error option \<times> KtoolOptions" where
  "ToolSanitizer_Set lv kts val opts =
     (if kts_field kts = ''log_level'' then
        (case lv_ParseLevel lv val of
           Inl err \<Rightarrow> (Some err, opts)
         | Inr sanitized \<Rightarrow> (None, opts\<lparr>kt_LogLevel := sanitized\<rparr>))
      else if kts_field kts = ''gadget_addr'' then
        (case ParseUint (strings_TrimPrefix val ''0x'') 16 64 of
           (_, Some err) \<Rightarrow> (Some (Errorf ''couldn't parse integer from %s: %v'' [FStr val] (Some err)), opts)
         | (sanitized, None) \<Rightarrow> (None, opts\<lparr>kt_SystemMapGadgetAddr := of_nat sanitized\<rparr>))
      else (None, opts))"

definition ToolSanitizer_Type :: "KRIEToolOptionsSanitizer \<Rightarrow> string" where
  "ToolSanitizer_Type kts =
     (if kts_field kts = ''log_level'' then ''string''
      else if kts_field kts = ''gadget_addr'' then ''hex''
      else [])"

text \<open>The initialisers of \<^verbatim>\<open>krie_tool.go\<close> and \<^verbatim>\<open>vuln_device.go\<close>, in this order, register the flags and
  store their default values in the shared options; both \<open>gadget\<close> flags have a sanitizer of their own.\<close>

definition zeroKtoolOptions :: KtoolOptions where
  "zeroKtoolOptions =
     \<lparr>kt_LogLevel = 0, kt_SystemMapFile = [], kt_KallsymsSystemMapOffsetSymbol = [],
      kt_SystemMapGadgetAddr = 0, kt_ComputeOffsetFromFnArray = False, kt_VulnDevicePath = []\<rparr>"

definition init_krie_tool :: "Levels \<Rightarrow> KtoolOptions \<Rightarrow> KtoolOptions" where
  "init_krie_tool lv opts = snd (NewKRIEToolOptionsSanitizer lv opts ''log_level'')"

definition init_vuln_device :: "Levels \<Rightarrow> KtoolOptions \<Rightarrow> KtoolOptions" where
  "init_vuln_device lv opts =
     (let opts = opts\<lparr>kt_SystemMapFile := ''/boot/System.map-5.4.0-105-generic''\<rparr>;
          opts = opts\<lparr>kt_KallsymsSystemMapOffsetSymbol := ''commit_creds''\<rparr>;
          opts = snd (NewKRIEToolOptionsSanitizer lv opts ''gadget_addr'');
          opts = opts\<lparr>kt_ComputeOffsetFromFnArray := True\<rparr>;
          opts = opts\<lparr>kt_VulnDevicePath := ''/dev/vuln_device''\<rparr> in
      snd (NewKRIEToolOptionsSanitizer lv opts ''gadget_addr''))"

section \<open>Effects\<close>

record VulnDeviceInfo =
  vd_MajorNum :: int
  vd_FnArrayAddrStr :: string
  vd_FnArrayAddr :: u64

datatype effect =
    SetLevel u32
  | Errorln error
  | Displaced bool u64
  | Computing u64 string
  | KernelAddr u64
  | StackAddr u64
  | FnOffset bool int
  | Detected string
  | FakeStack u64
  | DeviceWrite string
  | DeviceSync
  | CurrentUser int
  | Close int

record DeviceHost =
  dh_Getuid :: int
  dh_Getpagesize :: nat
  dh_ReadFile :: "string \<Rightarrow> error + string"
  dh_Open :: "string \<Rightarrow> error option"
  dh_ReadAll :: "string \<Rightarrow> error + string"
  dh_Unmarshal :: "string \<Rightarrow> error + int \<times> string"
  dh_Mmap :: "u64 \<Rightarrow> nat \<Rightarrow> error + u64 \<times> bytes"
  dh_OpenWronly :: "string \<Rightarrow> error option"
  dh_SysOpen :: "string \<Rightarrow> error + int"

section \<open>Symbol files\<close>

text \<open>The loop over the lines of the file; a symbol that is not found, and one whose address does not
  parse, give 0.\<close>

fun fetch_lines :: "string list \<Rightarrow> string \<Rightarrow> u64 \<times> effect list" where
  "fetch_lines [] symbol = (0, [])"
| "fetch_lines (s # ss) symbol =
     (let elems = strings_Split (CHR '' '') s in
      if length elems < 3 then fetch_lines ss symbol
      else if elems ! 2 \<noteq> symbol then fetch_lines ss symbol
      else (case ParseUint (elems ! 0) 16 64 of
              (_, Some err) \<Rightarrow> (0, [Errorln err])
            | (addr, None) \<Rightarrow> (of_nat addr, [])))"

definition fetchSymbolAddr :: "string \<Rightarrow> string \<Rightarrow> u64 \<times> effect list" where
  "fetchSymbolAddr data symbol = fetch_lines (strings_Split (CHR 0x0A) data) symbol"

section \<open>Relocation\<close>

record Reloc =
  rl_diff :: u64
  rl_sign :: int

definition kallsymsPath :: string where "kallsymsPath = ''/proc/kallsyms''"

text \<open>The block that fills \<open>diff\<close> and \<open>sign\<close> when they have their initial values.\<close>

definition computeDiff :: "DeviceHost \<Rightarrow> KtoolOptions \<Rightarrow> Reloc \<Rightarrow> error option \<times> effect list \<times> Reloc" where
  "computeDiff h opts rl =
     (let symbol = kt_KallsymsSystemMapOffsetSymbol opts; file = kt_SystemMapFile opts in
      case dh_ReadFile h kallsymsPath of
        Inl err \<Rightarrow> (Some (Errorf ''couldn't open /proc/kallsyms: %v'' [] (Some err)), [], rl)
      | Inr kallsyms \<Rightarrow>
          (case fetchSymbolAddr kallsyms symbol of (kallsymsAddr, fx) \<Rightarrow>
           if kallsymsAddr = 0 then
             (Some (Errorf ''couldn't find symbol %s in /proc/kallsyms, try with another one'' [FStr symbol] None), fx, rl)
           else
             (case dh_ReadFile h file of
                Inl err \<Rightarrow> (Some (Errorf ''couldn't open %s: %v'' [FStr file] (Some err)), fx, rl)
              | Inr systemMap \<Rightarrow>
                  (case fetchSymbolAddr systemMap symbol of (systemMapAddr, fx') \<Rightarrow>
                   if systemMapAddr = 0 then
                     (Some (Errorf ''couldn't find symbol %s in %s, try with another one'' [FStr symbol] None), fx @ fx', rl)
                   else
                     (None, fx @ fx',
                      if kallsymsAddr > systemMapAddr
                      then rl\<lparr>rl_diff := kallsymsAddr - systemMapAddr, rl_sign := 1\<rparr>
                      else rl\<lparr>rl_diff := systemMapAddr - kallsymsAddr, rl_sign := - 1\<rparr>)))))"

definition computeKernelAddr :: "DeviceHost \<Rightarrow> KtoolOptions \<Rightarrow> u64 \<Rightarrow> Reloc \<Rightarrow> (error + u64) \<times> effect list \<times> Reloc" where
  "computeKernelAddr h opts gadgetAddr rl =
     (case (if rl_diff rl = 0 \<and> rl_sign rl = 0 then computeDiff h opts rl else (None, [], rl)) of
        (Some err, fx, rl) \<Rightarrow> (Inl err, fx, rl)
      | (None, fx, rl) \<Rightarrow>
          if rl_sign rl > 0 then (Inr (gadgetAddr + rl_diff rl), fx @ [Displaced True (rl_diff rl)], rl)
          else (Inr (gadgetAddr - rl_diff rl), fx @ [Displaced False (rl_diff rl)], rl))"

definition mustComputeKernelAddr :: "DeviceHost \<Rightarrow> KtoolOptions \<Rightarrow> u64 \<Rightarrow> Reloc \<Rightarrow> u64 \<times> effect list \<times> Reloc" where
  "mustComputeKernelAddr h opts gadgetAddr rl =
     (case computeKernelAddr h opts gadgetAddr rl of (Inl err, fx, rl) \<Rightarrow> (0, fx, rl) | (Inr addr, fx, rl) \<Rightarrow> (addr, fx, rl))"

definition VulnDeviceInfo_String :: "VulnDeviceInfo \<Rightarrow> string" where
  "VulnDeviceInfo_String info =
     ''major_num:'' @ (if vd_MajorNum info < 0 then ''-'' else []) @ fmt_d (nat \<bar>vd_MajorNum info\<bar>) @
     '' @fn_array:0x'' @ fmt_x (unat (vd_FnArrayAddr info))"

definition parseVulnDeviceInfo :: "DeviceHost \<Rightarrow> KtoolOptions \<Rightarrow> error + VulnDeviceInfo" where
  "parseVulnDeviceInfo h opts =
     (case dh_Open h (kt_VulnDevicePath opts) of
        Some err \<Rightarrow> Inl (Errorf ''couldn't open %s: %v'' [FStr (kt_VulnDevicePath opts)] (Some err))
      | None \<Rightarrow>
          (case dh_ReadAll h (kt_VulnDevicePath opts) of
             Inl err \<Rightarrow> Inl (Errorf ''couldn't read vuln_device info: %v'' [] (Some err))
           | Inr infoRaw \<Rightarrow>
               (case dh_Unmarshal h infoRaw of
                  Inl err \<Rightarrow> Inl (Errorf ''couldn't parse vuln_device info: %v'' [] (Some err))
                | Inr (major, addrStr) \<Rightarrow>
                    (case ParseUint (strings_TrimPrefix addrStr ''0x'') 16 64 of
                       (_, Some err) \<Rightarrow>
                         Inl (Errorf ''couldn't parse vuln_device fn_array address from %s: %v'' [FStr addrStr] (Some err))
                     | (addr, None) \<Rightarrow>
                         Inr \<lparr>vd_MajorNum = major, vd_FnArrayAddrStr = addrStr, vd_FnArrayAddr = of_nat addr\<rparr>))))"

text \<open>\<open>int(addr-info.FnArrayAddr)/8\<close>: the difference is read as a signed number and the division
  truncates towards zero.\<close>

definition fn_offset :: "u64 \<Rightarrow> u64 \<Rightarrow> bool \<times> int" where
  "fn_offset addr fn =
     (if addr > fn then (True, sgn (sint (addr - fn)) * (\<bar>sint (addr - fn)\<bar> div 8))
      else (False, sgn (sint (fn - addr)) * (\<bar>sint (fn - addr)\<bar> div 8)))"

definition offsetsCmd :: "DeviceHost \<Rightarrow> KtoolOptions \<Rightarrow> Reloc \<Rightarrow> error option \<times> effect list \<times> Reloc" where
  "offsetsCmd h opts rl =
     (let fx = [SetLevel (kt_LogLevel opts)] in
      if dh_Getuid h > 0 then (Some (Errorf ''ktool needs to run as root'' [] None), fx, rl)
      else
        (let fx = fx @ [Computing (kt_SystemMapGadgetAddr opts) (kt_SystemMapFile opts)] in
         case computeKernelAddr h opts (kt_SystemMapGadgetAddr opts) rl of
           (Inl err, fx', rl) \<Rightarrow> (Some err, fx @ fx', rl)
         | (Inr addr, fx', rl) \<Rightarrow>
             (let fx = fx @ fx' @ [KernelAddr addr, StackAddr (addr AND 0xFFFFFFFF)] in
              if kt_ComputeOffsetFromFnArray opts then
                (case parseVulnDeviceInfo h opts of
                   Inl err \<Rightarrow> (Some err, fx, rl)
                 | Inr info \<Rightarrow> (None, fx @ [case_prod FnOffset (fn_offset addr (vd_FnArrayAddr info))], rl))
              else (None, fx, rl))))"

section \<open>Lemmas on text\<close>

lemma Split_plain: "c \<notin> set x \<Longrightarrow> strings_Split c x = [x]"
  by (induction x) (auto simp: Let_def)

lemma Split_head: "c \<notin> set x \<Longrightarrow> strings_Split c (x @ c # rest) = x # strings_Split c rest"
  by (induction x) (auto simp: Let_def)

lemma hex_no_blank: "CHR '' '' \<notin> set (fmt_x n)" "CHR 0x0A \<notin> set (fmt_x n)"
proof -
  have "digit_char d \<noteq> CHR '' ''" "digit_char d \<noteq> CHR 0x0A" if "d < 16" for d
    using digit_val_digit_char [of d] that by (auto simp: digit_val_def)
  then show "CHR '' '' \<notin> set (fmt_x n)" "CHR 0x0A \<notin> set (fmt_x n)"
    using subsetD [OF nat_base_digits [of 16 n]] by (force, force)
qed

lemma ParseUint_loop_zeros: "0 < base \<Longrightarrow> ParseUint_loop base mx 0 (replicate k (CHR ''0'') @ s) = ParseUint_loop base mx 0 s"
  by (induction k) (simp_all add: digit_val_def)

text \<open>An address as the kernel prints it (\<open>%016lx\<close>).\<close>

definition hex16 :: "u64 \<Rightarrow> string" where
  "hex16 a = replicate (16 - length (fmt_x (unat a))) (CHR ''0'') @ fmt_x (unat a)"

lemma ParseUint_hex16: "ParseUint (hex16 a) 16 64 = (unat a, None)"
proof -
  have "unat a < 2 ^ 64" using unsigned_less [of a] by simp
  then show ?thesis
    using ParseUint_nat_base [of 16 64 "unat a"] by (simp add: hex16_def ParseUint_def ParseUint_loop_zeros)
qed

lemma hex16_no_blank: "CHR '' '' \<notin> set (hex16 a)" "CHR 0x0A \<notin> set (hex16 a)"
  by (simp_all add: hex16_def hex_no_blank)

text \<open>A symbol file: an address, a type and a name per line.\<close>

definition symbol_line :: "u64 \<times> string \<times> string \<Rightarrow> string" where
  "symbol_line = (\<lambda>(a, t, n). hex16 a @ '' '' @ t @ '' '' @ n @ [CHR 0x0A])"

definition symbol_file :: "(u64 \<times> string \<times> string) list \<Rightarrow> string" where
  "symbol_file es = concat (map symbol_line es)"

definition unbroken :: "string \<Rightarrow> bool" where
  "unbroken s \<longleftrightarrow> CHR '' '' \<notin> set s \<and> CHR 0x0A \<notin> set s"

lemma symbol_file_lines:
  assumes "list_all (\<lambda>(a, t, n). unbroken t \<and> unbroken n) es"
  shows "strings_Split (CHR 0x0A) (symbol_file es) = map (\<lambda>(a, t, n). hex16 a @ '' '' @ t @ '' '' @ n) es @ [[]]"
  using assms
proof (induction es)
  case Nil
  then show ?case by (simp add: symbol_file_def)
next
  case (Cons e es)
  obtain a t n where e: "e = (a, t, n)" by (metis prod_cases3)
  have "CHR 0x0A \<notin> set (hex16 a @ '' '' @ t @ '' '' @ n)"
    using Cons.prems e by (simp add: unbroken_def hex16_no_blank)
  from Split_head [OF this, of "symbol_file es"] Cons e show ?case
    by (simp add: symbol_file_def symbol_line_def)
qed

lemma symbol_line_fields:
  assumes "unbroken t" and "unbroken n"
  shows "strings_Split (CHR '' '') (hex16 a @ '' '' @ t @ '' '' @ n) = [hex16 a, t, n]"
  using assms by (simp add: unbroken_def Split_head Split_plain hex16_no_blank)

lemma fetch_lines_file:
  "list_all (\<lambda>(a, t, n). unbroken t \<and> unbroken n) es \<Longrightarrow>
   fetch_lines (map (\<lambda>(a, t, n). hex16 a @ '' '' @ t @ '' '' @ n) es @ [[]]) symbol =
     (case map_of (map (\<lambda>(a, t, n). (n, a)) es) symbol of None \<Rightarrow> 0 | Some a \<Rightarrow> a, [])"
proof (induction es)
  case (Cons e es)
  obtain a t n where "e = (a, t, n)" by (metis prod_cases3)
  with Cons show ?case using symbol_line_fields [of t n a] by (simp add: ParseUint_hex16 Let_def)
qed simp

section \<open>Properties\<close>

text \<open>C39: in a symbol file with one line per symbol, as the kernel prints it, the address found for a symbol is
  the one of its first line, and 0 when the file has no such symbol.\<close>

theorem symbol_file_lookup:
  assumes "list_all (\<lambda>(a, t, n). unbroken t \<and> unbroken n) es"
  shows "fetchSymbolAddr (symbol_file es) symbol =
    (case map_of (map (\<lambda>(a, t, n). (n, a)) es) symbol of None \<Rightarrow> 0 | Some a \<Rightarrow> a, [])"
  unfolding fetchSymbolAddr_def symbol_file_lines [OF assms] by (rule fetch_lines_file [OF assms])

definition demo_map :: "(u64 \<times> string \<times> string) list" where
  "demo_map = [(0xffffffff810c5150, ''T'', ''commit_creds''), (0xffffffff810c54d0, ''T'', ''prepare_kernel_cred'')]"

theorem symbol_file_lookup_witness:
  "fetchSymbolAddr (symbol_file demo_map) ''commit_creds'' = (0xffffffff810c5150, []) \<and>
   fetchSymbolAddr (symbol_file demo_map) ''commit'' = (0, [])"
  using symbol_file_lookup [of demo_map "''commit_creds''"] symbol_file_lookup [of demo_map "''commit''"]
  by (simp add: demo_map_def unbroken_def)


text \<open>C38: once a relocation has succeeded from the initial state, every later one adds the displacement of the
  reference symbol between the running kernel and \<^verbatim>\<open>System.map\<close> modulo \<open>2^64\<close>, whichever of the two addresses is
  larger, without consulting the files or the options again and without a failure.\<close>

theorem relocation_displacement:
  assumes "computeKernelAddr h opts g \<lparr>rl_diff = 0, rl_sign = 0\<rparr> = (Inr a, fx, rl)"
  shows "\<exists>kallsyms systemMap.
    dh_ReadFile h kallsymsPath = Inr kallsyms \<and> dh_ReadFile h (kt_SystemMapFile opts) = Inr systemMap \<and>
    a - g = fst (fetchSymbolAddr kallsyms (kt_KallsymsSystemMapOffsetSymbol opts)) -
            fst (fetchSymbolAddr systemMap (kt_KallsymsSystemMapOffsetSymbol opts)) \<and>
    (\<forall>h' opts' g'. computeKernelAddr h' opts' g' rl =
       (Inr (g' + (a - g)), [Displaced (0 < rl_sign rl) (rl_diff rl)], rl))"
  using assms
  by (auto simp: computeKernelAddr_def computeDiff_def Let_def split: sum.splits if_splits prod.splits)

definition demo_device :: "u64 \<Rightarrow> DeviceHost" where
  "demo_device slide =
     \<lparr>dh_Getuid = 0, dh_Getpagesize = 4096,
      dh_ReadFile = \<lambda>f. if f = kallsymsPath then Inr (symbol_file (map (\<lambda>(a, x). (a + slide, x)) demo_map))
                       else Inr (symbol_file demo_map),
      dh_Open = \<lambda>_. None, dh_ReadAll = \<lambda>_. Inr [], dh_Unmarshal = \<lambda>_. Inr (240, ''0xffffffffc0000000''),
      dh_Mmap = \<lambda>a n. Inr (a AND NOT 0xFFF, replicate n 0), dh_OpenWronly = \<lambda>_. None, dh_SysOpen = \<lambda>_. Inr 3\<rparr>"

definition demo_lv :: Levels where
  "demo_lv = \<lparr>lv_InfoLevel = 4, lv_String = \<lambda>_. ''info'', lv_ParseLevel = \<lambda>_. Inr 4\<rparr>"

definition demo_opts :: KtoolOptions where
  "demo_opts = init_vuln_device demo_lv (init_krie_tool demo_lv zeroKtoolOptions)"

lemma demo_compute:
  "computeKernelAddr (demo_device 0x1000000) demo_opts 0xffffffff81010663 \<lparr>rl_diff = 0, rl_sign = 0\<rparr> =
     (Inr 0xffffffff82010663, [Displaced True 0x1000000], \<lparr>rl_diff = 0x1000000, rl_sign = 1\<rparr>)"
proof -
  have "fetchSymbolAddr (symbol_file demo_map) ''commit_creds'' = (0xffffffff810c5150, [])"
    "fetchSymbolAddr (symbol_file (map (\<lambda>(a, x). (a + 0x1000000, x)) demo_map)) ''commit_creds'' = (0xffffffff820c5150, [])"
    unfolding fetchSymbolAddr_def
    by (subst symbol_file_lines, simp add: demo_map_def unbroken_def, subst fetch_lines_file,
        simp add: demo_map_def unbroken_def, simp add: demo_map_def)+
  then show ?thesis
    by (simp add: computeKernelAddr_def computeDiff_def demo_device_def demo_opts_def init_vuln_device_def init_krie_tool_def
        NewKRIEToolOptionsSanitizer_def kallsymsPath_def Let_def)
qed

theorem relocation_displacement_witness:
  "\<exists>a fx rl. computeKernelAddr (demo_device 0x1000000) demo_opts 0xffffffff81010663 \<lparr>rl_diff = 0, rl_sign = 0\<rparr> = (Inr a, fx, rl) \<and>
     computeKernelAddr (demo_device 0) demo_opts 0xffffffff810c5150 rl = (Inr 0xffffffff820c5150, fx, rl)"
proof -
  from relocation_displacement [OF demo_compute]
  have "computeKernelAddr (demo_device 0) demo_opts 0xffffffff810c5150 \<lparr>rl_diff = 0x1000000, rl_sign = 1\<rparr> =
      (Inr (0xffffffff810c5150 + (0xffffffff82010663 - 0xffffffff81010663)), [Displaced True 0x1000000],
       \<lparr>rl_diff = 0x1000000, rl_sign = 1\<rparr>)"
    by force
  with demo_compute show ?thesis by auto
qed

text \<open>The printed gadget address is accepted by its own flag and gives the options back.\<close>

lemma gadget_flag_roundtrip:
  "ToolSanitizer_Set lv \<lparr>kts_field = ''gadget_addr''\<rparr> (ToolSanitizer_String lv \<lparr>kts_field = ''gadget_addr''\<rparr> opts) opts' =
     (None, opts'\<lparr>kt_SystemMapGadgetAddr := kt_SystemMapGadgetAddr opts\<rparr>)"
proof -
  have "unat (kt_SystemMapGadgetAddr opts) < 2 ^ 64" using unsigned_less [of "kt_SystemMapGadgetAddr opts"] by simp
  then have "ParseUint (fmt_x (unat (kt_SystemMapGadgetAddr opts))) 16 64 = (unat (kt_SystemMapGadgetAddr opts), None)"
    using ParseUint_nat_base [of 16 64] by simp
  then show ?thesis by (simp add: ToolSanitizer_Set_def ToolSanitizer_String_def strings_TrimPrefix_def)
qed

lemma sint_small:
  fixes d :: u64
  assumes "unat d < 2 ^ 63"
  shows "sint d = int (unat d)"
proof -
  have "uint d < 2 ^ 63" using assms by (metis of_nat_less_iff of_nat_numeral of_nat_power uint_nat)
  moreover have "- (2 ^ 63) \<le> uint d" by (rule order_trans [OF _ uint_ge_0]) simp
  ultimately have "signed_take_bit 63 (uint d) = uint d" by (intro signed_take_bit_int_eq_self)
  then show ?thesis by (simp add: sint_uint)
qed

lemma quotient_of_nat: "sgn (int m) * (\<bar>int m\<bar> div 8) = int (m div 8)"
  by (cases "m = 0") (simp_all add: zdiv_int)

text \<open>For addresses that differ by less than \<open>2^63\<close>, as all kernel addresses do, the printed offset is the
  number of whole table entries between them.\<close>

lemma fn_offset_entries:
  assumes "fn_offset addr fn = (up, n)" and "unat (if up then addr - fn else fn - addr) < 2 ^ 63"
  shows "0 \<le> n" and "nat n = unat (if up then addr - fn else fn - addr) div 8"
proof -
  let ?d = "if up then addr - fn else fn - addr"
  have "sint ?d = int (unat ?d)" using assms(2) by (rule sint_small)
  moreover have "n = sgn (sint ?d) * (\<bar>sint ?d\<bar> div 8)"
    using assms(1) by (auto simp: fn_offset_def split: if_splits)
  ultimately have "n = int (unat ?d div 8)" by (simp only: quotient_of_nat)
  then show "0 \<le> n" "nat n = unat ?d div 8" by simp_all
qed

end
