(* ===== verification/Spec2Isabelle.thy ===== *)
theory Spec2Isabelle
  imports Record_Streams Krie_Command Event_Decode Ktool_Filter Ktool_Trigger
begin

text \<open>
  \<^bold>\<open>KRIe, the Kernel Runtime Integrity with eBPF detector.\<close>

  KRIe loads eBPF programs into a Linux kernel, configures them through eBPF maps and turns
  the binary records they send on a perf map into events that are logged and written to a file
  as JSON.  This development models the user space side, \<^verbatim>\<open>pkg/krie\<close>, \<^verbatim>\<open>pkg/kernel\<close>,
  \<^verbatim>\<open>cmd/krie\<close> and the test tool \<^verbatim>\<open>cmd/ktool\<close>, together with the C structures the records consist of, and proves
  what the parts promise to each other.

  \<^bold>\<open>Parts and how they interact.\<close>  The command reads a configuration (\<open>parseConfig\<close>), makes an
  instance (\<open>NewKRIE\<close>) and starts it: \<open>startManager\<close> chooses the eBPF object, prepares the
  manager from the activated event types (the probe selection), loads BTF types, selects the
  maps and loads the filters (kernel symbols, policies, kernel parameters, sysctl
  parameters).  From then on the perf reader calls the data handler for every record; the
  handler decodes it, resolves symbols, and writes the event.  The test tool is a program of its own that
  provokes the events KRIe reports: it attaches a packet filter, computes kernel addresses from symbol files
  and drives a test module.

  \<^bold>\<open>Theories.\<close>
  \<^item> \<open>Krie_Prelude\<close>: Go's errors, panics (\<open>result\<close>), slices, the string and number functions of
    the standard library that the sources call.
  \<^item> \<open>Byte_Order\<close>, \<open>Wire\<close>: \<^verbatim>\<open>byteorder.go\<close> and \<^verbatim>\<open>utils.go\<close>; the locale \<open>wire_decoder\<close> is the contract of a
    decoder (needs a fixed width, reads nothing more, never panics), \<open>wire_codec\<close> adds the C
    structure it inverts.  Every fixed-size decoder is an interpretation.
  \<^item> \<open>Time_Resolver\<close>: \<^verbatim>\<open>time_resolver.go\<close>, with 64-bit durations that wrap.
  \<^item> \<open>Kernel_Event\<close>, \<open>Process_Context\<close>, \<open>Module_Events\<close>, \<open>Trace_Events\<close>, \<open>Check_Events\<close>, \<open>Bpf_Events\<close>,
    \<open>Sysctl_Event\<close>: the event files of \<^verbatim>\<open>pkg/krie/events\<close>, one record per structure and one function per
    decoder, with the memory images of \<^verbatim>\<open>ebpf/krie\<close>.
  \<^item> \<open>Constant_Tables\<close>, \<open>Constants\<close>, \<open>Syscall_Tables\<close>, \<open>Syscalls\<close>: the name tables of \<^verbatim>\<open>constants.go\<close> and of the
    system call files, the generated \<open>String\<close> methods over packed strings, the parsers.  The
    order of the start-up loops over maps is a parameter (\<open>GoRange\<close>).
  \<^item> \<open>Event_Types\<close>, \<open>Event_Options\<close>: event types and the options of \<^verbatim>\<open>events.go\<close>,
    \<^verbatim>\<open>kernel_parameter.go\<close> and \<^verbatim>\<open>model.go\<close>.
  \<^item> \<open>Kallsyms\<close>: \<^verbatim>\<open>kallsyms.go\<close>.  \<open>Kernel_Version\<close>, \<open>Kernel_Host\<close>: \<^verbatim>\<open>pkg/kernel\<close>.
  \<^item> \<open>Probes\<close>: \<^verbatim>\<open>syscall_helpers.go\<close>, \<^verbatim>\<open>lsm.go\<close>, all \<open>add...\<close> functions and \<open>AllProbes\<close>, \<open>AllProbesSelectors\<close>,
    \<open>AllTailCallRoutes\<close>, in a state monad over the package variables.
  \<^item> \<open>Json_Writer\<close>, \<open>Event_Json\<close>, \<open>Plain_Names\<close>, \<open>Event_Document\<close>: the encoders of \<^verbatim>\<open>*_easyjson.go\<close> over an
    abstract writer, the document they should write, and that they write it.
  \<^item> \<open>Json_Lexer\<close>, \<open>Text_Lexer\<close>, \<open>Event_Decode\<close>: the decoders of \<^verbatim>\<open>*_easyjson.go\<close> over an abstract lexer.  The shape
    all of them have (the loop over the keys of an object) is modelled once, with its termination, its round trip and
    its failure; a decoder is its table of cases.  \<open>Text_Lexer\<close> is a lexer on strings that has the assumed laws.
  \<^item> \<open>Krie_State\<close>, \<open>Event_Handler\<close>, \<open>Record_Streams\<close>: the structure \<open>KRIE\<close>, \<open>defaultEventHandler\<close> and the
    loop over records.
  \<^item> \<open>Krie_Filters\<close>: \<^verbatim>\<open>policies.go\<close>, \<^verbatim>\<open>kernel_parameters.go\<close>, \<^verbatim>\<open>sysctl.go\<close> and the loading part of \<^verbatim>\<open>manager.go\<close>.
  \<^item> \<open>Krie_Manager\<close>, \<open>Krie_Command\<close>: the rest of \<^verbatim>\<open>manager.go\<close>, \<^verbatim>\<open>utils.go\<close>, \<open>NewKRIE\<close>, \<open>Start\<close>, \<open>Stop\<close> and the
    command.
  \<^item> \<open>Ktool_Filter\<close>: \<^verbatim>\<open>cmd/ktool/run/bpf_filter.go\<close>, the filter program with the machine that runs it and the two
    loops of the command.
  \<^item> \<open>Ktool_Device\<close>, \<open>Ktool_Trigger\<close>: \<^verbatim>\<open>run/options.go\<close>, \<^verbatim>\<open>run/krie_tool.go\<close> and \<^verbatim>\<open>run/vuln_device.go\<close>.  The package variables
    that keep the displacement are the state \<open>Reloc\<close>, and what a command logs or writes is a list of effects.

  \<^bold>\<open>Conventions.\<close>  A Go integer of width \<open>w\<close> is a word of that length; a pointer is an
  \<open>option\<close> and following \<open>None\<close> is a panic; an error is a value with its format, arguments and
  wrapped error.  Calls that leave the program (files, the network, sysctl, the eBPF library, the
  logger, clocks) are fields of host records over a type of worlds, and what a property
  needs of them is a named predicate (\<open>kptr_laws\<close>, \<open>jwriter_laws\<close>, \<open>json_laws\<close>, \<open>output_laws\<close>,
  \<open>map_laws\<close>, \<open>file_laws\<close>, \<open>sort_Slice_ok\<close>, \<open>GoRange_ok\<close>, \<open>bpf_laws\<close>, \<open>lexer_progress\<close>, \<open>lexer_reads\<close>) that a concrete
  host of the development satisfies.  There is no bound on inputs and no fuel parameter: recursions are structural or have
  a termination proof, and the loops that depend on a lexer, a socket or a signal are partial functions, for which returning
  is a theorem (\<open>decoders_terminate\<close>, \<open>filter_command_returns\<close>).

  \<^bold>\<open>What is shown.\<close>
  \<^item> Records: decoders invert the C structures; the handler panics on exactly the sysctl records
    without terminators, does not depend on earlier records, recovers what the kernel sent, and the
    output file has one line per accepted record.
  \<^item> JSON: the encoders write the specified document without a duplicate key, on one line, and
    no name needs escaping.  The decoders return on every input and read contexts and module events back, but never
    the document of a whole event.
  \<^item> Configuration: validity, activated events, what ends up in the kernel's maps, and that the prepared
    manager declares every probe it selects.
  \<^item> Names: round trips of event types, constants and system calls, agreement with the kernel's
    enumerations, and where they disagree.
  \<^item> Symbols and host: resolution finds the owner of an address, the handling of
    \<^verbatim>\<open>kernel.kptr_restrict\<close> on success and on failure, version codes, their text, release strings.
  \<^item> Test tool: the filter accepts exactly DNS traffic, when its command returns and when it cannot be
    interrupted, relocation by one displacement, where the chain of addresses is written and when the command panics.

  \<^bold>\<open>Not modelled.\<close>  The eBPF programs beyond their data structures and the test module (C); the embedded assets
  (generated); the text of \<open>Host.String\<close> in \<^verbatim>\<open>pkg/kernel\<close>; the mutex around the symbol tables (the model is
  sequential); the fields a failing decoder of a record has already written (the event is reset before it is read
  again); the difference between a nil and an empty list of helpers in the JSON decoder; the registration of commands and flags with
  the command line library, the log format and the wait for a signal in \<^verbatim>\<open>cmd/krie\<close>; the example web server and the list
  of build tools, which are not part of KRIe.
\<close>

end
